(* ===== verification/Prelude.thy ===== *)
theory Prelude
  imports Main "HOL-Library.List_Lexorder" "HOL-Library.Char_ord" "HOL-Library.Product_Lexorder"
begin

text \<open>
  Shared vocabulary of the development: actions (asynchronous TypeScript functions as
  state-passing functions with a thrown value), the law combinators that carry invariants
  through actions, list-backed SQL tables, and the few operations on strings and arrays of
  the JavaScript library that the modelled sources use.
\<close>

section \<open>Actions: state, result, thrown value\<close>

text \<open>
  An asynchronous function is a function from the world to a result and the next world. A
  thrown value is \<open>Inl\<close>; throwing does not undo the writes made before it, exactly as an
  exception in the sources leaves the database as it is at that point.
\<close>

type_synonym ('s, 'e, 'a) action = "'s \<Rightarrow> ('e + 'a) \<times> 's"

named_theorems run_simps \<open>equations that evaluate an action on a world\<close>
named_theorems law_intros \<open>rules that carry a law through the combinators\<close>
named_theorems table_simps \<open>rewriting of list-backed tables\<close>

definition ret :: "'a \<Rightarrow> ('s, 'e, 'a) action" where
  "ret x s = (Inr x, s)"

definition throw :: "'e \<Rightarrow> ('s, 'e, 'a) action" where
  "throw e s = (Inl e, s)"

definition bind :: "('s, 'e, 'a) action \<Rightarrow> ('a \<Rightarrow> ('s, 'e, 'b) action) \<Rightarrow> ('s, 'e, 'b) action" where
  "bind m f s = (case m s of (Inl e, s') \<Rightarrow> (Inl e, s') | (Inr x, s') \<Rightarrow> f x s')"

definition gets :: "('s \<Rightarrow> 'a) \<Rightarrow> ('s, 'e, 'a) action" where
  "gets f s = (Inr (f s), s)"

definition modify :: "('s \<Rightarrow> 's) \<Rightarrow> ('s, 'e, unit) action" where
  "modify f s = (Inr (), f s)"

text \<open>\<open>if (!b) throw e\<close> and \<open>if (!x) throw e\<close> with \<open>x\<close> non-null afterwards.\<close>

definition require :: "bool \<Rightarrow> 'e \<Rightarrow> ('s, 'e, unit) action" where
  "require b e = (if b then ret () else throw e)"

definition found :: "'a option \<Rightarrow> 'e \<Rightarrow> ('s, 'e, 'a) action" where
  "found x e = (case x of None \<Rightarrow> throw e | Some y \<Rightarrow> ret y)"

text \<open>A pure computation that may throw, and one that writes only when it does not throw.\<close>

definition lift_result :: "'e + 'a \<Rightarrow> ('s, 'e, 'a) action" where
  "lift_result r s = (r, s)"

definition atomically :: "('s \<Rightarrow> 'e + 's) \<Rightarrow> ('s, 'e, unit) action" where
  "atomically f s = (case f s of Inl e \<Rightarrow> (Inl e, s) | Inr s' \<Rightarrow> (Inr (), s'))"

definition catch :: "('s, 'e, 'a) action \<Rightarrow> ('e \<Rightarrow> ('s, 'e, 'a) action) \<Rightarrow> ('s, 'e, 'a) action" where
  "catch m h s = (case m s of (Inl e, s') \<Rightarrow> h e s' | (Inr x, s') \<Rightarrow> (Inr x, s'))"

text \<open>\<open>xs.map(f)\<close> for an \<open>f\<close> that may throw.\<close>

primrec collect_results :: "('a \<Rightarrow> 'e + 'b) \<Rightarrow> 'a list \<Rightarrow> 'e + 'b list" where
  "collect_results f [] = Inr []"
| "collect_results f (x # xs) = (case f x of Inl e \<Rightarrow> Inl e
     | Inr y \<Rightarrow> (case collect_results f xs of Inl e \<Rightarrow> Inl e | Inr ys \<Rightarrow> Inr (y # ys)))"

text \<open>\<open>for (const x of xs) await f(x)\<close>: the loop stops at the first throw.\<close>

primrec each :: "('a \<Rightarrow> ('s, 'e, unit) action) \<Rightarrow> 'a list \<Rightarrow> ('s, 'e, unit) action" where
  "each f [] = ret ()"
| "each f (x # xs) = bind (f x) (\<lambda>_. each f xs)"

lemma ret_run [run_simps]: "ret x s = (Inr x, s)"
  by (simp add: ret_def)

lemma throw_run [run_simps]: "throw e s = (Inl e, s)"
  by (simp add: throw_def)

lemma gets_run [run_simps]: "gets f s = (Inr (f s), s)"
  by (simp add: gets_def)

lemma modify_run [run_simps]: "modify f s = (Inr (), f s)"
  by (simp add: modify_def)

lemma require_run [run_simps]: "require b e s = (if b then (Inr (), s) else (Inl e, s))"
  by (simp add: require_def ret_def throw_def)

lemma found_run [run_simps]:
  "found None e s = (Inl e, s)" "found (Some y) e s = (Inr y, s)"
  by (simp_all add: found_def ret_def throw_def)

lemma lift_result_run [run_simps]: "lift_result r s = (r, s)"
  by (simp add: lift_result_def)

lemma bind_run:
  "m s = (Inl e, t) \<Longrightarrow> bind m f s = (Inl e, t)"
  "m s = (Inr x, t) \<Longrightarrow> bind m f s = f x t"
  by (simp_all add: bind_def)

lemma bind_ok_iff:
  "bind m f s = (Inr y, t) \<longleftrightarrow> (\<exists>x u. m s = (Inr x, u) \<and> f x u = (Inr y, t))"
  by (auto simp: bind_def split: prod.splits sum.splits)

lemma bind_err_iff:
  "bind m f s = (Inl e, t) \<longleftrightarrow>
     m s = (Inl e, t) \<or> (\<exists>x u. m s = (Inr x, u) \<and> f x u = (Inl e, t))"
  by (auto simp: bind_def split: prod.splits sum.splits)

lemma bind_ok_elim:
  assumes "bind m f s = (Inr y, t)"
  obtains x u where "m s = (Inr x, u)" "f x u = (Inr y, t)"
  using assms by (auto simp: bind_ok_iff)

lemma found_ok_iff [simp]: "found x e s = (Inr y, t) \<longleftrightarrow> x = Some y \<and> t = s"
  by (auto simp: found_def ret_def throw_def split: option.splits)

lemma require_ok_iff [simp]: "require b e s = (Inr y, t) \<longleftrightarrow> b \<and> t = s"
  by (auto simp: require_def ret_def throw_def)

lemma gets_ok_iff [simp]: "gets f s = (Inr y, t) \<longleftrightarrow> y = f s \<and> t = s"
  by (auto simp: gets_def)

lemma ret_ok_iff [simp]: "ret x s = (Inr y, t) \<longleftrightarrow> y = x \<and> t = s"
  by (auto simp: ret_def)

lemma throw_not_ok [simp]: "throw e s \<noteq> (Inr y, t)"
  by (simp add: throw_def)

lemma modify_ok_iff [simp]: "modify f s = (Inr y, t) \<longleftrightarrow> t = f s"
  by (auto simp: modify_def)

lemma lift_result_ok_iff [simp]: "lift_result r s = (Inr y, t) \<longleftrightarrow> r = Inr y \<and> t = s"
  by (auto simp: lift_result_def)

lemma atomically_ok_iff [simp]: "atomically f s = (Inr y, t) \<longleftrightarrow> f s = Inr t"
  by (auto simp: atomically_def split: sum.splits)

lemma atomically_err_iff [simp]: "atomically f s = (Inl e, t) \<longleftrightarrow> f s = Inl e \<and> t = s"
  by (auto simp: atomically_def split: sum.splits)

section \<open>Laws of actions\<close>

text \<open>
  \<open>evolves R m\<close>: whatever the outcome of \<open>m\<close>, thrown or returned, the world before and the
  world after are related by \<open>R\<close>. A locale collects what is needed of \<open>R\<close> for the
  combinators to carry it; invariants are the instance \<open>I s \<longrightarrow> I t\<close>.
\<close>

definition evolves :: "('s \<Rightarrow> 's \<Rightarrow> bool) \<Rightarrow> ('s, 'e, 'a) action \<Rightarrow> bool" where
  "evolves R m \<longleftrightarrow> (\<forall>s. R s (snd (m s)))"

lemma evolvesI: "(\<And>s r t. m s = (r, t) \<Longrightarrow> R s t) \<Longrightarrow> evolves R m"
  by (auto simp: evolves_def intro: prod.collapse[symmetric])

lemma evolvesD: "evolves R m \<Longrightarrow> m s = (r, t) \<Longrightarrow> R s t"
  by (metis evolves_def snd_conv)

lemma evolves_atomically:
  "(\<And>s t. f s = Inr t \<Longrightarrow> R s t) \<Longrightarrow> (\<And>s. R s s) \<Longrightarrow> evolves R (atomically f)"
  by (auto simp: evolves_def atomically_def split: sum.splits)

lemma evolves_modify: "(\<And>s. R s (f s)) \<Longrightarrow> evolves R (modify f)"
  by (simp add: evolves_def modify_def)

locale step_law =
  fixes R :: "'s \<Rightarrow> 's \<Rightarrow> bool"
  assumes law_refl: "R s s"
    and law_trans: "R s t \<Longrightarrow> R t u \<Longrightarrow> R s u"
begin

lemma law_ret [law_intros]: "evolves R (ret x)"
  by (simp add: evolves_def ret_def law_refl)

lemma law_throw [law_intros]: "evolves R (throw e)"
  by (simp add: evolves_def throw_def law_refl)

lemma law_gets [law_intros]: "evolves R (gets f)"
  by (simp add: evolves_def gets_def law_refl)

lemma law_require [law_intros]: "evolves R (require b e)"
  by (simp add: evolves_def require_def ret_def throw_def law_refl)

lemma law_found [law_intros]: "evolves R (found x e)"
  by (simp add: evolves_def found_def ret_def throw_def law_refl split: option.split)

lemma law_lift [law_intros]: "evolves R (lift_result r)"
  by (simp add: evolves_def lift_result_def law_refl)

lemma law_bind [law_intros]:
  assumes "evolves R m" and "\<And>x. evolves R (f x)"
  shows "evolves R (bind m f)"
proof (rule evolvesI)
  fix s r t
  assume run: "bind m f s = (r, t)"
  obtain q u where m: "m s = (q, u)" by (cases "m s")
  with assms(1) have "R s u" by (rule evolvesD)
  moreover have "R u t"
  proof (cases q)
    case (Inl e)
    with run m show ?thesis by (simp add: bind_def law_refl)
  next
    case (Inr x)
    with run m have "f x u = (r, t)" by (simp add: bind_def)
    with assms(2) show ?thesis by (rule evolvesD)
  qed
  ultimately show "R s t" by (rule law_trans)
qed

lemma law_catch [law_intros]:
  assumes "evolves R m" and "\<And>e. evolves R (h e)"
  shows "evolves R (catch m h)"
proof (rule evolvesI)
  fix s r t
  assume run: "catch m h s = (r, t)"
  obtain q u where m: "m s = (q, u)" by (cases "m s")
  with assms(1) have su: "R s u" by (rule evolvesD)
  show "R s t"
  proof (cases q)
    case (Inl e)
    with run m have "h e u = (r, t)" by (simp add: catch_def)
    with assms(2) have "R u t" by (rule evolvesD)
    with su show ?thesis by (rule law_trans)
  next
    case (Inr x)
    with run m su show ?thesis by (simp add: catch_def)
  qed
qed

lemma law_each [law_intros]:
  "(\<And>x. evolves R (f x)) \<Longrightarrow> evolves R (each f xs)"
  by (induction xs) (simp_all add: law_ret law_bind)

lemma law_case_option [law_intros]:
  "evolves R m \<Longrightarrow> (\<And>y. evolves R (f y)) \<Longrightarrow> evolves R (case x of None \<Rightarrow> m | Some y \<Rightarrow> f y)"
  by (simp split: option.split)

lemma law_case_sum [law_intros]:
  "(\<And>y. evolves R (f y)) \<Longrightarrow> (\<And>y. evolves R (g y)) \<Longrightarrow>
     evolves R (case x of Inl y \<Rightarrow> f y | Inr y \<Rightarrow> g y)"
  by (simp split: sum.split)

lemma law_case_prod [law_intros]:
  "(\<And>a b. evolves R (f a b)) \<Longrightarrow> evolves R (case x of (a, b) \<Rightarrow> f a b)"
  by (simp split: prod.split)

lemma law_if [law_intros]:
  "evolves R m \<Longrightarrow> evolves R n \<Longrightarrow> evolves R (if b then m else n)"
  by simp

lemma law_let [law_intros]: "(\<And>y. evolves R (f y)) \<Longrightarrow> evolves R (let y = x in f y)"
  by simp

end

locale state_invariant =
  fixes I :: "'s \<Rightarrow> bool"

sublocale state_invariant \<subseteq> step_law "\<lambda>s t. I s \<longrightarrow> I t"
  by unfold_locales auto

section \<open>Tables\<close>

text \<open>
  A table is the list of its rows. \<open>SELECT ... LIMIT 1\<close> is \<open>find\<close>, \<open>UPDATE ... WHERE\<close> is
  \<open>update_where\<close>, and the key of every modelled row is unique, so the order in which
  SQLite visits rows does not matter for a lookup by key.
\<close>

definition update_where :: "('r \<Rightarrow> bool) \<Rightarrow> ('r \<Rightarrow> 'r) \<Rightarrow> 'r list \<Rightarrow> 'r list" where
  "update_where p f rows = map (\<lambda>r. if p r then f r else r) rows"

lemma update_where_simps [simp, table_simps]:
  "update_where p f [] = []"
  "update_where p f (r # rows) = (if p r then f r else r) # update_where p f rows"
  by (simp_all add: update_where_def)

lemma set_update_where [table_simps]:
  "set (update_where p f rows) = (\<lambda>r. if p r then f r else r) ` set rows"
  by (simp add: update_where_def)

lemma in_update_where:
  "r \<in> set (update_where p f rows) \<longleftrightarrow> (\<exists>q \<in> set rows. r = (if p q then f q else q))"
  by (auto simp: update_where_def)

lemma ball_update_where [table_simps]:
  "(\<forall>r \<in> set (update_where p f rows). Q r) \<longleftrightarrow> (\<forall>r \<in> set rows. if p r then Q (f r) else Q r)"
  by (auto simp: update_where_def)

lemma map_update_where [table_simps]:
  "(\<And>r. k (f r) = k r) \<Longrightarrow> map k (update_where p f rows) = map k rows"
  by (simp add: update_where_def)

lemma length_update_where [simp]: "length (update_where p f rows) = length rows"
  by (simp add: update_where_def)

lemma find_update_where:
  "(\<And>r. k (f r) = k r) \<Longrightarrow>
     find (\<lambda>r. k r = x) (update_where p f rows)
       = map_option (\<lambda>r. if p r then f r else r) (find (\<lambda>r. k r = x) rows)"
  by (induction rows) auto

lemma find_key_unique:
  "distinct (map k rows) \<Longrightarrow> r \<in> set rows \<Longrightarrow> find (\<lambda>q. k q = k r) rows = Some r"
  by (induction rows) (auto simp: rev_image_eqI)

lemma find_filter_first: "find p rows = (case filter p rows of [] \<Rightarrow> None | r # _ \<Rightarrow> Some r)"
  by (induction rows) auto

lemma find_SomeD: "find p rows = Some r \<Longrightarrow> r \<in> set rows \<and> p r"
  by (auto simp: find_Some_iff)

lemma distinct_key_eq:
  "distinct (map k rows) \<Longrightarrow> r \<in> set rows \<Longrightarrow> q \<in> set rows \<Longrightarrow> k r = k q \<Longrightarrow> r = q"
  by (simp add: distinct_map inj_on_def)

lemma find_append_absent:
  "find p (rows @ [r]) = (case find p rows of None \<Rightarrow> if p r then Some r else None | Some q \<Rightarrow> Some q)"
  by (induction rows) auto

section \<open>Arrays and strings of the JavaScript library\<close>

text \<open>
  \<open>[...new Set(xs)]\<close> keeps the first occurrence of every element. \<open>slice\<close> with
  non-negative bounds. Strings are byte strings (UTF-8): \<open>toLowerCase\<close> and
  \<open>toUpperCase\<close> change ASCII letters only.
\<close>

definition uniq :: "'a list \<Rightarrow> 'a list" where
  "uniq xs = rev (remdups (rev xs))"

lemma set_uniq [simp]: "set (uniq xs) = set xs"
  by (simp add: uniq_def)

lemma distinct_uniq [simp]: "distinct (uniq xs)"
  by (simp add: uniq_def)

lemma uniq_distinct: "distinct xs \<Longrightarrow> uniq xs = xs"
  by (simp add: uniq_def distinct_remdups_id)

definition slice :: "nat \<Rightarrow> nat \<Rightarrow> 'a list \<Rightarrow> 'a list" where
  "slice i j xs = take (j - i) (drop i xs)"

primrec split_on :: "char \<Rightarrow> string \<Rightarrow> string list" where
  "split_on c [] = [[]]"
| "split_on c (x # xs) =
     (if x = c then [] # split_on c xs
      else (case split_on c xs of [] \<Rightarrow> [[x]] | p # ps \<Rightarrow> (x # p) # ps))"

primrec join_with :: "string \<Rightarrow> string list \<Rightarrow> string" where
  "join_with sep [] = []"
| "join_with sep (x # xs) = (if xs = [] then x else x @ sep @ join_with sep xs)"

definition starts_with :: "string \<Rightarrow> string \<Rightarrow> bool" where
  "starts_with p s \<longleftrightarrow> take (length p) s = p"

fun str_includes :: "string \<Rightarrow> string \<Rightarrow> bool" where
  "str_includes p [] = (p = [])"
| "str_includes p (c # s) = (starts_with p (c # s) \<or> str_includes p s)"

text \<open>
  The names every object inherits. \<open>key in object\<close> and \<open>object[key]\<close> see them beside the
  object's own keys.
\<close>

definition object_prototype_keys :: "string list" where
  "object_prototype_keys = [''constructor'', ''__defineGetter__'', ''__defineSetter__'', ''hasOwnProperty'',
     ''__lookupGetter__'', ''__lookupSetter__'', ''isPrototypeOf'', ''propertyIsEnumerable'', ''toString'',
     ''valueOf'', ''__proto__'', ''toLocaleString'']"

definition lower_char :: "char \<Rightarrow> char" where
  "lower_char c = (if 65 \<le> (of_char c :: nat) \<and> (of_char c :: nat) \<le> 90 then char_of (of_char c + 32 :: nat) else c)"

definition upper_char :: "char \<Rightarrow> char" where
  "upper_char c = (if 97 \<le> (of_char c :: nat) \<and> (of_char c :: nat) \<le> 122 then char_of (of_char c - 32 :: nat) else c)"

definition to_lower :: "string \<Rightarrow> string" where
  "to_lower s = map lower_char s"

definition to_upper :: "string \<Rightarrow> string" where
  "to_upper s = map upper_char s"

definition is_space :: "char \<Rightarrow> bool" where
  "is_space c \<longleftrightarrow> (of_char c :: nat) \<in> {9, 10, 11, 12, 13, 32, 160}"

definition trim :: "string \<Rightarrow> string" where
  "trim s = rev (dropWhile is_space (rev (dropWhile is_space s)))"

text \<open>A nullable string as a condition: \<open>if (x)\<close> holds neither of null nor of the empty string.\<close>

definition present :: "string option \<Rightarrow> string option" where
  "present x = (case x of None \<Rightarrow> None | Some s \<Rightarrow> if s = [] then None else Some s)"

lemma present_Some [simp]: "present x = Some s \<longleftrightarrow> x = Some s \<and> s \<noteq> []"
  by (auto simp: present_def split: option.splits)

lemma present_None [simp]: "present x = None \<longleftrightarrow> x = None \<or> x = Some []"
  by (auto simp: present_def split: option.splits)

lemma split_on_not_nil [simp]: "split_on c s \<noteq> []"
  by (induction s) (auto split: list.splits)

lemma split_on_join: "join_with [c] (split_on c s) = s"
  by (induction s) (auto split: list.splits)

lemma split_on_absent: "c \<notin> set s \<Longrightarrow> split_on c s = [s]"
  by (induction s) auto

lemma split_on_append:
  "c \<notin> set a \<Longrightarrow> split_on c (a @ c # b) = a # split_on c b"
  by (induction a) auto

lemma str_includes_iff: "str_includes p s \<longleftrightarrow> (\<exists>a b. s = a @ p @ b)"
proof (induction s)
  case Nil
  then show ?case by auto
next
  case (Cons c s)
  have "starts_with p (c # s) \<longleftrightarrow> (\<exists>b. c # s = p @ b)"
    by (metis append_eq_conv_conj append_take_drop_id starts_with_def)
  with Cons show ?case
    by (auto simp: Cons_eq_append_conv)
qed

end
