(* ===== verification/Failures.thy ===== *)
theory Failures
  imports Prelude
begin

text \<open>
  The values the server throws (\<open>server/domain/errors.ts\<close>): API errors, OAuth errors, plain
  \<open>Error\<close>s, and the three kinds of constraint error the SQLite driver raises. JSON values are
  the values of \<open>JsonValue\<close>; numbers are the integers the modelled code stores.
\<close>

datatype json =
    JNull
  | JBool bool
  | JNum int
  | JStr string
  | JArr "json list"
  | JObj "(string \<times> json) list"
  | JUndefined

text \<open>\<open>JSON.stringify\<close> of a string: quotes, backslashes and control characters are escaped.\<close>

definition hex_digit :: "nat \<Rightarrow> char" where
  "hex_digit n = ''0123456789abcdef'' ! (n mod 16)"

definition json_escape :: "char \<Rightarrow> string" where
  "json_escape c =
     (if c = CHR 0x22 then [CHR 0x5C, CHR 0x22]
      else if c = CHR 0x5C then [CHR 0x5C, CHR 0x5C]
      else if c = CHR 0x08 then [CHR 0x5C, CHR ''b'']
      else if c = CHR 0x0C then [CHR 0x5C, CHR ''f'']
      else if c = CHR 0x0A then [CHR 0x5C, CHR ''n'']
      else if c = CHR 0x0D then [CHR 0x5C, CHR ''r'']
      else if c = CHR 0x09 then [CHR 0x5C, CHR ''t'']
      else if (of_char c :: nat) < 32
        then [CHR 0x5C, CHR ''u'', CHR ''0'', CHR ''0'', hex_digit (of_char c div 16), hex_digit (of_char c)]
      else [c])"

definition json_string :: "string \<Rightarrow> string" where
  "json_string s = [CHR 0x22] @ concat (map json_escape s) @ [CHR 0x22]"

datatype error_code =
    Bad_request | Unauthorized | Forbidden | Not_found | Conflict | Resource_in_use
  | Precondition_failed | Precondition_required | Bad_gateway | Payload_too_large | Internal_error

datatype constraint_kind = Unique_constraint | Check_constraint | Foreign_key_constraint | Not_null_constraint

datatype failure =
    ApiError int error_code string "json option"
  | OAuthError int string string "(string \<times> json) list" "(string \<times> string) list"
  | PlainError string
  | SqliteError constraint_kind

definition bad_request :: "string \<Rightarrow> failure" where
  "bad_request message = ApiError 400 Bad_request message None"

definition unauthorized :: "string \<Rightarrow> failure" where
  "unauthorized message = ApiError 401 Unauthorized message None"

definition unauthorized_default :: failure where
  "unauthorized_default = unauthorized ''Authentication is required.''"

definition forbidden :: "string \<Rightarrow> failure" where
  "forbidden message = ApiError 403 Forbidden message None"

definition not_found :: "string \<Rightarrow> failure" where
  "not_found message = ApiError 404 Not_found message None"

definition conflict :: "string \<Rightarrow> failure" where
  "conflict message = ApiError 409 Conflict message None"

definition resource_in_use :: "string \<Rightarrow> json \<Rightarrow> failure" where
  "resource_in_use message details = ApiError 409 Resource_in_use message (Some details)"

definition precondition_failed :: "string \<Rightarrow> failure" where
  "precondition_failed message = ApiError 412 Precondition_failed message None"

definition precondition_required :: "string \<Rightarrow> failure" where
  "precondition_required message = ApiError 428 Precondition_required message None"

definition bad_gateway :: "string \<Rightarrow> json option \<Rightarrow> failure" where
  "bad_gateway message details = ApiError 502 Bad_gateway message details"

definition payload_too_large :: "string \<Rightarrow> failure" where
  "payload_too_large message = ApiError 413 Payload_too_large message None"

definition oauth_error :: "string \<Rightarrow> string \<Rightarrow> int \<Rightarrow> (string \<times> json) list \<Rightarrow> (string \<times> string) list \<Rightarrow> failure" where
  "oauth_error error description status parameters headers =
     OAuthError status error description parameters headers"

fun is_api_error :: "failure \<Rightarrow> bool" where
  "is_api_error (ApiError _ _ _ _) = True"
| "is_api_error _ = False"

fun http_status :: "failure \<Rightarrow> int option" where
  "http_status (ApiError status _ _ _) = Some status"
| "http_status (OAuthError status _ _ _ _) = Some status"
| "http_status _ = None"

text \<open>The errors are told apart by their status and message, so a property can name them.\<close>

lemmas failure_defs = bad_request_def unauthorized_def unauthorized_default_def forbidden_def
  not_found_def conflict_def resource_in_use_def precondition_failed_def
  precondition_required_def bad_gateway_def payload_too_large_def oauth_error_def

end
