(* ===== verification/Scope_Registry.thy ===== *)
theory Scope_Registry
  imports Failures
begin

text \<open>
  \<open>shared/scope-registry.ts\<close>, \<open>shared/authz.ts\<close> and the role bundles of
  \<open>shared/organization-access.ts\<close>: the scopes the server knows, which scope a request on a
  path needs, and which scopes a predefined organization role carries.
\<close>

section \<open>The scope registry\<close>

record scope_definition =
  sd_resource :: string
  sd_action :: string
  sd_organization :: bool

definition realmroot_scope_registry :: "(string \<times> scope_definition) list" where
  "realmroot_scope_registry =
   [(''applications:read'', \<lparr>sd_resource = ''application'', sd_action = ''read'', sd_organization = True\<rparr>),
    (''applications:write'', \<lparr>sd_resource = ''application'', sd_action = ''write'', sd_organization = True\<rparr>),
    (''users:read'', \<lparr>sd_resource = ''member'', sd_action = ''read'', sd_organization = True\<rparr>),
    (''users:write'', \<lparr>sd_resource = ''user'', sd_action = ''write'', sd_organization = True\<rparr>),
    (''organizations:read'', \<lparr>sd_resource = ''organization'', sd_action = ''read'', sd_organization = True\<rparr>),
    (''organizations:write'', \<lparr>sd_resource = ''organization'', sd_action = ''write'', sd_organization = True\<rparr>),
    (''organizations:delete'', \<lparr>sd_resource = ''organization'', sd_action = ''delete'', sd_organization = True\<rparr>),
    (''roles:read'', \<lparr>sd_resource = ''role'', sd_action = ''read'', sd_organization = True\<rparr>),
    (''roles:write'', \<lparr>sd_resource = ''role'', sd_action = ''write'', sd_organization = True\<rparr>),
    (''role-assignments:read'', \<lparr>sd_resource = ''role'', sd_action = ''read-assignment'', sd_organization = True\<rparr>),
    (''role-assignments:write'', \<lparr>sd_resource = ''role'', sd_action = ''write-assignment'', sd_organization = True\<rparr>),
    (''resource-servers:read'', \<lparr>sd_resource = ''resource-server'', sd_action = ''read'', sd_organization = True\<rparr>),
    (''resource-servers:write'', \<lparr>sd_resource = ''resource-server'', sd_action = ''write'', sd_organization = True\<rparr>),
    (''connectors:read'', \<lparr>sd_resource = ''connector'', sd_action = ''read'', sd_organization = True\<rparr>),
    (''connectors:write'', \<lparr>sd_resource = ''connector'', sd_action = ''write'', sd_organization = True\<rparr>),
    (''settings:read'', \<lparr>sd_resource = ''realm'', sd_action = ''read'', sd_organization = True\<rparr>),
    (''settings:write'', \<lparr>sd_resource = ''realm'', sd_action = ''write'', sd_organization = True\<rparr>),
    (''security:read'', \<lparr>sd_resource = ''security'', sd_action = ''read'', sd_organization = True\<rparr>),
    (''security:write'', \<lparr>sd_resource = ''security'', sd_action = ''write'', sd_organization = True\<rparr>),
    (''readiness:read'', \<lparr>sd_resource = ''readiness'', sd_action = ''read'', sd_organization = True\<rparr>),
    (''webhooks:read'', \<lparr>sd_resource = ''webhook'', sd_action = ''read'', sd_organization = True\<rparr>),
    (''webhooks:write'', \<lparr>sd_resource = ''webhook'', sd_action = ''write'', sd_organization = True\<rparr>),
    (''agents:read'', \<lparr>sd_resource = ''agent'', sd_action = ''read'', sd_organization = True\<rparr>),
    (''agents:write'', \<lparr>sd_resource = ''agent'', sd_action = ''write'', sd_organization = True\<rparr>),
    (''permissions:read'', \<lparr>sd_resource = ''permission'', sd_action = ''read'', sd_organization = True\<rparr>),
    (''permissions:write'', \<lparr>sd_resource = ''permission'', sd_action = ''write'', sd_organization = True\<rparr>),
    (''audit-events:read'', \<lparr>sd_resource = ''audit-event'', sd_action = ''read'', sd_organization = True\<rparr>)]"

definition realmroot_management_scopes :: "string list" where
  "realmroot_management_scopes = map fst realmroot_scope_registry"

definition realmroot_organization_scopes :: "string list" where
  "realmroot_organization_scopes =
     filter (\<lambda>scope. case map_of realmroot_scope_registry scope of
         None \<Rightarrow> False | Some d \<Rightarrow> sd_organization d) realmroot_management_scopes"

section \<open>Protected resources and the scopes of their routes\<close>

datatype protected_resource =
    Applications | Users | Organizations | Roles | Api_resources | Connectors
  | Settings | Security | Webhooks | Agents | Audit_events | Readiness

record resource_access_entry =
  ra_route_prefixes :: "string list"
  ra_read :: string
  ra_write :: "string option"

definition access_entry :: "string list \<Rightarrow> string \<Rightarrow> string option \<Rightarrow> resource_access_entry" where
  "access_entry prefixes r w = \<lparr>ra_route_prefixes = prefixes, ra_read = r, ra_write = w\<rparr>"

fun resource_access :: "protected_resource \<Rightarrow> resource_access_entry" where
  "resource_access Applications = access_entry [''applications''] ''applications:read'' (Some ''applications:write'')"
| "resource_access Users = access_entry [''users''] ''users:read'' (Some ''users:write'')"
| "resource_access Organizations = access_entry [''organizations''] ''organizations:read'' (Some ''organizations:write'')"
| "resource_access Roles = access_entry [] ''roles:read'' (Some ''roles:write'')"
| "resource_access Api_resources = access_entry [''resource-servers''] ''resource-servers:read'' (Some ''resource-servers:write'')"
| "resource_access Connectors = access_entry [''connectors''] ''connectors:read'' (Some ''connectors:write'')"
| "resource_access Settings = access_entry [''realm''] ''settings:read'' (Some ''settings:write'')"
| "resource_access Security = access_entry [] ''security:read'' (Some ''security:write'')"
| "resource_access Webhooks = access_entry [''webhooks''] ''webhooks:read'' (Some ''webhooks:write'')"
| "resource_access Agents = access_entry [''agents''] ''agents:read'' (Some ''agents:write'')"
| "resource_access Audit_events = access_entry [] ''audit-events:read'' None"
| "resource_access Readiness = access_entry [] ''readiness:read'' None"

definition protected_resources :: "protected_resource list" where
  "protected_resources = [Applications, Users, Organizations, Roles, Api_resources, Connectors,
     Settings, Security, Webhooks, Agents, Audit_events, Readiness]"

definition is_protected_resource_scope :: "string \<Rightarrow> bool" where
  "is_protected_resource_scope value \<longleftrightarrow> value \<in> set realmroot_management_scopes"

text \<open>
  \<open>Object.fromEntries\<close>: the last entry of a key wins, so the pairs are looked up backwards. A
  property read also finds what every object inherits; such a value is no resource, and
  indexing \<open>resourceAccess\<close> with it reads \<open>scopes\<close> of \<open>undefined\<close>.
\<close>

datatype route_resource = No_resource | Route_resource protected_resource | Inherited_property

definition resource_by_route_prefix :: "string \<Rightarrow> route_resource" where
  "resource_by_route_prefix prefix =
     (case map_of (rev (concat (map (\<lambda>r. map (\<lambda>p. (p, r)) (ra_route_prefixes (resource_access r)))
                  protected_resources))) prefix of
        Some r \<Rightarrow> Route_resource r
      | None \<Rightarrow> if prefix \<in> set object_prototype_keys then Inherited_property else No_resource)"

definition strip_slashes :: "string \<Rightarrow> string" where
  "strip_slashes path = dropWhile (\<lambda>c. c = CHR ''/'') path"

definition protected_resource_for_path :: "string \<Rightarrow> route_resource" where
  "protected_resource_for_path path =
     (let parts = split_on (CHR ''/'') (strip_slashes path);
          prefix = hd parts;
          child = (if length parts > 1 then Some (parts ! 1) else None)
      in if prefix = ''realm'' then
           (if child = Some ''security-policy'' then Route_resource Security
            else if child = Some ''audit-events'' then Route_resource Audit_events
            else if child = Some ''configuration-status'' then Route_resource Readiness
            else Route_resource Settings)
         else if prefix \<noteq> [] then resource_by_route_prefix prefix
         else No_resource)"

text \<open>\<open>.replace(/^api(?:\\/|$)/, '')\<close> and the three route patterns, on the path split at slashes.\<close>

definition strip_api :: "string \<Rightarrow> string" where
  "strip_api s =
     (if s = ''api'' then []
      else if take 4 s = ''api/'' then drop 4 s else s)"

definition is_role_route :: "string list \<Rightarrow> bool" where
  "is_role_route parts \<longleftrightarrow>
     (case parts of
        [a, b, c] \<Rightarrow> a = ''organizations'' \<and> b \<noteq> [] \<and> c = ''roles''
      | [a, b, c, d] \<Rightarrow> a = ''organizations'' \<and> b \<noteq> [] \<and> c = ''roles'' \<and> d \<noteq> []
      | _ \<Rightarrow> False)"

definition is_member_roles_route :: "string list \<Rightarrow> bool" where
  "is_member_roles_route parts \<longleftrightarrow>
     (case parts of
        [a, b, c, d, e] \<Rightarrow> a = ''organizations'' \<and> b \<noteq> [] \<and> c = ''members'' \<and> d \<noteq> [] \<and> e = ''roles''
      | _ \<Rightarrow> False)"

definition is_organization_route :: "string list \<Rightarrow> bool" where
  "is_organization_route parts \<longleftrightarrow>
     (case parts of [a, b] \<Rightarrow> a = ''organizations'' \<and> b \<noteq> [] | _ \<Rightarrow> False)"

definition is_read_method :: "string \<Rightarrow> bool" where
  "is_read_method m \<longleftrightarrow> m = ''GET'' \<or> m = ''HEAD''"

definition required_resource_scope :: "string \<Rightarrow> protected_resource \<Rightarrow> string option" where
  "required_resource_scope m r =
     (if is_read_method m then Some (ra_read (resource_access r)) else ra_write (resource_access r))"

definition required_protected_scope :: "string \<Rightarrow> string \<Rightarrow> failure + string option" where
  "required_protected_scope m path =
     (let normalized = strip_api (strip_slashes path);
          parts = split_on (CHR ''/'') normalized
      in if is_role_route parts then
           Inr (Some (if is_read_method m then ''roles:read'' else ''roles:write''))
         else if is_member_roles_route parts then
           Inr (Some (if is_read_method m then ''role-assignments:read'' else ''role-assignments:write''))
         else if is_organization_route parts \<and> m = ''DELETE'' then Inr (Some ''organizations:delete'')
         else (case protected_resource_for_path path of
                 No_resource \<Rightarrow> Inr None
               | Inherited_property \<Rightarrow> Inl (PlainError ''TypeError'')
               | Route_resource r \<Rightarrow> Inr (required_resource_scope m r)))"

definition agent_bootstrap_scopes :: "string list" where
  "agent_bootstrap_scopes = [''agent:read'', ''resource-servers:read'', ''authorization-details:read'',
     ''access-requests:read'', ''access-requests:write'']"

definition realmroot_oauth_scopes :: "string list" where
  "realmroot_oauth_scopes = uniq (agent_bootstrap_scopes @ realmroot_management_scopes)"

section \<open>Predefined organization roles\<close>

datatype access_level = Owner | Admin | Developer | Member

fun role_key :: "access_level \<Rightarrow> string" where
  "role_key Owner = ''owner''"
| "role_key Admin = ''admin''"
| "role_key Developer = ''developer''"
| "role_key Member = ''member''"

definition access_levels :: "access_level list" where
  "access_levels = [Owner, Admin, Developer, Member]"

fun role_scopes :: "access_level \<Rightarrow> string list" where
  "role_scopes Owner = realmroot_organization_scopes"
| "role_scopes Admin = filter (\<lambda>s. s \<noteq> ''organizations:delete'' \<and> s \<noteq> ''roles:write'') realmroot_organization_scopes"
| "role_scopes Developer = [''applications:read'', ''applications:write'', ''users:read'', ''organizations:read'',
     ''roles:read'', ''role-assignments:read'', ''resource-servers:read'', ''resource-servers:write'',
     ''connectors:read'', ''webhooks:read'', ''webhooks:write'', ''agents:read'', ''audit-events:read'']"
| "role_scopes Member = [''organizations:read'', ''users:read'']"

definition predefined_organization_role_scopes :: "string \<Rightarrow> string list option" where
  "predefined_organization_role_scopes role =
     map_of (map (\<lambda>l. (role_key l, role_scopes l)) access_levels) role"

text \<open>The statements each role grants on the organization plugin's own resources.\<close>

fun role_statements :: "access_level \<Rightarrow> (string \<times> string list) list" where
  "role_statements Owner = [
     (''organization'', [''create'', ''read'', ''update'', ''delete'']),
     (''member'', [''create'', ''read'', ''update'', ''delete'']),
     (''invitation'', [''create'', ''read'', ''cancel'']),
     (''role'', [''create'', ''read'', ''update'', ''delete'', ''assign'']),
     (''team'', [''create'', ''update'', ''delete'']),
     (''apiResource'', [''create'', ''read'', ''update'', ''delete'']),
     (''scope'', role_scopes Owner)]"
| "role_statements Admin = [
     (''organization'', [''read'', ''update'']),
     (''member'', [''create'', ''read'', ''update'', ''delete'']),
     (''invitation'', [''create'', ''read'', ''cancel'']),
     (''role'', [''read'', ''assign'']),
     (''team'', [''create'', ''update'', ''delete'']),
     (''apiResource'', [''read'']),
     (''scope'', role_scopes Admin)]"
| "role_statements Developer = [
     (''organization'', [''read'']), (''member'', [''read'']), (''invitation'', [''read'']),
     (''role'', [''read'']), (''team'', []), (''apiResource'', [''read'']),
     (''scope'', role_scopes Developer)]"
| "role_statements Member = [
     (''organization'', [''read'']), (''member'', [''read'']), (''invitation'', [''read'']),
     (''role'', [''read'']), (''team'', []), (''apiResource'', [''read'']),
     (''scope'', role_scopes Member)]"

definition organization_access_control :: "(string \<times> string list) list" where
  "organization_access_control = [
     (''organization'', [''create'', ''read'', ''update'', ''delete'']),
     (''member'', [''create'', ''read'', ''update'', ''delete'']),
     (''invitation'', [''create'', ''read'', ''cancel'']),
     (''role'', [''create'', ''read'', ''update'', ''delete'', ''assign'']),
     (''team'', [''create'', ''update'', ''delete'']),
     (''apiResource'', [''create'', ''read'', ''update'', ''delete'']),
     (''scope'', realmroot_organization_scopes)]"

section \<open>What a request needs, and what a role carries\<close>

definition is_read_scope :: "string \<Rightarrow> bool" where
  "is_read_scope scope \<longleftrightarrow>
     (case map_of realmroot_scope_registry scope of
        None \<Rightarrow> False | Some d \<Rightarrow> sd_action d = ''read'' \<or> sd_action d = ''read-assignment'')"

lemma registry_all_organization: "\<forall>s \<in> set realmroot_management_scopes.
    (case map_of realmroot_scope_registry s of None \<Rightarrow> False | Some d \<Rightarrow> sd_organization d)"
  by code_simp

lemma organization_scopes_eq: "realmroot_organization_scopes = realmroot_management_scopes"
  unfolding realmroot_organization_scopes_def
  using registry_all_organization by (metis (mono_tags, lifting) filter_True)

lemma protected_resources_all: "r \<in> set protected_resources"
  by (cases r) (simp_all add: protected_resources_def)

lemma resource_access_registered:
  "\<forall>r \<in> set protected_resources.
     ra_read (resource_access r) \<in> set realmroot_management_scopes \<and>
     is_read_scope (ra_read (resource_access r)) \<and>
     (case ra_write (resource_access r) of None \<Rightarrow> True
      | Some w \<Rightarrow> w \<in> set realmroot_management_scopes \<and> \<not> is_read_scope w)"
  by code_simp

lemma required_resource_scope_registered:
  assumes "required_resource_scope m r = Some s"
  shows "s \<in> set realmroot_management_scopes \<and> (is_read_scope s \<longleftrightarrow> is_read_method m)"
  using assms bspec [OF resource_access_registered protected_resources_all [of r]]
  by (auto simp: required_resource_scope_def split: if_splits)

lemma fixed_scopes_registered:
  "''roles:read'' \<in> set realmroot_management_scopes \<and> is_read_scope ''roles:read''"
  "''roles:write'' \<in> set realmroot_management_scopes \<and> \<not> is_read_scope ''roles:write''"
  "''role-assignments:read'' \<in> set realmroot_management_scopes \<and> is_read_scope ''role-assignments:read''"
  "''role-assignments:write'' \<in> set realmroot_management_scopes \<and> \<not> is_read_scope ''role-assignments:write''"
  "''organizations:delete'' \<in> set realmroot_management_scopes \<and> \<not> is_read_scope ''organizations:delete''"
  by code_simp+

text \<open>
  C34. The scope demanded of a request is always a scope of the registry, and it is a read
  scope exactly for GET and HEAD: no route lets a mutating request through on a read scope.
\<close>

theorem required_scope_sound:
  assumes "required_protected_scope m path = Inr (Some s)"
  shows "s \<in> set realmroot_management_scopes \<and> (is_read_scope s \<longleftrightarrow> is_read_method m)"
proof -
  have delete: "\<not> is_read_method ''DELETE''" by code_simp
  show ?thesis
    using assms delete
    by (auto simp: required_protected_scope_def Let_def fixed_scopes_registered
        dest: required_resource_scope_registered split: if_splits route_resource.splits)
qed

theorem required_scope_sound_witness:
  "required_protected_scope ''DELETE'' ''/api/organizations/acme'' = Inr (Some ''organizations:delete'') \<and>
   ''organizations:delete'' \<in> set realmroot_management_scopes \<and>
   (is_read_scope ''organizations:delete'' \<longleftrightarrow> is_read_method ''DELETE'')"
proof -
  have run: "required_protected_scope ''DELETE'' ''/api/organizations/acme'' = Inr (Some ''organizations:delete'')"
    by code_simp
  show ?thesis using run required_scope_sound [OF run] by blast
qed

text \<open>
  The predefined roles form a chain: what a member may do a developer may do, then an
  administrator, then the owner, who holds every organization scope; only the owner may
  delete the organization or write roles.
\<close>

theorem role_scopes_chain:
  "set (role_scopes Member) \<subseteq> set (role_scopes Developer) \<and>
   set (role_scopes Developer) \<subseteq> set (role_scopes Admin) \<and>
   set (role_scopes Admin) = set (role_scopes Owner) - {''organizations:delete'', ''roles:write''} \<and>
   set (role_scopes Owner) = set realmroot_organization_scopes"
  by code_simp

lemma role_statements_within_access_control:
  "\<forall>level \<in> set access_levels. \<forall>(r, actions) \<in> set (role_statements level).
     (case map_of organization_access_control r of
        None \<Rightarrow> False | Some allowed \<Rightarrow> set actions \<subseteq> set allowed)"
  by code_simp

end
