(* ===== verification/Role_Scope.thy ===== *)
theory Role_Scope
  imports Prelude
begin

text \<open>
  The text form of a role's scope on a resource (\<open>encodeRoleScope\<close> and \<open>decodeRoleScope\<close> of
  \<open>shared/organization-access.ts\<close>) with the URI component codec of the JavaScript library it
  is built on. Strings are their UTF-8 bytes. A locale states what a textual codec promises;
  the URI codec, the role scope codec and, in another theory, the base64url codec are its
  interpretations.
\<close>

section \<open>Codecs\<close>

locale codec =
  fixes enc :: "'a \<Rightarrow> 'b"
    and dec :: "'b \<Rightarrow> 'a option"
    and valid :: "'a \<Rightarrow> bool"
  assumes dec_enc: "valid x \<Longrightarrow> dec (enc x) = Some x"
begin

lemma enc_injective: "valid x \<Longrightarrow> valid y \<Longrightarrow> enc x = enc y \<longleftrightarrow> x = y"
  by (metis dec_enc option.inject)

lemma dec_of_enc: "valid x \<Longrightarrow> dec s = Some y \<Longrightarrow> s = enc x \<Longrightarrow> y = x"
  by (simp add: dec_enc)

end

section \<open>\<open>encodeURIComponent\<close> and \<open>decodeURIComponent\<close>\<close>

definition byte_of :: "char \<Rightarrow> nat" where
  "byte_of c = of_char c"

lemma byte_of_less [simp]: "byte_of c < 256"
  by (simp add: byte_of_def)

lemma char_of_byte_of [simp]: "char_of (byte_of c) = c"
  by (simp add: byte_of_def)

definition uri_unreserved :: "char \<Rightarrow> bool" where
  "uri_unreserved c \<longleftrightarrow>
     (let b = byte_of c in 65 \<le> b \<and> b \<le> 90 \<or> 97 \<le> b \<and> b \<le> 122 \<or> 48 \<le> b \<and> b \<le> 57) \<or>
     c \<in> set ''-_.!~*'' \<or> byte_of c \<in> {39, 40, 41}"

definition hex_digit :: "nat \<Rightarrow> char" where
  "hex_digit n = ''0123456789ABCDEF'' ! n"

definition hex_value :: "char \<Rightarrow> nat option" where
  "hex_value c =
     (let b = byte_of c in
      if 48 \<le> b \<and> b \<le> 57 then Some (b - 48)
      else if 65 \<le> b \<and> b \<le> 70 then Some (b - 55)
      else if 97 \<le> b \<and> b \<le> 102 then Some (b - 87)
      else None)"

primrec encode_uri_component :: "string \<Rightarrow> string" where
  "encode_uri_component [] = []"
| "encode_uri_component (c # s) =
     (if uri_unreserved c then [c]
      else [CHR ''%'', hex_digit (byte_of c div 16), hex_digit (byte_of c mod 16)])
     @ encode_uri_component s"

text \<open>
  Decoding reads the escapes first, remembering which bytes were escaped, and then checks
  that the escaped bytes of a non-ASCII character form one well-formed UTF-8 sequence.
\<close>

fun unescape :: "string \<Rightarrow> (bool \<times> nat) list option" where
  "unescape [] = Some []"
| "unescape (c # s) =
     (if c = CHR ''%'' then
        (case s of
           h # l # r \<Rightarrow>
             (case (hex_value h, hex_value l) of
                (Some a, Some b) \<Rightarrow> map_option (Cons (True, 16 * a + b)) (unescape r)
              | _ \<Rightarrow> None)
         | _ \<Rightarrow> None)
      else map_option (Cons (False, byte_of c)) (unescape s))"

definition continuation :: "nat \<Rightarrow> bool" where
  "continuation b \<longleftrightarrow> 128 \<le> b \<and> b < 192"

text \<open>How many continuation bytes follow a lead byte, and the bounds on the first of them.\<close>

definition lead_tail :: "nat \<Rightarrow> nat option" where
  "lead_tail b =
     (if b < 128 then Some 0
      else if 194 \<le> b \<and> b \<le> 223 then Some 1
      else if 224 \<le> b \<and> b \<le> 239 then Some 2
      else if 240 \<le> b \<and> b \<le> 244 then Some 3
      else None)"

definition second_ok :: "nat \<Rightarrow> nat \<Rightarrow> bool" where
  "second_ok lead b \<longleftrightarrow>
     continuation b \<and> (lead = 224 \<longrightarrow> 160 \<le> b) \<and> (lead = 237 \<longrightarrow> b < 160) \<and>
     (lead = 240 \<longrightarrow> 144 \<le> b) \<and> (lead = 244 \<longrightarrow> b < 144)"

definition tail_ok :: "nat \<Rightarrow> nat list \<Rightarrow> bool" where
  "tail_ok lead bs \<longleftrightarrow> (bs = [] \<or> second_ok lead (hd bs)) \<and> list_all continuation bs"

function decode_bytes :: "(bool \<times> nat) list \<Rightarrow> nat list option" where
  "decode_bytes [] = Some []"
| "decode_bytes ((escaped, b) # ts) =
     (if \<not> escaped then map_option (Cons b) (decode_bytes ts)
      else (case lead_tail b of
              None \<Rightarrow> None
            | Some n \<Rightarrow>
                (if length ts < n \<or> \<not> list_all fst (take n ts) \<or> \<not> tail_ok b (map snd (take n ts)) then None
                 else map_option (\<lambda>r. b # map snd (take n ts) @ r) (decode_bytes (drop n ts)))))"
  by pat_completeness auto
termination by (relation "measure length") auto

definition decode_uri_component :: "string \<Rightarrow> string option" where
  "decode_uri_component s =
     (case unescape s of None \<Rightarrow> None
      | Some ts \<Rightarrow> map_option (map char_of) (decode_bytes ts))"

text \<open>Strings of JavaScript are well formed when their UTF-8 bytes are.\<close>

function utf8_valid :: "nat list \<Rightarrow> bool" where
  "utf8_valid [] = True"
| "utf8_valid (b # bs) =
     (case lead_tail b of
        None \<Rightarrow> False
      | Some n \<Rightarrow> n \<le> length bs \<and> tail_ok b (take n bs) \<and> utf8_valid (drop n bs))"
  by pat_completeness auto
termination by (relation "measure length") auto

definition well_formed_string :: "string \<Rightarrow> bool" where
  "well_formed_string s \<longleftrightarrow> utf8_valid (map byte_of s)"

section \<open>The role scope text\<close>

definition encode_role_scope :: "string \<Rightarrow> string \<Rightarrow> string" where
  "encode_role_scope resource_id scope =
     encode_uri_component resource_id @ ''/'' @ encode_uri_component scope"

definition decode_role_scope :: "string \<Rightarrow> (string \<times> string) option" where
  "decode_role_scope value =
     (let separator = length (takeWhile (\<lambda>c. c \<noteq> CHR ''/'') value) in
      if CHR ''/'' \<notin> set value \<or> separator < 1 \<or> separator = length value - 1 then None
      else (case decode_uri_component (take separator value) of
              None \<Rightarrow> None
            | Some resource_id \<Rightarrow>
                (case decode_uri_component (drop (separator + 1) value) of
                   None \<Rightarrow> None
                 | Some scope \<Rightarrow> Some (resource_id, scope))))"

section \<open>Round trips\<close>

lemma hex_round_trip_all: "list_all (\<lambda>n. hex_value (hex_digit n) = Some n) [0..<16]"
  by code_simp

lemma hex_round_trip [simp]: "n < 16 \<Longrightarrow> hex_value (hex_digit n) = Some n"
  using hex_round_trip_all by (simp add: list_all_iff)

lemma percent_reserved: "\<not> uri_unreserved (CHR ''%'')"
  by code_simp

lemma slash_reserved: "\<not> uri_unreserved (CHR ''/'')"
  by code_simp

lemma hex_digit_not_slash_all: "list_all (\<lambda>n. hex_digit n \<noteq> CHR ''/'') [0..<16]"
  by code_simp

lemma hex_digit_not_slash [simp]: "n < 16 \<Longrightarrow> CHR ''/'' \<noteq> hex_digit n"
  using hex_digit_not_slash_all by (fastforce simp: list_all_iff)

lemma ascii_unreserved: "uri_unreserved c \<Longrightarrow> byte_of c < 128"
proof -
  assume "uri_unreserved c"
  moreover have "list_all (\<lambda>c. byte_of c < 128) ''-_.!~*''" by code_simp
  ultimately show ?thesis by (auto simp: uri_unreserved_def Let_def list_all_iff)
qed

lemma unescape_encode:
  "unescape (encode_uri_component s) = Some (map (\<lambda>c. (\<not> uri_unreserved c, byte_of c)) s)"
proof (induction s)
  case Nil
  then show ?case by simp
next
  case (Cons c s)
  have "byte_of c div 16 < 16" using byte_of_less [of c] by (simp add: less_mult_imp_div_less)
  with Cons percent_reserved show ?case by auto
qed

lemma decode_bytes_valid:
  "utf8_valid (map snd ts) \<Longrightarrow> (\<And>t. t \<in> set ts \<Longrightarrow> \<not> fst t \<Longrightarrow> snd t < 128) \<Longrightarrow>
     decode_bytes ts = Some (map snd ts)"
proof (induction ts rule: decode_bytes.induct)
  case 1
  then show ?case by simp
next
  case (2 escaped b ts)
  from "2.prems"(1) obtain n where n: "lead_tail b = Some n" "n \<le> length ts"
    "tail_ok b (map snd (take n ts))" "utf8_valid (map snd (drop n ts))"
    by (auto simp: take_map drop_map split: option.splits)
  show ?case
  proof (cases escaped)
    case False
    with "2.prems"(2) [of "(escaped, b)"] have "b < 128" by simp
    with n have "n = 0" by (simp add: lead_tail_def)
    with n False "2.IH"(1) "2.prems"(2) show ?thesis by simp
  next
    case True
    have "fst t" if "t \<in> set (take n ts)" for t
    proof (rule ccontr)
      assume "\<not> fst t"
      with that "2.prems"(2) have "snd t < 128" by (meson in_set_takeD list.set_intros(2))
      moreover from n(3) that have "continuation (snd t)" by (auto simp: tail_ok_def list_all_iff)
      ultimately show False by (simp add: continuation_def)
    qed
    then have esc: "list_all fst (take n ts)" by (simp add: list_all_iff)
    have "decode_bytes (drop n ts) = Some (map snd (drop n ts))"
      using "2.IH"(2) True n esc "2.prems"(2) by (auto dest: in_set_dropD)
    with True n esc show ?thesis by (simp add: take_map [symmetric] drop_map [symmetric])
  qed
qed

lemma decode_encode_component:
  assumes "well_formed_string s"
  shows "decode_uri_component (encode_uri_component s) = Some s"
proof -
  let ?ts = "map (\<lambda>c. (\<not> uri_unreserved c, byte_of c)) s"
  have "map snd ?ts = map byte_of s" by simp
  with assms have "decode_bytes ?ts = Some (map snd ?ts)"
    by (intro decode_bytes_valid) (auto simp: well_formed_string_def comp_def intro: ascii_unreserved)
  then show ?thesis by (simp add: decode_uri_component_def unescape_encode comp_def)
qed

interpretation uri_component: codec encode_uri_component decode_uri_component well_formed_string
  by unfold_locales (rule decode_encode_component)

lemma no_slash_in_component: "CHR ''/'' \<notin> set (encode_uri_component s)"
proof (induction s)
  case Nil
  then show ?case by simp
next
  case (Cons c s)
  have "byte_of c div 16 < 16" using byte_of_less [of c] by (simp add: less_mult_imp_div_less)
  moreover have "byte_of c mod 16 < 16" by simp
  ultimately have "CHR ''/'' \<noteq> hex_digit (byte_of c div 16)" "CHR ''/'' \<noteq> hex_digit (byte_of c mod 16)"
    by simp_all
  with Cons slash_reserved show ?case by auto
qed

lemma encode_component_empty [simp]: "encode_uri_component s = [] \<longleftrightarrow> s = []"
  by (cases s) auto

lemma takeWhile_no_slash:
  "takeWhile (\<lambda>c. c \<noteq> CHR ''/'') (encode_uri_component s @ CHR ''/'' # t) = encode_uri_component s"
  using no_slash_in_component [of s] by (subst takeWhile_append2) auto

definition valid_role_scope :: "string \<times> string \<Rightarrow> bool" where
  "valid_role_scope p \<longleftrightarrow> fst p \<noteq> [] \<and> snd p \<noteq> [] \<and> well_formed_string (fst p) \<and> well_formed_string (snd p)"

lemma decode_encode_role_scope:
  "valid_role_scope (r, s) \<Longrightarrow> decode_role_scope (encode_role_scope r s) = Some (r, s)"
  by (simp add: decode_role_scope_def encode_role_scope_def valid_role_scope_def
      takeWhile_no_slash uri_component.dec_enc)

interpretation role_scope: codec "\<lambda>(r, s). encode_role_scope r s" decode_role_scope valid_role_scope
  by unfold_locales (auto intro: decode_encode_role_scope)

text \<open>
  C35. A role's scope survives its text form: whatever the resource identifier and the scope
  contain, slashes and percent signs included, decoding the encoded pair gives it back.
\<close>

theorem role_scope_round_trip:
  assumes "resource_id \<noteq> []" "scope \<noteq> []" "well_formed_string resource_id" "well_formed_string scope"
  shows "decode_role_scope (encode_role_scope resource_id scope) = Some (resource_id, scope)"
  using assms role_scope.dec_enc [of "(resource_id, scope)"] by (simp add: valid_role_scope_def)

theorem role_scope_round_trip_witness:
  "encode_role_scope ''a/b%'' ''x:y'' = ''a%2Fb%25/x%3Ay'' \<and>
   decode_role_scope (encode_role_scope ''a/b%'' ''x:y'') = Some (''a/b%'', ''x:y'')"
proof -
  have wf: "well_formed_string ''a/b%''" "well_formed_string ''x:y''" by code_simp+
  have enc: "encode_role_scope ''a/b%'' ''x:y'' = ''a%2Fb%25/x%3Ay''" by code_simp
  show ?thesis using enc role_scope_round_trip [of "''a/b%''" "''x:y''"] wf by simp
qed

text \<open>
  Two different pairs never share a text form, so a stored role scope names one resource
  and one scope.
\<close>

theorem role_scope_injective:
  assumes "valid_role_scope (r, s)" "valid_role_scope (r', s')"
    and "encode_role_scope r s = encode_role_scope r' s'"
  shows "r = r' \<and> s = s'"
  using role_scope.enc_injective [OF assms(1,2)] assms(3) by simp

theorem role_scope_injective_witness:
  "encode_role_scope ''r'' ''s/t'' = encode_role_scope ''r'' ''s/t'' \<and> ''r'' = ''r'' \<and> ''s/t'' = ''s/t''"
proof -
  have v: "valid_role_scope (''r'', ''s/t'')" by code_simp
  show ?thesis using role_scope_injective [OF v v] by simp
qed

end
