(* ===== verification/Paging.thy ===== *)
theory Paging
  imports Prelude
begin

text \<open>
  \<open>shared/api/pagination.ts\<close> and the link relations of
  \<open>server/http/middleware/pagination.ts\<close>. Page numbers, sizes and totals are natural numbers;
  the query schema only lets positive page numbers and sizes through, so a limit is positive
  wherever metadata is computed.
\<close>

record pagination_query =
  pq_page :: nat
  pq_page_size :: nat

record page_input =
  pg_limit :: nat
  pg_offset :: nat

record page_metadata =
  pm_page :: nat
  pm_page_size :: nat
  pm_total_items :: nat
  pm_total_pages :: nat

record 'a paginated_result = page_input +
  pg_items :: "'a list"
  pg_total :: nat

text \<open>The query schema, after coercion: defaults for absent members, an error outside the bounds.\<close>

definition pagination_query_schema :: "int option \<Rightarrow> int option \<Rightarrow> pagination_query option" where
  "pagination_query_schema page page_size =
     (let p = (case page of None \<Rightarrow> 1 | Some p \<Rightarrow> p);
          n = (case page_size of None \<Rightarrow> 20 | Some n \<Rightarrow> n)
      in if 1 \<le> p \<and> 1 \<le> n \<and> n \<le> 100
         then Some \<lparr>pq_page = nat p, pq_page_size = nat n\<rparr> else None)"

definition ceil_div :: "nat \<Rightarrow> nat \<Rightarrow> nat" where
  "ceil_div a b = (if a mod b = 0 then a div b else a div b + 1)"

definition pagination_metadata_schema :: "page_metadata \<Rightarrow> bool" where
  "pagination_metadata_schema m \<longleftrightarrow>
     1 \<le> pm_page m \<and> 0 < pm_page_size m \<and>
     pm_total_pages m = ceil_div (pm_total_items m) (pm_page_size m)"

definition pagination_metadata :: "nat \<Rightarrow> nat \<Rightarrow> nat \<Rightarrow> page_metadata" where
  "pagination_metadata limit offset item_count =
     \<lparr>pm_page = offset div limit + 1, pm_page_size = limit,
      pm_total_items = item_count, pm_total_pages = ceil_div item_count limit\<rparr>"

definition pagination_input :: "pagination_query \<Rightarrow> page_input" where
  "pagination_input q =
     \<lparr>pg_limit = pq_page_size q, pg_offset = (pq_page q - 1) * pq_page_size q\<rparr>"

text \<open>\<open>repositoryPageQuery\<close> replaces the two members and passes the filters on.\<close>

definition repository_page_query :: "pagination_query \<Rightarrow> 'f \<Rightarrow> 'f \<times> page_input" where
  "repository_page_query q filters =
     (filters, \<lparr>pg_limit = pq_page_size q, pg_offset = (pq_page q - 1) * pq_page_size q\<rparr>)"

text \<open>A page of a list as the use cases and the SQL queries cut it: offset, then limit.\<close>

definition page_of :: "page_input \<Rightarrow> 'a list \<Rightarrow> 'a list" where
  "page_of p xs = slice (pg_offset p) (pg_offset p + pg_limit p) xs"

definition pagination_links :: "page_metadata \<Rightarrow> (nat \<times> nat \<times> string) list" where
  "pagination_links m =
     (if pm_total_pages m = 0 then []
      else (if 1 < pm_page m then
              [(1, pm_page_size m, ''first''), (pm_page m - 1, pm_page_size m, ''previous'')] else [])
         @ (if pm_page m < pm_total_pages m then
              [(pm_page m + 1, pm_page_size m, ''next''), (pm_total_pages m, pm_page_size m, ''last'')] else []))"

definition pagination_link_header :: "(nat \<Rightarrow> nat \<Rightarrow> string \<Rightarrow> string) \<Rightarrow> page_metadata \<Rightarrow> string option" where
  "pagination_link_header link m =
     (let links = map (\<lambda>(page, page_size, relation). link page page_size relation) (pagination_links m)
      in if pm_total_pages m = 0 then None
         else if links \<noteq> [] then Some (join_with '', '' links) else None)"

section \<open>Pages cover a collection exactly\<close>

lemma ceil_div_ge:
  assumes "0 < n"
  shows "a \<le> ceil_div a n * n"
proof (cases "a mod n = 0")
  case True
  then show ?thesis using div_mult_mod_eq [of a n] by (simp add: ceil_div_def)
next
  case False
  have "a div n * n + a mod n = a" by simp
  moreover have "a mod n < n" using assms by simp
  ultimately have "a \<le> a div n * n + n" by linarith
  with False show ?thesis by (simp add: ceil_div_def add.commute)
qed

lemma ceil_div_le_iff: "0 < n \<Longrightarrow> ceil_div a n \<le> k \<longleftrightarrow> a \<le> k * n"
proof
  assume n: "0 < n" and "ceil_div a n \<le> k"
  then have "ceil_div a n * n \<le> k * n" by simp
  with ceil_div_ge [OF n, of a] show "a \<le> k * n" by linarith
next
  assume n: "0 < n" and a: "a \<le> k * n"
  show "ceil_div a n \<le> k"
  proof (cases "a mod n = 0")
    case True
    with a n show ?thesis by (auto simp: ceil_div_def elim!: dvdE simp: mod_eq_0_iff_dvd)
  next
    case False
    have "a div n < k"
    proof (rule ccontr)
      assume "\<not> a div n < k"
      then have "k * n \<le> a div n * n" by simp
      with a have "a \<le> a div n * n" by linarith
      moreover have "a div n * n + a mod n = a" by simp
      ultimately show False using False by linarith
    qed
    with False show ?thesis by (simp add: ceil_div_def)
  qed
qed

lemma page_of_query:
  "page_of (pagination_input \<lparr>pq_page = Suc k, pq_page_size = n\<rparr>) xs = take n (drop (k * n) xs)"
  by (simp add: page_of_def pagination_input_def slice_def)

lemma concat_pages_take:
  "concat (map (\<lambda>k. page_of (pagination_input \<lparr>pq_page = Suc k, pq_page_size = n\<rparr>) xs) [0..<m]) = take (m * n) xs"
proof (induction m)
  case 0
  then show ?case by simp
next
  case (Suc m)
  then show ?case using take_add [of "m * n" n xs] by (simp add: page_of_query add.commute [of n])
qed

text \<open>
  Walking the pages from the first to the last one the metadata announces visits every
  item once, in order; no page is skipped, cut short or repeated.
\<close>

theorem pages_cover_collection:
  assumes "pagination_query_schema (Some p) (Some n) = Some q"
  shows "concat (map (\<lambda>k. page_of (pagination_input \<lparr>pq_page = Suc k, pq_page_size = pq_page_size q\<rparr>) xs)
            [0..<pm_total_pages (pagination_metadata (pq_page_size q) (pg_offset (pagination_input q)) (length xs))]) = xs"
proof -
  from assms have "0 < pq_page_size q"
    by (auto simp: pagination_query_schema_def Let_def split: if_splits)
  then show ?thesis
    by (simp add: concat_pages_take pagination_metadata_def ceil_div_ge)
qed

theorem pages_cover_collection_witness:
  "pagination_query_schema (Some 2) (Some 3) = Some \<lparr>pq_page = 2, pq_page_size = 3\<rparr> \<and>
   concat (map (\<lambda>k. page_of (pagination_input \<lparr>pq_page = Suc k, pq_page_size = 3\<rparr>) ''abcdefgh'')
      [0..<pm_total_pages (pagination_metadata 3 3 (length ''abcdefgh''))]) = ''abcdefgh''"
proof -
  have q: "pagination_query_schema (Some 2) (Some 3) = Some \<lparr>pq_page = 2, pq_page_size = 3\<rparr>"
    by (simp add: pagination_query_schema_def)
  show ?thesis
    using q pages_cover_collection [OF q, of "''abcdefgh''"] by (simp only: pagination_input_def pagination_query.simps page_input.simps) simp
qed



end
