(* ===== verification/Tenancy.thy ===== *)
theory Tenancy
  imports Failures
begin

text \<open>
  The authorization context of a request (\<open>server/domain/authorization-context.ts\<close>): the
  subject that acts, the tenant it acts in, and the scopes it holds there; and the two
  built-in resources other components compare against.
\<close>

datatype authorization_subject =
    User_subject string | Agent_subject string | Application_subject string | Workload_subject string

datatype authorization_tenant = User_tenant string | Organization_tenant string

record authorization_context =
  cx_subject :: authorization_subject
  cx_tenant :: authorization_tenant
  cx_scopes :: "string list"

fun tenant_key :: "authorization_tenant \<Rightarrow> string" where
  "tenant_key (User_tenant i) = ''user'' @ '':'' @ i"
| "tenant_key (Organization_tenant i) = ''organization'' @ '':'' @ i"

definition scope_required :: "string \<Rightarrow> failure" where
  "scope_required scope = forbidden (''OAuth scope \"'' @ scope @ ''\" is required.'')"

definition authorize :: "authorization_context \<Rightarrow> authorization_tenant \<Rightarrow> string \<Rightarrow> failure + unit" where
  "authorize context target required_scope =
     (if tenant_key (cx_tenant context) \<noteq> tenant_key target then
        Inl (forbidden ''The authenticated subject cannot access the target tenant.'')
      else if required_scope \<notin> set (cx_scopes context) then Inl (scope_required required_scope)
      else Inr ())"

definition can_authorize :: "authorization_context \<Rightarrow> authorization_tenant \<Rightarrow> string \<Rightarrow> bool" where
  "can_authorize context target required_scope \<longleftrightarrow>
     tenant_key (cx_tenant context) = tenant_key target \<and> required_scope \<in> set (cx_scopes context)"

text \<open>An authorized owner is the target tenant itself, branded by having been authorized.\<close>

definition authorize_owner ::
  "authorization_context \<Rightarrow> authorization_tenant \<Rightarrow> string \<Rightarrow> failure + authorization_tenant" where
  "authorize_owner context target required_scope =
     (case authorize context target required_scope of Inl e \<Rightarrow> Inl e | Inr _ \<Rightarrow> Inr target)"

definition platform_organization_slug :: string where
  "platform_organization_slug = ''realmroot''"

definition is_platform_organization :: "string \<Rightarrow> bool" where
  "is_platform_organization slug \<longleftrightarrow> slug = platform_organization_slug"

definition realmroot_resource_identifier :: string where
  "realmroot_resource_identifier = ''realmroot''"

definition realmroot_resource_url :: "string \<Rightarrow> string" where
  "realmroot_resource_url origin =
     (if origin \<noteq> [] \<and> last origin = CHR ''/'' then butlast origin else origin) @ ''/api''"

definition is_realmroot_resource_server :: "string \<Rightarrow> bool" where
  "is_realmroot_resource_server identifier \<longleftrightarrow> identifier = realmroot_resource_identifier"

section \<open>The key separates tenants\<close>

lemma tenant_key_injective [simp]: "tenant_key t = tenant_key t' \<longleftrightarrow> t = t'"
  by (cases t; cases t') simp_all

lemma authorize_ok_iff [simp]:
  "authorize c t s = Inr u \<longleftrightarrow> cx_tenant c = t \<and> s \<in> set (cx_scopes c)"
  by (auto simp: authorize_def)

lemma can_authorize_iff: "can_authorize c t s \<longleftrightarrow> cx_tenant c = t \<and> s \<in> set (cx_scopes c)"
  by (simp add: can_authorize_def)

text \<open>
  Authorization lets a request through exactly when the context's tenant is the target
  tenant, kind and identifier, and the scope is held; the boolean test, the throwing test and
  the owner test agree, a refusal is always a 403, and the owner handed on is the target.
\<close>

theorem authorization_decisions_agree:
  "(can_authorize c t s \<longleftrightarrow> cx_tenant c = t \<and> s \<in> set (cx_scopes c)) \<and>
   (authorize c t s = Inr () \<longleftrightarrow> can_authorize c t s) \<and>
   (authorize_owner c t s = Inr owner \<longleftrightarrow> can_authorize c t s \<and> owner = t) \<and>
   (\<forall>e. authorize c t s = Inl e \<longrightarrow> http_status e = Some 403)"
  by (auto simp: can_authorize_def authorize_owner_def authorize_def forbidden_def scope_required_def
      split: sum.splits if_splits)

theorem authorization_decisions_agree_witness:
  "authorize \<lparr>cx_subject = User_subject ''u'', cx_tenant = User_tenant ''o'', cx_scopes = [''agents:read'']\<rparr>
      (Organization_tenant ''o'') ''agents:read''
     = Inl (forbidden ''The authenticated subject cannot access the target tenant.'') \<and>
   http_status (forbidden ''The authenticated subject cannot access the target tenant.'') = Some 403"
proof -
  let ?c = "\<lparr>cx_subject = User_subject ''u'', cx_tenant = User_tenant ''o'', cx_scopes = [''agents:read'']\<rparr>"
  have run: "authorize ?c (Organization_tenant ''o'') ''agents:read''
     = Inl (forbidden ''The authenticated subject cannot access the target tenant.'')"
    by (simp add: authorize_def)
  show ?thesis using run authorization_decisions_agree [of ?c "Organization_tenant ''o''" "''agents:read''"] by blast
qed

end
