(* ===== verification/Security_Policy.thy ===== *)
theory Security_Policy
  imports Failures
begin

text \<open>
  Password and email rules of a realm (\<open>server/domain/security/policy.ts\<close>). Strings are lists
  of code units; the letter classes and the case folding are the ASCII ones.
\<close>

record password_policy =
  pp_min_length :: nat
  pp_required_character_types :: nat
  pp_custom_words :: "string list"
  pp_reject_user_info :: bool
  pp_reject_sequential :: bool
  pp_reject_custom_words :: bool

record blocklist_policy =
  bl_block_subaddressing :: bool
  bl_entries :: "string list"

record password_user =
  pu_email :: "string option"
  pu_name :: "string option"
  pu_username :: "string option"

definition code_at :: "char \<Rightarrow> nat" where
  "code_at c = of_char c"

definition is_lower :: "char \<Rightarrow> bool" where
  "is_lower c \<longleftrightarrow> 97 \<le> code_at c \<and> code_at c \<le> 122"

definition is_upper :: "char \<Rightarrow> bool" where
  "is_upper c \<longleftrightarrow> 65 \<le> code_at c \<and> code_at c \<le> 90"

definition is_digit :: "char \<Rightarrow> bool" where
  "is_digit c \<longleftrightarrow> 48 \<le> code_at c \<and> code_at c \<le> 57"

definition is_other :: "char \<Rightarrow> bool" where
  "is_other c \<longleftrightarrow> \<not> (is_lower c \<or> is_upper c \<or> is_digit c)"

definition character_type_count :: "string \<Rightarrow> nat" where
  "character_type_count password =
     length (filter (\<lambda>b. b) [list_ex is_lower password, list_ex is_upper password,
                              list_ex is_digit password, list_ex is_other password])"

text \<open>The loop over \<open>index\<close> looks at every window of three code units.\<close>

definition run_of_three :: "int \<Rightarrow> int \<Rightarrow> int \<Rightarrow> bool" where
  "run_of_three first second third \<longleftrightarrow>
     first = second \<and> second = third \<or>
     second = first + 1 \<and> third = second + 1 \<or>
     second = first - 1 \<and> third = second - 1"

fun has_sequential_run :: "string \<Rightarrow> bool" where
  "has_sequential_run (a # b # c # s) =
     (run_of_three (int (code_at a)) (int (code_at b)) (int (code_at c)) \<or> has_sequential_run (b # c # s))"
| "has_sequential_run _ = False"

definition long_enough :: "string \<Rightarrow> bool" where
  "long_enough s \<longleftrightarrow> 3 \<le> length s"

definition user_parts :: "password_user \<Rightarrow> string list" where
  "user_parts user =
     map to_lower (filter long_enough
       (List.map_filter id [map_option (\<lambda>e. hd (split_on (CHR ''@'') e)) (pu_email user),
                            pu_name user, pu_username user]))"

fun nat_digits :: "nat \<Rightarrow> string" where
  "nat_digits n =
     (if n < 10 then [char_of (48 + n)] else nat_digits (n div 10) @ [char_of (48 + n mod 10)])"

declare nat_digits.simps [simp del]

definition validate_password_policy :: "string \<Rightarrow> password_policy \<Rightarrow> password_user \<Rightarrow> failure + unit" where
  "validate_password_policy password policy user =
     (let normalized = to_lower password;
          words = filter long_enough (map to_lower (pp_custom_words policy))
      in if length password < pp_min_length policy then
           Inl (bad_request (''Password must be at least '' @ nat_digits (pp_min_length policy) @ '' characters.''))
         else if character_type_count password < pp_required_character_types policy then
           Inl (bad_request (''Password must include at least '' @
                  nat_digits (pp_required_character_types policy) @ '' character types.''))
         else if pp_reject_sequential policy \<and> has_sequential_run normalized then
           Inl (bad_request ''Password cannot include sequential or repetitive characters.'')
         else if pp_reject_user_info policy \<and> list_ex (\<lambda>part. str_includes part normalized) (user_parts user) then
           Inl (bad_request ''Password cannot include account profile information.'')
         else if pp_reject_custom_words policy \<and> list_ex (\<lambda>word. str_includes word normalized) words then
           Inl (bad_request ''Password cannot include blocked words.'')
         else Inr ())"

definition validate_email_policy :: "string \<Rightarrow> blocklist_policy \<Rightarrow> failure + unit" where
  "validate_email_policy email policy =
     (let normalized = to_lower (trim email);
          parts = split_on (CHR ''@'') normalized;
          local_part = hd parts;
          domain = (if length parts > 1 then parts ! 1 else []);
          entries = filter (\<lambda>e. e \<noteq> []) (map (\<lambda>e. to_lower (trim e)) (bl_entries policy))
      in if local_part = [] \<or> domain = [] then Inl (bad_request ''Email address is invalid.'')
         else if bl_block_subaddressing policy \<and> CHR ''+'' \<in> set local_part then
           Inl (bad_request ''Email subaddressing is not allowed.'')
         else if normalized \<in> set entries \<or> domain \<in> set entries then
           Inl (bad_request ''Email address is not allowed.'')
         else Inr ())"

section \<open>What an accepted password and address satisfy\<close>

lemma has_sequential_run_iff:
  "has_sequential_run s \<longleftrightarrow>
     (\<exists>i. i + 2 < length s \<and>
        run_of_three (int (code_at (s ! i))) (int (code_at (s ! (i + 1)))) (int (code_at (s ! (i + 2)))))"
    (is "_ \<longleftrightarrow> (\<exists>i. ?run s i)")
proof (induction s rule: has_sequential_run.induct)
  case (1 a b c s)
  have "(\<exists>i. ?run (a # b # c # s) i) \<longleftrightarrow>
      ?run (a # b # c # s) 0 \<or> (\<exists>i. ?run (a # b # c # s) (Suc i))"
    by (metis not0_implies_Suc)
  with "1.IH" show ?case by simp
qed auto

lemma character_type_count_bound: "character_type_count password \<le> 4"
  unfolding character_type_count_def by (rule order_trans [OF length_filter_le]) simp

text \<open>
  A password the policy accepts is long enough, mixes the required number of character
  types, and, for each rule that is switched on, has no window of three equal, ascending or
  descending characters, contains no name of its user and no blocked word of three or more
  characters; and a password with these properties is accepted.
\<close>

theorem password_policy_exact:
  "validate_password_policy password policy user = Inr () \<longleftrightarrow>
     pp_min_length policy \<le> length password \<and>
     pp_required_character_types policy \<le> character_type_count password \<and>
     (pp_reject_sequential policy \<longrightarrow>
        \<not> (\<exists>i. i + 2 < length password \<and>
             run_of_three (int (code_at (to_lower password ! i))) (int (code_at (to_lower password ! (i + 1))))
               (int (code_at (to_lower password ! (i + 2)))))) \<and>
     (pp_reject_user_info policy \<longrightarrow>
        (\<forall>part \<in> set (user_parts user). \<not> (\<exists>a b. to_lower password = a @ part @ b))) \<and>
     (pp_reject_custom_words policy \<longrightarrow>
        (\<forall>word \<in> set (pp_custom_words policy). 3 \<le> length word \<longrightarrow>
           \<not> (\<exists>a b. to_lower password = a @ to_lower word @ b)))"
  unfolding has_sequential_run_iff [of "to_lower password", simplified to_lower_def length_map, folded to_lower_def, symmetric]
    str_includes_iff [symmetric]
  by (auto simp: validate_password_policy_def Let_def list_ex_iff long_enough_def to_lower_def)

theorem password_policy_exact_witness:
  "validate_password_policy ''Tr0ub4dor&x''
     \<lparr>pp_min_length = 8, pp_required_character_types = 3, pp_custom_words = [''Acme''], pp_reject_user_info = True,
      pp_reject_sequential = True, pp_reject_custom_words = True\<rparr>
     \<lparr>pu_email = Some ''alice@example.com'', pu_name = Some ''Al'', pu_username = None\<rparr> = Inr () \<and>
   \<not> (\<exists>a b. to_lower ''Tr0ub4dor&x'' = a @ to_lower ''Acme'' @ b)"
proof -
  let ?policy = "\<lparr>pp_min_length = 8, pp_required_character_types = 3, pp_custom_words = [''Acme''],
      pp_reject_user_info = True, pp_reject_sequential = True, pp_reject_custom_words = True\<rparr>"
  let ?user = "\<lparr>pu_email = Some ''alice@example.com'', pu_name = Some ''Al'', pu_username = None\<rparr>"
  have ok: "validate_password_policy ''Tr0ub4dor&x'' ?policy ?user = Inr ()" by code_simp
  have "\<forall>word \<in> set (pp_custom_words ?policy). 3 \<le> length word \<longrightarrow>
      \<not> (\<exists>a b. to_lower ''Tr0ub4dor&x'' = a @ to_lower word @ b)"
    using password_policy_exact [of "''Tr0ub4dor&x''" ?policy ?user] ok by simp
  then show ?thesis using ok by simp
qed

text \<open>
  An accepted address has a non-empty local part and domain, carries no subaddress when
  those are blocked, and neither it nor its domain is on the blocklist, whatever the letter
  case and the surrounding blanks of the address and of the entries.
\<close>

theorem email_policy_sound:
  assumes "validate_email_policy email policy = Inr ()"
  obtains local_part domain rest where
    "split_on (CHR ''@'') (to_lower (trim email)) = local_part # domain # rest"
    "local_part \<noteq> []" "domain \<noteq> []"
    "bl_block_subaddressing policy \<Longrightarrow> CHR ''+'' \<notin> set local_part"
    "\<And>entry. entry \<in> set (bl_entries policy) \<Longrightarrow>
        to_lower (trim entry) \<noteq> to_lower (trim email) \<and> to_lower (trim entry) \<noteq> domain"
proof -
  let ?parts = "split_on (CHR ''@'') (to_lower (trim email))"
  obtain l ps where parts: "?parts = l # ps" by (cases ?parts) auto
  with assms obtain d rest where ps: "ps = d # rest"
    by (cases ps) (auto simp: validate_email_policy_def Let_def split: if_splits)
  have whole: "to_lower (trim email) \<noteq> []"
    using split_on_join [of "CHR ''@''" "to_lower (trim email)"] parts ps assms
    by (auto simp: validate_email_policy_def Let_def split: if_splits)
  show ?thesis
    using assms parts ps whole
    by (intro that [of l d rest]) (auto simp: validate_email_policy_def Let_def image_iff split: if_splits)
qed

theorem email_policy_sound_witness:
  "validate_email_policy '' Bob@Corp.example '' \<lparr>bl_block_subaddressing = True, bl_entries = ['' Evil.example'']\<rparr> = Inr () \<and>
   (\<exists>local_part domain rest. split_on (CHR ''@'') (to_lower (trim '' Bob@Corp.example '')) = local_part # domain # rest \<and> domain \<noteq> [])"
proof -
  have ok: "validate_email_policy '' Bob@Corp.example ''
      \<lparr>bl_block_subaddressing = True, bl_entries = ['' Evil.example'']\<rparr> = Inr ()" by code_simp
  show ?thesis using ok by (rule email_policy_sound) (use ok in blast)
qed

end
