(* ===== verification/Password_Hash.thy ===== *)
theory Password_Hash
  imports Role_Scope Failures "HOL-Library.Word"
begin

unbundle bit_operations_syntax

text \<open>
  Password hashes (\<open>server/domain/password.ts\<close>): the stored text form, its base64url parts and
  the constant-time comparison. The key derivation, the random salt and the reading of a
  number are functions of the platform, so they are arguments: \<open>pbkdf2 password salt n\<close> gives
  the 32 key bytes, \<open>number s\<close> the value of \<open>Number(s)\<close> where it is an integer.
\<close>

section \<open>Base64url\<close>

definition b64_alphabet :: string where
  "b64_alphabet = ''ABCDEFGHIJKLMNOPQRSTUVWXYZabcdefghijklmnopqrstuvwxyz0123456789+/''"

definition b64_char :: "nat \<Rightarrow> char" where
  "b64_char n = b64_alphabet ! n"

definition b64_value :: "char \<Rightarrow> nat option" where
  "b64_value c =
     (let n = length (takeWhile (\<lambda>d. d \<noteq> c) b64_alphabet) in if n < 64 then Some n else None)"

text \<open>\<open>btoa\<close>: three bytes are four sextets; \<open>sextets\<close> leaves the padding out, \<open>btoa\<close> adds it.\<close>

fun sextets :: "nat list \<Rightarrow> nat list" where
  "sextets (a # b # c # bs) =
     a div 4 # (a mod 4 * 16 + b div 16) # (b mod 16 * 4 + c div 64) # c mod 64 # sextets bs"
| "sextets [a, b] = [a div 4, a mod 4 * 16 + b div 16, b mod 16 * 4]"
| "sextets [a] = [a div 4, a mod 4 * 16]"
| "sextets [] = []"

fun from_sextets :: "nat list \<Rightarrow> nat list option" where
  "from_sextets (p # q # r # s # ss) =
     map_option (\<lambda>bs. (p * 4 + q div 16) # (q mod 16 * 16 + r div 4) # (r mod 4 * 64 + s) # bs) (from_sextets ss)"
| "from_sextets [p, q, r] = Some [p * 4 + q div 16, q mod 16 * 16 + r div 4]"
| "from_sextets [p, q] = Some [p * 4 + q div 16]"
| "from_sextets [p] = None"
| "from_sextets [] = Some []"

definition b64_padding :: "nat \<Rightarrow> string" where
  "b64_padding n = replicate ((4 - n mod 4) mod 4) (CHR ''='')"

definition btoa :: "nat list \<Rightarrow> string" where
  "btoa bs = map b64_char (sextets bs) @ b64_padding (length (sextets bs))"

text \<open>\<open>atob\<close> drops blanks, then at most two padding characters of a text of whole quads.\<close>

definition strip_padding :: "string \<Rightarrow> string" where
  "strip_padding s =
     (if s \<noteq> [] \<and> length s mod 4 = 0 \<and> last s = CHR ''='' then
        (if butlast s \<noteq> [] \<and> last (butlast s) = CHR ''='' then butlast (butlast s) else butlast s)
      else s)"

text \<open>ASCII whitespace, which has neither the vertical tab nor the no-break space.\<close>

definition is_ascii_space :: "char \<Rightarrow> bool" where
  "is_ascii_space c \<longleftrightarrow> (of_char c :: nat) \<in> {9, 10, 12, 13, 32}"

definition atob :: "string \<Rightarrow> nat list option" where
  "atob s =
     (let body = strip_padding (filter (\<lambda>c. \<not> is_ascii_space c) s);
          values = map b64_value body
      in if None \<in> set values then None else from_sextets (map the values))"

definition to_url_char :: "char \<Rightarrow> char" where
  "to_url_char c = (if c = CHR ''+'' then CHR ''-'' else if c = CHR ''/'' then CHR ''_'' else c)"

definition from_url_char :: "char \<Rightarrow> char" where
  "from_url_char c = (if c = CHR ''-'' then CHR ''+'' else if c = CHR ''_'' then CHR ''/'' else c)"

definition encode_base64_url :: "nat list \<Rightarrow> string" where
  "encode_base64_url bs =
     rev (dropWhile (\<lambda>c. c = CHR ''='') (rev (map to_url_char (btoa bs))))"

definition decode_base64_url :: "string \<Rightarrow> nat list option" where
  "decode_base64_url value =
     atob (map from_url_char value @ b64_padding (length value))"

section \<open>Hashing and verifying\<close>

definition hash_format :: string where "hash_format = ''pbkdf2-sha256''"
definition iterations_text :: string where "iterations_text = ''100000''"
definition default_iterations :: nat where "default_iterations = 100000"
definition max_iterations :: int where "max_iterations = 210000"

text \<open>\<open>result |= a[i] ^ b[i]\<close> over the two arrays, on 32-bit integers.\<close>

definition timing_safe_equal :: "nat list \<Rightarrow> nat list \<Rightarrow> bool" where
  "timing_safe_equal a b \<longleftrightarrow>
     length a = length b \<and>
     foldl (\<lambda>r (x, y). r OR ((of_nat x :: 32 word) XOR of_nat y)) 0 (zip a b) = 0"

definition parse_iterations :: "(string \<Rightarrow> int option) \<Rightarrow> string \<Rightarrow> failure + nat" where
  "parse_iterations number value =
     (case number value of
        None \<Rightarrow> Inl (PlainError (''Unsupported password hash iterations: '' @ value))
      | Some n \<Rightarrow>
          if n < 1 \<or> max_iterations < n
          then Inl (PlainError (''Unsupported password hash iterations: '' @ value))
          else Inr (nat n))"

definition hash_password :: "(string \<Rightarrow> nat list \<Rightarrow> nat \<Rightarrow> nat list) \<Rightarrow> nat list \<Rightarrow> string \<Rightarrow> string" where
  "hash_password pbkdf2 salt password =
     join_with '':'' [hash_format, iterations_text, encode_base64_url salt,
       encode_base64_url (pbkdf2 password salt default_iterations)]"

definition nth_part :: "string list \<Rightarrow> nat \<Rightarrow> string option" where
  "nth_part parts i = (if i < length parts then Some (parts ! i) else None)"

definition decode_part :: "string option \<Rightarrow> failure + nat list" where
  "decode_part part =
     (case part of
        None \<Rightarrow> Inl (PlainError ''TypeError'')
      | Some s \<Rightarrow> (case decode_base64_url s of None \<Rightarrow> Inl (PlainError ''InvalidCharacterError'') | Some bs \<Rightarrow> Inr bs))"

definition verify_password ::
  "(string \<Rightarrow> int option) \<Rightarrow> (string \<Rightarrow> nat list \<Rightarrow> nat \<Rightarrow> nat list) \<Rightarrow> string \<Rightarrow> string \<Rightarrow> failure + bool" where
  "verify_password number pbkdf2 hash password =
     (let parts = split_on (CHR '':'') hash in
      if hd parts \<noteq> hash_format then Inl (PlainError (''Unsupported password hash format: '' @ hd parts))
      else (case nth_part parts 1 of
              None \<Rightarrow> Inl (PlainError ''Unsupported password hash iterations: undefined'')
            | Some it \<Rightarrow>
                (case parse_iterations number it of
                   Inl e \<Rightarrow> Inl e
                 | Inr iterations \<Rightarrow>
                     (case decode_part (nth_part parts 2) of
                        Inl e \<Rightarrow> Inl e
                      | Inr salt \<Rightarrow>
                          (case decode_part (nth_part parts 3) of
                             Inl e \<Rightarrow> Inl e
                           | Inr expected \<Rightarrow>
                               Inr (timing_safe_equal (pbkdf2 password salt iterations) expected))))))"

section \<open>Round trip of the base64url form\<close>

definition is_byte_list :: "nat list \<Rightarrow> bool" where
  "is_byte_list bs \<longleftrightarrow> list_all (\<lambda>b. b < 256) bs"

lemma b64_facts: "list_all (\<lambda>n. b64_value (b64_char n) = Some n \<and> \<not> is_ascii_space (b64_char n) \<and>
    b64_char n \<noteq> CHR ''='' \<and> from_url_char (to_url_char (b64_char n)) = b64_char n \<and>
    to_url_char (b64_char n) \<noteq> CHR ''='' \<and> to_url_char (b64_char n) \<noteq> CHR '':'') [0..<64]"
  by code_simp

lemma b64_simps [simp]:
  assumes "n < 64"
  shows "b64_value (b64_char n) = Some n" "\<not> is_ascii_space (b64_char n)"
    "b64_char n \<noteq> CHR ''=''" "from_url_char (to_url_char (b64_char n)) = b64_char n"
    "to_url_char (b64_char n) \<noteq> CHR ''=''" "to_url_char (b64_char n) \<noteq> CHR '':''"
  using assms b64_facts by (simp_all add: list_all_iff)

lemma sextets_bound: "is_byte_list bs \<Longrightarrow> s \<in> set (sextets bs) \<Longrightarrow> s < 64"
  by (induction bs rule: sextets.induct) (auto simp: is_byte_list_def)

lemma from_sextets_sextets: "is_byte_list bs \<Longrightarrow> from_sextets (sextets bs) = Some bs"
proof (induction bs rule: sextets.induct)
  case (1 a b c bs)
  then have "a < 256" "b < 256" "c < 256" "is_byte_list bs" by (auto simp: is_byte_list_def)
  with 1 show ?case by simp
next
  case (2 a b)
  then have "a < 256" "b < 256" by (auto simp: is_byte_list_def)
  then show ?case by simp
next
  case (3 a)
  then have "a < 256" by (auto simp: is_byte_list_def)
  then show ?case by simp
qed simp

lemma sextets_length: "length (sextets bs) mod 4 \<noteq> 1"
  by (induction bs rule: sextets.induct) auto

lemma to_url_padding: "map to_url_char (b64_padding n) = b64_padding n"
  by (simp add: b64_padding_def to_url_char_def map_replicate)

lemma strip_replicate: "dropWhile (\<lambda>c. c = x) (replicate k x @ s) = dropWhile (\<lambda>c. c = x) s"
  by (induction k) auto

lemma dropWhile_absent: "(\<And>c. c \<in> set s \<Longrightarrow> c \<noteq> x) \<Longrightarrow> dropWhile (\<lambda>c. c = x) s = s"
  by (cases s) auto

lemma encode_base64_url_eq:
  assumes "is_byte_list bs"
  shows "encode_base64_url bs = map (\<lambda>n. to_url_char (b64_char n)) (sextets bs)"
proof -
  let ?body = "map (\<lambda>n. to_url_char (b64_char n)) (sextets bs)"
  have "c \<noteq> CHR ''=''" if "c \<in> set (rev ?body)" for c
    using that sextets_bound [OF assms] by auto
  then have "dropWhile (\<lambda>c. c = CHR ''='') (rev ?body) = rev ?body"
    by (rule dropWhile_absent)
  then show ?thesis
    by (simp add: encode_base64_url_def btoa_def to_url_padding comp_def) (simp add: b64_padding_def strip_replicate)
qed

lemma strip_padding_body:
  assumes "\<And>c. c \<in> set s \<Longrightarrow> c \<noteq> CHR ''=''" and "length s mod 4 \<noteq> 1"
  shows "strip_padding (s @ b64_padding (length s)) = s"
proof -
  have plain: "s = [] \<or> last s \<noteq> CHR ''=''" using assms(1) last_in_set by blast
  consider "length s mod 4 = 0" | "length s mod 4 = 2" | "length s mod 4 = 3"
    using assms(2) mod_less_divisor [of 4 "length s"] by linarith
  then show ?thesis
  proof cases
    case 1
    with plain show ?thesis by (auto simp: b64_padding_def strip_padding_def)
  next
    case 2
    then have pad: "b64_padding (length s) = [CHR ''='', CHR ''='']"
      by (simp add: b64_padding_def numeral_2_eq_2)
    have "(length s + 2) mod 4 = 0" using 2 by presburger
    then show ?thesis by (simp add: pad strip_padding_def butlast_append)
  next
    case 3
    then have pad: "b64_padding (length s) = [CHR ''='']" by (simp add: b64_padding_def)
    have "(length s + 1) mod 4 = 0" using 3 by presburger
    with plain 3 show ?thesis by (auto simp: pad strip_padding_def butlast_append)
  qed
qed

lemma base64_url_round_trip:
  assumes "is_byte_list bs"
  shows "decode_base64_url (encode_base64_url bs) = Some bs"
proof -
  let ?s = "map b64_char (sextets bs)"
  have bound: "\<And>n. n \<in> set (sextets bs) \<Longrightarrow> n < 64" using sextets_bound [OF assms] by blast
  have decoded: "map (from_url_char \<circ> (\<lambda>n. to_url_char (b64_char n))) (sextets bs) = ?s"
    using bound by (intro map_cong) auto
  have padding: "filter (\<lambda>c. \<not> is_ascii_space c) (b64_padding n) = b64_padding n" for n
    by (auto simp: b64_padding_def is_ascii_space_def filter_replicate)
  have body: "filter (\<lambda>c. \<not> is_ascii_space c) ?s = ?s"
    using bound by (auto simp: filter_id_conv)
  have strip: "strip_padding (?s @ b64_padding (length (sextets bs))) = ?s"
  proof -
    have "strip_padding (?s @ b64_padding (length ?s)) = ?s"
    proof (rule strip_padding_body)
      show "length ?s mod 4 \<noteq> 1" using sextets_length [of bs] by simp
      show "c \<noteq> CHR ''=''" if "c \<in> set ?s" for c using that bound by auto
    qed
    then show ?thesis by simp
  qed
  have vals: "map b64_value ?s = map Some (sextets bs)" using bound by simp
  have "decode_base64_url (encode_base64_url bs) = atob (?s @ b64_padding (length (sextets bs)))"
    by (simp add: decode_base64_url_def encode_base64_url_eq [OF assms] decoded)
  also have "\<dots> = from_sextets (sextets bs)"
    by (simp only: atob_def Let_def filter_append body padding strip vals) (auto simp: comp_def)
  finally show ?thesis using from_sextets_sextets [OF assms] by simp
qed

interpretation base64_url: codec encode_base64_url decode_base64_url is_byte_list
  by unfold_locales (rule base64_url_round_trip)

section \<open>Verification accepts exactly the hashed password's key\<close>

lemma fold_or_zero:
  fixes f :: "'a \<Rightarrow> 32 word"
  shows "foldl (\<lambda>r x. r OR f x) acc xs = 0 \<longleftrightarrow> acc = 0 \<and> (\<forall>x \<in> set xs. f x = 0)"
  by (induction xs arbitrary: acc) (auto simp: or_eq_0_iff)

lemma word_xor_eq_0: "(a :: 32 word) XOR b = 0 \<longleftrightarrow> a = b"
  by (metis xor.assoc xor.left_neutral xor.right_neutral xor_self_eq)

lemma word_of_byte_eq:
  assumes "x < 256" "y < 256"
  shows "(of_nat x :: 32 word) = of_nat y \<longleftrightarrow> x = y"
  using assms by (simp add: word_of_nat_eq_iff take_bit_nat_eq_self)

lemma timing_safe_equal_iff:
  assumes "is_byte_list a" "is_byte_list b"
  shows "timing_safe_equal a b \<longleftrightarrow> a = b"
proof -
  have "timing_safe_equal a b \<longleftrightarrow>
      length a = length b \<and> (\<forall>p \<in> set (zip a b). (of_nat (fst p) :: 32 word) XOR of_nat (snd p) = 0)"
    unfolding timing_safe_equal_def
    using fold_or_zero [of "\<lambda>p. (of_nat (fst p) :: 32 word) XOR of_nat (snd p)" 0 "zip a b"]
    by (simp add: case_prod_unfold)
  also have "\<dots> \<longleftrightarrow> length a = length b \<and> (\<forall>p \<in> set (zip a b). fst p = snd p)"
  proof -
    have "(of_nat (fst p) :: 32 word) XOR of_nat (snd p) = 0 \<longleftrightarrow> fst p = snd p" if "p \<in> set (zip a b)" for p
    proof -
      have "fst p \<in> set a" "snd p \<in> set b"
        using that by (metis prod.collapse set_zip_leftD, metis prod.collapse set_zip_rightD)
      then have "fst p < 256" "snd p < 256" using assms by (auto simp: is_byte_list_def list_all_iff)
      then show ?thesis by (simp add: word_xor_eq_0 word_of_byte_eq)
    qed
    then show ?thesis by blast
  qed
  also have "\<dots> \<longleftrightarrow> a = b"
    by (auto simp: list_eq_iff_zip_eq case_prod_unfold)
  finally show ?thesis .
qed

lemma no_colon_encoded:
  assumes "is_byte_list bs"
  shows "CHR '':'' \<notin> set (encode_base64_url bs)"
proof
  assume "CHR '':'' \<in> set (encode_base64_url bs)"
  then obtain n where "n \<in> set (sextets bs)" "to_url_char (b64_char n) = CHR '':''"
    by (auto simp: encode_base64_url_eq [OF assms])
  with sextets_bound [OF assms] b64_simps(6) show False by blast
qed

lemma split_hash:
  assumes "is_byte_list salt" "is_byte_list key"
  shows "split_on (CHR '':'') (join_with '':'' [hash_format, iterations_text, encode_base64_url salt, encode_base64_url key])
    = [hash_format, iterations_text, encode_base64_url salt, encode_base64_url key]"
proof -
  have "CHR '':'' \<notin> set hash_format" "CHR '':'' \<notin> set iterations_text" by code_simp+
  then show ?thesis
    using no_colon_encoded [OF assms(1)] no_colon_encoded [OF assms(2)]
    by (simp add: split_on_append split_on_absent)
qed

text \<open>
  C36. Verifying a password against the hash the same derivation made of another password
  answers whether the two derive the same key: the hashed password itself always verifies,
  and no password with a different key does.
\<close>

theorem verify_hashed_password:
  assumes "is_byte_list salt"
    and "\<And>p. is_byte_list (pbkdf2 p salt default_iterations)"
    and "number iterations_text = Some (int default_iterations)"
  shows "verify_password number pbkdf2 (hash_password pbkdf2 salt password) attempt =
     Inr (pbkdf2 attempt salt default_iterations = pbkdf2 password salt default_iterations)"
  using assms
  by (simp add: verify_password_def hash_password_def split_hash [simplified] Let_def nth_part_def decode_part_def
      parse_iterations_def max_iterations_def default_iterations_def base64_url_round_trip timing_safe_equal_iff)

definition toy_kdf :: "string \<Rightarrow> nat list \<Rightarrow> nat \<Rightarrow> nat list" where
  "toy_kdf password salt n = map byte_of password @ salt"

theorem verify_hashed_password_witness:
  "verify_password (\<lambda>s. if s = iterations_text then Some (int default_iterations) else None) toy_kdf
     (hash_password toy_kdf [1, 250, 7] ''secret'') ''secret'' = Inr True \<and>
   verify_password (\<lambda>s. if s = iterations_text then Some (int default_iterations) else None) toy_kdf
     (hash_password toy_kdf [1, 250, 7] ''secret'') ''Secret'' = Inr False"
proof -
  let ?number = "\<lambda>s. if s = iterations_text then Some (int default_iterations) else None"
  have salt: "is_byte_list [1, 250, 7]" by (simp add: is_byte_list_def)
  have kdf: "is_byte_list (toy_kdf p [1, 250, 7] default_iterations)" for p
    by (simp add: is_byte_list_def toy_kdf_def list_all_iff)
  have differ: "toy_kdf ''Secret'' [1, 250, 7] default_iterations \<noteq> toy_kdf ''secret'' [1, 250, 7] default_iterations"
    by (simp add: toy_kdf_def byte_of_def)
  note run = verify_hashed_password [OF salt, of toy_kdf ?number, OF kdf, simplified]
  show ?thesis using run [of "''secret''" "''secret''"] run [of "''secret''" "''Secret''"] differ by simp
qed

text \<open>
  A stored hash is only ever checked with an iteration count between 1 and 210000:
  any other format or count is an error, never a verdict.
\<close>

theorem verify_bounds_iterations:
  assumes "verify_password number pbkdf2 hash password = Inr verdict"
  shows "\<exists>it n. nth_part (split_on (CHR '':'') hash) 1 = Some it \<and> number it = Some n \<and> 1 \<le> n \<and> n \<le> 210000"
  using assms
  by (auto simp: verify_password_def Let_def parse_iterations_def max_iterations_def
      split: if_splits option.splits sum.splits)

theorem verify_bounds_iterations_witness:
  "verify_password (\<lambda>s. Some 210000) toy_kdf ''pbkdf2-sha256:210000:AQ:AQ'' [] = Inr True \<and>
   (\<exists>n. 1 \<le> n \<and> n \<le> (210000 :: int))"
proof -
  have parts: "split_on (CHR '':'') ''pbkdf2-sha256:210000:AQ:AQ'' = [hash_format, ''210000'', ''AQ'', ''AQ'']"
    by code_simp
  have one: "decode_base64_url ''AQ'' = Some [1]" by code_simp
  have "is_byte_list [1]" by (simp add: is_byte_list_def)
  then have same: "timing_safe_equal [1] [1]" using timing_safe_equal_iff by blast
  have run: "verify_password (\<lambda>s. Some 210000) toy_kdf ''pbkdf2-sha256:210000:AQ:AQ'' [] = Inr True"
    unfolding verify_password_def parts
    using same by (simp add: Let_def nth_part_def decode_part_def one parse_iterations_def max_iterations_def toy_kdf_def)
  show ?thesis using run verify_bounds_iterations [OF run] by blast
qed

end
