(* ===== verification/Connector_Drivers.thy ===== *)
theory Connector_Drivers
  imports Failures
begin

text \<open>
  The connector catalogue (\<open>server/domain/connectors/provider-templates.ts\<close>) and the driver a
  generic OIDC connector gives a resource (\<open>resource-oauth-driver.ts\<close>). A provider's metadata
  is a JSON object. The driver's closures over the connector are definitions that take it.
\<close>

section \<open>Provider templates\<close>

datatype provider_type = Social | Generic_oauth

record connector_capabilities =
  cc_authentication :: bool
  cc_resource_authorization :: bool

record connector_template =
  ct_provider_type :: provider_type
  ct_provider_id :: string
  ct_display_name :: string
  ct_icon :: string
  ct_capabilities :: connector_capabilities
  ct_required_fields :: "string list"
  ct_optional_fields :: "string list"
  ct_default_scopes :: "string list"
  ct_endpoints :: "(string \<times> string option) list"

definition social_provider_ids :: "string list" where
  "social_provider_ids = [''apple'', ''atlassian'', ''cognito'', ''discord'', ''dropbox'', ''facebook'',
     ''figma'', ''github'', ''gitlab'', ''google'', ''huggingface'', ''kick'', ''kakao'', ''linear'',
     ''linkedin'', ''line'', ''microsoft'', ''naver'', ''notion'', ''paybin'', ''paypal'', ''polar'',
     ''railway'', ''reddit'', ''roblox'', ''salesforce'', ''slack'', ''spotify'', ''tiktok'', ''twitch'',
     ''twitter'', ''vercel'', ''vk'', ''wechat'', ''zoom'']"

text \<open>\<open>part[0]?.toUpperCase() + part.slice(1)\<close>: of an empty part this is the text of \<open>undefined\<close>.\<close>

definition capitalize_part :: "string \<Rightarrow> string" where
  "capitalize_part part = (case part of [] \<Rightarrow> ''undefined'' | c # s \<Rightarrow> upper_char c # s)"

definition display_name :: "string \<Rightarrow> string" where
  "display_name provider_id =
     (if provider_id = ''github'' then ''GitHub''
      else if provider_id = ''gitlab'' then ''GitLab''
      else if provider_id = ''google'' then ''Google''
      else if provider_id = ''microsoft'' then ''Microsoft''
      else if provider_id = ''paypal'' then ''PayPal''
      else if provider_id = ''paybin'' then ''Paybin''
      else if provider_id = ''vk'' then ''VK''
      else if provider_id = ''wechat'' then ''WeChat''
      else join_with '' '' (map capitalize_part (split_on (CHR ''-'') provider_id)))"

definition provider_icon :: "string \<Rightarrow> string" where
  "provider_icon provider_id =
     (if provider_id \<in> set [''github'', ''gitlab'', ''google'', ''microsoft'', ''facebook'', ''apple'',
          ''discord'', ''slack'', ''linkedin'']
      then provider_id else ''oauth'')"

definition required_social_fields :: "string \<Rightarrow> string list" where
  "required_social_fields provider_id =
     (if provider_id = ''cognito'' then
        [''clientId'', ''clientSecret'', ''providerMetadata.domain'', ''providerMetadata.region'',
         ''providerMetadata.userPoolId'']
      else [''clientId'', ''clientSecret''])"

definition connector_capabilities_of :: "provider_type \<Rightarrow> string \<Rightarrow> connector_capabilities" where
  "connector_capabilities_of ptype provider_id =
     \<lparr>cc_authentication = True,
      cc_resource_authorization =
        (ptype = Generic_oauth \<or> provider_id = ''linear'' \<or> provider_id = ''github'')\<rparr>"

definition connector_templates :: "connector_template list" where
  "connector_templates = map (\<lambda>provider_id.
     \<lparr>ct_provider_type = Social, ct_provider_id = provider_id, ct_display_name = display_name provider_id,
      ct_icon = provider_icon provider_id, ct_capabilities = connector_capabilities_of Social provider_id,
      ct_required_fields = required_social_fields provider_id, ct_optional_fields = [],
      ct_default_scopes = [],
      ct_endpoints = [(''issuer'', None), (''authorizationEndpoint'', None), (''tokenEndpoint'', None),
        (''userInfoEndpoint'', None), (''jwksEndpoint'', None)]\<rparr>) social_provider_ids"

definition is_supported_provider :: "provider_type \<Rightarrow> string \<Rightarrow> bool" where
  "is_supported_provider ptype provider_id \<longleftrightarrow>
     (ptype = Generic_oauth \<or> provider_id \<in> set social_provider_ids)"

section \<open>The resource driver\<close>

record resource_oauth_connector =
  rc_enabled :: bool
  rc_authorization_endpoint :: "string option"
  rc_token_endpoint :: "string option"
  rc_user_info_endpoint :: "string option"
  rc_revocation_endpoint :: "string option"
  rc_provider_metadata :: "(string \<times> json) list option"

record resource_oauth_profile =
  rp_external_subject :: string
  rp_display_name :: string

datatype endpoint_authentication = Basic | Post | No_authentication

record resource_oauth_driver =
  rd_authorization_endpoint :: string
  rd_token_endpoint :: string
  rd_user_info_endpoint :: string
  rd_revocation_endpoint :: string
  rd_token_authentication :: endpoint_authentication
  rd_revocation_authentication :: endpoint_authentication
  rd_details_mode :: string
  rd_revoke_access_token :: bool
  rd_authorization_parameters :: "(string \<times> string) list"
  rd_scope_separator :: string
  rd_identity_scopes :: "string list"

definition metadata_list :: "(string \<times> json) list option \<Rightarrow> string \<Rightarrow> json list option" where
  "metadata_list metadata key =
     (case metadata of None \<Rightarrow> None
      | Some m \<Rightarrow> (case map_of m key of Some (JArr xs) \<Rightarrow> Some xs | _ \<Rightarrow> None))"

definition supports_scope :: "(string \<times> json) list option \<Rightarrow> string \<Rightarrow> bool" where
  "supports_scope metadata scope =
     (case metadata_list metadata ''scopes_supported'' of
        None \<Rightarrow> False | Some xs \<Rightarrow> JStr scope \<in> set xs)"

definition generic_token_endpoint_authentication :: "resource_oauth_connector \<Rightarrow> endpoint_authentication" where
  "generic_token_endpoint_authentication c =
     (case metadata_list (rc_provider_metadata c) ''token_endpoint_auth_methods_supported'' of
        None \<Rightarrow> Basic
      | Some methods \<Rightarrow>
          if JStr ''client_secret_post'' \<in> set methods \<and> JStr ''client_secret_basic'' \<notin> set methods
          then Post else Basic)"

definition generic_oidc_driver :: "resource_oauth_connector \<Rightarrow> resource_oauth_driver option" where
  "generic_oidc_driver c =
     (case (present (rc_authorization_endpoint c), present (rc_token_endpoint c),
            present (rc_user_info_endpoint c), present (rc_revocation_endpoint c)) of
        (Some authorization, Some token, Some user_info, Some revocation) \<Rightarrow>
          Some \<lparr>rd_authorization_endpoint = authorization, rd_token_endpoint = token,
                rd_user_info_endpoint = user_info, rd_revocation_endpoint = revocation,
                rd_token_authentication = generic_token_endpoint_authentication c,
                rd_revocation_authentication = generic_token_endpoint_authentication c,
                rd_details_mode = ''provider'', rd_revoke_access_token = True,
                rd_authorization_parameters = [(''prompt'', ''consent'')],
                rd_scope_separator = '' '',
                rd_identity_scopes =
                  (if supports_scope (rc_provider_metadata c) ''profile''
                   then [''openid'', ''offline_access'', ''profile''] else [''openid'', ''offline_access''])\<rparr>
      | _ \<Rightarrow> None)"

definition resource_oauth_driver_of :: "resource_oauth_connector \<Rightarrow> resource_oauth_driver option" where
  "resource_oauth_driver_of c = (if rc_enabled c then generic_oidc_driver c else None)"

definition normalize_driver_scopes :: "resource_oauth_driver \<Rightarrow> string list \<Rightarrow> string list" where
  "normalize_driver_scopes d scopes = sort (uniq (scopes @ rd_identity_scopes d))"

text \<open>The walk along a path of members; only a non-empty string at its end counts.\<close>

primrec nested_value :: "json \<Rightarrow> string list \<Rightarrow> json option" where
  "nested_value v [] = Some v"
| "nested_value v (k # path) =
     (case v of
        JObj members \<Rightarrow> nested_value (case map_of members k of None \<Rightarrow> JUndefined | Some w \<Rightarrow> w) path
      | _ \<Rightarrow> None)"

definition optional_nested_string :: "json \<Rightarrow> string list \<Rightarrow> string option" where
  "optional_nested_string v path =
     (case nested_value v path of Some (JStr s) \<Rightarrow> if s = [] then None else Some s | _ \<Rightarrow> None)"

definition required_nested_string :: "json \<Rightarrow> string list \<Rightarrow> string \<Rightarrow> failure + string" where
  "required_nested_string v path label =
     (case optional_nested_string v path of
        None \<Rightarrow> Inl (PlainError (label @ '' is missing '' @ join_with ''.'' path @ ''.''))
      | Some s \<Rightarrow> Inr s)"

definition parse_profile :: "json \<Rightarrow> failure + resource_oauth_profile" where
  "parse_profile profile =
     (case required_nested_string profile [''sub''] ''OIDC userinfo response'' of
        Inl e \<Rightarrow> Inl e
      | Inr external_subject \<Rightarrow>
          Inr \<lparr>rp_external_subject = external_subject,
               rp_display_name =
                 (case optional_nested_string profile [''name''] of
                    Some name \<Rightarrow> name
                  | None \<Rightarrow> (case optional_nested_string profile [''preferred_username''] of
                      Some name \<Rightarrow> name | None \<Rightarrow> external_subject))\<rparr>)"

section \<open>What the driver sends\<close>

lemma generic_driver_SomeD:
  "generic_oidc_driver c = Some d \<Longrightarrow>
     rc_authorization_endpoint c = Some (rd_authorization_endpoint d) \<and> rd_authorization_endpoint d \<noteq> [] \<and>
     rc_token_endpoint c = Some (rd_token_endpoint d) \<and> rd_token_endpoint d \<noteq> [] \<and>
     rc_user_info_endpoint c = Some (rd_user_info_endpoint d) \<and> rd_user_info_endpoint d \<noteq> [] \<and>
     rc_revocation_endpoint c = Some (rd_revocation_endpoint d) \<and> rd_revocation_endpoint d \<noteq> [] \<and>
     rd_identity_scopes d = [''openid'', ''offline_access''] @
       (if supports_scope (rc_provider_metadata c) ''profile'' then [''profile''] else [])"
  by (auto simp: generic_oidc_driver_def split: option.splits)

text \<open>
  A connector has a resource driver only when resource authorization is enabled and all
  four endpoints are configured, and then the driver uses exactly those endpoints; the scope
  list it sends is sorted and free of duplicates, holds every requested scope and the identity
  scopes, asks for \<open>profile\<close> beyond the request only when the provider advertises it, and is a
  fixed point of the normalisation.
\<close>

theorem driver_scopes_normal:
  assumes "resource_oauth_driver_of c = Some d"
  shows "rc_enabled c \<and> rc_token_endpoint c = Some (rd_token_endpoint d) \<and>
     rc_revocation_endpoint c = Some (rd_revocation_endpoint d) \<and>
     sorted (normalize_driver_scopes d scopes) \<and> distinct (normalize_driver_scopes d scopes) \<and>
     set (normalize_driver_scopes d scopes) = set scopes \<union> {''openid'', ''offline_access''} \<union>
       (if supports_scope (rc_provider_metadata c) ''profile'' then {''profile''} else {}) \<and>
     normalize_driver_scopes d (normalize_driver_scopes d scopes) = normalize_driver_scopes d scopes"
proof -
  from assms have d: "rc_enabled c" "generic_oidc_driver c = Some d"
    by (auto simp: resource_oauth_driver_of_def split: if_splits)
  have "normalize_driver_scopes d (normalize_driver_scopes d scopes) = normalize_driver_scopes d scopes"
    by (rule sorted_distinct_set_unique) (auto simp: normalize_driver_scopes_def)
  with d generic_driver_SomeD [OF d(2)] show ?thesis
    by (auto simp: normalize_driver_scopes_def)
qed

definition sample_connector :: resource_oauth_connector where
  "sample_connector = \<lparr>rc_enabled = True, rc_authorization_endpoint = Some ''https://p/a'',
     rc_token_endpoint = Some ''https://p/t'', rc_user_info_endpoint = Some ''https://p/u'',
     rc_revocation_endpoint = Some ''https://p/r'',
     rc_provider_metadata = Some [(''scopes_supported'', JArr [JStr ''profile''])]\<rparr>"

theorem driver_scopes_normal_witness:
  "\<exists>d. resource_oauth_driver_of sample_connector = Some d \<and>
       set (normalize_driver_scopes d [''repo'', ''openid'']) = {''repo'', ''openid'', ''offline_access'', ''profile''}"
proof -
  have prof: "supports_scope (rc_provider_metadata sample_connector) ''profile''" by code_simp
  have "resource_oauth_driver_of sample_connector \<noteq> None" by code_simp
  then obtain d where d: "resource_oauth_driver_of sample_connector = Some d" by blast
  show ?thesis using d driver_scopes_normal [OF d, of "[''repo'', ''openid'']"] prof by auto
qed

lemma optional_member_iff:
  "optional_nested_string profile [k] = Some s \<longleftrightarrow>
     (\<exists>members. profile = JObj members \<and> map_of members k = Some (JStr s) \<and> s \<noteq> [])"
proof (cases profile)
  case (JObj members)
  then show ?thesis
    by (cases "map_of members k") (auto simp: optional_nested_string_def split: json.split)
qed (simp_all add: optional_nested_string_def)

lemma parse_profile_None:
  "optional_nested_string profile [''sub''] = None \<Longrightarrow> \<exists>e. parse_profile profile = Inl e"
  by (simp add: parse_profile_def required_nested_string_def)

lemma parse_profile_Some:
  assumes sub: "optional_nested_string profile [''sub''] = Some s"
  shows "\<exists>name. parse_profile profile = Inr \<lparr>rp_external_subject = s, rp_display_name = name\<rparr> \<and> name \<noteq> []"
proof -
  have nonempty: "optional_nested_string profile path = Some t \<Longrightarrow> t \<noteq> []" for path t
    by (auto simp: optional_nested_string_def split: option.splits json.splits if_splits)
  show ?thesis using nonempty [OF sub]
    by (cases "optional_nested_string profile [''name'']";
        cases "optional_nested_string profile [''preferred_username'']")
      (simp_all add: parse_profile_def required_nested_string_def sub nonempty)
qed

text \<open>
  A user-info answer is accepted exactly when it is an object with a non-empty string
  \<open>sub\<close>, which becomes the external subject; the display name is never empty.
\<close>

theorem parse_profile_exact:
  "((\<exists>p. parse_profile profile = Inr p) \<longleftrightarrow>
      (\<exists>members s. profile = JObj members \<and> map_of members ''sub'' = Some (JStr s) \<and> s \<noteq> [])) \<and>
   (\<forall>p. parse_profile profile = Inr p \<longrightarrow>
      optional_nested_string profile [''sub''] = Some (rp_external_subject p) \<and> rp_display_name p \<noteq> [])"
proof (cases "optional_nested_string profile [''sub'']")
  case None
  then show ?thesis
    using parse_profile_None [OF None] optional_member_iff [of profile "''sub''"] by fastforce
next
  case (Some s)
  then show ?thesis
    using parse_profile_Some [OF Some] optional_member_iff [of profile "''sub''"] by fastforce
qed

theorem parse_profile_exact_witness:
  "parse_profile (JObj [(''sub'', JStr ''42''), (''name'', JStr [])]) = Inr \<lparr>rp_external_subject = ''42'', rp_display_name = ''42''\<rparr> \<and>
   optional_nested_string (JObj [(''sub'', JStr ''42''), (''name'', JStr [])]) [''sub''] = Some ''42''"
proof -
  let ?v = "JObj [(''sub'', JStr ''42''), (''name'', JStr [])]"
  have run: "parse_profile ?v = Inr \<lparr>rp_external_subject = ''42'', rp_display_name = ''42''\<rparr>" by code_simp
  show ?thesis using run parse_profile_exact [of ?v] by fastforce
qed

end
