(* ===== verification/Resource_Schema.thy ===== *)
theory Resource_Schema
  imports Failures
begin

text \<open>
  The tables behind access to resources (\<open>server/db/schema/authorization-tables.ts\<close>,
  \<open>resource-scope-entitlement-tables.ts\<close>, \<open>external-resource-tables.ts\<close>, \<open>agent-token-tables.ts\<close>),
  one record per row type, with the columns the modelled code reads or writes. A nullable
  column is an option, a timestamp its milliseconds, a text column without an enumeration a
  string.
\<close>

section \<open>Organizations\<close>

record organization =
  og_id :: string
  og_slug :: string
  og_disabled :: bool
  og_created_at :: int

text \<open>The roles of a member are one text, separated by commas.\<close>

record organization_member =
  mb_id :: string
  mb_organization_id :: string
  mb_user_id :: string
  mb_role :: string
  mb_created_at :: int

text \<open>Of the permission object of an organization role, the member \<open>scope\<close>.\<close>

record organization_role =
  ol_organization_id :: string
  ol_role :: string
  ol_permission_scope :: "string list option"

text \<open>A team member joined with its team.\<close>

record team_membership =
  tm_organization_id :: string
  tm_team_name :: string
  tm_user_id :: string

section \<open>Resource servers\<close>

datatype authorization_model = Native_model | External_model
datatype visibility = Public_resource | Private_resource
datatype grant_mode = Automatic_grant | Assigned_grant

record declared_scope =
  ds_value :: string
  ds_grant_mode :: grant_mode

record resource_server =
  rs_id :: string
  rs_identifier :: string
  rs_name :: string
  rs_resource_url :: string
  rs_authorization_model :: authorization_model
  rs_connector_id :: "string option"
  rs_authorization_details :: "json list"
  rs_enabled :: bool
  rs_owner_organization_id :: string
  rs_visibility :: visibility
  rs_scope_registry :: "declared_scope list option"
  rs_available_to_agents :: bool
  rs_deleted_at :: "int option"
  rs_created_at :: int

text \<open>A resource account: its owner, and its credentials in the order they were created.\<close>

record provider_credential =
  pc_id :: string
  pc_encrypted_tokens :: string
  pc_granted_scopes :: "string list"
  pc_authorization_details :: "json list"
  pc_client_generation :: nat
  pc_credential_version :: nat
  pc_refresh_claim_id :: "string option"
  pc_refresh_claim_expires_at :: "int option"
  pc_status :: string
  pc_credential_expires_at :: "int option"
  pc_revoked_at :: "int option"
  pc_updated_at :: int

record resource_connection =
  cn_id :: string
  cn_resource_id :: string
  cn_owner_user_id :: "string option"
  cn_owner_organization_id :: "string option"
  cn_credentials :: "provider_credential list"
  cn_status :: string
  cn_revoked_at :: "int option"
  cn_updated_at :: int

section \<open>Entitlements, access requests and token leases\<close>

datatype entitlement_mode = Persistent | Until | Once
datatype end_reason = Revoked | Consumed | Expired | Merged

record resource_scope_entitlement =
  se_id :: string
  se_user_id :: "string option"
  se_application_id :: "string option"
  se_agent_identity_id :: "string option"
  se_organization_id :: "string option"
  se_resource_server_id :: string
  se_connection_id :: "string option"
  se_authorization_details :: "json list"
  se_authorization_context_hash :: string
  se_scope :: string
  se_mode :: entitlement_mode
  se_granted_by_user_id :: "string option"
  se_granted_by_agent_identity_id :: "string option"
  se_source_access_request_id :: "string option"
  se_expires_at :: "int option"
  se_ended_at :: "int option"
  se_end_reason :: "end_reason option"
  se_created_at :: int
  se_updated_at :: int

record approved_entitlement =
  ap_scope :: string
  ap_entitlement_id :: string

record access_request =
  rq_id :: string
  rq_resource_id :: string
  rq_connection_id :: "string option"
  rq_agent_identity_id :: string
  rq_binding_id :: string
  rq_scopes :: "string list"
  rq_authorization_details :: "json list"
  rq_reason :: "string option"
  rq_status :: string
  rq_approval_token_hash :: string
  rq_encrypted_approval_token :: string
  rq_approved_entitlements :: "approved_entitlement list"
  rq_expires_at :: int
  rq_decided_at :: "int option"
  rq_created_at :: int
  rq_updated_at :: int

record external_token_lease =
  tl_id :: string
  tl_entitlement_ids :: "string list"
  tl_request_id :: string
  tl_binding_id :: string
  tl_encrypted_access_token :: string
  tl_token_hash :: string
  tl_confirmation_jkt :: string
  tl_scopes :: "string list"
  tl_authorization_details :: "json list"
  tl_expires_at :: int
  tl_revoked_at :: "int option"
  tl_created_at :: int

text \<open>The identifiers of DPoP proofs that were used.\<close>

record dpop_jti =
  dj_jti_hash :: string
  dj_key_thumbprint :: string
  dj_expires_at :: int
  dj_created_at :: int

end
