(* ===== verification/Agent_Schema.thy ===== *)
theory Agent_Schema
  imports Resource_Schema
begin

text \<open>
  The tables behind Agents (\<open>server/db/schema/agent-tables.ts\<close>, \<open>agent-identity-tables.ts\<close>,
  \<open>agent-audit-tables.ts\<close>), one record per row type, and the world an action runs on: these
  tables, the resource tables, and how many identifiers and clock readings have been taken.
\<close>

section \<open>Rows\<close>

record agent_host =
  ah_id :: string
  ah_name :: "string option"
  ah_user_id :: "string option"
  ah_default_capabilities :: "string option"
  ah_public_key :: "string option"
  ah_kid :: "string option"
  ah_jwks_url :: "string option"
  ah_enrollment_token_hash :: "string option"
  ah_enrollment_token_expires_at :: "int option"
  ah_status :: string
  ah_activated_at :: "int option"
  ah_expires_at :: "int option"
  ah_last_used_at :: "int option"
  ah_created_at :: int
  ah_updated_at :: int

record agent =
  ag_id :: string
  ag_name :: string
  ag_user_id :: "string option"
  ag_host_id :: string
  ag_status :: string
  ag_mode :: string
  ag_public_key :: string
  ag_kid :: "string option"
  ag_jwks_url :: "string option"
  ag_last_used_at :: "int option"
  ag_activated_at :: "int option"
  ag_expires_at :: "int option"
  ag_metadata :: "json option"
  ag_created_at :: int
  ag_updated_at :: int

record agent_capability_grant =
  cg_id :: string
  cg_agent_id :: string
  cg_capability :: string
  cg_denied_by :: "string option"
  cg_granted_by :: "string option"
  cg_expires_at :: "int option"
  cg_created_at :: int
  cg_updated_at :: int
  cg_status :: string
  cg_reason :: "string option"
  cg_constraints :: "json option"

record approval_request =
  ar_id :: string
  ar_method :: string
  ar_agent_id :: "string option"
  ar_host_id :: "string option"
  ar_user_id :: "string option"
  ar_capabilities :: "string option"
  ar_status :: string
  ar_user_code_hash :: "string option"
  ar_login_hint :: "string option"
  ar_binding_message :: "string option"
  ar_client_notification_token :: "string option"
  ar_client_notification_endpoint :: "string option"
  ar_delivery_mode :: "string option"
  ar_interval :: int
  ar_last_polled_at :: "int option"
  ar_expires_at :: int
  ar_created_at :: int
  ar_updated_at :: int

datatype identity_status = Identity_active | Identity_inactive

record agent_identity =
  ai_id :: string
  ai_issuer :: string
  ai_subject :: string
  ai_username :: "string option"
  ai_name :: string
  ai_runtime :: "string option"
  ai_owner_user_id :: string
  ai_status :: identity_status
  ai_deleted_at :: "int option"
  ai_created_at :: int
  ai_updated_at :: int

record agent_identity_binding =
  ab_id :: string
  ab_agent_identity_id :: string
  ab_protocol_agent_id :: string
  ab_status :: string
  ab_bound_at :: int
  ab_revoked_at :: "int option"
  ab_created_at :: int
  ab_updated_at :: int

text \<open>A binding joined with the host of its protocol agent (\<open>AgentIdentityBindingRecord\<close>).\<close>

record bound_binding = agent_identity_binding +
  bb_host_id :: string

record agent_application_creation =
  ac_id :: string
  ac_application_id :: string
  ac_actor_user_id :: string
  ac_idempotency_key :: string
  ac_request_fingerprint :: string
  ac_agent_identity_id :: string
  ac_created_at :: int

record agent_enrollment_intent =
  ei_id :: string
  ei_agent_identity_id :: "string option"
  ei_requested_name :: "string option"
  ei_requested_username :: "string option"
  ei_requested_runtime :: "string option"
  ei_owner_user_id :: string
  ei_protocol_agent_id :: string
  ei_idempotency_key :: "string option"
  ei_status :: string
  ei_created_by_user_id :: string
  ei_approved_by_user_id :: "string option"
  ei_expires_at :: int
  ei_approved_at :: "int option"
  ei_created_at :: int
  ei_updated_at :: int

record agent_audit_event =
  au_id :: string
  au_action :: string
  au_result :: string
  au_realm_owned :: bool
  au_owner_user_id :: "string option"
  au_owner_organization_id :: "string option"
  au_controller_user_id :: "string option"
  au_subject_issuer :: "string option"
  au_subject :: "string option"
  au_agent_identity_id :: "string option"
  au_host_id :: "string option"
  au_resource_id :: "string option"
  au_resource_connection_id :: "string option"
  au_access_request_id :: "string option"
  au_scopes :: "string list option"
  au_reason_code :: "string option"
  au_metadata :: "json option"
  au_occurred_at :: int

section \<open>The world\<close>

record world =
  w_users :: "string list"
  w_hosts :: "agent_host list"
  w_agents :: "agent list"
  w_grants :: "agent_capability_grant list"
  w_approvals :: "approval_request list"
  w_identities :: "agent_identity list"
  w_bindings :: "agent_identity_binding list"
  w_creations :: "agent_application_creation list"
  w_intents :: "agent_enrollment_intent list"
  w_audits :: "agent_audit_event list"
  w_entitlements :: "resource_scope_entitlement list"
  w_leases :: "external_token_lease list"
  w_requests :: "access_request list"
  w_resources :: "resource_server list"
  w_connections :: "resource_connection list"
  w_organizations :: "organization list"
  w_members :: "organization_member list"
  w_organization_roles :: "organization_role list"
  w_team_members :: "team_membership list"
  w_dpop_jtis :: "dpop_jti list"
  w_ids_taken :: nat
  w_clock_ticks :: nat

type_synonym 'a server = "(world, failure, 'a) action"

text \<open>
  What the server is run with. First the identifier generator, the random values and the clock, as
  the sequences of values they return. Then functions of the platform and of \<open>jose\<close>: the SHA-256
  bytes of a text, the collation key of \<open>localeCompare\<close>, whether a public key is imported, the
  protected header of a signed token and its verified payload as JSON (\<open>None\<close> when they throw),
  the thumbprint of a key, a URL without its query and fragment, and the secret store. The rest is
  the outside of external resources, whose connectors are not modelled: the authorization a
  connector gives for a resource and a client generation, its current client generation, the
  generation that covers given scopes, the answers to the requests for the pages of the catalog it
  advertises for a resource and a connection (\<open>None\<close> when it advertises none), the name and the
  scopes a discovery reads, the form of a refresh, what a token endpoint answers (in the order of the
  requests) and the status of a posted revocation (\<open>None\<close> when the request fails). JSON and URLs
  are read by the platform.
\<close>

record external_authorization =
  ea_token_endpoint :: string
  ea_revocation_endpoint :: string
  ea_catalog_endpoint :: "string option"
  ea_client_id :: string
  ea_encrypted_client_secret :: string
  ea_secret_in_form :: bool
  ea_provider_details :: bool

text \<open>A form posted to a token endpoint, and what it is answered with; a body that is no JSON is None.\<close>

record token_request =
  tr_url :: string
  tr_body :: "(string \<times> string) list"
  tr_client_id :: string
  tr_client_secret :: string
  tr_dpop :: "string option"
  tr_secret_in_form :: bool

record token_answer =
  ta_ok :: bool
  ta_body :: "json option"
  ta_dpop_nonce :: "string option"

record catalog_item =
  ci_authorization_detail :: json
  ci_granted_scopes :: "string list option"

record env =
  env_ids :: "nat \<Rightarrow> string"
  env_random_tokens :: "nat \<Rightarrow> string"
  env_clock :: "nat \<Rightarrow> int"
  env_sha256 :: "string \<Rightarrow> nat list"
  env_collation_key :: "string \<Rightarrow> string"
  env_imports_jwk :: "json \<Rightarrow> bool"
  env_protected_header :: "string \<Rightarrow> json option"
  env_verified_payload :: "string \<Rightarrow> json \<Rightarrow> json option"
  env_jwk_thumbprint :: "json \<Rightarrow> string"
  env_bare_url :: "string \<Rightarrow> failure + string"
  env_open_secret :: "string \<Rightarrow> string \<Rightarrow> failure + string"
  env_seal_secret :: "string \<Rightarrow> string \<Rightarrow> string"
  env_active_authorization :: "string \<Rightarrow> nat \<Rightarrow> external_authorization option"
  env_connector_authorization :: "string \<Rightarrow> failure + unit"
  env_catalog :: "string \<Rightarrow> string \<Rightarrow> (failure + catalog_item list) list option"
  env_advertised_scopes :: "string \<Rightarrow> failure + string list"
  env_discovered_registry :: "string \<Rightarrow> failure + (string \<times> declared_scope list)"
  env_client_generation :: "string \<Rightarrow> nat"
  env_ensure_scopes :: "string \<Rightarrow> string list \<Rightarrow> string \<Rightarrow> failure + nat"
  env_refresh_form :: "string \<Rightarrow> external_authorization \<Rightarrow> (string \<times> string) list \<Rightarrow> (string \<times> string) list"
  env_token_answer :: "nat \<Rightarrow> token_request \<Rightarrow> token_answer option"
  env_parse_json :: "string \<Rightarrow> json option"
  env_url_origin :: "string \<Rightarrow> string"
  env_post_form :: "string \<Rightarrow> (string \<times> string) list \<Rightarrow> string \<Rightarrow> string \<Rightarrow> int option"

definition generate_id :: "env \<Rightarrow> string server" where
  "generate_id env w = (Inr (env_ids env (w_ids_taken w)), w\<lparr>w_ids_taken := Suc (w_ids_taken w)\<rparr>)"

definition random_token :: "env \<Rightarrow> string server" where
  "random_token env w = (Inr (env_random_tokens env (w_ids_taken w)), w\<lparr>w_ids_taken := Suc (w_ids_taken w)\<rparr>)"

definition token_answer_of :: "env \<Rightarrow> token_request \<Rightarrow> token_answer option server" where
  "token_answer_of env r w = (Inr (env_token_answer env (w_ids_taken w) r), w\<lparr>w_ids_taken := Suc (w_ids_taken w)\<rparr>)"

definition new_date :: "env \<Rightarrow> int server" where
  "new_date env w = (Inr (env_clock env (w_clock_ticks w)), w\<lparr>w_clock_ticks := Suc (w_clock_ticks w)\<rparr>)"

section \<open>Constraints\<close>

text \<open>
  An insert fails on a CHECK, then on a primary key or unique index, then on a foreign key,
  and writes nothing when it fails. A unique index over a nullable column does not constrain
  rows where it is null.
\<close>

definition insert_row :: "bool \<Rightarrow> bool \<Rightarrow> bool \<Rightarrow> 'w \<Rightarrow> failure + 'w" where
  "insert_row check_ok unique_ok references_ok w' =
     (if \<not> check_ok then Inl (SqliteError Check_constraint)
      else if \<not> unique_ok then Inl (SqliteError Unique_constraint)
      else if \<not> references_ok then Inl (SqliteError Foreign_key_constraint)
      else Inr w')"

definition references_optional :: "'a option \<Rightarrow> 'a list \<Rightarrow> bool" where
  "references_optional r keys \<longleftrightarrow> (case r of None \<Rightarrow> True | Some k \<Rightarrow> k \<in> set keys)"

definition insert_host :: "agent_host \<Rightarrow> world \<Rightarrow> failure + world" where
  "insert_host h w = insert_row True (ah_id h \<notin> set (map ah_id (w_hosts w)))
     (references_optional (ah_user_id h) (w_users w)) (w\<lparr>w_hosts := w_hosts w @ [h]\<rparr>)"

definition insert_agent :: "agent \<Rightarrow> world \<Rightarrow> failure + world" where
  "insert_agent a w = insert_row True (ag_id a \<notin> set (map ag_id (w_agents w)))
     (references_optional (ag_user_id a) (w_users w) \<and> ag_host_id a \<in> set (map ah_id (w_hosts w)))
     (w\<lparr>w_agents := w_agents w @ [a]\<rparr>)"

definition insert_approval :: "approval_request \<Rightarrow> world \<Rightarrow> failure + world" where
  "insert_approval r w = insert_row True (ar_id r \<notin> set (map ar_id (w_approvals w)))
     (references_optional (ar_agent_id r) (map ag_id (w_agents w)) \<and>
      references_optional (ar_host_id r) (map ah_id (w_hosts w)) \<and>
      references_optional (ar_user_id r) (w_users w))
     (w\<lparr>w_approvals := w_approvals w @ [r]\<rparr>)"

definition username_free :: "string option \<Rightarrow> agent_identity list \<Rightarrow> bool" where
  "username_free u rows \<longleftrightarrow> u = None \<or> u \<notin> set (map ai_username rows)"

definition insert_identity :: "agent_identity \<Rightarrow> world \<Rightarrow> failure + world" where
  "insert_identity i w = insert_row True
     (ai_id i \<notin> set (map ai_id (w_identities w)) \<and>
      (ai_issuer i, ai_subject i) \<notin> set (map (\<lambda>r. (ai_issuer r, ai_subject r)) (w_identities w)) \<and>
      username_free (ai_username i) (w_identities w))
     (ai_owner_user_id i \<in> set (w_users w)) (w\<lparr>w_identities := w_identities w @ [i]\<rparr>)"

definition insert_binding :: "agent_identity_binding \<Rightarrow> world \<Rightarrow> failure + world" where
  "insert_binding b w = insert_row True
     (ab_id b \<notin> set (map ab_id (w_bindings w)) \<and>
      ab_protocol_agent_id b \<notin> set (map ab_protocol_agent_id (w_bindings w)))
     (ab_agent_identity_id b \<in> set (map ai_id (w_identities w)) \<and>
      ab_protocol_agent_id b \<in> set (map ag_id (w_agents w)))
     (w\<lparr>w_bindings := w_bindings w @ [b]\<rparr>)"

definition creation_key :: "agent_application_creation \<Rightarrow> string \<times> string \<times> string" where
  "creation_key r = (ac_application_id r, ac_actor_user_id r, ac_idempotency_key r)"

definition insert_creation :: "agent_application_creation \<Rightarrow> world \<Rightarrow> failure + world" where
  "insert_creation r w = insert_row True
     (ac_id r \<notin> set (map ac_id (w_creations w)) \<and> creation_key r \<notin> set (map creation_key (w_creations w)) \<and>
      ac_agent_identity_id r \<notin> set (map ac_agent_identity_id (w_creations w)))
     (ac_actor_user_id r \<in> set (w_users w) \<and> ac_agent_identity_id r \<in> set (map ai_id (w_identities w)))
     (w\<lparr>w_creations := w_creations w @ [r]\<rparr>)"

definition intent_shape :: "agent_enrollment_intent \<Rightarrow> bool" where
  "intent_shape r \<longleftrightarrow> ei_agent_identity_id r \<noteq> None \<or>
     (ei_requested_name r \<noteq> None \<and> ei_requested_username r \<noteq> None \<and> ei_requested_runtime r \<noteq> None)"

definition intent_key :: "agent_enrollment_intent \<Rightarrow> (string \<times> string) option" where
  "intent_key r = map_option (\<lambda>k. (ei_protocol_agent_id r, k)) (ei_idempotency_key r)"

definition intent_unique :: "agent_enrollment_intent \<Rightarrow> world \<Rightarrow> bool" where
  "intent_unique r w \<longleftrightarrow> ei_id r \<notin> set (map ei_id (w_intents w)) \<and>
     (intent_key r = None \<or> intent_key r \<notin> set (map intent_key (w_intents w)))"

definition intent_references :: "agent_enrollment_intent \<Rightarrow> world \<Rightarrow> bool" where
  "intent_references r w \<longleftrightarrow> references_optional (ei_agent_identity_id r) (map ai_id (w_identities w)) \<and>
     ei_owner_user_id r \<in> set (w_users w) \<and> ei_protocol_agent_id r \<in> set (map ag_id (w_agents w)) \<and>
     ei_created_by_user_id r \<in> set (w_users w) \<and> references_optional (ei_approved_by_user_id r) (w_users w)"

definition insert_intent :: "agent_enrollment_intent \<Rightarrow> world \<Rightarrow> failure + world" where
  "insert_intent r w = insert_row (intent_shape r) (intent_unique r w) (intent_references r w)
     (w\<lparr>w_intents := w_intents w @ [r]\<rparr>)"

definition exactly_one_owner :: "agent_audit_event \<Rightarrow> bool" where
  "exactly_one_owner e \<longleftrightarrow>
     of_bool (au_realm_owned e) + of_bool (au_owner_user_id e \<noteq> None) +
     of_bool (au_owner_organization_id e \<noteq> None) = (1 :: nat)"

definition insert_audit :: "agent_audit_event \<Rightarrow> world \<Rightarrow> failure + world" where
  "insert_audit e w = insert_row (exactly_one_owner e) (au_id e \<notin> set (map au_id (w_audits w))) True
     (w\<lparr>w_audits := w_audits w @ [e]\<rparr>)"

text \<open>\<open>db.batch\<close> is one transaction: the first failing statement undoes the ones before it.\<close>

primrec batch :: "('w \<Rightarrow> failure + 'w) list \<Rightarrow> 'w \<Rightarrow> failure + 'w" where
  "batch [] w = Inr w"
| "batch (f # fs) w = (case f w of Inl e \<Rightarrow> Inl e | Inr w' \<Rightarrow> batch fs w')"

end
