(* ===== verification/Agent_Identity_Repo.thy ===== *)
theory Agent_Identity_Repo
  imports Agent_Schema Paging "HOL-Library.Option_ord"
begin

text \<open>
  The repository of Agent identities (\<open>server/adapters/repos/agent-identities.ts\<close>): every read
  as a function of the world and every write as an action, statement by statement, with the
  batches it runs as transactions.
\<close>

section \<open>Reads\<close>

record agent_identity_aggregate =
  agg_identity :: agent_identity
  agg_bindings :: "bound_binding list"

definition with_host :: "world \<Rightarrow> agent_identity_binding \<Rightarrow> bound_binding option" where
  "with_host w b = map_option (\<lambda>a. agent_identity_binding.extend b (bound_binding.fields (ag_host_id a)))
     (find (\<lambda>a. ag_id a = ab_protocol_agent_id b) (w_agents w))"

definition binding_rows :: "(agent_identity_binding \<Rightarrow> bool) \<Rightarrow> world \<Rightarrow> bound_binding list" where
  "binding_rows p w = List.map_filter (with_host w) (filter p (w_bindings w))"

definition aggregate :: "world \<Rightarrow> agent_identity \<Rightarrow> agent_identity_aggregate" where
  "aggregate w i = \<lparr>agg_identity = i, agg_bindings = binding_rows (\<lambda>b. ab_agent_identity_id b = ai_id i) w\<rparr>"

definition aggregates :: "world \<Rightarrow> agent_identity list \<Rightarrow> agent_identity_aggregate list" where
  "aggregates w identities = map (aggregate w) identities"

definition active_protocol_agent_ids :: "string \<Rightarrow> world \<Rightarrow> string list" where
  "active_protocol_agent_ids identity_id w =
     map ab_protocol_agent_id
       (filter (\<lambda>b. ab_agent_identity_id b = identity_id \<and> ab_status b = ''active'') (w_bindings w))"

definition created_key :: "agent_identity \<Rightarrow> int \<times> string" where
  "created_key i = (ai_created_at i, ai_id i)"

definition list_personal :: "string \<Rightarrow> world \<Rightarrow> agent_identity_aggregate list" where
  "list_personal user_id w =
     aggregates w (sort_key created_key
       (filter (\<lambda>i. ai_owner_user_id i = user_id \<and> ai_deleted_at i = None) (w_identities w)))"

definition page_result :: "page_input \<Rightarrow> 'a list \<Rightarrow> nat \<Rightarrow> 'a paginated_result" where
  "page_result page rows n =
     \<lparr>pg_limit = pg_limit page, pg_offset = pg_offset page, pg_items = rows, pg_total = n\<rparr>"

definition newest_first :: "agent_identity list \<Rightarrow> agent_identity list" where
  "newest_first rows = rev (sort_key created_key rows)"

definition list_all_identities :: "page_input \<Rightarrow> world \<Rightarrow> agent_identity_aggregate paginated_result" where
  "list_all_identities page w =
     (let visible = filter (\<lambda>i. ai_deleted_at i = None) (w_identities w)
      in page_result page (aggregates w (page_of page (newest_first visible))) (length visible))"

definition list_owned ::
    "string option \<Rightarrow> page_input \<Rightarrow> world \<Rightarrow> agent_identity_aggregate paginated_result" where
  "list_owned scope_owner page w =
     (case scope_owner of
        None \<Rightarrow> page_result page [] 0
      | Some owner \<Rightarrow>
          if owner = [] then page_result page [] 0
          else (let visible = filter (\<lambda>i. ai_owner_user_id i = owner \<and> ai_deleted_at i = None) (w_identities w)
                in page_result page (aggregates w (page_of page (newest_first visible))) (length visible)))"

definition find_identity :: "string \<Rightarrow> world \<Rightarrow> agent_identity_aggregate option" where
  "find_identity i w =
     map_option (aggregate w) (find (\<lambda>r. ai_id r = i \<and> ai_deleted_at r = None) (w_identities w))"

definition find_by_issuer_subject :: "string \<Rightarrow> string \<Rightarrow> world \<Rightarrow> agent_identity option" where
  "find_by_issuer_subject issuer subject w =
     find (\<lambda>r. ai_issuer r = issuer \<and> ai_subject r = subject \<and> ai_deleted_at r = None) (w_identities w)"

definition find_by_issuer_username :: "string \<Rightarrow> string \<Rightarrow> world \<Rightarrow> agent_identity option" where
  "find_by_issuer_username issuer username w =
     find (\<lambda>r. ai_issuer r = issuer \<and> ai_username r = Some username \<and> ai_deleted_at r = None) (w_identities w)"

definition find_by_username :: "string \<Rightarrow> world \<Rightarrow> agent_identity option" where
  "find_by_username username w =
     find (\<lambda>r. ai_username r = Some username \<and> ai_deleted_at r = None) (w_identities w)"

definition find_intent :: "string \<Rightarrow> world \<Rightarrow> agent_enrollment_intent option" where
  "find_intent i w = find (\<lambda>r. ei_id r = i) (w_intents w)"

definition find_intent_by_idempotency_key :: "string \<Rightarrow> string \<Rightarrow> world \<Rightarrow> agent_enrollment_intent option" where
  "find_intent_by_idempotency_key protocol_agent_id key w =
     find (\<lambda>r. ei_protocol_agent_id r = protocol_agent_id \<and> ei_idempotency_key r = Some key) (w_intents w)"

text \<open>Descending by approval and creation; SQLite puts NULL last in a descending order.\<close>

definition approval_rank :: "agent_enrollment_intent \<Rightarrow> (nat \<times> int) \<times> int" where
  "approval_rank r =
     ((case ei_approved_at r of Some t \<Rightarrow> (0, - t) | None \<Rightarrow> (1, 0)), - ei_created_at r)"

definition find_latest_approved_identity_intent :: "string \<Rightarrow> world \<Rightarrow> agent_enrollment_intent option" where
  "find_latest_approved_identity_intent protocol_agent_id w =
     (case sort_key approval_rank
        (filter (\<lambda>r. ei_protocol_agent_id r = protocol_agent_id \<and> ei_status r = ''approved'' \<and>
           ei_agent_identity_id r = None) (w_intents w)) of
        [] \<Rightarrow> None | r # _ \<Rightarrow> Some r)"

definition find_protocol_agent :: "string \<Rightarrow> world \<Rightarrow> agent option" where
  "find_protocol_agent i w = find (\<lambda>a. ag_id a = i) (w_agents w)"

definition find_binding_by_protocol_agent :: "string \<Rightarrow> world \<Rightarrow> bound_binding option" where
  "find_binding_by_protocol_agent i w =
     (case binding_rows (\<lambda>b. ab_protocol_agent_id b = i) w of [] \<Rightarrow> None | b # _ \<Rightarrow> Some b)"

text \<open>The join of active bindings of a protocol agent with their live, active identity.\<close>

definition active_binding_pairs :: "string \<Rightarrow> world \<Rightarrow> (agent_identity_binding \<times> agent_identity) list" where
  "active_binding_pairs i w =
     List.map_filter
       (\<lambda>b. map_option (Pair b)
          (find (\<lambda>r. ai_id r = ab_agent_identity_id b \<and> ai_status r = Identity_active \<and> ai_deleted_at r = None)
             (w_identities w)))
       (filter (\<lambda>b. ab_protocol_agent_id b = i \<and> ab_status b = ''active'') (w_bindings w))"

definition find_active_binding_by_protocol_agent ::
    "string \<Rightarrow> world \<Rightarrow> (agent_identity \<times> bound_binding) option" where
  "find_active_binding_by_protocol_agent i w =
     (case List.map_filter (\<lambda>(b, r). map_option (Pair r) (with_host w b)) (active_binding_pairs i w) of
        [] \<Rightarrow> None | x # _ \<Rightarrow> Some x)"

definition find_active_by_protocol_agent :: "string \<Rightarrow> world \<Rightarrow> agent_identity_aggregate option" where
  "find_active_by_protocol_agent i w =
     (case active_binding_pairs i w of [] \<Rightarrow> None | (_, r) # _ \<Rightarrow> Some (aggregate w r))"

definition find_application_creation ::
    "string \<Rightarrow> string \<Rightarrow> string \<Rightarrow>
     (agent_application_creation \<times> agent_identity_aggregate) option server" where
  "find_application_creation application_id actor_user_id idempotency_key w =
     (case find (\<lambda>r. creation_key r = (application_id, actor_user_id, idempotency_key)) (w_creations w) of
        None \<Rightarrow> ret None w
      | Some reservation \<Rightarrow>
          (case find (\<lambda>i. ai_id i = ac_agent_identity_id reservation) (w_identities w) of
             None \<Rightarrow> throw (PlainError ''Agent application creation reservation has no identity.'') w
           | Some i \<Rightarrow> ret (Some (reservation, aggregate w i)) w))"

section \<open>Unique constraint errors\<close>

definition is_unique_constraint :: "failure \<Rightarrow> bool" where
  "is_unique_constraint e \<longleftrightarrow> e = SqliteError Unique_constraint"

definition identity_key_conflict :: "failure \<Rightarrow> failure" where
  "identity_key_conflict e =
     (if is_unique_constraint e
      then conflict ''Agent identity and installation identifiers remain reserved after revocation or deletion and cannot be reused.''
      else e)"

definition identity_key_write :: "'a server \<Rightarrow> 'a server" where
  "identity_key_write m = catch m (\<lambda>e. throw (identity_key_conflict e))"

section \<open>Statements\<close>

definition update_bindings :: "(agent_identity_binding \<Rightarrow> bool) \<Rightarrow>
    (agent_identity_binding \<Rightarrow> agent_identity_binding) \<Rightarrow> world \<Rightarrow> failure + world" where
  "update_bindings p f w = Inr (w\<lparr>w_bindings := update_where p f (w_bindings w)\<rparr>)"

definition update_agents :: "(agent \<Rightarrow> bool) \<Rightarrow> (agent \<Rightarrow> agent) \<Rightarrow> world \<Rightarrow> failure + world" where
  "update_agents p f w = Inr (w\<lparr>w_agents := update_where p f (w_agents w)\<rparr>)"

definition update_grants :: "(agent_capability_grant \<Rightarrow> bool) \<Rightarrow>
    (agent_capability_grant \<Rightarrow> agent_capability_grant) \<Rightarrow> world \<Rightarrow> failure + world" where
  "update_grants p f w = Inr (w\<lparr>w_grants := update_where p f (w_grants w)\<rparr>)"

definition update_approvals :: "(approval_request \<Rightarrow> bool) \<Rightarrow>
    (approval_request \<Rightarrow> approval_request) \<Rightarrow> world \<Rightarrow> failure + world" where
  "update_approvals p f w = Inr (w\<lparr>w_approvals := update_where p f (w_approvals w)\<rparr>)"

definition update_identities :: "(agent_identity \<Rightarrow> bool) \<Rightarrow>
    (agent_identity \<Rightarrow> agent_identity) \<Rightarrow> world \<Rightarrow> failure + world" where
  "update_identities p f w = Inr (w\<lparr>w_identities := update_where p f (w_identities w)\<rparr>)"

definition revoke_protocol_agent_statements ::
    "string \<Rightarrow> string list \<Rightarrow> int \<Rightarrow> (world \<Rightarrow> failure + world) list" where
  "revoke_protocol_agent_statements identity_id protocol_agent_ids now =
     update_bindings (\<lambda>b. ab_agent_identity_id b = identity_id \<and> ab_status b = ''active'')
       (\<lambda>b. b\<lparr>ab_status := ''revoked'', ab_revoked_at := Some now, ab_updated_at := now\<rparr>) #
     (if protocol_agent_ids = [] then []
      else
        [update_agents (\<lambda>a. ag_id a \<in> set protocol_agent_ids)
           (\<lambda>a. a\<lparr>ag_status := ''revoked'', ag_updated_at := now\<rparr>),
         update_grants (\<lambda>g. cg_agent_id g \<in> set protocol_agent_ids)
           (\<lambda>g. g\<lparr>cg_status := ''revoked'', cg_updated_at := now\<rparr>),
         update_approvals (\<lambda>r. ar_agent_id r \<in> Some ` set protocol_agent_ids)
           (\<lambda>r. r\<lparr>ar_status := ''revoked'', ar_updated_at := now\<rparr>)])"

definition revoke_protocol_agents :: "string \<Rightarrow> string list \<Rightarrow> int \<Rightarrow> unit server" where
  "revoke_protocol_agents identity_id protocol_agent_ids now =
     atomically (batch (revoke_protocol_agent_statements identity_id protocol_agent_ids now))"

section \<open>Writes\<close>

type_synonym creation_outcome = "agent_application_creation \<times> agent_identity_aggregate \<times> bool"

text \<open>
  The catch blocks of the two idempotent writes: a write that failed although the same
  reservation exists by now lost a race and answers with the reservation.
\<close>

definition raced_creation :: "agent_application_creation \<Rightarrow> failure \<Rightarrow> creation_outcome server" where
  "raced_creation reservation error =
     bind (catch (find_application_creation (ac_application_id reservation) (ac_actor_user_id reservation)
              (ac_idempotency_key reservation)) (\<lambda>_. throw error))
       (\<lambda>raced. case raced of
          Some (r, i) \<Rightarrow> ret (r, i, False)
        | None \<Rightarrow> throw (identity_key_conflict error))"

definition reserve_application_creation :: "agent_application_creation \<Rightarrow> creation_outcome server" where
  "reserve_application_creation reservation =
     bind (find_application_creation (ac_application_id reservation) (ac_actor_user_id reservation)
             (ac_idempotency_key reservation))
       (\<lambda>existing. case existing of
          Some (r, i) \<Rightarrow> ret (r, i, False)
        | None \<Rightarrow>
            (\<lambda>w. case insert_creation reservation w of
               Inl error \<Rightarrow> raced_creation reservation error w
             | Inr w' \<Rightarrow>
                 bind (find_application_creation (ac_application_id reservation) (ac_actor_user_id reservation)
                         (ac_idempotency_key reservation))
                   (\<lambda>persisted. case persisted of
                      Some (r, i) \<Rightarrow> ret (r, i, True)
                    | None \<Rightarrow> throw (PlainError ''Agent application creation reservation was not persisted.'')) w'))"

definition create_identity :: "agent_identity \<Rightarrow> agent_identity_binding \<Rightarrow> agent_identity_aggregate server" where
  "create_identity i b =
     bind (identity_key_write (atomically (batch [insert_identity i, insert_binding b]))) (\<lambda>_.
     bind (gets (find_identity (ai_id i))) (\<lambda>result.
     found result (PlainError ''Agent identity was not persisted.'')))"

record agent_with_installation =
  aw_host :: agent_host
  aw_protocol_agent :: agent
  aw_identity :: agent_identity
  aw_binding :: agent_identity_binding
  aw_audit :: agent_audit_event
  aw_reservation :: agent_application_creation

definition installation_statements :: "agent_with_installation \<Rightarrow> (world \<Rightarrow> failure + world) list" where
  "installation_statements input =
     [insert_host (aw_host input), insert_agent (aw_protocol_agent input), insert_identity (aw_identity input),
      insert_binding (aw_binding input), insert_audit (aw_audit input), insert_creation (aw_reservation input)]"

definition create_agent_with_installation :: "agent_with_installation \<Rightarrow> creation_outcome server" where
  "create_agent_with_installation input =
     (let reservation = aw_reservation input in
      bind (find_application_creation (ac_application_id reservation) (ac_actor_user_id reservation)
              (ac_idempotency_key reservation))
       (\<lambda>existing. case existing of
          Some (r, i) \<Rightarrow> ret (r, i, False)
        | None \<Rightarrow>
            (\<lambda>w. case batch (installation_statements input) w of
               Inl error \<Rightarrow> raced_creation reservation error w
             | Inr w' \<Rightarrow>
                 (case find_identity (ai_id (aw_identity input)) w' of
                    None \<Rightarrow> throw (PlainError ''Agent identity and installation were not persisted.'') w'
                  | Some i \<Rightarrow> ret (reservation, i, True) w'))))"

record identity_profile =
  ip_username :: string
  ip_name :: string
  ip_runtime :: string

definition claim_statement :: "string \<Rightarrow> identity_profile \<Rightarrow> int \<Rightarrow> world \<Rightarrow> failure + world" where
  "claim_statement identity_id input now w =
     (let hit = (\<lambda>i. ai_id i = identity_id \<and> ai_username i = None \<and> ai_deleted_at i = None) in
      if list_ex hit (w_identities w) \<and> \<not> username_free (Some (ip_username input)) (w_identities w)
      then Inl (SqliteError Unique_constraint)
      else update_identities hit
             (\<lambda>i. i\<lparr>ai_username := Some (ip_username input), ai_name := ip_name input,
                    ai_runtime := Some (ip_runtime input), ai_updated_at := now\<rparr>) w)"

definition claim_identity_profile ::
    "string \<Rightarrow> identity_profile \<Rightarrow> int \<Rightarrow> agent_identity_aggregate option server" where
  "claim_identity_profile identity_id input now =
     bind (gets (\<lambda>w. filter (\<lambda>i. ai_id i = identity_id \<and> ai_username i = None \<and> ai_deleted_at i = None)
              (w_identities w))) (\<lambda>hit.
     bind (identity_key_write (atomically (claim_statement identity_id input now))) (\<lambda>_.
     if hit = [] then ret None else gets (find_identity identity_id)))"

definition create_intent :: "agent_enrollment_intent \<Rightarrow> agent_enrollment_intent server" where
  "create_intent input = bind (atomically (insert_intent input)) (\<lambda>_. ret input)"

text \<open>
  \<open>ON CONFLICT DO NOTHING\<close> skips an insert that violates a primary key or unique index and
  reports every other violation.
\<close>

definition create_intent_idempotently ::
    "agent_enrollment_intent \<Rightarrow> string \<Rightarrow> (agent_enrollment_intent \<times> bool) server" where
  "create_intent_idempotently input idempotency_key =
     (\<lambda>w. case insert_intent input w of
        Inr w' \<Rightarrow> (Inr (input, True), w')
      | Inl e \<Rightarrow>
          if e = SqliteError Unique_constraint then
            (case find_intent_by_idempotency_key (ei_protocol_agent_id input) idempotency_key w of
               Some existing \<Rightarrow> (Inr (existing, False), w)
             | None \<Rightarrow> (Inl (PlainError ''Agent installation enrollment reservation did not return its durable resource.''), w))
          else (Inl e, w))"

record intent_approval =
  ia_intent_id :: string
  ia_identity :: "agent_identity option"
  ia_binding :: agent_identity_binding
  ia_approved_by :: string
  ia_approved_at :: int

definition approve_intent_statement :: "intent_approval \<Rightarrow> world \<Rightarrow> failure + world" where
  "approve_intent_statement input w =
     (let hit = (\<lambda>r. ei_id r = ia_intent_id input \<and> ei_status r = ''pending'') in
      if list_ex hit (w_intents w) \<and> ia_approved_by input \<notin> set (w_users w)
      then Inl (SqliteError Foreign_key_constraint)
      else Inr (w\<lparr>w_intents := update_where hit
        (\<lambda>r. r\<lparr>ei_status := ''approved'', ei_approved_by_user_id := Some (ia_approved_by input),
               ei_approved_at := Some (ia_approved_at input), ei_updated_at := ia_approved_at input\<rparr>)
        (w_intents w)\<rparr>))"

definition approval_statements :: "intent_approval \<Rightarrow> (world \<Rightarrow> failure + world) list" where
  "approval_statements input =
     (case ia_identity input of None \<Rightarrow> [] | Some i \<Rightarrow> [insert_identity i]) @
     [insert_binding (ia_binding input), approve_intent_statement input]"

definition approve_intent :: "intent_approval \<Rightarrow> agent_identity_aggregate server" where
  "approve_intent input =
     bind (identity_key_write (atomically (batch (approval_statements input)))) (\<lambda>_.
     bind (gets (find_identity (ab_agent_identity_id (ia_binding input)))) (\<lambda>result.
     found result (PlainError ''Approved Agent identity was not persisted.'')))"

definition revoke_binding :: "string \<Rightarrow> string \<Rightarrow> int \<Rightarrow> bool server" where
  "revoke_binding identity_id protocol_agent_id now =
     bind (gets (\<lambda>w. find (\<lambda>b. ab_agent_identity_id b = identity_id \<and>
              ab_protocol_agent_id b = protocol_agent_id \<and> ab_status b = ''active'') (w_bindings w)))
       (\<lambda>binding. case binding of
          None \<Rightarrow> ret False
        | Some _ \<Rightarrow> bind (revoke_protocol_agents identity_id [protocol_agent_id] now) (\<lambda>_. ret True))"

definition live_identity :: "string \<Rightarrow> world \<Rightarrow> agent_identity option" where
  "live_identity identity_id w =
     find (\<lambda>i. ai_id i = identity_id \<and> ai_deleted_at i = None) (w_identities w)"

definition deactivate_identity :: "string \<Rightarrow> int \<Rightarrow> bool \<Rightarrow> bool server" where
  "deactivate_identity identity_id now revoke_bindings =
     bind (gets (live_identity identity_id)) (\<lambda>identity.
       case identity of
         None \<Rightarrow> ret False
       | Some i \<Rightarrow>
           if ai_status i = Identity_inactive \<and> \<not> revoke_bindings then ret True
           else
             bind (gets (active_protocol_agent_ids identity_id)) (\<lambda>protocol_agent_ids.
             bind (atomically (batch
                (update_identities (\<lambda>r. ai_id r = identity_id)
                   (\<lambda>r. r\<lparr>ai_status := Identity_inactive, ai_updated_at := now\<rparr>) #
                 (if revoke_bindings
                  then revoke_protocol_agent_statements identity_id protocol_agent_ids now else [])))) (\<lambda>_.
             ret True)))"

definition activate_identity :: "string \<Rightarrow> int \<Rightarrow> bool server" where
  "activate_identity identity_id now =
     bind (gets (active_protocol_agent_ids identity_id)) (\<lambda>ids.
       if ids = [] then ret False
       else
         (let hit = (\<lambda>i. ai_id i = identity_id \<and> ai_status i = Identity_inactive \<and> ai_deleted_at i = None) in
          bind (gets (\<lambda>w. filter hit (w_identities w))) (\<lambda>rows.
          bind (atomically (update_identities hit
                  (\<lambda>i. i\<lparr>ai_status := Identity_active, ai_updated_at := now\<rparr>))) (\<lambda>_.
          ret (rows \<noteq> [])))))"

definition delete_identity :: "string \<Rightarrow> int \<Rightarrow> bool server" where
  "delete_identity identity_id now =
     bind (gets (live_identity identity_id)) (\<lambda>active.
       case active of
         None \<Rightarrow> ret False
       | Some _ \<Rightarrow>
           bind (gets (active_protocol_agent_ids identity_id)) (\<lambda>protocol_agent_ids.
           bind (atomically (batch
              (update_identities (\<lambda>i. ai_id i = identity_id \<and> ai_deleted_at i = None)
                 (\<lambda>i. i\<lparr>ai_status := Identity_inactive, ai_deleted_at := Some now, ai_updated_at := now\<rparr>) #
               revoke_protocol_agent_statements identity_id protocol_agent_ids now))) (\<lambda>_.
           ret True)))"

end
