(* ===== verification/Resource_Statements.thy ===== *)
theory Resource_Statements
  imports Agent_Schema
begin

text \<open>
  The SQL statements on the resource tables (\<open>server/adapters/repos/external-resources.ts\<close>) with
  the constraints of the tables. A statement that returns rows is a function to those rows and
  the world after it; its guards are part of the statement, so that whatever happened since the
  rows were read, it writes only where they still hold.
\<close>

type_synonym 'r statement = "world \<Rightarrow> failure + ('r list \<times> world)"

section \<open>Constraints of an entitlement\<close>

definition entitlement_checks :: "resource_scope_entitlement \<Rightarrow> bool" where
  "entitlement_checks e \<longleftrightarrow>
     of_bool (se_user_id e \<noteq> None) + of_bool (se_application_id e \<noteq> None) +
       of_bool (se_agent_identity_id e \<noteq> None) = (1 :: nat) \<and>
     (se_organization_id e = None \<or> se_user_id e \<noteq> None) \<and>
     ((se_connection_id e = None \<and> se_source_access_request_id e = None) \<or> se_agent_identity_id e \<noteq> None) \<and>
     (case se_mode e of Until \<Rightarrow> se_expires_at e \<noteq> None | _ \<Rightarrow> se_expires_at e = None) \<and>
     (se_ended_at e = None \<longleftrightarrow> se_end_reason e = None) \<and>
     of_bool (se_granted_by_user_id e \<noteq> None) + of_bool (se_granted_by_agent_identity_id e \<noteq> None) = (1 :: nat)"

text \<open>The keys an entitlement takes in the three unique indexes; none once it has ended.\<close>

datatype entitlement_subject = For_user string string | For_application string | For_agent string string

definition coalesce :: "string option \<Rightarrow> string" where
  "coalesce x = (case x of None \<Rightarrow> [] | Some s \<Rightarrow> s)"

definition subjects :: "resource_scope_entitlement \<Rightarrow> entitlement_subject list" where
  "subjects e =
     (case se_user_id e of None \<Rightarrow> [] | Some u \<Rightarrow> [For_user u (coalesce (se_organization_id e))]) @
     (case se_application_id e of None \<Rightarrow> [] | Some a \<Rightarrow> [For_application a]) @
     (case se_agent_identity_id e of None \<Rightarrow> [] | Some a \<Rightarrow> [For_agent a (coalesce (se_connection_id e))])"

definition active_keys ::
    "resource_scope_entitlement \<Rightarrow> (entitlement_subject \<times> string \<times> string \<times> string) list" where
  "active_keys e =
     (if se_ended_at e \<noteq> None then []
      else map (\<lambda>s. (s, se_resource_server_id e, se_authorization_context_hash e, se_scope e)) (subjects e))"

definition entitlement_unique :: "resource_scope_entitlement \<Rightarrow> world \<Rightarrow> bool" where
  "entitlement_unique e w \<longleftrightarrow>
     se_id e \<notin> set (map se_id (w_entitlements w)) \<and>
     list_all (\<lambda>k. k \<notin> set (concat (map active_keys (w_entitlements w)))) (active_keys e)"

text \<open>References into tables that are part of the model.\<close>

definition entitlement_references :: "resource_scope_entitlement \<Rightarrow> world \<Rightarrow> bool" where
  "entitlement_references e w \<longleftrightarrow>
     references_optional (se_user_id e) (w_users w) \<and>
     references_optional (se_agent_identity_id e) (map ai_id (w_identities w)) \<and>
     references_optional (se_organization_id e) (map og_id (w_organizations w)) \<and>
     se_resource_server_id e \<in> set (map rs_id (w_resources w)) \<and>
     references_optional (se_connection_id e) (map cn_id (w_connections w)) \<and>
     references_optional (se_granted_by_user_id e) (w_users w) \<and>
     references_optional (se_granted_by_agent_identity_id e) (map ai_id (w_identities w)) \<and>
     references_optional (se_source_access_request_id e) (map rq_id (w_requests w))"

text \<open>\<open>insert ... on conflict do nothing returning\<close>: a taken key skips the row, a check does not.\<close>

definition insert_or_skip_entitlement :: "resource_scope_entitlement \<Rightarrow> resource_scope_entitlement statement" where
  "insert_or_skip_entitlement e w =
     (if \<not> entitlement_checks e then Inl (SqliteError Check_constraint)
      else if \<not> entitlement_unique e w then Inr ([], w)
      else if \<not> entitlement_references e w then Inl (SqliteError Foreign_key_constraint)
      else Inr ([e], w\<lparr>w_entitlements := w_entitlements w @ [e]\<rparr>))"

definition insert_plain_entitlement :: "resource_scope_entitlement \<Rightarrow> world \<Rightarrow> failure + world" where
  "insert_plain_entitlement e w =
     insert_row (entitlement_checks e) (entitlement_unique e w) (entitlement_references e w)
       (w\<lparr>w_entitlements := w_entitlements w @ [e]\<rparr>)"

text \<open>An update is checked too: the rows it wrote, and the unique indexes after it.\<close>

definition update_entitlements ::
    "(resource_scope_entitlement \<Rightarrow> bool) \<Rightarrow> (resource_scope_entitlement \<Rightarrow> resource_scope_entitlement) \<Rightarrow>
     resource_scope_entitlement statement" where
  "update_entitlements p f w =
     (let rows = update_where p f (w_entitlements w); hit = map f (filter p (w_entitlements w)) in
      if \<not> list_all entitlement_checks hit then Inl (SqliteError Check_constraint)
      else if \<not> distinct (concat (map active_keys rows)) then Inl (SqliteError Unique_constraint)
      else Inr (hit, w\<lparr>w_entitlements := rows\<rparr>))"

section \<open>Access requests\<close>

definition active_resource :: "string \<Rightarrow> world \<Rightarrow> bool" where
  "active_resource i w \<longleftrightarrow> list_ex (\<lambda>r. rs_id r = i \<and> rs_enabled r \<and> rs_deleted_at r = None) (w_resources w)"

definition active_connection :: "string \<Rightarrow> world \<Rightarrow> bool" where
  "active_connection i w \<longleftrightarrow> list_ex (\<lambda>c. cn_id c = i \<and> cn_status c = ''active'') (w_connections w)"

definition insert_access_request :: "access_request \<Rightarrow> access_request statement" where
  "insert_access_request r w =
     (if \<not> active_resource (rq_resource_id r) w then Inr ([], w)
      else case insert_row True
        (rq_id r \<notin> set (map rq_id (w_requests w)) \<and>
         rq_approval_token_hash r \<notin> set (map rq_approval_token_hash (w_requests w)))
        (references_optional (rq_connection_id r) (map cn_id (w_connections w)) \<and>
         rq_agent_identity_id r \<in> set (map ai_id (w_identities w)) \<and>
         rq_binding_id r \<in> set (map ab_id (w_bindings w)))
        (w\<lparr>w_requests := w_requests w @ [r]\<rparr>) of
        Inl e \<Rightarrow> Inl e
      | Inr w' \<Rightarrow> Inr ([r], w'))"

text \<open>
  A decision: the status, what was approved, and, for an approval, the target it was approved
  for. The update of an approval asks that the resource still exists, and that every approved
  entitlement still is what the request asked for. A comparison with a null agent is neither
  true nor false, so it does not reject.
\<close>

record access_decision =
  ad_status :: string
  ad_approved_entitlements :: "approved_entitlement list"
  ad_target :: "(string option \<times> json list) option"
  ad_decided_at :: int
  ad_updated_at :: int

definition differs :: "string option \<Rightarrow> string \<Rightarrow> bool" where
  "differs x y \<longleftrightarrow> (case x of None \<Rightarrow> False | Some s \<Rightarrow> s \<noteq> y)"

definition find_entitlement :: "string \<Rightarrow> world \<Rightarrow> resource_scope_entitlement option" where
  "find_entitlement i w = find (\<lambda>e. se_id e = i) (w_entitlements w)"

definition approval_backed :: "access_request \<Rightarrow> string option \<Rightarrow> approved_entitlement \<Rightarrow> world \<Rightarrow> bool" where
  "approval_backed r connection_id a w \<longleftrightarrow>
     (case find_entitlement (ap_entitlement_id a) w of
        None \<Rightarrow> False
      | Some e \<Rightarrow> \<not> (differs (se_agent_identity_id e) (rq_agent_identity_id r) \<or>
          se_resource_server_id e \<noteq> rq_resource_id r \<or> se_connection_id e \<noteq> connection_id \<or>
          se_scope e \<noteq> ap_scope a \<or> se_ended_at e \<noteq> None))"

definition decision_connection :: "access_decision \<Rightarrow> string option" where
  "decision_connection d = (case ad_target d of None \<Rightarrow> None | Some t \<Rightarrow> fst t)"

definition approval_possible :: "access_decision \<Rightarrow> access_request \<Rightarrow> world \<Rightarrow> bool" where
  "approval_possible d r w \<longleftrightarrow>
     active_resource (rq_resource_id r) w \<and>
     length (ad_approved_entitlements d) = length (rq_scopes r) \<and>
     list_all (\<lambda>a. approval_backed r (decision_connection d) a w) (ad_approved_entitlements d)"

definition apply_decision :: "access_decision \<Rightarrow> access_request \<Rightarrow> access_request" where
  "apply_decision d r =
     (let r' = r\<lparr>rq_status := ad_status d, rq_approved_entitlements := ad_approved_entitlements d,
                 rq_decided_at := Some (ad_decided_at d), rq_updated_at := ad_updated_at d\<rparr>
      in case ad_target d of
           None \<Rightarrow> r'
         | Some t \<Rightarrow> r'\<lparr>rq_connection_id := fst t, rq_authorization_details := snd t\<rparr>)"

definition update_access_request_decision :: "string \<Rightarrow> access_decision \<Rightarrow> access_request statement" where
  "update_access_request_decision i d w =
     (let p = (\<lambda>r. rq_id r = i \<and> rq_status r = ''pending'' \<and>
                (ad_status d = ''approved'' \<longrightarrow> approval_possible d r w));
          hit = map (apply_decision d) (filter p (w_requests w)) in
      if \<not> list_all (\<lambda>r. references_optional (rq_connection_id r) (map cn_id (w_connections w))) hit
      then Inl (SqliteError Foreign_key_constraint)
      else Inr (hit, w\<lparr>w_requests := update_where p (apply_decision d) (w_requests w)\<rparr>))"

text \<open>\<open>insertEntitlement\<close>: the row is selected from the resource and the pending request.\<close>

definition insert_entitlement :: "string \<Rightarrow> resource_scope_entitlement \<Rightarrow> resource_scope_entitlement statement" where
  "insert_entitlement request_id e w =
     (if active_resource (se_resource_server_id e) w \<and>
         list_ex (\<lambda>r. rq_id r = request_id \<and> rq_resource_id r = se_resource_server_id e \<and>
            Some (rq_agent_identity_id r) = se_agent_identity_id e \<and> rq_status r = ''pending'') (w_requests w) \<and>
         (case present (se_connection_id e) of None \<Rightarrow> True | Some c \<Rightarrow> active_connection c w)
      then insert_or_skip_entitlement
        (e\<lparr>se_user_id := None, se_application_id := None, se_organization_id := None,
           se_source_access_request_id := Some request_id, se_ended_at := None, se_end_reason := None\<rparr>) w
      else Inr ([], w))"

section \<open>Token leases\<close>

record lease_boundary =
  lb_agent_identity_id :: string
  lb_resource_server_id :: string
  lb_connection_id :: "string option"
  lb_authorization_context_hash :: string
  lb_scopes :: "string list"

text \<open>The entitlement a lease names is still the one its boundary describes.\<close>

definition lease_entitlement_ok ::
    "lease_boundary \<Rightarrow> int \<Rightarrow> resource_scope_entitlement \<Rightarrow> bool" where
  "lease_entitlement_ok b created_at e \<longleftrightarrow>
     \<not> (differs (se_agent_identity_id e) (lb_agent_identity_id b) \<or>
        se_resource_server_id e \<noteq> lb_resource_server_id b \<or> se_connection_id e \<noteq> lb_connection_id b \<or>
        se_authorization_context_hash e \<noteq> lb_authorization_context_hash b \<or> se_ended_at e \<noteq> None \<or>
        (case se_expires_at e of None \<Rightarrow> False | Some t \<Rightarrow> t \<le> created_at) \<or>
        se_scope e \<notin> set (lb_scopes b))"

definition lease_entitlements :: "external_token_lease \<Rightarrow> world \<Rightarrow> resource_scope_entitlement option list" where
  "lease_entitlements l w = map (\<lambda>i. find_entitlement i w) (tl_entitlement_ids l)"

definition lease_authorized :: "lease_boundary \<Rightarrow> external_token_lease \<Rightarrow> access_request \<Rightarrow> world \<Rightarrow> bool" where
  "lease_authorized b l r w \<longleftrightarrow>
     rq_id r = tl_request_id l \<and> rq_status r \<in> {''approved'', ''consumed''} \<and>
     rq_agent_identity_id r = lb_agent_identity_id b \<and> rq_resource_id r = lb_resource_server_id b \<and>
     rq_connection_id r = lb_connection_id b \<and> length (tl_entitlement_ids l) = length (lb_scopes b) \<and>
     list_all (\<lambda>x. case x of None \<Rightarrow> False | Some e \<Rightarrow> lease_entitlement_ok b (tl_created_at l) e)
       (lease_entitlements l w) \<and>
     list_all (\<lambda>s. list_ex (\<lambda>x. case x of None \<Rightarrow> False | Some e \<Rightarrow> se_scope e = s) (lease_entitlements l w))
       (lb_scopes b) \<and>
     (case rq_connection_id r of None \<Rightarrow> True | Some c \<Rightarrow> active_connection c w) \<and>
     active_resource (rq_resource_id r) w"

definition insert_token_lease :: "lease_boundary \<Rightarrow> external_token_lease \<Rightarrow> external_token_lease statement" where
  "insert_token_lease b l w =
     (if \<not> list_ex (\<lambda>r. lease_authorized b l r w) (w_requests w) then Inr ([], w)
      else case insert_row True
        (tl_id l \<notin> set (map tl_id (w_leases w)) \<and> tl_token_hash l \<notin> set (map tl_token_hash (w_leases w)))
        (tl_binding_id l \<in> set (map ab_id (w_bindings w)))
        (w\<lparr>w_leases := w_leases w @ [l]\<rparr>) of
        Inl e \<Rightarrow> Inl e
      | Inr w' \<Rightarrow> Inr ([l], w'))"

definition lease_exists :: "string \<Rightarrow> world \<Rightarrow> bool" where
  "lease_exists i w \<longleftrightarrow> list_ex (\<lambda>l. tl_id l = i) (w_leases w)"

definition consume_request_statement :: "string \<Rightarrow> string \<Rightarrow> int \<Rightarrow> world \<Rightarrow> world" where
  "consume_request_statement request_id lease_id now w =
     w\<lparr>w_requests := update_where (\<lambda>r. rq_id r = request_id \<and> rq_status r = ''approved'' \<and> lease_exists lease_id w)
         (\<lambda>r. r\<lparr>rq_status := ''consumed'', rq_updated_at := now\<rparr>) (w_requests w)\<rparr>"

abbreviation entitlement_ended :: "end_reason \<Rightarrow> int \<Rightarrow> resource_scope_entitlement \<Rightarrow> resource_scope_entitlement" where
  "entitlement_ended reason now \<equiv>
     (\<lambda>e. e\<lparr>se_ended_at := Some now, se_end_reason := Some reason, se_updated_at := now\<rparr>)"

definition consume_entitlements_statement :: "string list \<Rightarrow> string \<Rightarrow> int \<Rightarrow> world \<Rightarrow> world" where
  "consume_entitlements_statement ids lease_id now w =
     w\<lparr>w_entitlements := update_where (\<lambda>e. se_id e \<in> set ids \<and> se_ended_at e = None \<and> lease_exists lease_id w)
         (entitlement_ended Consumed now) (w_entitlements w)\<rparr>"

text \<open>\<open>insert into agent_audit_event select ... where\<close>: the event is written when a row is selected.\<close>

definition audit_where :: "bool \<Rightarrow> agent_audit_event \<Rightarrow> world \<Rightarrow> failure + world" where
  "audit_where selected e w = (if selected then insert_audit e w else Inr w)"

end
