(* ===== verification/World_Laws.thy ===== *)
theory World_Laws
  imports Agent_Identity_Repo Resource_Statements
begin

text \<open>
  The laws every write to the Agent tables keeps, as a locale over the relation between the
  world before and after: what a row may become, and which rows may be added. It is
  interpreted twice: for the well-formedness of the database (keys, references, checks, and a
  deleted identity without power), and for the history of the database (a principal is never
  reassigned, an audit event never removed, a revocation never undone).
\<close>

section \<open>What an update makes of a row\<close>

definition identity_step :: "agent_identity \<Rightarrow> agent_identity \<Rightarrow> bool" where
  "identity_step i j \<longleftrightarrow>
     ai_id j = ai_id i \<and> ai_issuer j = ai_issuer i \<and> ai_subject j = ai_subject i \<and>
     ai_owner_user_id j = ai_owner_user_id i \<and> ai_created_at j = ai_created_at i \<and>
     (ai_username i \<noteq> None \<longrightarrow> ai_username j = ai_username i) \<and>
     (ai_deleted_at i \<noteq> None \<longrightarrow> ai_deleted_at j = ai_deleted_at i \<and>
        (ai_status i = Identity_inactive \<longrightarrow> ai_status j = Identity_inactive))"

definition binding_step :: "agent_identity_binding \<Rightarrow> agent_identity_binding \<Rightarrow> bool" where
  "binding_step b c \<longleftrightarrow>
     ab_id c = ab_id b \<and> ab_agent_identity_id c = ab_agent_identity_id b \<and>
     ab_protocol_agent_id c = ab_protocol_agent_id b \<and> ab_bound_at c = ab_bound_at b \<and>
     ab_created_at c = ab_created_at b \<and>
     (ab_status b \<noteq> ''active'' \<longrightarrow> ab_status c \<noteq> ''active'')"

definition agent_step :: "agent \<Rightarrow> agent \<Rightarrow> bool" where
  "agent_step a b \<longleftrightarrow>
     ag_id b = ag_id a \<and> ag_host_id b = ag_host_id a \<and> ag_public_key b = ag_public_key a \<and>
     (ag_status a = ''revoked'' \<longrightarrow> ag_status b = ''revoked'')"

definition host_step :: "agent_host \<Rightarrow> agent_host \<Rightarrow> bool" where
  "host_step h k \<longleftrightarrow>
     ah_id k = ah_id h \<and> ah_public_key k = ah_public_key h \<and>
     (ah_status h = ''revoked'' \<longrightarrow> ah_status k = ''revoked'')"

definition grant_step :: "agent_capability_grant \<Rightarrow> agent_capability_grant \<Rightarrow> bool" where
  "grant_step g h \<longleftrightarrow>
     cg_id h = cg_id g \<and> cg_agent_id h = cg_agent_id g \<and> cg_capability h = cg_capability g \<and>
     (cg_status g = ''revoked'' \<longrightarrow> cg_status h = ''revoked'')"

definition approval_step :: "approval_request \<Rightarrow> approval_request \<Rightarrow> bool" where
  "approval_step r q \<longleftrightarrow>
     ar_id q = ar_id r \<and> ar_agent_id q = ar_agent_id r \<and> ar_host_id q = ar_host_id r \<and>
     ar_user_id q = ar_user_id r \<and> (ar_status r \<noteq> ''pending'' \<longrightarrow> ar_status q \<noteq> ''pending'')"

definition intent_step :: "agent_enrollment_intent \<Rightarrow> agent_enrollment_intent \<Rightarrow> bool" where
  "intent_step r q \<longleftrightarrow>
     ei_id q = ei_id r \<and> ei_agent_identity_id q = ei_agent_identity_id r \<and>
     ei_requested_name q = ei_requested_name r \<and> ei_requested_username q = ei_requested_username r \<and>
     ei_requested_runtime q = ei_requested_runtime r \<and> ei_owner_user_id q = ei_owner_user_id r \<and>
     ei_protocol_agent_id q = ei_protocol_agent_id r \<and> ei_idempotency_key q = ei_idempotency_key r \<and>
     ei_created_by_user_id q = ei_created_by_user_id r \<and> ei_expires_at q = ei_expires_at r \<and>
     (ei_status r \<noteq> ''pending'' \<longrightarrow> q = r)"

text \<open>
  Of an entitlement only the lifetime and the context hash may change while it has not ended,
  and nothing afterwards. An access request is decided once, and consumed after an approval.
\<close>

definition entitlement_step :: "resource_scope_entitlement \<Rightarrow> resource_scope_entitlement \<Rightarrow> bool" where
  "entitlement_step e f \<longleftrightarrow>
     se_id f = se_id e \<and> se_user_id f = se_user_id e \<and> se_application_id f = se_application_id e \<and>
     se_agent_identity_id f = se_agent_identity_id e \<and> se_organization_id f = se_organization_id e \<and>
     se_resource_server_id f = se_resource_server_id e \<and> se_connection_id f = se_connection_id e \<and>
     se_authorization_details f = se_authorization_details e \<and> se_scope f = se_scope e \<and>
     se_granted_by_user_id f = se_granted_by_user_id e \<and>
     se_granted_by_agent_identity_id f = se_granted_by_agent_identity_id e \<and>
     se_source_access_request_id f = se_source_access_request_id e \<and> se_created_at f = se_created_at e \<and>
     (se_ended_at e \<noteq> None \<longrightarrow> f = e)"

definition request_step :: "access_request \<Rightarrow> access_request \<Rightarrow> bool" where
  "request_step q r \<longleftrightarrow>
     rq_id r = rq_id q \<and> rq_resource_id r = rq_resource_id q \<and>
     rq_agent_identity_id r = rq_agent_identity_id q \<and> rq_binding_id r = rq_binding_id q \<and>
     rq_scopes r = rq_scopes q \<and> rq_approval_token_hash r = rq_approval_token_hash q \<and>
     rq_expires_at r = rq_expires_at q \<and> rq_created_at r = rq_created_at q \<and>
     (rq_status q \<noteq> ''pending'' \<longrightarrow>
        (rq_status r = rq_status q \<or> rq_status q = ''approved'' \<and> rq_status r = ''consumed'') \<and>
        rq_connection_id r = rq_connection_id q \<and> rq_authorization_details r = rq_authorization_details q \<and>
        rq_approved_entitlements r = rq_approved_entitlements q \<and> rq_decided_at r = rq_decided_at q)"

definition lease_step :: "external_token_lease \<Rightarrow> external_token_lease \<Rightarrow> bool" where
  "lease_step l m \<longleftrightarrow>
     tl_id m = tl_id l \<and> tl_request_id m = tl_request_id l \<and> tl_scopes m = tl_scopes l \<and>
     tl_entitlement_ids m = tl_entitlement_ids l \<and> tl_binding_id m = tl_binding_id l \<and>
     tl_token_hash m = tl_token_hash l \<and> tl_expires_at m = tl_expires_at l \<and>
     (tl_revoked_at l \<noteq> None \<longrightarrow> tl_revoked_at m \<noteq> None)"

lemmas row_step_defs = identity_step_def binding_step_def agent_step_def host_step_def grant_step_def
  approval_step_def intent_step_def entitlement_step_def request_step_def lease_step_def

lemma batch_relates:
  assumes reflexive: "\<And>u. R u u" and transitive: "\<And>u v x. R u v \<Longrightarrow> R v x \<Longrightarrow> R u x"
    and each: "\<And>f u v. f \<in> set fs \<Longrightarrow> f u = Inr v \<Longrightarrow> R u v" and run: "batch fs w = Inr w'"
  shows "R w w'"
  using each run
proof (induction fs arbitrary: w)
  case Nil
  then show ?case by (simp add: reflexive)
next
  case (Cons f fs)
  from Cons.prems(2) obtain u where u: "f w = Inr u" "batch fs u = Inr w'"
    by (auto split: sum.splits)
  have "R w u" by (rule Cons.prems(1) [of f]) (simp_all add: u(1))
  moreover have "R u w'"
  proof (rule Cons.IH [OF _ u(2)])
    show "R v v'" if "g \<in> set fs" "g v = Inr v'" for g v v'
      by (rule Cons.prems(1) [of g]) (simp_all add: that)
  qed
  ultimately show ?case by (rule transitive)
qed

section \<open>The law locale\<close>

definition live_target :: "agent_identity_binding \<Rightarrow> world \<Rightarrow> bool" where
  "live_target b w \<longleftrightarrow>
     (\<forall>i \<in> set (w_identities w). ai_id i = ab_agent_identity_id b \<longrightarrow> ai_deleted_at i = None)"

text \<open>The request an entitlement comes from asked for it: same Agent, same resource.\<close>

definition entitlement_sourced :: "resource_scope_entitlement \<Rightarrow> world \<Rightarrow> bool" where
  "entitlement_sourced e w \<longleftrightarrow>
     (case se_source_access_request_id e of None \<Rightarrow> True
      | Some k \<Rightarrow> \<exists>q \<in> set (w_requests w). rq_id q = k \<and> se_agent_identity_id e = Some (rq_agent_identity_id q) \<and>
          rq_resource_id q = se_resource_server_id e)"

text \<open>
  Three layers of statements: reading, which takes identifiers and looks at the clock; the tables
  beside access, the connected accounts and the used proofs; and the tables of the Agents and
  their access.
\<close>

locale reading_law = step_law R for R :: "world \<Rightarrow> world \<Rightarrow> bool" +
  fixes env :: env
  assumes take_id: "R w (w\<lparr>w_ids_taken := n\<rparr>)"
    and take_time: "R w (w\<lparr>w_clock_ticks := Suc (w_clock_ticks w)\<rparr>)"
begin

lemma law_generate_id [law_intros]: "evolves R (generate_id env)"
  by (simp add: evolves_def generate_id_def take_id)

lemma law_new_date [law_intros]: "evolves R (new_date env)"
  by (simp add: evolves_def new_date_def take_time)

text \<open>A continuation that relies on the time being one the clock has shown.\<close>

lemma law_at_time:
  assumes "\<And>n w r t. n < w_clock_ticks w \<Longrightarrow> f (env_clock env n) w = (r, t) \<Longrightarrow> R w t"
  shows "evolves R (bind (new_date env) f)"
proof (rule evolvesI)
  fix w :: world and r t
  let ?w = "w\<lparr>w_clock_ticks := Suc (w_clock_ticks w)\<rparr>"
  assume "bind (new_date env) f w = (r, t)"
  then have "f (env_clock env (w_clock_ticks w)) ?w = (r, t)" by (simp add: bind_def new_date_def)
  then have "R ?w t" by (rule assms [rotated]) simp
  with take_time [of w] show "R w t" by (rule law_trans)
qed

lemma law_random_token [law_intros]: "evolves R (random_token env)"
  by (simp add: evolves_def random_token_def take_id)

lemma law_token_answer [law_intros]: "evolves R (token_answer_of env r)"
  by (simp add: evolves_def token_answer_of_def take_id)

end

locale beside_law = reading_law +
  assumes change_connections: "R w (w\<lparr>w_connections := cs\<rparr>)"
    and change_jtis: "n < w_clock_ticks w \<Longrightarrow>
         R w (w\<lparr>w_dpop_jtis := filter (\<lambda>j. \<not> dj_expires_at j < env_clock env n) (w_dpop_jtis w) @ js\<rparr>)"

locale agent_law = beside_law +
  assumes add_host: "insert_host h w = Inr w' \<Longrightarrow> R w w'"
    and add_agent: "insert_agent a w = Inr w' \<Longrightarrow> R w w'"
    and add_approval: "insert_approval q w = Inr w' \<Longrightarrow> R w w'"
    and add_identity: "ai_deleted_at i = None \<Longrightarrow> insert_identity i w = Inr w' \<Longrightarrow> R w w'"
    and add_binding: "live_target b w \<Longrightarrow> insert_binding b w = Inr w' \<Longrightarrow> R w w'"
    and add_creation: "insert_creation c w = Inr w' \<Longrightarrow> R w w'"
    and add_intent: "insert_intent t w = Inr w' \<Longrightarrow> R w w'"
    and add_audit: "insert_audit e w = Inr w' \<Longrightarrow> R w w'"
    and change_identities: "(\<And>i. i \<in> set (w_identities w) \<Longrightarrow> pi i \<Longrightarrow> identity_step i (fi i) \<and> ai_username (fi i) = ai_username i \<and>
           (ai_deleted_at (fi i) = ai_deleted_at i)) \<Longrightarrow>
         R w (w\<lparr>w_identities := update_where pi fi (w_identities w)\<rparr>)"
    and claim_name: "claim_statement k profile now w = Inr w' \<Longrightarrow> R w w'"
    and change_bindings: "(\<And>b. b \<in> set (w_bindings w) \<Longrightarrow> pb b \<Longrightarrow> binding_step b (fb b)) \<Longrightarrow>
         R w (w\<lparr>w_bindings := update_where pb fb (w_bindings w)\<rparr>)"
    and change_agents: "(\<And>a. a \<in> set (w_agents w) \<Longrightarrow> pa a \<Longrightarrow> agent_step a (fa a) \<and>
           (ag_user_id (fa a) = ag_user_id a \<or> references_optional (ag_user_id (fa a)) (w_users w))) \<Longrightarrow>
         R w (w\<lparr>w_agents := update_where pa fa (w_agents w)\<rparr>)"
    and change_hosts: "(\<And>h. h \<in> set (w_hosts w) \<Longrightarrow> ph h \<Longrightarrow> host_step h (fh h) \<and>
           (ah_user_id (fh h) = ah_user_id h \<or> references_optional (ah_user_id (fh h)) (w_users w))) \<Longrightarrow>
         R w (w\<lparr>w_hosts := update_where ph fh (w_hosts w)\<rparr>)"
    and change_grants: "(\<And>g. g \<in> set (w_grants w) \<Longrightarrow> pg g \<Longrightarrow> grant_step g (fg g)) \<Longrightarrow>
         R w (w\<lparr>w_grants := update_where pg fg (w_grants w)\<rparr>)"
    and change_approvals: "(\<And>q. q \<in> set (w_approvals w) \<Longrightarrow> pq q \<Longrightarrow> approval_step q (fq q)) \<Longrightarrow>
         R w (w\<lparr>w_approvals := update_where pq fq (w_approvals w)\<rparr>)"
    and change_intents: "(\<And>t. t \<in> set (w_intents w) \<Longrightarrow> pt t \<Longrightarrow> intent_step t (ft t) \<and>
           (ei_approved_by_user_id (ft t) = ei_approved_by_user_id t \<or>
            references_optional (ei_approved_by_user_id (ft t)) (w_users w))) \<Longrightarrow>
         R w (w\<lparr>w_intents := update_where pt ft (w_intents w)\<rparr>)"
    and add_request: "rq_status r \<in> {''pending'', ''approved''} \<Longrightarrow> insert_access_request r w = Inr (rs, w') \<Longrightarrow> R w w'"
    and decide_request: "ad_status d \<in> {''approved'', ''denied''} \<Longrightarrow>
         update_access_request_decision k d w = Inr (rs, w') \<Longrightarrow> R w w'"
    and consume_request: "R w (consume_request_statement k l now w)"
    and add_entitlement: "se_ended_at e' = None \<Longrightarrow> entitlement_checks e' \<Longrightarrow> entitlement_unique e' w \<Longrightarrow> entitlement_references e' w \<Longrightarrow>
         entitlement_sourced e' w \<Longrightarrow> R w (w\<lparr>w_entitlements := w_entitlements w @ [e']\<rparr>)"
    and rewrite_entitlements: "(\<And>e. e \<in> set (w_entitlements w) \<Longrightarrow> pe e \<Longrightarrow> entitlement_step e (fe e)) \<Longrightarrow>
         update_entitlements pe fe w = Inr (es, w') \<Longrightarrow> R w w'"
    and end_entitlements: "(\<And>e. pe e \<Longrightarrow> se_ended_at e = None) \<Longrightarrow>
         R w (w\<lparr>w_entitlements := update_where pe (entitlement_ended reason now) (w_entitlements w)\<rparr>)"
    and add_lease: "tl_revoked_at l' = None \<Longrightarrow> tl_scopes l' = lb_scopes b' \<Longrightarrow> insert_token_lease b' l' w = Inr (ls, w') \<Longrightarrow> R w w'"
    and change_resources: "R w (w\<lparr>w_resources := ss\<rparr>)"
    and change_organization_roles: "R w (w\<lparr>w_organization_roles := os\<rparr>)"
    and change_leases: "(\<And>l. l \<in> set (w_leases w) \<Longrightarrow> pl l \<Longrightarrow> lease_step l (fl l)) \<Longrightarrow>
         R w (w\<lparr>w_leases := update_where pl fl (w_leases w)\<rparr>)"
    and remove_identity: "batch (update_identities (\<lambda>i. ai_id i = k \<and> ai_deleted_at i = None)
             (\<lambda>i. i\<lparr>ai_status := Identity_inactive, ai_deleted_at := Some now, ai_updated_at := now\<rparr>) #
           revoke_protocol_agent_statements k ids now) w = Inr w' \<Longrightarrow> R w w'"
begin

lemma batch_law:
  "(\<And>f w w'. f \<in> set fs \<Longrightarrow> f w = Inr w' \<Longrightarrow> R w w') \<Longrightarrow> batch fs w = Inr w' \<Longrightarrow> R w w'"
  by (rule batch_relates [of R]) (blast intro: law_refl law_trans)+

lemma law_atomically [law_intros]:
  "(\<And>w w'. f w = Inr w' \<Longrightarrow> R w w') \<Longrightarrow> evolves R (atomically f)"
  by (rule evolves_atomically) (auto simp: law_refl)

lemma law_key_write [law_intros]: "evolves R m \<Longrightarrow> evolves R (identity_key_write m)"
  by (auto simp: identity_key_write_def intro!: law_intros)

lemma law_find_creation [law_intros]: "evolves R (find_application_creation a u k)"
  by (simp add: evolves_def find_application_creation_def ret_def throw_def law_refl split: option.split)

lemma revocation_law:
  "f \<in> set (revoke_protocol_agent_statements k ids now) \<Longrightarrow> f w = Inr w' \<Longrightarrow> R w w'"
  unfolding revoke_protocol_agent_statements_def
  by (auto simp: update_bindings_def update_agents_def update_grants_def update_approvals_def row_step_defs
      split: if_splits intro!: change_bindings change_agents change_grants change_approvals)

lemma insert_pair_law:
  assumes run: "batch [insert_identity i, insert_binding b] w = Inr w'"
    and live: "ai_deleted_at i = None" "ab_agent_identity_id b = ai_id i"
  shows "R w w'"
proof -
  from run obtain u where u: "insert_identity i w = Inr u" "insert_binding b u = Inr w'"
    by (auto split: sum.splits)
  have "live_target b u"
    using u(1) live unfolding insert_identity_def insert_row_def live_target_def
    by (auto split: if_splits) (metis imageI)
  with u live(1) show ?thesis by (blast intro: law_trans add_identity add_binding)
qed

lemma law_create_identity [law_intros]:
  "ai_deleted_at i = None \<Longrightarrow> ab_agent_identity_id b = ai_id i \<Longrightarrow> evolves R (create_identity i b)"
  unfolding create_identity_def by (intro law_intros) (rule insert_pair_law)

lemma law_raced [law_intros]: "evolves R (raced_creation c e)"
  unfolding raced_creation_def by (intro law_intros)

lemma law_reserve [law_intros]: "evolves R (reserve_application_creation c)"
proof -
  have tail: "evolves R (\<lambda>w. case insert_creation c w of
               Inl e \<Rightarrow> raced_creation c e w
             | Inr w' \<Rightarrow> bind (find_application_creation (ac_application_id c) (ac_actor_user_id c)
                         (ac_idempotency_key c))
                   (\<lambda>persisted. case persisted of
                      Some (r, i) \<Rightarrow> ret (r, i, True)
                    | None \<Rightarrow> throw (PlainError ''Agent application creation reservation was not persisted.'')) w')"
    (is "evolves R (\<lambda>w. case _ of Inl e \<Rightarrow> _ e w | Inr w' \<Rightarrow> ?again w')")
  proof (rule evolvesI)
    fix w r t
    assume run: "(case insert_creation c w of Inl e \<Rightarrow> raced_creation c e w | Inr w' \<Rightarrow> ?again w') = (r, t)"
    have again: "evolves R ?again"
      by (intro law_intros)
    show "R w t"
    proof (cases "insert_creation c w")
      case (Inl e)
      with run law_raced [of c e] show ?thesis by (auto dest: evolvesD)
    next
      case (Inr w')
      with run again have "R w' t" by (auto dest: evolvesD)
      with add_creation [OF Inr] show ?thesis by (rule law_trans)
    qed
  qed
  show ?thesis unfolding reserve_application_creation_def
    by (intro law_intros tail)
qed

lemma installation_law:
  assumes run: "batch (installation_statements input) w = Inr w'"
    and live: "ai_deleted_at (aw_identity input) = None"
      "ab_agent_identity_id (aw_binding input) = ai_id (aw_identity input)"
  shows "R w w'"
proof -
  from run obtain u1 u2 u3 u5 where
    u: "insert_host (aw_host input) w = Inr u1" "insert_agent (aw_protocol_agent input) u1 = Inr u2"
      "batch [insert_identity (aw_identity input), insert_binding (aw_binding input)] u2 = Inr u3"
      "insert_audit (aw_audit input) u3 = Inr u5" "insert_creation (aw_reservation input) u5 = Inr w'"
    by (auto simp: installation_statements_def split: sum.splits)
  show ?thesis
    using add_host [OF u(1)] add_agent [OF u(2)] insert_pair_law [OF u(3) live] add_audit [OF u(4)]
      add_creation [OF u(5)] by (blast intro: law_trans)
qed

lemma law_create_agent [law_intros]:
  assumes live: "ai_deleted_at (aw_identity input) = None"
      "ab_agent_identity_id (aw_binding input) = ai_id (aw_identity input)"
  shows "evolves R (create_agent_with_installation input)"
proof -
  have tail: "evolves R (\<lambda>w. case batch (installation_statements input) w of
               Inl e \<Rightarrow> raced_creation (aw_reservation input) e w
             | Inr w' \<Rightarrow>
                 (case find_identity (ai_id (aw_identity input)) w' of
                    None \<Rightarrow> throw (PlainError ''Agent identity and installation were not persisted.'') w'
                  | Some i \<Rightarrow> ret (aw_reservation input, i, True) w'))"
  proof (rule evolvesI)
    fix w r t
    assume run: "(case batch (installation_statements input) w of
               Inl e \<Rightarrow> raced_creation (aw_reservation input) e w
             | Inr w' \<Rightarrow>
                 (case find_identity (ai_id (aw_identity input)) w' of
                    None \<Rightarrow> throw (PlainError ''Agent identity and installation were not persisted.'') w'
                  | Some i \<Rightarrow> ret (aw_reservation input, i, True) w')) = (r, t)"
    show "R w t"
    proof (cases "batch (installation_statements input) w")
      case (Inl e)
      with run law_raced show ?thesis by (auto dest: evolvesD)
    next
      case (Inr w')
      with run have "t = w'" by (auto simp: throw_def ret_def split: option.splits)
      with installation_law [OF Inr live] show ?thesis by simp
    qed
  qed
  show ?thesis unfolding create_agent_with_installation_def Let_def
    by (intro law_intros tail)
qed

lemma law_claim [law_intros]: "evolves R (claim_identity_profile k profile now)"
  unfolding claim_identity_profile_def by (intro law_intros) (rule claim_name)

lemma law_create_intent [law_intros]: "evolves R (create_intent t)"
  unfolding create_intent_def by (intro law_intros) (rule add_intent)

lemma law_create_intent_idempotently [law_intros]: "evolves R (create_intent_idempotently t k)"
  unfolding create_intent_idempotently_def evolves_def
  by (auto split: sum.split option.split intro: add_intent law_refl)

lemma approve_intent_law:
  assumes live: "case ia_identity input of
       Some i \<Rightarrow> ai_deleted_at i = None \<and> ab_agent_identity_id (ia_binding input) = ai_id i
     | None \<Rightarrow> live_target (ia_binding input) w"
    and run: "approve_intent input w = (r, t)"
  shows "R w t"
proof -
  have mark: "approve_intent_statement input u = Inr v \<Longrightarrow> R u v" for u v
    unfolding approve_intent_statement_def Let_def
    by (auto simp: intent_step_def references_optional_def list_ex_iff split: if_splits
        intro!: change_intents) 
  have stored: "R w v" if "batch (approval_statements input) w = Inr v" for v
  proof (cases "ia_identity input")
    case None
    with that obtain u where "insert_binding (ia_binding input) w = Inr u" "approve_intent_statement input u = Inr v"
      by (auto simp: approval_statements_def split: sum.splits)
    with None live mark show ?thesis by (auto intro: law_trans add_binding)
  next
    case (Some i)
    with that obtain u where "batch [insert_identity i, insert_binding (ia_binding input)] w = Inr u"
      "approve_intent_statement input u = Inr v"
      by (auto simp: approval_statements_def split: sum.splits)
    moreover have "R w u" using calculation(1) live Some by (auto intro: insert_pair_law)
    ultimately show ?thesis using mark by (blast intro: law_trans)
  qed
  show ?thesis
  proof (cases "batch (approval_statements input) w")
    case (Inl e)
    with run have "t = w"
      by (auto simp: approve_intent_def identity_key_write_def catch_def atomically_def bind_def throw_def)
    then show ?thesis by (simp add: law_refl)
  next
    case (Inr v)
    with run have "t = v"
      by (auto simp: approve_intent_def identity_key_write_def catch_def atomically_def bind_def throw_def
          gets_def found_def ret_def split: option.splits)
    with stored [OF Inr] show ?thesis by simp
  qed
qed

lemma law_revoke_protocol_agents [law_intros]: "evolves R (revoke_protocol_agents k ids now)"
  unfolding revoke_protocol_agents_def
  by (intro law_intros) (rule batch_law [OF revocation_law])

lemma law_revoke_binding [law_intros]: "evolves R (revoke_binding k p now)"
  unfolding revoke_binding_def by (intro law_intros)

lemma law_deactivate [law_intros]: "evolves R (deactivate_identity k now revoking)"
proof -
  have "R w w'" if "f \<in> set (update_identities (\<lambda>r. ai_id r = k)
              (\<lambda>r. r\<lparr>ai_status := Identity_inactive, ai_updated_at := now\<rparr>) #
            (if revoking then revoke_protocol_agent_statements k ids now else []))" "f w = Inr w'" for f w w' ids
    using that
    by (auto simp: update_identities_def identity_step_def split: if_splits
        intro!: change_identities intro: revocation_law)
  then show ?thesis unfolding deactivate_identity_def
    by (intro law_intros) (blast intro: batch_law)
qed

lemma law_activate [law_intros]: "evolves R (activate_identity k now)"
  unfolding activate_identity_def Let_def
  by (intro law_intros) (auto simp: update_identities_def identity_step_def intro!: change_identities)

lemma law_delete [law_intros]: "evolves R (delete_identity k now)"
  unfolding delete_identity_def by (intro law_intros) (rule remove_identity)

end

end
