(* ===== verification/Resource_Invariants.thy ===== *)
theory Resource_Invariants
  imports World_Laws
begin

text \<open>
  What holds of the resource tables whatever the order of the statements: the keys and checks of
  the schema, where entitlements come from, and what stands behind a token lease; and that every
  statement on them keeps it.
\<close>

text \<open>
  The resource tables: keys, the checks and unique indexes of entitlements, the request an
  entitlement comes from, and behind every token lease an approved request whose Agent no entitlement of
  the lease contradicts, entitlements on the resource of the request, for exactly its scopes.
\<close>

definition lease_backed :: "external_token_lease \<Rightarrow> world \<Rightarrow> bool" where
  "lease_backed l w \<longleftrightarrow>
     (\<exists>q \<in> set (w_requests w). rq_id q = tl_request_id l \<and> rq_status q \<in> {''approved'', ''consumed''} \<and>
        (\<forall>i \<in> set (tl_entitlement_ids l). \<exists>e \<in> set (w_entitlements w). se_id e = i \<and>
           \<not> differs (se_agent_identity_id e) (rq_agent_identity_id q) \<and>
           se_resource_server_id e = rq_resource_id q \<and> se_scope e \<in> set (tl_scopes l)) \<and>
        (\<forall>s \<in> set (tl_scopes l). \<exists>e \<in> set (w_entitlements w). se_id e \<in> set (tl_entitlement_ids l) \<and> se_scope e = s))"

definition resources_sound :: "world \<Rightarrow> bool" where
  "resources_sound w \<longleftrightarrow>
     distinct (map rq_id (w_requests w)) \<and> distinct (map rq_approval_token_hash (w_requests w)) \<and>
     distinct (map tl_token_hash (w_leases w)) \<and> distinct (map se_id (w_entitlements w)) \<and>
     distinct (map tl_id (w_leases w)) \<and>
     (\<forall>e \<in> set (w_entitlements w). entitlement_checks e) \<and>
     distinct (concat (map active_keys (w_entitlements w))) \<and>
     (\<forall>e \<in> set (w_entitlements w). entitlement_sourced e w) \<and>
     (\<forall>l \<in> set (w_leases w). lease_backed l w)"

lemma entitlement_sourced_same:
  "w_requests v = w_requests w \<Longrightarrow> entitlement_sourced e v = entitlement_sourced e w"
  by (simp add: entitlement_sourced_def split: option.split)

lemma lease_backed_same:
  "w_requests v = w_requests w \<Longrightarrow> w_entitlements v = w_entitlements w \<Longrightarrow> lease_backed l v = lease_backed l w"
  by (simp add: lease_backed_def)

lemma resources_sound_same:
  "w_requests v = w_requests w \<Longrightarrow> w_leases v = w_leases w \<Longrightarrow> w_entitlements v = w_entitlements w \<Longrightarrow>
     resources_sound v = resources_sound w"
  by (simp add: resources_sound_def entitlement_sourced_same [of v w] lease_backed_same [of v w])

lemma resources_sound_others [simp]:
  "resources_sound (w\<lparr>w_hosts := a\<rparr>) = resources_sound w" "resources_sound (w\<lparr>w_agents := b\<rparr>) = resources_sound w"
  "resources_sound (w\<lparr>w_grants := c\<rparr>) = resources_sound w" "resources_sound (w\<lparr>w_approvals := d\<rparr>) = resources_sound w"
  "resources_sound (w\<lparr>w_identities := e\<rparr>) = resources_sound w" "resources_sound (w\<lparr>w_bindings := f\<rparr>) = resources_sound w"
  "resources_sound (w\<lparr>w_creations := g\<rparr>) = resources_sound w" "resources_sound (w\<lparr>w_intents := h\<rparr>) = resources_sound w"
  "resources_sound (w\<lparr>w_audits := i\<rparr>) = resources_sound w" "resources_sound (w\<lparr>w_resources := j\<rparr>) = resources_sound w"
  "resources_sound (w\<lparr>w_organization_roles := l\<rparr>) = resources_sound w"
  "resources_sound (w\<lparr>w_connections := cs\<rparr>) = resources_sound w"
  "resources_sound (w\<lparr>w_dpop_jtis := k\<rparr>) = resources_sound w" "resources_sound (w\<lparr>w_ids_taken := m\<rparr>) = resources_sound w"
  "resources_sound (w\<lparr>w_clock_ticks := n\<rparr>) = resources_sound w"
  by (rule resources_sound_same; simp)+

section \<open>What stays behind a row\<close>

text \<open>A later world that has kept what identifies the requests and the entitlements.\<close>

definition keeps_requests :: "world \<Rightarrow> world \<Rightarrow> bool" where
  "keeps_requests w v \<longleftrightarrow>
     (\<forall>q \<in> set (w_requests w). \<exists>r \<in> set (w_requests v). rq_id r = rq_id q \<and>
        rq_agent_identity_id r = rq_agent_identity_id q \<and> rq_resource_id r = rq_resource_id q \<and>
        (rq_status q \<in> {''approved'', ''consumed''} \<longrightarrow> rq_status r \<in> {''approved'', ''consumed''}))"

definition keeps_entitlements :: "world \<Rightarrow> world \<Rightarrow> bool" where
  "keeps_entitlements w v \<longleftrightarrow>
     (\<forall>e \<in> set (w_entitlements w). \<exists>f \<in> set (w_entitlements v). se_id f = se_id e \<and>
        se_agent_identity_id f = se_agent_identity_id e \<and> se_resource_server_id f = se_resource_server_id e \<and>
        se_scope f = se_scope e)"

lemma keeps_same [simp]:
  "w_requests v = w_requests w \<Longrightarrow> keeps_requests w v"
  "w_entitlements v = w_entitlements w \<Longrightarrow> keeps_entitlements w v"
  by (auto simp: keeps_requests_def keeps_entitlements_def)

lemma keeps_append [simp]:
  "w_requests v = w_requests w @ qs \<Longrightarrow> keeps_requests w v"
  "w_entitlements v = w_entitlements w @ es \<Longrightarrow> keeps_entitlements w v"
  by (auto simp: keeps_requests_def keeps_entitlements_def)

lemma updated_row:
  "r \<in> set rows \<Longrightarrow> (if p r then f r else r) \<in> set (update_where p f rows)"
  by (auto simp: in_update_where)

lemma keeps_requests_update:
  assumes "w_requests v = update_where p f (w_requests w)"
    and step: "\<And>q. q \<in> set (w_requests w) \<Longrightarrow> p q \<Longrightarrow> request_step q (f q)"
  shows "keeps_requests w v"
  unfolding keeps_requests_def
proof
  fix q assume q: "q \<in> set (w_requests w)"
  show "\<exists>r \<in> set (w_requests v). rq_id r = rq_id q \<and> rq_agent_identity_id r = rq_agent_identity_id q \<and>
      rq_resource_id r = rq_resource_id q \<and>
      (rq_status q \<in> {''approved'', ''consumed''} \<longrightarrow> rq_status r \<in> {''approved'', ''consumed''})"
    using updated_row [OF q, of p f] step [OF q] assms(1)
    by (intro bexI [of _ "if p q then f q else q"]) (auto simp: request_step_def)
qed

lemma keeps_entitlements_update:
  assumes "w_entitlements v = update_where p f (w_entitlements w)"
    and step: "\<And>e. e \<in> set (w_entitlements w) \<Longrightarrow> p e \<Longrightarrow> entitlement_step e (f e)"
  shows "keeps_entitlements w v"
  unfolding keeps_entitlements_def
proof
  fix e assume e: "e \<in> set (w_entitlements w)"
  show "\<exists>f \<in> set (w_entitlements v). se_id f = se_id e \<and> se_agent_identity_id f = se_agent_identity_id e \<and>
      se_resource_server_id f = se_resource_server_id e \<and> se_scope f = se_scope e"
    using updated_row [OF e, of p f] step [OF e] assms(1)
    by (intro bexI [of _ "if p e then f e else e"]) (auto simp: entitlement_step_def)
qed

lemmas keeps_update = keeps_requests_update keeps_entitlements_update

lemma entitlement_sourced_kept:
  "entitlement_sourced e w \<Longrightarrow> keeps_requests w v \<Longrightarrow> entitlement_sourced e v"
  unfolding entitlement_sourced_def keeps_requests_def by (fastforce split: option.splits)

lemma entitlement_sourced_step:
  "entitlement_sourced e w \<Longrightarrow> entitlement_step e f \<Longrightarrow> entitlement_sourced f w"
  by (auto simp: entitlement_sourced_def entitlement_step_def split: option.splits)

lemma lease_backed_kept:
  assumes backed: "lease_backed l w" and kept: "keeps_requests w v" "keeps_entitlements w v"
  shows "lease_backed l v"
proof -
  from backed obtain q where q: "q \<in> set (w_requests w)" "rq_id q = tl_request_id l"
      "rq_status q \<in> {''approved'', ''consumed''}"
    and ids: "\<And>i. i \<in> set (tl_entitlement_ids l) \<Longrightarrow> \<exists>e \<in> set (w_entitlements w). se_id e = i \<and>
           \<not> differs (se_agent_identity_id e) (rq_agent_identity_id q) \<and>
           se_resource_server_id e = rq_resource_id q \<and> se_scope e \<in> set (tl_scopes l)"
    and scopes: "\<And>s. s \<in> set (tl_scopes l) \<Longrightarrow>
        \<exists>e \<in> set (w_entitlements w). se_id e \<in> set (tl_entitlement_ids l) \<and> se_scope e = s"
    unfolding lease_backed_def by blast
  from q kept(1) obtain r where r: "r \<in> set (w_requests v)" "rq_id r = tl_request_id l"
    "rq_agent_identity_id r = rq_agent_identity_id q" "rq_resource_id r = rq_resource_id q"
    "rq_status r \<in> {''approved'', ''consumed''}"
    unfolding keeps_requests_def by metis
  have "\<exists>e \<in> set (w_entitlements v). se_id e = i \<and> \<not> differs (se_agent_identity_id e) (rq_agent_identity_id r) \<and>
      se_resource_server_id e = rq_resource_id r \<and> se_scope e \<in> set (tl_scopes l)" if "i \<in> set (tl_entitlement_ids l)" for i
    using ids [OF that] kept(2) r(3,4) unfolding keeps_entitlements_def by metis
  moreover have "\<exists>e \<in> set (w_entitlements v). se_id e \<in> set (tl_entitlement_ids l) \<and> se_scope e = s"
    if "s \<in> set (tl_scopes l)" for s
    using scopes [OF that] kept(2) unfolding keeps_entitlements_def by metis
  ultimately show ?thesis using r(1,2,5) unfolding lease_backed_def by blast
qed

lemma kept_tables:
  assumes "resources_sound w" "keeps_requests w v" "keeps_entitlements w v"
  shows "\<forall>e \<in> set (w_entitlements w). entitlement_sourced e v" "\<forall>l \<in> set (w_leases w). lease_backed l v"
  using assms entitlement_sourced_kept lease_backed_kept unfolding resources_sound_def by blast+

section \<open>Unique indexes\<close>

lemma distinct_active_keys [simp]: "distinct (active_keys e)"
  by (auto simp: active_keys_def subjects_def split: option.splits)

lemma active_keys_ended [simp]: "active_keys (entitlement_ended reason now e) = []"
  by (simp add: active_keys_def)

lemma active_keys_of_ended:
  "set (concat (map active_keys (update_where p (entitlement_ended reason now) rows))) \<subseteq>
     set (concat (map active_keys rows))"
  by (induction rows) auto

lemma distinct_keys_ended:
  "distinct (concat (map active_keys rows)) \<Longrightarrow>
     distinct (concat (map active_keys (update_where p (entitlement_ended reason now) rows)))"
proof (induction rows)
  case (Cons e rows)
  then show ?case using active_keys_of_ended [where p = p and rows = rows and reason = reason and now = now] by auto
qed simp

section \<open>Every statement keeps the resource tables sound\<close>

lemma entitlement_step_ended: "se_ended_at e = None \<Longrightarrow> entitlement_step e (entitlement_ended reason now e)"
  by (simp add: entitlement_step_def)

lemma entitlement_checks_ended: "entitlement_checks e \<Longrightarrow> entitlement_checks (entitlement_ended reason now e)"
  by (auto simp: entitlement_checks_def split: entitlement_mode.splits)

lemma request_step_decision:
  "rq_status r = ''pending'' \<Longrightarrow> request_step r (apply_decision d r)"
  by (auto simp: request_step_def apply_decision_def Let_def split: option.splits)

lemma request_step_consumed:
  "rq_status r = ''approved'' \<Longrightarrow> request_step r (r\<lparr>rq_status := ''consumed'', rq_updated_at := now\<rparr>)"
  by (simp add: request_step_def)

lemma request_keys_update:
  assumes "\<And>q. q \<in> set rows \<Longrightarrow> p q \<Longrightarrow> request_step q (f q)"
  shows "map rq_id (update_where p f rows) = map rq_id rows"
    "map rq_approval_token_hash (update_where p f rows) = map rq_approval_token_hash rows"
  using assms by (auto simp: update_where_def request_step_def)

lemma sound_change_requests:
  assumes sound: "resources_sound w"
    and step: "\<And>q. q \<in> set (w_requests w) \<Longrightarrow> p q \<Longrightarrow> request_step q (f q)"
  shows "resources_sound (w\<lparr>w_requests := update_where p f (w_requests w)\<rparr>)" (is "resources_sound ?v")
proof -
  have kept: "keeps_requests w ?v" "keeps_entitlements w ?v"
    using step by (auto intro: keeps_update)
  show ?thesis
    using sound kept_tables [OF sound kept]
    unfolding resources_sound_def by (simp add: request_keys_update [OF step])
qed

lemma insert_access_request_cases:
  assumes "insert_access_request r w = Inr (rs, w')"
  obtains "rs = []" "w' = w"
  | "rs = [r]" "w' = w\<lparr>w_requests := w_requests w @ [r]\<rparr>" "rq_id r \<notin> set (map rq_id (w_requests w))"
      "rq_approval_token_hash r \<notin> set (map rq_approval_token_hash (w_requests w))"
  using assms by (auto simp: insert_access_request_def insert_row_def split: if_splits)

lemma sound_add_request:
  assumes sound: "resources_sound w" and run: "insert_access_request r w = Inr (rs, w')"
  shows "resources_sound w'"
  using run
proof (cases rule: insert_access_request_cases)
  case 1
  with sound show ?thesis by simp
next
  case 2
  have kept: "keeps_requests w w'" "keeps_entitlements w w'" by (simp_all add: 2)
  show ?thesis
    using sound kept_tables [OF sound kept] 2(3,4) unfolding resources_sound_def 2(2) by simp
qed

lemma sound_change_entitlements:
  assumes sound: "resources_sound w"
    and step: "\<And>e. e \<in> set (w_entitlements w) \<Longrightarrow> p e \<Longrightarrow> entitlement_step e (f e)"
    and checks: "\<And>e. e \<in> set (w_entitlements w) \<Longrightarrow> p e \<Longrightarrow> entitlement_checks (f e)"
    and keys: "distinct (concat (map active_keys (update_where p f (w_entitlements w))))"
  shows "resources_sound (w\<lparr>w_entitlements := update_where p f (w_entitlements w)\<rparr>)" (is "resources_sound ?v")
proof -
  have kept: "keeps_requests w ?v" "keeps_entitlements w ?v"
    using step by (auto intro: keeps_update)
  have "entitlement_sourced e ?v" if "e \<in> set (w_entitlements ?v)" for e
  proof -
    from that obtain q where q: "q \<in> set (w_entitlements w)" "e = (if p q then f q else q)"
      by (auto simp: in_update_where)
    with sound have "entitlement_sourced q w" by (simp add: resources_sound_def)
    then have "entitlement_sourced e w"
      using entitlement_sourced_step [OF _ step [OF q(1)]] q(2) by (cases "p q") auto
    then show ?thesis by (rule entitlement_sourced_kept [OF _ kept(1)])
  qed
  moreover have "entitlement_checks e" if "e \<in> set (w_entitlements ?v)" for e
  proof -
    from that obtain q where q: "q \<in> set (w_entitlements w)" "e = (if p q then f q else q)"
      by (auto simp: in_update_where)
    with sound checks [OF q(1)] show ?thesis by (cases "p q") (auto simp: resources_sound_def)
  qed
  moreover have "map se_id (w_entitlements ?v) = map se_id (w_entitlements w)"
    using step by (auto simp: update_where_def entitlement_step_def)
  ultimately show ?thesis
    using sound keys kept_tables(2) [OF sound kept] unfolding resources_sound_def by simp
qed

lemma sound_end_entitlements:
  assumes "resources_sound w" "\<And>e. p e \<Longrightarrow> se_ended_at e = None"
  shows "resources_sound (w\<lparr>w_entitlements := update_where p (entitlement_ended reason now) (w_entitlements w)\<rparr>)"
  using assms
  by (intro sound_change_entitlements entitlement_step_ended entitlement_checks_ended distinct_keys_ended)
    (auto simp: resources_sound_def)

lemma sound_rewrite_entitlements:
  assumes "resources_sound w" "\<And>e. e \<in> set (w_entitlements w) \<Longrightarrow> p e \<Longrightarrow> entitlement_step e (f e)"
    "update_entitlements p f w = Inr (es, w')"
  shows "resources_sound w'"
  using assms(3) sound_change_entitlements [OF assms(1,2), of p]
  by (auto simp: update_entitlements_def Let_def list_all_iff split: if_splits)

lemma sound_add_entitlement:
  assumes sound: "resources_sound w" and new: "entitlement_checks e" "entitlement_unique e w" "entitlement_sourced e w"
  shows "resources_sound (w\<lparr>w_entitlements := w_entitlements w @ [e]\<rparr>)" (is "resources_sound ?v")
proof -
  have kept: "keeps_requests w ?v" "keeps_entitlements w ?v" by simp_all
  have "set (concat (map active_keys (w_entitlements w))) \<inter> set (active_keys e) = {}"
    using new(2) unfolding entitlement_unique_def list_all_iff by blast
  then have "distinct (concat (map active_keys (w_entitlements w @ [e])))"
    using sound unfolding resources_sound_def map_append concat_append distinct_append by simp
  moreover have "entitlement_sourced e ?v" by (rule entitlement_sourced_kept [OF new(3) kept(1)])
  moreover have "se_id e \<notin> set (map se_id (w_entitlements w))" using new(2) by (simp add: entitlement_unique_def)
  ultimately show ?thesis
    using sound new(1) kept_tables [OF sound kept] unfolding resources_sound_def by simp
qed

lemma sound_change_leases:
  assumes "resources_sound w" "\<And>l. l \<in> set (w_leases w) \<Longrightarrow> p l \<Longrightarrow> lease_step l (f l)"
  shows "resources_sound (w\<lparr>w_leases := update_where p f (w_leases w)\<rparr>)"
proof -
  have same: "tl_id (f l) = tl_id l" "tl_token_hash (f l) = tl_token_hash l"
    "tl_request_id (f l) = tl_request_id l" "tl_entitlement_ids (f l) = tl_entitlement_ids l"
    "tl_scopes (f l) = tl_scopes l" if "l \<in> set (w_leases w)" "p l" for l
    using assms(2) [OF that] by (auto simp: lease_step_def)
  have "map tl_id (update_where p f (w_leases w)) = map tl_id (w_leases w)"
    "map tl_token_hash (update_where p f (w_leases w)) = map tl_token_hash (w_leases w)"
    using same by (auto simp: update_where_def)
  moreover have "lease_backed (f l) w = lease_backed l w" if "l \<in> set (w_leases w)" "p l" for l
    by (simp add: lease_backed_def same [OF that])
  moreover have "lease_backed l w" if "l \<in> set (update_where p f (w_leases w))" for l
    using that assms(1) calculation(3) by (auto simp: in_update_where resources_sound_def)
  ultimately show ?thesis
    using assms(1) unfolding resources_sound_def
    by (simp add: entitlement_sourced_same [of "w\<lparr>w_leases := x\<rparr>" w for x]
        lease_backed_same [of "w\<lparr>w_leases := x\<rparr>" w for x])
qed

lemma lease_authorized_backed:
  assumes ok: "lease_authorized b l q w" and q: "q \<in> set (w_requests w)" and scopes: "tl_scopes l = lb_scopes b"
  shows "lease_backed l w"
proof -
  have found: "\<exists>e \<in> set (w_entitlements w). se_id e = i \<and> find_entitlement i w = Some e \<and>
      lease_entitlement_ok b (tl_created_at l) e"
    if "i \<in> set (tl_entitlement_ids l)" for i
  proof -
    from ok that have "case find_entitlement i w of None \<Rightarrow> False | Some e \<Rightarrow> lease_entitlement_ok b (tl_created_at l) e"
      by (auto simp: lease_authorized_def lease_entitlements_def list_all_iff)
    then obtain e where e: "find_entitlement i w = Some e" "lease_entitlement_ok b (tl_created_at l) e"
      by (auto split: option.splits)
    from find_SomeD [OF e(1) [unfolded find_entitlement_def]] e show ?thesis by auto
  qed
  have covered: "\<exists>e \<in> set (w_entitlements w). se_id e \<in> set (tl_entitlement_ids l) \<and> se_scope e = s"
    if s: "s \<in> set (tl_scopes l)" for s
  proof -
    from ok s scopes obtain i where i: "i \<in> set (tl_entitlement_ids l)"
      "case find_entitlement i w of None \<Rightarrow> False | Some e \<Rightarrow> se_scope e = s"
      by (auto simp: lease_authorized_def lease_entitlements_def list_all_iff list_ex_iff)
    with found [OF i(1)] show ?thesis by fastforce
  qed
  from ok have request: "rq_id q = tl_request_id l" "rq_agent_identity_id q = lb_agent_identity_id b"
    "rq_resource_id q = lb_resource_server_id b" "rq_status q \<in> {''approved'', ''consumed''}" by (auto simp: lease_authorized_def)
  have "\<exists>e \<in> set (w_entitlements w). se_id e = i \<and> \<not> differs (se_agent_identity_id e) (rq_agent_identity_id q) \<and>
      se_resource_server_id e = rq_resource_id q \<and> se_scope e \<in> set (tl_scopes l)"
    if "i \<in> set (tl_entitlement_ids l)" for i
    using found [OF that] unfolding lease_entitlement_ok_def request(2,3) scopes by blast
  with covered q request(1,4) show ?thesis unfolding lease_backed_def by blast
qed

lemma insert_token_lease_cases:
  assumes "insert_token_lease b l w = Inr (ls, w')"
  obtains "ls = []" "w' = w"
  | q where "ls = [l]" "w' = w\<lparr>w_leases := w_leases w @ [l]\<rparr>" "q \<in> set (w_requests w)" "lease_authorized b l q w"
      "tl_id l \<notin> set (map tl_id (w_leases w))" "tl_token_hash l \<notin> set (map tl_token_hash (w_leases w))"
      "tl_binding_id l \<in> set (map ab_id (w_bindings w))"
  using assms by (auto simp: insert_token_lease_def insert_row_def list_ex_iff split: if_splits)

lemma sound_add_lease:
  assumes sound: "resources_sound w" and scopes: "tl_scopes l = lb_scopes b"
    and run: "insert_token_lease b l w = Inr (ls, w')"
  shows "resources_sound w'"
  using run
proof (cases rule: insert_token_lease_cases)
  case 1
  with sound show ?thesis by simp
next
  case (2 q)
  have kept: "keeps_requests w w'" "keeps_entitlements w w'" by (simp_all add: 2)
  have "lease_backed l w'"
    using lease_backed_kept [OF lease_authorized_backed [OF 2(4,3) scopes] kept] .
  then show ?thesis
    using sound 2(5,6) kept_tables [OF sound kept] unfolding resources_sound_def 2(2) by simp
qed

end
