(* ===== verification/World_Invariants.thy ===== *)
theory World_Invariants
  imports Resource_Invariants
begin

text \<open>
  The two interpretations of the law locale: \<open>well_formed\<close>, which the schema's keys,
  references and checks and the deletion of identities keep, and \<open>history\<close>, which relates a
  world to every later one.
\<close>

section \<open>Well-formed worlds\<close>

definition keys_unique :: "world \<Rightarrow> bool" where
  "keys_unique w \<longleftrightarrow>
     distinct (map ah_id (w_hosts w)) \<and> distinct (map ag_id (w_agents w)) \<and>
     distinct (map cg_id (w_grants w)) \<and> distinct (map ar_id (w_approvals w)) \<and>
     distinct (map ab_id (w_bindings w)) \<and> distinct (map ab_protocol_agent_id (w_bindings w)) \<and>
     distinct (map ac_id (w_creations w)) \<and> distinct (map creation_key (w_creations w)) \<and>
     distinct (map ei_id (w_intents w)) \<and> distinct (List.map_filter intent_key (w_intents w)) \<and>
     distinct (map au_id (w_audits w))"

definition identities_unique :: "world \<Rightarrow> bool" where
  "identities_unique w \<longleftrightarrow>
     distinct (map ai_id (w_identities w)) \<and>
     distinct (map (\<lambda>i. (ai_issuer i, ai_subject i)) (w_identities w)) \<and>
     distinct (List.map_filter ai_username (w_identities w))"

definition references_hold :: "world \<Rightarrow> bool" where
  "references_hold w \<longleftrightarrow>
     (\<forall>h \<in> set (w_hosts w). references_optional (ah_user_id h) (w_users w)) \<and>
     (\<forall>a \<in> set (w_agents w). references_optional (ag_user_id a) (w_users w) \<and>
        ag_host_id a \<in> ah_id ` set (w_hosts w)) \<and>
     (\<forall>i \<in> set (w_identities w). ai_owner_user_id i \<in> set (w_users w)) \<and>
     (\<forall>b \<in> set (w_bindings w). ab_agent_identity_id b \<in> ai_id ` set (w_identities w) \<and>
        ab_protocol_agent_id b \<in> ag_id ` set (w_agents w)) \<and>
     (\<forall>c \<in> set (w_creations w). ac_actor_user_id c \<in> set (w_users w) \<and>
        ac_agent_identity_id c \<in> ai_id ` set (w_identities w))"

definition intents_refer :: "world \<Rightarrow> bool" where
  "intents_refer w \<longleftrightarrow> (\<forall>t \<in> set (w_intents w). intent_shape t \<and> intent_references t w)"

definition audits_owned :: "world \<Rightarrow> bool" where
  "audits_owned w \<longleftrightarrow> (\<forall>e \<in> set (w_audits w). exactly_one_owner e)"

definition deleted_powerless :: "world \<Rightarrow> bool" where
  "deleted_powerless w \<longleftrightarrow>
     (\<forall>i \<in> set (w_identities w). ai_deleted_at i \<noteq> None \<longrightarrow>
        ai_status i = Identity_inactive \<and>
        (\<forall>b \<in> set (w_bindings w). ab_agent_identity_id b = ai_id i \<longrightarrow> ab_status b \<noteq> ''active''))"

definition well_formed :: "world \<Rightarrow> bool" where
  "well_formed w \<longleftrightarrow> keys_unique w \<and> identities_unique w \<and> references_hold w \<and> intents_refer w \<and>
     audits_owned w \<and> deleted_powerless w \<and> resources_sound w"

lemmas well_formed_defs = well_formed_def keys_unique_def identities_unique_def references_hold_def
  intents_refer_def audits_owned_def deleted_powerless_def

lemma keys_of_update:
  "(\<And>r. r \<in> set rows \<Longrightarrow> p r \<Longrightarrow> k (f r) = k r) \<Longrightarrow> map k (update_where p f rows) = map k rows"
  by (auto simp: update_where_def)

lemma images_of_update:
  "(\<And>r. r \<in> set rows \<Longrightarrow> p r \<Longrightarrow> k (f r) = k r) \<Longrightarrow>
     k ` set (update_where p f rows) = k ` set rows"
  using keys_of_update [of rows p k f] by (metis list.set_map)

lemma filter_keys_of_update:
  "(\<And>r. r \<in> set rows \<Longrightarrow> p r \<Longrightarrow> k (f r) = k r) \<Longrightarrow>
     List.map_filter k (update_where p f rows) = List.map_filter k rows"
  by (induction rows) (auto simp: map_filter_simps split: option.splits)

lemma distinct_snoc [simp]: "distinct (xs @ [x]) \<longleftrightarrow> distinct xs \<and> x \<notin> set xs"
  by auto

lemma map_filter_snoc: "List.map_filter f (xs @ [x]) = List.map_filter f xs @ (case f x of None \<Rightarrow> [] | Some y \<Rightarrow> [y])"
  by (simp add: map_filter_def split: option.splits)

lemma set_map_filter: "set (List.map_filter f xs) = {y. \<exists>x \<in> set xs. f x = Some y}"
  by (force simp: map_filter_def)

lemma well_formed_counters:
  "well_formed (w\<lparr>w_ids_taken := n\<rparr>) = well_formed w" "well_formed (w\<lparr>w_clock_ticks := n\<rparr>) = well_formed w"
  by (simp_all add: well_formed_defs intent_references_def)

lemma insert_row_InrD: "insert_row c u r w' = Inr v \<Longrightarrow> c \<and> u \<and> r \<and> v = w'"
  by (auto simp: insert_row_def split: if_splits)

lemma well_formed_add_identity:
  assumes wf: "well_formed w" and live: "ai_deleted_at i = None" and ins: "insert_identity i w = Inr w'"
  shows "well_formed w'"
proof -
  from ins have new: "ai_id i \<notin> set (map ai_id (w_identities w))"
      "(ai_issuer i, ai_subject i) \<notin> set (map (\<lambda>r. (ai_issuer r, ai_subject r)) (w_identities w))"
      "username_free (ai_username i) (w_identities w)" "ai_owner_user_id i \<in> set (w_users w)"
    and w': "w' = w\<lparr>w_identities := w_identities w @ [i]\<rparr>"
    unfolding insert_identity_def by (auto dest!: insert_row_InrD)
  have "identities_unique w'"
    using wf new unfolding well_formed_def identities_unique_def w'
    by (auto simp: map_filter_snoc set_map_filter username_free_def split: option.split)
      (metis image_eqI)
  moreover have "keys_unique w'" "audits_owned w'" "references_hold w'" "intents_refer w'"
    using wf new unfolding well_formed_defs w'
    by (auto simp: intent_references_def references_optional_def split: option.splits)
  moreover have "deleted_powerless w'"
    using wf live unfolding well_formed_def deleted_powerless_def w' by auto
  moreover have "resources_sound w'" using wf unfolding well_formed_def w' by simp
  ultimately show ?thesis by (simp add: well_formed_def)
qed

lemma well_formed_add_binding:
  assumes wf: "well_formed w" and live: "live_target b w" and ins: "insert_binding b w = Inr w'"
  shows "well_formed w'"
  using wf live insert_row_InrD [OF ins [unfolded insert_binding_def]]
  unfolding well_formed_defs live_target_def
  by (auto simp: intent_references_def)

lemma intent_references_mono:
  assumes "intent_references t w" "set (w_identities w) \<subseteq> set (w_identities v)"
    "set (map ag_id (w_agents w)) \<subseteq> set (map ag_id (w_agents v))" "w_users v = w_users w"
  shows "intent_references t v"
  using assms unfolding intent_references_def references_optional_def
  by (auto split: option.splits)

lemma well_formed_add_host:
  assumes "well_formed w" "insert_host h w = Inr w'" shows "well_formed w'"
  using assms(1) insert_row_InrD [OF assms(2) [unfolded insert_host_def]]
  unfolding well_formed_defs by (auto simp: intent_references_def)

lemma well_formed_add_approval:
  assumes "well_formed w" "insert_approval q w = Inr w'" shows "well_formed w'"
  using assms(1) insert_row_InrD [OF assms(2) [unfolded insert_approval_def]]
  unfolding well_formed_defs by (auto simp: intent_references_def)

lemma well_formed_add_creation:
  assumes "well_formed w" "insert_creation c w = Inr w'" shows "well_formed w'"
  using assms(1) insert_row_InrD [OF assms(2) [unfolded insert_creation_def]]
  unfolding well_formed_defs by (auto simp: intent_references_def)

lemma well_formed_add_audit:
  assumes "well_formed w" "insert_audit e w = Inr w'" shows "well_formed w'"
  using assms(1) insert_row_InrD [OF assms(2) [unfolded insert_audit_def]]
  unfolding well_formed_defs by (auto simp: intent_references_def)

lemmas well_formed_add_others = well_formed_add_host well_formed_add_approval
  well_formed_add_creation well_formed_add_audit

lemma well_formed_add_agent:
  assumes "well_formed w" "insert_agent a w = Inr w'" shows "well_formed w'"
  using assms(1) insert_row_InrD [OF assms(2) [unfolded insert_agent_def]]
  unfolding well_formed_defs by (auto simp: intent_references_def)

lemma well_formed_add_intent:
  assumes wf: "well_formed w" and ins: "insert_intent t w = Inr w'"
  shows "well_formed w'"
proof -
  from insert_row_InrD [OF ins [unfolded insert_intent_def]]
  have new: "intent_shape t" "intent_unique t w" "intent_references t w"
    and w': "w' = w\<lparr>w_intents := w_intents w @ [t]\<rparr>" by auto
  have "keys_unique w'"
    using wf new(2) unfolding well_formed_def keys_unique_def intent_unique_def w'
    by (auto simp: map_filter_snoc set_map_filter image_iff split: option.split)
  moreover have "intents_refer w'"
    using wf new unfolding well_formed_def intents_refer_def w' by (auto simp: intent_references_def)
  ultimately show ?thesis
    using wf unfolding well_formed_def w'
    by (simp add: identities_unique_def references_hold_def audits_owned_def deleted_powerless_def)
qed

lemma well_formed_change_identities:
  assumes wf: "well_formed w"
    and step: "\<And>i. i \<in> set (w_identities w) \<Longrightarrow> p i \<Longrightarrow> identity_step i (f i) \<and>
      ai_username (f i) = ai_username i \<and> ai_deleted_at (f i) = ai_deleted_at i"
  shows "well_formed (w\<lparr>w_identities := update_where p f (w_identities w)\<rparr>)"
proof -
  let ?rows = "update_where p f (w_identities w)"
  have same: "map ai_id ?rows = map ai_id (w_identities w)"
    "map (\<lambda>i. (ai_issuer i, ai_subject i)) ?rows = map (\<lambda>i. (ai_issuer i, ai_subject i)) (w_identities w)"
    "List.map_filter ai_username ?rows = List.map_filter ai_username (w_identities w)"
    "ai_id ` set ?rows = ai_id ` set (w_identities w)"
    using step by (auto simp: identity_step_def intro!: keys_of_update filter_keys_of_update images_of_update)
  have "references_hold (w\<lparr>w_identities := ?rows\<rparr>)"
    using wf step unfolding well_formed_def references_hold_def
    by (auto simp: same in_update_where identity_step_def)
  moreover have "intents_refer (w\<lparr>w_identities := ?rows\<rparr>)"
    using wf unfolding well_formed_def intents_refer_def
    by (auto simp: intent_references_def references_optional_def same split: option.splits)
  moreover have "deleted_powerless (w\<lparr>w_identities := ?rows\<rparr>)"
    using wf step unfolding well_formed_def deleted_powerless_def
    by (auto simp: in_update_where identity_step_def split: if_splits)
  ultimately show ?thesis
    using wf unfolding well_formed_def by (simp add: keys_unique_def identities_unique_def audits_owned_def same)
qed

lemma well_formed_claim:
  assumes wf: "well_formed w" and run: "claim_statement k profile now w = Inr w'"
  shows "well_formed w'"
proof -
  let ?hit = "\<lambda>i. ai_id i = k \<and> ai_username i = None \<and> ai_deleted_at i = None"
  let ?f = "\<lambda>i. i\<lparr>ai_username := Some (ip_username profile), ai_name := ip_name profile,
                    ai_runtime := Some (ip_runtime profile), ai_updated_at := now\<rparr>"
  let ?rows = "update_where ?hit ?f (w_identities w)"
  from run have w': "w' = w\<lparr>w_identities := ?rows\<rparr>"
    and free: "list_ex ?hit (w_identities w) \<Longrightarrow> username_free (Some (ip_username profile)) (w_identities w)"
    by (auto simp: claim_statement_def update_identities_def Let_def split: if_splits)
  have same: "map ai_id ?rows = map ai_id (w_identities w)"
    "map (\<lambda>i. (ai_issuer i, ai_subject i)) ?rows = map (\<lambda>i. (ai_issuer i, ai_subject i)) (w_identities w)"
    "ai_id ` set ?rows = ai_id ` set (w_identities w)"
    by (auto intro!: keys_of_update images_of_update)
  have usernames: "distinct (List.map_filter ai_username (update_where ?hit ?f rows))"
    if "distinct (List.map_filter ai_username rows)" "distinct (map ai_id rows)"
      "list_ex ?hit rows \<longrightarrow> Some (ip_username profile) \<notin> ai_username ` set rows" for rows
    using that
  proof (induction rows)
    case (Cons r rows)
    show ?case
    proof (cases "?hit r")
      case True
      then have "update_where ?hit ?f rows = rows"
        using Cons.prems(2) by (auto simp: update_where_def rev_image_eqI intro!: map_idI)
      with True Cons.prems show ?thesis
        by (auto simp: map_filter_simps set_map_filter image_iff)
    next
      case False
      have tail: "list_ex ?hit rows \<longrightarrow> Some (ip_username profile) \<notin> ai_username ` set rows"
        using Cons.prems(3) by auto
      with False Cons show ?thesis
        by (auto simp: map_filter_simps set_map_filter in_update_where list_ex_iff split: option.splits if_splits)
    qed
  qed (simp add: map_filter_simps)
  have "identities_unique w'"
    using wf free usernames [of "w_identities w"]
    unfolding well_formed_def identities_unique_def w' by (auto simp: same username_free_def)
  moreover have "references_hold w'"
    using wf unfolding well_formed_def references_hold_def w' by (auto simp: same in_update_where)
  moreover have "intents_refer w'"
    using wf unfolding well_formed_def intents_refer_def w'
    by (auto simp: intent_references_def references_optional_def same split: option.splits)
  moreover have "deleted_powerless w'"
    using wf unfolding well_formed_def deleted_powerless_def w'
    by (auto simp: in_update_where split: if_splits)
  ultimately show ?thesis
    using wf unfolding well_formed_def w' by (simp add: keys_unique_def audits_owned_def)
qed

lemma well_formed_change_bindings:
  assumes wf: "well_formed w"
    and step: "\<And>b. b \<in> set (w_bindings w) \<Longrightarrow> p b \<Longrightarrow> binding_step b (f b)"
  shows "well_formed (w\<lparr>w_bindings := update_where p f (w_bindings w)\<rparr>)"
proof -
  let ?rows = "update_where p f (w_bindings w)"
  have same: "map ab_id ?rows = map ab_id (w_bindings w)"
    "map ab_protocol_agent_id ?rows = map ab_protocol_agent_id (w_bindings w)"
    using step by (auto simp: binding_step_def intro!: keys_of_update)
  have "references_hold (w\<lparr>w_bindings := ?rows\<rparr>)"
    using wf step unfolding well_formed_def references_hold_def
    by (auto simp: in_update_where binding_step_def)
  moreover have "deleted_powerless (w\<lparr>w_bindings := ?rows\<rparr>)"
    using wf step unfolding well_formed_def deleted_powerless_def
    by (auto simp: in_update_where binding_step_def split: if_splits)
  moreover have "intents_refer (w\<lparr>w_bindings := ?rows\<rparr>)"
    using wf by (simp add: well_formed_def intents_refer_def intent_references_def)
  ultimately show ?thesis
    using wf unfolding well_formed_def by (simp add: keys_unique_def identities_unique_def audits_owned_def same)
qed

lemma well_formed_change_agents:
  assumes wf: "well_formed w"
    and step: "\<And>a. a \<in> set (w_agents w) \<Longrightarrow> p a \<Longrightarrow> agent_step a (f a) \<and>
      (ag_user_id (f a) = ag_user_id a \<or> references_optional (ag_user_id (f a)) (w_users w))"
  shows "well_formed (w\<lparr>w_agents := update_where p f (w_agents w)\<rparr>)"
proof -
  let ?rows = "update_where p f (w_agents w)"
  have same: "map ag_id ?rows = map ag_id (w_agents w)" "ag_id ` set ?rows = ag_id ` set (w_agents w)"
    using step by (auto simp: agent_step_def intro!: keys_of_update images_of_update)
  have "references_hold (w\<lparr>w_agents := ?rows\<rparr>)"
    using wf step unfolding well_formed_def references_hold_def
    by (auto simp: same in_update_where agent_step_def) (metis)
  moreover have "intents_refer (w\<lparr>w_agents := ?rows\<rparr>)"
    using wf unfolding well_formed_def intents_refer_def by (simp add: intent_references_def same)
  ultimately show ?thesis
    using wf unfolding well_formed_def
    by (simp add: keys_unique_def identities_unique_def audits_owned_def deleted_powerless_def same)
qed

lemma well_formed_change_hosts:
  assumes wf: "well_formed w"
    and step: "\<And>h. h \<in> set (w_hosts w) \<Longrightarrow> p h \<Longrightarrow> host_step h (f h) \<and>
      (ah_user_id (f h) = ah_user_id h \<or> references_optional (ah_user_id (f h)) (w_users w))"
  shows "well_formed (w\<lparr>w_hosts := update_where p f (w_hosts w)\<rparr>)"
proof -
  let ?rows = "update_where p f (w_hosts w)"
  have same: "map ah_id ?rows = map ah_id (w_hosts w)" "ah_id ` set ?rows = ah_id ` set (w_hosts w)"
    using step by (auto simp: host_step_def intro!: keys_of_update images_of_update)
  have "references_hold (w\<lparr>w_hosts := ?rows\<rparr>)"
    using wf step unfolding well_formed_def references_hold_def
    by (auto simp: same in_update_where host_step_def) (metis)
  moreover have "intents_refer (w\<lparr>w_hosts := ?rows\<rparr>)"
    using wf unfolding well_formed_def intents_refer_def by (simp add: intent_references_def)
  ultimately show ?thesis
    using wf unfolding well_formed_def
    by (simp add: keys_unique_def identities_unique_def audits_owned_def deleted_powerless_def same)
qed

lemma well_formed_change_intents:
  assumes wf: "well_formed w"
    and step: "\<And>t. t \<in> set (w_intents w) \<Longrightarrow> p t \<Longrightarrow> intent_step t (f t) \<and>
      (ei_approved_by_user_id (f t) = ei_approved_by_user_id t \<or>
       references_optional (ei_approved_by_user_id (f t)) (w_users w))"
  shows "well_formed (w\<lparr>w_intents := update_where p f (w_intents w)\<rparr>)"
proof -
  let ?rows = "update_where p f (w_intents w)"
  have same: "map ei_id ?rows = map ei_id (w_intents w)"
    "List.map_filter intent_key ?rows = List.map_filter intent_key (w_intents w)"
    using step by (auto simp: intent_step_def intent_key_def intro!: keys_of_update filter_keys_of_update)
  have "intents_refer (w\<lparr>w_intents := ?rows\<rparr>)"
    unfolding intents_refer_def
  proof
    fix t assume "t \<in> set (w_intents (w\<lparr>w_intents := ?rows\<rparr>))"
    then obtain q where q: "q \<in> set (w_intents w)" "t = (if p q then f q else q)"
      by (auto simp: in_update_where)
    from wf q(1) have "intent_shape q" "intent_references q w"
      by (auto simp: well_formed_def intents_refer_def)
    then show "intent_shape t \<and> intent_references t (w\<lparr>w_intents := ?rows\<rparr>)"
      using q(2) step [OF q(1)]
      by (cases "p q") (auto simp: intent_step_def intent_shape_def intent_references_def)
  qed
  then show ?thesis
    using wf unfolding well_formed_def
    by (simp add: keys_unique_def identities_unique_def references_hold_def audits_owned_def
        deleted_powerless_def same)
qed

lemma well_formed_change_others:
  "well_formed w \<Longrightarrow> (\<And>g. g \<in> set (w_grants w) \<Longrightarrow> pg g \<Longrightarrow> grant_step g (fg g)) \<Longrightarrow>
     well_formed (w\<lparr>w_grants := update_where pg fg (w_grants w)\<rparr>)"
  "well_formed w \<Longrightarrow> (\<And>q. q \<in> set (w_approvals w) \<Longrightarrow> pq q \<Longrightarrow> approval_step q (fq q)) \<Longrightarrow>
     well_formed (w\<lparr>w_approvals := update_where pq fq (w_approvals w)\<rparr>)"
  by (simp_all add: well_formed_defs intent_references_def keys_of_update row_step_defs)

text \<open>Of a world only the resource tables matter to their part of well-formedness.\<close>

lemma well_formed_resource_tables:
  assumes wf: "well_formed w"
    and v: "\<exists>rs es ls ss js. v = w\<lparr>w_requests := rs, w_entitlements := es, w_leases := ls, w_resources := ss, w_dpop_jtis := js\<rparr>"
    and sound: "resources_sound w \<longrightarrow> resources_sound v"
  shows "well_formed v"
  using wf sound v unfolding well_formed_defs by (auto simp: intent_references_def)

lemma resource_tables_statements:
  "insert_access_request r w = Inr (qs, v) \<Longrightarrow>
     \<exists>rs es ls ss js. v = w\<lparr>w_requests := rs, w_entitlements := es, w_leases := ls, w_resources := ss, w_dpop_jtis := js\<rparr>"
  "update_access_request_decision k d w = Inr (qs, v) \<Longrightarrow>
     \<exists>rs es ls ss js. v = w\<lparr>w_requests := rs, w_entitlements := es, w_leases := ls, w_resources := ss, w_dpop_jtis := js\<rparr>"
  "update_entitlements p f w = Inr (xs, v) \<Longrightarrow>
     \<exists>rs es ls ss js. v = w\<lparr>w_requests := rs, w_entitlements := es, w_leases := ls, w_resources := ss, w_dpop_jtis := js\<rparr>"
  "insert_token_lease b l w = Inr (ms, v) \<Longrightarrow>
     \<exists>rs es ls ss js. v = w\<lparr>w_requests := rs, w_entitlements := es, w_leases := ls, w_resources := ss, w_dpop_jtis := js\<rparr>"
  by (cases w; auto simp: insert_access_request_def update_access_request_decision_def update_entitlements_def
      insert_token_lease_def insert_row_def Let_def split: if_splits)+

lemma well_formed_change_leases:
  "well_formed w \<Longrightarrow> (\<And>l. l \<in> set (w_leases w) \<Longrightarrow> pl l \<Longrightarrow> lease_step l (fl l)) \<Longrightarrow>
     well_formed (w\<lparr>w_leases := update_where pl fl (w_leases w)\<rparr>)"
  using sound_change_leases [of w pl fl] by (simp add: well_formed_defs intent_references_def)

lemma well_formed_decide:
  assumes wf: "well_formed w" and run: "update_access_request_decision k d w = Inr (rs, v)"
  shows "well_formed v"
proof (rule well_formed_resource_tables [OF wf resource_tables_statements(2) [OF run]], rule impI)
  assume "resources_sound w"
  with run show "resources_sound v"
    by (auto simp: update_access_request_decision_def Let_def split: if_splits
        intro!: sound_change_requests request_step_decision)
qed

lemma revocation_effect:
  assumes "batch (revoke_protocol_agent_statements k ids now) w = Inr w'"
  shows "w_identities w' = w_identities w \<and>
    w_bindings w' = update_where (\<lambda>b. ab_agent_identity_id b = k \<and> ab_status b = ''active'')
       (\<lambda>b. b\<lparr>ab_status := ''revoked'', ab_revoked_at := Some now, ab_updated_at := now\<rparr>) (w_bindings w)"
  using assms unfolding revoke_protocol_agent_statements_def
  by (auto simp: update_bindings_def update_agents_def update_grants_def update_approvals_def split: if_splits)

lemma revocation_leaves_none:
  assumes run: "batch (revoke_protocol_agent_statements k ids now) w = Inr w'"
    and b: "b \<in> set (w_bindings w')" "ab_status b = ''active''"
  shows "b \<in> set (w_bindings w) \<and> ab_agent_identity_id b \<noteq> k"
proof -
  from b(1) revocation_effect [OF run] obtain q where q: "q \<in> set (w_bindings w)"
    "b = (if ab_agent_identity_id q = k \<and> ab_status q = ''active''
          then q\<lparr>ab_status := ''revoked'', ab_revoked_at := Some now, ab_updated_at := now\<rparr> else q)"
    by (auto simp: in_update_where)
  show ?thesis
    using q b(2) by (cases "ab_agent_identity_id q = k \<and> ab_status q = ''active''") auto
qed

lemma revocation_well_formed:
  assumes "well_formed w" "batch (revoke_protocol_agent_statements k ids now) w = Inr w'"
  shows "well_formed w'"
proof -
  have "well_formed v" if "well_formed u" "f \<in> set (revoke_protocol_agent_statements k ids now)" "f u = Inr v"
    for f u v
    using that unfolding revoke_protocol_agent_statements_def
    by (auto simp: update_bindings_def update_agents_def update_grants_def update_approvals_def row_step_defs
        split: if_splits
        intro!: well_formed_change_bindings well_formed_change_agents well_formed_change_others)
  then have "well_formed w \<longrightarrow> well_formed w'"
    by (intro batch_relates [of "\<lambda>u v. well_formed u \<longrightarrow> well_formed v", OF _ _ _ assms(2)]) blast+
  with assms(1) show ?thesis by simp
qed

lemma well_formed_remove_identity:
  assumes wf: "well_formed w"
    and run: "batch (update_identities (\<lambda>i. ai_id i = k \<and> ai_deleted_at i = None)
             (\<lambda>i. i\<lparr>ai_status := Identity_inactive, ai_deleted_at := Some now, ai_updated_at := now\<rparr>) #
           revoke_protocol_agent_statements k ids now) w = Inr w'"
  shows "well_formed w'"
proof -
  let ?hit = "\<lambda>i. ai_id i = k \<and> ai_deleted_at i = None"
  let ?mark = "\<lambda>i. i\<lparr>ai_status := Identity_inactive, ai_deleted_at := Some now, ai_updated_at := now\<rparr>"
  let ?off = "\<lambda>i. i\<lparr>ai_status := Identity_inactive, ai_updated_at := now\<rparr>"
  let ?u = "w\<lparr>w_identities := update_where ?hit ?mark (w_identities w)\<rparr>"
  let ?v = "w\<lparr>w_identities := update_where ?hit ?off (w_identities w)\<rparr>"
  from run have u: "batch (revoke_protocol_agent_statements k ids now) ?u = Inr w'"
    by (simp add: update_identities_def)
  define x where "x = w'\<lparr>w_identities := update_where ?hit ?off (w_identities w)\<rparr>"
  have x: "batch (revoke_protocol_agent_statements k ids now) ?v = Inr x"
    using u unfolding x_def revoke_protocol_agent_statements_def
    by (cases "ids = []")
      (auto simp: update_bindings_def update_agents_def update_grants_def update_approvals_def)
  have "well_formed ?v"
    by (rule well_formed_change_identities [OF wf]) (simp add: identity_step_def)
  from revocation_well_formed [OF this x] have x_wf: "well_formed x" .
  have ids: "w_identities w' = update_where ?hit ?mark (w_identities w)"
    "w_identities x = update_where ?hit ?off (w_identities w)"
    using revocation_effect [OF u] revocation_effect [OF x] by simp_all
  have same: "map g (w_identities w') = map g (w_identities x)"
    if "\<And>i. g (?mark i) = g (?off i)" for g :: "agent_identity \<Rightarrow> 'b"
    using that by (simp add: ids update_where_def)
  have names: "List.map_filter ai_username (w_identities w') = List.map_filter ai_username (w_identities x)"
    unfolding ids by (simp add: filter_keys_of_update)
  have keys: "map ai_id (w_identities w') = map ai_id (w_identities x)"
    "map ai_owner_user_id (w_identities w') = map ai_owner_user_id (w_identities x)"
    "map (\<lambda>i. (ai_issuer i, ai_subject i)) (w_identities w') = map (\<lambda>i. (ai_issuer i, ai_subject i)) (w_identities x)"
    by (rule same; simp)+
  have images: "ai_id ` set (w_identities w') = ai_id ` set (w_identities x)"
    "ai_owner_user_id ` set (w_identities w') = ai_owner_user_id ` set (w_identities x)"
    using keys(1,2) by (metis list.set_map)+
  have tables: "w_bindings w' = w_bindings x" "w_hosts w' = w_hosts x" "w_agents w' = w_agents x"
    "w_grants w' = w_grants x" "w_approvals w' = w_approvals x" "w_creations w' = w_creations x"
    "w_intents w' = w_intents x" "w_audits w' = w_audits x" "w_entitlements w' = w_entitlements x"
    "w_leases w' = w_leases x" "w_users w' = w_users x"
    by (simp_all add: x_def)
  have "deleted_powerless w'"
  proof -
    have old: "\<And>i b. i \<in> set (w_identities w) \<Longrightarrow> ai_deleted_at i \<noteq> None \<Longrightarrow> ai_status i = Identity_inactive \<and>
        (b \<in> set (w_bindings w) \<longrightarrow> ab_agent_identity_id b = ai_id i \<longrightarrow> ab_status b \<noteq> ''active'')"
      using wf by (auto simp: well_formed_def deleted_powerless_def)
    show ?thesis unfolding deleted_powerless_def
    proof (intro ballI impI conjI)
      fix i assume "i \<in> set (w_identities w')" and gone: "ai_deleted_at i \<noteq> None"
      then obtain j where j: "j \<in> set (w_identities w)" "i = (if ?hit j then ?mark j else j)"
        by (auto simp: ids in_update_where)
      show "ai_status i = Identity_inactive" using old [of j] j gone by (cases "?hit j") auto
      fix b assume b: "b \<in> set (w_bindings w')" "ab_agent_identity_id b = ai_id i"
      show "ab_status b \<noteq> ''active''"
      proof
        assume active: "ab_status b = ''active''"
        from revocation_leaves_none [OF u b(1) active]
        have "b \<in> set (w_bindings w)" "ab_agent_identity_id b \<noteq> k" by simp_all
        with old [of j b] j gone b(2) active show False by (cases "?hit j") auto
      qed
    qed
  qed
  moreover have "identities_unique w'"
    using x_wf by (simp add: well_formed_def identities_unique_def keys names)
  moreover have "references_hold w'"
  proof -
    have "ai_owner_user_id ` set (w_identities w') \<subseteq> set (w_users x)"
      unfolding images(2) using x_wf by (auto simp: well_formed_def references_hold_def)
    with x_wf images(1) show ?thesis unfolding well_formed_def references_hold_def tables by auto
  qed
  moreover have "keys_unique w'" "intents_refer w'" "audits_owned w'"
    using x_wf unfolding well_formed_def
    by (simp_all add: keys_unique_def intents_refer_def audits_owned_def intent_references_def tables images
        references_optional_def keys)
  moreover have "resources_sound w'"
  proof -
    have "resources_sound x" using x_wf by (simp add: well_formed_def)
    then show ?thesis by (simp add: x_def)
  qed
  ultimately show ?thesis by (simp add: well_formed_def)
qed

interpretation well_formed: state_invariant well_formed .

interpretation keeps_well_formed: agent_law "\<lambda>s t. well_formed s \<longrightarrow> well_formed t" env for env
proof (unfold_locales, goal_cases)
  case 1 then show ?case by (simp add: well_formed_counters)
next
  case 2 then show ?case by (simp add: well_formed_counters)
next
  case 3 then show ?case by (simp add: well_formed_defs intent_references_def)
next
  case 4 then show ?case by (simp add: well_formed_defs intent_references_def)
next
  case 5 then show ?case by (blast intro: well_formed_add_others(1))
next
  case 6 then show ?case by (blast intro: well_formed_add_agent)
next
  case 7 then show ?case by (blast intro: well_formed_add_others(2))
next
  case 8 then show ?case by (blast intro: well_formed_add_identity)
next
  case 9 then show ?case by (blast intro: well_formed_add_binding)
next
  case 10 then show ?case by (blast intro: well_formed_add_others(3))
next
  case 11 then show ?case by (blast intro: well_formed_add_intent)
next
  case 12 then show ?case by (blast intro: well_formed_add_others(4))
next
  case 13 then show ?case by (blast intro: well_formed_change_identities)
next
  case 14 then show ?case by (blast intro: well_formed_claim)
next
  case 15 then show ?case by (blast intro: well_formed_change_bindings)
next
  case 16 then show ?case by (blast intro: well_formed_change_agents)
next
  case 17 then show ?case by (blast intro: well_formed_change_hosts)
next
  case 18 then show ?case by (blast intro: well_formed_change_others(1))
next
  case 19 then show ?case by (blast intro: well_formed_change_others(2))
next
  case 20 then show ?case by (blast intro: well_formed_change_intents)
next
  case 21
  then show ?case
    using well_formed_resource_tables [OF _ resource_tables_statements(1)] sound_add_request by metis
next
  case 22 then show ?case by (blast intro: well_formed_decide)
next
  case 23
  then show ?case
    by (auto simp: consume_request_statement_def well_formed_defs intent_references_def
        intro!: sound_change_requests request_step_consumed)
next
  case 24
  then show ?case
    using sound_add_entitlement by (auto simp: well_formed_defs intent_references_def)
next
  case 25
  then show ?case
    using well_formed_resource_tables [OF _ resource_tables_statements(3)] sound_rewrite_entitlements by metis
next
  case 26
  then show ?case
    using sound_end_entitlements by (auto simp: well_formed_defs intent_references_def)
next
  case 27
  then show ?case
    using well_formed_resource_tables [OF _ resource_tables_statements(4)] sound_add_lease by metis
next
  case 28 then show ?case by (simp add: well_formed_defs intent_references_def)
next
  case 29 then show ?case by (simp add: well_formed_defs intent_references_def)
next
  case 30 then show ?case by (blast intro: well_formed_change_leases)
next
  case 31 then show ?case by (blast intro: well_formed_remove_identity)
qed

section \<open>History\<close>

text \<open>
  Every row of the first world is still there in the second, at the same place, and only what
  a step allows has changed in it; the audit log has only grown.
\<close>

definition evolved :: "('r \<Rightarrow> 'r \<Rightarrow> bool) \<Rightarrow> 'r list \<Rightarrow> 'r list \<Rightarrow> bool" where
  "evolved step old new \<longleftrightarrow> length old \<le> length new \<and> list_all2 step old (take (length old) new)"

definition history :: "world \<Rightarrow> world \<Rightarrow> bool" where
  "history w v \<longleftrightarrow>
     evolved identity_step (w_identities w) (w_identities v) \<and>
     evolved binding_step (w_bindings w) (w_bindings v) \<and>
     evolved agent_step (w_agents w) (w_agents v) \<and>
     evolved host_step (w_hosts w) (w_hosts v) \<and>
     evolved grant_step (w_grants w) (w_grants v) \<and>
     evolved approval_step (w_approvals w) (w_approvals v) \<and>
     evolved intent_step (w_intents w) (w_intents v) \<and>
     evolved entitlement_step (w_entitlements w) (w_entitlements v) \<and>
     evolved request_step (w_requests w) (w_requests v) \<and>
     evolved lease_step (w_leases w) (w_leases v) \<and>
     evolved (=) (w_creations w) (w_creations v) \<and>
     evolved (=) (w_audits w) (w_audits v)"

lemma evolved_refl: "(\<And>r. step r r) \<Longrightarrow> evolved step rows rows"
  by (simp add: evolved_def list_all2_refl)

lemma evolved_append: "(\<And>r. step r r) \<Longrightarrow> evolved step rows (rows @ [r])"
  by (simp add: evolved_def list_all2_refl)

lemma evolved_update:
  "(\<And>r. r \<in> set rows \<Longrightarrow> p r \<Longrightarrow> step r (f r)) \<Longrightarrow> (\<And>r. step r r) \<Longrightarrow>
     evolved step rows (update_where p f rows)"
  by (auto simp: evolved_def list_all2_conv_all_nth update_where_def)

lemma evolved_trans:
  assumes "\<And>r q t. step r q \<Longrightarrow> step q t \<Longrightarrow> step r t" "evolved step a b" "evolved step b c"
  shows "evolved step a c"
  using assms unfolding evolved_def list_all2_conv_all_nth by auto

lemma row_steps_refl [simp]:
  "identity_step i i" "binding_step b b" "agent_step a a" "host_step h h" "grant_step g g" "approval_step q q"
  "intent_step t t" "entitlement_step e e" "request_step k k" "lease_step l l"
  by (auto simp: row_step_defs)

lemma row_steps_trans:
  "identity_step i j \<Longrightarrow> identity_step j k \<Longrightarrow> identity_step i k"
  "binding_step b c \<Longrightarrow> binding_step c d \<Longrightarrow> binding_step b d"
  "agent_step a1 a2 \<Longrightarrow> agent_step a2 a3 \<Longrightarrow> agent_step a1 a3"
  "host_step h1 h2 \<Longrightarrow> host_step h2 h3 \<Longrightarrow> host_step h1 h3"
  "grant_step g1 g2 \<Longrightarrow> grant_step g2 g3 \<Longrightarrow> grant_step g1 g3"
  "approval_step q1 q2 \<Longrightarrow> approval_step q2 q3 \<Longrightarrow> approval_step q1 q3"
  "entitlement_step e1 e2 \<Longrightarrow> entitlement_step e2 e3 \<Longrightarrow> entitlement_step e1 e3"
  "lease_step l1 l2 \<Longrightarrow> lease_step l2 l3 \<Longrightarrow> lease_step l1 l3"
  by (simp_all add: row_step_defs)

lemma request_step_trans: "request_step q1 q2 \<Longrightarrow> request_step q2 q3 \<Longrightarrow> request_step q1 q3"
  by (cases "rq_status q1 = ''pending''"; cases "rq_status q2 = ''pending''") (auto simp: request_step_def)

lemma intent_step_trans: "intent_step t1 t2 \<Longrightarrow> intent_step t2 t3 \<Longrightarrow> intent_step t1 t3"
  by (cases "ei_status t1 = ''pending''") (simp_all add: intent_step_def)

lemma history_refl: "history w w"
  by (simp add: history_def evolved_refl)

lemma history_trans: "history u v \<Longrightarrow> history v x \<Longrightarrow> history u x"
  unfolding history_def
  by (intro conjI; elim conjE; erule (1) evolved_trans [rotated]; (erule (1) row_steps_trans intent_step_trans request_step_trans | simp))

named_theorems history_intros \<open>how a world evolves when one table changes\<close>

lemma history_table [history_intros]:
  "evolved identity_step (w_identities w) x \<Longrightarrow> history w (w\<lparr>w_identities := x\<rparr>)"
  "evolved binding_step (w_bindings w) y \<Longrightarrow> history w (w\<lparr>w_bindings := y\<rparr>)"
  "evolved agent_step (w_agents w) z \<Longrightarrow> history w (w\<lparr>w_agents := z\<rparr>)"
  "evolved host_step (w_hosts w) h \<Longrightarrow> history w (w\<lparr>w_hosts := h\<rparr>)"
  "evolved grant_step (w_grants w) g \<Longrightarrow> history w (w\<lparr>w_grants := g\<rparr>)"
  "evolved approval_step (w_approvals w) q \<Longrightarrow> history w (w\<lparr>w_approvals := q\<rparr>)"
  "evolved intent_step (w_intents w) t \<Longrightarrow> history w (w\<lparr>w_intents := t\<rparr>)"
  "evolved entitlement_step (w_entitlements w) e \<Longrightarrow> history w (w\<lparr>w_entitlements := e\<rparr>)"
  "evolved request_step (w_requests w) k \<Longrightarrow> history w (w\<lparr>w_requests := k\<rparr>)"
  "history w (w\<lparr>w_resources := rs\<rparr>)" "history w (w\<lparr>w_connections := cs\<rparr>)"
  "history w (w\<lparr>w_organization_roles := os\<rparr>)" "history w (w\<lparr>w_dpop_jtis := js\<rparr>)"
  "evolved lease_step (w_leases w) l \<Longrightarrow> history w (w\<lparr>w_leases := l\<rparr>)"
  "evolved (=) (w_creations w) c \<Longrightarrow> history w (w\<lparr>w_creations := c\<rparr>)"
  "evolved (=) (w_audits w) a \<Longrightarrow> history w (w\<lparr>w_audits := a\<rparr>)"
  "history w (w\<lparr>w_ids_taken := n\<rparr>)" "history w (w\<lparr>w_clock_ticks := n\<rparr>)"
  by (simp_all add: history_def evolved_refl)

lemma history_inserts:
  "insert_host h w = Inr w' \<Longrightarrow> history w w'" "insert_agent a w = Inr w' \<Longrightarrow> history w w'"
  "insert_approval q w = Inr w' \<Longrightarrow> history w w'" "insert_identity i w = Inr w' \<Longrightarrow> history w w'"
  "insert_binding b w = Inr w' \<Longrightarrow> history w w'" "insert_creation c w = Inr w' \<Longrightarrow> history w w'"
  "insert_intent t w = Inr w' \<Longrightarrow> history w w'" "insert_audit e w = Inr w' \<Longrightarrow> history w w'"
  unfolding insert_host_def insert_agent_def insert_approval_def insert_identity_def insert_binding_def
    insert_creation_def insert_intent_def insert_audit_def
  by (drule insert_row_InrD, simp add: history_table evolved_append)+

lemma history_claim: "claim_statement k profile now w = Inr w' \<Longrightarrow> history w w'"
  by (auto simp: claim_statement_def update_identities_def Let_def identity_step_def split: if_splits
      intro!: history_intros evolved_update)

lemma history_revocation:
  "f \<in> set (revoke_protocol_agent_statements k ids now) \<Longrightarrow> f w = Inr w' \<Longrightarrow> history w w'"
  unfolding revoke_protocol_agent_statements_def
  by (auto simp: update_bindings_def update_agents_def update_grants_def update_approvals_def
      binding_step_def agent_step_def grant_step_def approval_step_def
      split: if_splits intro!: history_intros evolved_update)

lemma history_remove_identity:
  assumes "batch (update_identities (\<lambda>i. ai_id i = k \<and> ai_deleted_at i = None)
             (\<lambda>i. i\<lparr>ai_status := Identity_inactive, ai_deleted_at := Some now, ai_updated_at := now\<rparr>) #
           revoke_protocol_agent_statements k ids now) w = Inr w'"
  shows "history w w'"
proof (rule batch_relates [of history, OF history_refl history_trans _ assms])
  fix f u v
  assume f: "f \<in> set (update_identities (\<lambda>i. ai_id i = k \<and> ai_deleted_at i = None)
             (\<lambda>i. i\<lparr>ai_status := Identity_inactive, ai_deleted_at := Some now, ai_updated_at := now\<rparr>) #
           revoke_protocol_agent_statements k ids now)" and run: "f u = Inr v"
  have "history u v" if "f = update_identities (\<lambda>i. ai_id i = k \<and> ai_deleted_at i = None)
             (\<lambda>i. i\<lparr>ai_status := Identity_inactive, ai_deleted_at := Some now, ai_updated_at := now\<rparr>)"
    using run unfolding that
    by (auto simp: update_identities_def identity_step_def intro!: history_intros evolved_update)
  with f run show "history u v" by (auto intro: history_revocation)
qed

interpretation keeps_history: agent_law history env for env
proof (unfold_locales, goal_cases)
  case 1 show ?case by (rule history_refl)
next
  case (2 s t u) then show ?case by (rule history_trans)
next
  case 3 show ?case by (rule history_table)
next
  case 4 show ?case by (rule history_table)
next
  case 5 show ?case by (rule history_table)
next
  case 6 show ?case by (rule history_table)
next
  case 15 then show ?case by (intro history_table evolved_update) simp_all
next
  case 16 then show ?case by (rule history_claim)
next
  case 17 then show ?case by (intro history_table evolved_update) simp_all
next
  case 18 then show ?case by (intro history_table evolved_update) simp_all
next
  case 19 then show ?case by (intro history_table evolved_update) simp_all
next
  case 20 then show ?case by (intro history_table evolved_update) simp_all
next
  case 21 then show ?case by (intro history_table evolved_update) simp_all
next
  case 22 then show ?case by (intro history_table evolved_update) simp_all
next
  case 23 then show ?case by (auto elim: insert_access_request_cases intro!: history_intros evolved_append history_refl)
next
  case 24
  then show ?case
    by (auto simp: update_access_request_decision_def Let_def split: if_splits
        intro!: history_intros evolved_update request_step_decision)
next
  case 25
  then show ?case
    by (auto simp: consume_request_statement_def intro!: history_intros evolved_update request_step_consumed)
next
  case 26 then show ?case by (intro history_table evolved_append) simp
next
  case 27
  then show ?case
    by (auto simp: update_entitlements_def Let_def split: if_splits intro!: history_intros evolved_update)
next
  case 28 then show ?case by (intro history_table evolved_update entitlement_step_ended) simp_all
next
  case 29 then show ?case by (auto elim!: insert_token_lease_cases intro!: history_intros evolved_append history_refl)
next
  case 30 show ?case by (rule history_table)
next
  case 31 show ?case by (rule history_table)
next
  case 32 then show ?case by (intro history_table evolved_update) simp_all
next
  case 33 then show ?case by (rule history_remove_identity)
qed (blast intro: history_inserts)+

end
