(* ===== verification/Sample_World.thy ===== *)
theory Sample_World
  imports World_Invariants
begin

text \<open>
  A small concrete database and environment, on which the witnesses evaluate the operations:
  one user with a registered host and protocol agent, a stable identity bound to it, an
  entitlement of the identity with a lease, a second lease whose one-time entitlement was
  consumed, and an unbound protocol agent.
\<close>

definition empty_world :: world where
  "empty_world = \<lparr>w_users = [], w_hosts = [], w_agents = [], w_grants = [], w_approvals = [],
     w_identities = [], w_bindings = [], w_creations = [], w_intents = [], w_audits = [],
     w_entitlements = [], w_leases = [], w_requests = [], w_resources = [], w_connections = [],
     w_organizations = [], w_members = [], w_organization_roles = [], w_team_members = [], w_dpop_jtis = [],
     w_ids_taken = 0, w_clock_ticks = 0\<rparr>"

definition sample_host :: "string \<Rightarrow> agent_host" where
  "sample_host i = \<lparr>ah_id = i, ah_name = Some ''laptop'', ah_user_id = Some ''u1'', ah_default_capabilities = None,
     ah_public_key = Some ''key'', ah_kid = None, ah_jwks_url = None, ah_enrollment_token_hash = None,
     ah_enrollment_token_expires_at = None, ah_status = ''active'', ah_activated_at = Some 1, ah_expires_at = None,
     ah_last_used_at = None, ah_created_at = 1, ah_updated_at = 1\<rparr>"

definition sample_agent :: "string \<Rightarrow> agent" where
  "sample_agent i = \<lparr>ag_id = i, ag_name = ''coder'', ag_user_id = Some ''u1'', ag_host_id = ''h1'',
     ag_status = ''active'', ag_mode = ''delegated'', ag_public_key = ''key'', ag_kid = None, ag_jwks_url = None,
     ag_last_used_at = None, ag_activated_at = Some 1, ag_expires_at = None, ag_metadata = None,
     ag_created_at = 1, ag_updated_at = 1\<rparr>"

definition sample_identity :: agent_identity where
  "sample_identity = \<lparr>ai_id = ''i1'', ai_issuer = ''https://id'', ai_subject = ''s1'', ai_username = Some ''coder'',
     ai_name = ''Coder'', ai_runtime = Some ''codex'', ai_owner_user_id = ''u1'', ai_status = Identity_active,
     ai_deleted_at = None, ai_created_at = 2, ai_updated_at = 2\<rparr>"

definition sample_binding :: agent_identity_binding where
  "sample_binding = \<lparr>ab_id = ''b1'', ab_agent_identity_id = ''i1'', ab_protocol_agent_id = ''p1'',
     ab_status = ''active'', ab_bound_at = 2, ab_revoked_at = None, ab_created_at = 2, ab_updated_at = 2\<rparr>"

definition sample_entitlement :: "string \<Rightarrow> int option \<Rightarrow> end_reason option \<Rightarrow> resource_scope_entitlement" where
  "sample_entitlement i ended reason = \<lparr>se_id = i, se_user_id = None, se_application_id = None,
     se_agent_identity_id = Some ''i1'', se_organization_id = None, se_resource_server_id = ''r1'',
     se_connection_id = None, se_authorization_details = [], se_authorization_context_hash = ''ctx'',
     se_scope = ''read'', se_mode = (if ended = None then Persistent else Once), se_granted_by_user_id = Some ''u1'',
     se_granted_by_agent_identity_id = None, se_source_access_request_id = None, se_expires_at = None,
     se_ended_at = ended, se_end_reason = reason, se_created_at = 3, se_updated_at = 3\<rparr>"

definition sample_lease :: "string \<Rightarrow> string \<Rightarrow> external_token_lease" where
  "sample_lease i entitlement = \<lparr>tl_id = i, tl_entitlement_ids = [entitlement], tl_request_id = ''q1'',
     tl_binding_id = ''b1'', tl_encrypted_access_token = ''sealed'', tl_token_hash = i @ ''-hash'',
     tl_confirmation_jkt = ''jkt'', tl_scopes = [''read''], tl_authorization_details = [],
     tl_expires_at = 100000, tl_revoked_at = None, tl_created_at = 4\<rparr>"

definition sample_request :: access_request where
  "sample_request = \<lparr>rq_id = ''q1'', rq_resource_id = ''r1'', rq_connection_id = None,
     rq_agent_identity_id = ''i1'', rq_binding_id = ''b1'', rq_scopes = [''read''], rq_authorization_details = [],
     rq_reason = None, rq_status = ''consumed'', rq_approval_token_hash = ''q1-hash'',
     rq_encrypted_approval_token = ''sealed'',
     rq_approved_entitlements = [\<lparr>ap_scope = ''read'', ap_entitlement_id = ''e2''\<rparr>], rq_expires_at = 600000,
     rq_decided_at = Some 3, rq_created_at = 3, rq_updated_at = 3\<rparr>"

definition sample_resource :: resource_server where
  "sample_resource = \<lparr>rs_id = ''r1'', rs_identifier = ''files'', rs_name = ''Files'',
     rs_resource_url = ''https://files.example'', rs_authorization_model = Native_model, rs_connector_id = None,
     rs_authorization_details = [], rs_enabled = True, rs_owner_organization_id = ''o1'',
     rs_visibility = Public_resource,
     rs_scope_registry = Some [\<lparr>ds_value = ''read'', ds_grant_mode = Assigned_grant\<rparr>,
                               \<lparr>ds_value = ''list'', ds_grant_mode = Automatic_grant\<rparr>],
     rs_available_to_agents = True, rs_deleted_at = None, rs_created_at = 1\<rparr>"

definition sample_world :: world where
  "sample_world = empty_world\<lparr>w_users := [''u1'', ''u2''], w_hosts := [sample_host ''h1''],
     w_agents := [sample_agent ''p1'', sample_agent ''p2''], w_identities := [sample_identity],
     w_bindings := [sample_binding],
     w_entitlements := [sample_entitlement ''e1'' None None, sample_entitlement ''e2'' (Some 4) (Some Consumed)],
     w_leases := [sample_lease ''l1'' ''e1'', sample_lease ''l2'' ''e2''],
     w_requests := [sample_request], w_resources := [sample_resource]\<rparr>"

text \<open>Identifiers count up; the clock starts at 1000 and advances by one at every reading.\<close>

definition sample_env :: env where
  "sample_env = \<lparr>env_ids = (\<lambda>n. ''id-'' @ replicate n (CHR ''x'')), env_random_tokens = (\<lambda>n. ''rt-'' @ replicate n (CHR ''x'')),
     env_clock = (\<lambda>n. 1000 + int n),
     env_sha256 = map of_char, env_collation_key = (\<lambda>s. s), env_imports_jwk = (\<lambda>_. True),
     env_protected_header = (\<lambda>_. Some (JObj [(''typ'', JStr ''dpop+jwt''), (''alg'', JStr ''ES256''),
       (''jwk'', JObj [(''kty'', JStr ''EC''), (''crv'', JStr ''P-256'')])])),
     env_verified_payload = (\<lambda>proof _. Some (JObj [(''htm'', JStr ''POST''), (''htu'', JStr ''https://realm.example/token''),
       (''jti'', JStr proof), (''iat'', JNum 1)])),
     env_jwk_thumbprint = (\<lambda>_. ''jkt''), env_bare_url = Inr,
     env_open_secret = (\<lambda>s _. Inr s), env_seal_secret = (\<lambda>s _. s),
     env_active_authorization = (\<lambda>_ _. None), env_connector_authorization = (\<lambda>_. Inr ()),
     env_catalog = (\<lambda>_ _. None), env_advertised_scopes = (\<lambda>_. Inr []),
     env_discovered_registry = (\<lambda>_. Inr (''Files'', [])),
     env_client_generation = (\<lambda>_. 1), env_ensure_scopes = (\<lambda>_ _ _. Inr 1), env_refresh_form = (\<lambda>_ _ f. f),
     env_token_answer = (\<lambda>_ _. None), env_parse_json = (\<lambda>_. None), env_url_origin = (\<lambda>s. s),
     env_post_form = (\<lambda>_ _ _ _. Some 200)\<rparr>"

lemma sample_world_well_formed: "well_formed sample_world"
  by code_simp

end
