(* ===== verification/Agent_Repo.thy ===== *)
theory Agent_Repo
  imports Sample_World
begin

text \<open>
  The repository of protocol agents, hosts, capability grants and approval requests
  (\<open>server/adapters/repos/agents.ts\<close>) and the audit log (\<open>agent-audit.ts\<close>). The decision of
  an approval is split where the code awaits: what it reads, and the batch it then writes.
\<close>

section \<open>The audit log\<close>

definition append_audit :: "agent_audit_event \<Rightarrow> unit server" where
  "append_audit e = atomically (insert_audit e)"

definition find_audit_by_id :: "string \<Rightarrow> world \<Rightarrow> agent_audit_event option" where
  "find_audit_by_id i w = find (\<lambda>e. au_id e = i) (w_audits w)"

record audit_filter =
  af_actions :: "string list option"
  af_action :: "string option"
  af_result :: "string option"
  af_search :: "string option"
  af_agent_identity_id :: "string option"
  af_owner_user_id :: "string option"
  af_owner_organization_ids :: "string list option"

text \<open>An absent filter, and a filter that is the empty string, does not constrain.\<close>

definition filtered :: "string option \<Rightarrow> (string \<Rightarrow> bool) \<Rightarrow> bool" where
  "filtered f p = (case present f of None \<Rightarrow> True | Some v \<Rightarrow> p v)"

definition audit_tenant_condition :: "audit_filter \<Rightarrow> agent_audit_event \<Rightarrow> bool" where
  "audit_tenant_condition f e =
     (let user = (case present (af_owner_user_id f) of None \<Rightarrow> [] | Some u \<Rightarrow> [au_owner_user_id e = Some u]);
          orgs = (case af_owner_organization_ids f of None \<Rightarrow> []
                  | Some ids \<Rightarrow> [au_owner_organization_id e \<in> Some ` set ids])
      in if user @ orgs = [] then True else list_ex id (user @ orgs))"

text \<open>
  \<open>LIKE\<close> with the pattern \<open>%search%\<close>, its wildcards escaped: SQLite compares ASCII letters
  without case. The scopes are searched as the JSON text they are stored as.
\<close>

definition like_contains :: "string \<Rightarrow> string \<Rightarrow> bool" where
  "like_contains search column = str_includes (to_lower search) (to_lower column)"

definition like_optional :: "string \<Rightarrow> string option \<Rightarrow> bool" where
  "like_optional search column = (case column of None \<Rightarrow> False | Some v \<Rightarrow> like_contains search v)"

definition scopes_text :: "string list \<Rightarrow> string" where
  "scopes_text scopes = ''['' @ join_with '','' (map json_string scopes) @ '']''"

definition audit_search_condition :: "string \<Rightarrow> world \<Rightarrow> agent_audit_event \<Rightarrow> bool" where
  "audit_search_condition search w e \<longleftrightarrow>
     like_contains search (au_action e) \<or> like_optional search (au_resource_id e) \<or>
     like_optional search (au_access_request_id e) \<or> like_optional search (au_host_id e) \<or>
     like_optional search (au_controller_user_id e) \<or> like_optional search (au_reason_code e) \<or>
     like_optional search (map_option scopes_text (au_scopes e)) \<or>
     list_ex (\<lambda>r. Some (rs_id r) = au_resource_id e \<and>
        (like_contains search (rs_name r) \<or> like_contains search (rs_identifier r))) (w_resources w)"

definition audit_condition :: "audit_filter \<Rightarrow> world \<Rightarrow> agent_audit_event \<Rightarrow> bool" where
  "audit_condition f w e \<longleftrightarrow>
     (case af_actions f of None \<Rightarrow> True | Some actions \<Rightarrow> au_action e \<in> set actions) \<and>
     filtered (af_action f) (\<lambda>v. au_action e = v) \<and>
     filtered (af_result f) (\<lambda>v. au_result e = v) \<and>
     filtered (af_search f) (\<lambda>v. audit_search_condition v w e) \<and>
     filtered (af_agent_identity_id f) (\<lambda>v. au_agent_identity_id e = Some v) \<and>
     audit_tenant_condition f e"

definition list_audit :: "page_input \<Rightarrow> audit_filter \<Rightarrow> world \<Rightarrow> agent_audit_event paginated_result" where
  "list_audit page f w =
     (if af_owner_organization_ids f = Some [] \<and> present (af_owner_user_id f) = None
      then page_result page [] 0
      else (let rows = filter (audit_condition f w) (w_audits w)
            in page_result page (page_of page (sort_key (\<lambda>e. - au_occurred_at e) rows)) (length rows)))"

section \<open>Lists and lookups\<close>

definition list_rows :: "('r \<Rightarrow> int) \<Rightarrow> ('r \<Rightarrow> bool) \<Rightarrow> page_input \<Rightarrow> 'r list \<Rightarrow> 'r paginated_result" where
  "list_rows created p page rows =
     (let visible = filter p rows
      in page_result page (page_of page (sort_key (\<lambda>r. - created r) visible)) (length visible))"

definition list_hosts :: "page_input \<Rightarrow> world \<Rightarrow> agent_host paginated_result" where
  "list_hosts page w = list_rows ah_created_at (\<lambda>_. True) page (w_hosts w)"

definition list_agents :: "page_input \<Rightarrow> world \<Rightarrow> agent paginated_result" where
  "list_agents page w = list_rows ag_created_at (\<lambda>_. True) page (w_agents w)"

definition list_capability_grants :: "page_input \<Rightarrow> world \<Rightarrow> agent_capability_grant paginated_result" where
  "list_capability_grants page w = list_rows cg_created_at (\<lambda>_. True) page (w_grants w)"

definition list_approval_requests :: "page_input \<Rightarrow> world \<Rightarrow> approval_request paginated_result" where
  "list_approval_requests page w = list_rows ar_created_at (\<lambda>_. True) page (w_approvals w)"

definition find_approval_request :: "string \<Rightarrow> world \<Rightarrow> approval_request option" where
  "find_approval_request i w = find (\<lambda>r. ar_id r = i) (w_approvals w)"

definition create_approval_request :: "approval_request \<Rightarrow> approval_request server" where
  "create_approval_request r = bind (atomically (insert_approval r)) (\<lambda>_. ret r)"

definition list_agents_for_user :: "string \<Rightarrow> page_input \<Rightarrow> world \<Rightarrow> agent paginated_result" where
  "list_agents_for_user user_id page w =
     list_rows ag_created_at (\<lambda>a. ag_user_id a = Some user_id \<and> ag_status a = ''active'') page (w_agents w)"

definition list_hosts_for_agents :: "string list \<Rightarrow> world \<Rightarrow> agent_host list" where
  "list_hosts_for_agents host_ids w =
     (if host_ids = [] then [] else filter (\<lambda>h. ah_id h \<in> set host_ids) (w_hosts w))"

definition list_capability_grants_for_user :: "string \<Rightarrow> world \<Rightarrow> agent_capability_grant list" where
  "list_capability_grants_for_user user_id w =
     (let ids = map ag_id (filter (\<lambda>a. ag_user_id a = Some user_id \<and> ag_status a = ''active'') (w_agents w))
      in if ids = [] then []
         else filter (\<lambda>g. cg_agent_id g \<in> set ids \<and> cg_status g = ''active'') (w_grants w))"

definition list_capability_grants_for_agent :: "string \<Rightarrow> world \<Rightarrow> agent_capability_grant list" where
  "list_capability_grants_for_agent agent_id w = filter (\<lambda>g. cg_agent_id g = agent_id) (w_grants w)"

definition pending_request :: "string \<Rightarrow> string \<Rightarrow> int \<Rightarrow> approval_request \<Rightarrow> bool" where
  "pending_request agent_id user_code_hash now r \<longleftrightarrow>
     ar_agent_id r = Some agent_id \<and> ar_method r = ''device_authorization'' \<and> ar_status r = ''pending'' \<and>
     ar_user_code_hash r = Some user_code_hash \<and> now < ar_expires_at r"

definition find_pending_approval_preview ::
    "string \<Rightarrow> string \<Rightarrow> int \<Rightarrow> world \<Rightarrow> (approval_request \<times> agent \<times> agent_host) option" where
  "find_pending_approval_preview agent_id user_code_hash now w =
     (case [(r, a, h). r \<leftarrow> w_approvals w, pending_request agent_id user_code_hash now r,
              a \<leftarrow> w_agents w, Some (ag_id a) = ar_agent_id r,
              h \<leftarrow> w_hosts w, Some (ah_id h) = ar_host_id r] of
        [] \<Rightarrow> None | x # _ \<Rightarrow> Some x)"

section \<open>Deciding an approval\<close>

datatype decision = Approve | Deny

record decision_input =
  di_agent_id :: string
  di_user_code_hash :: string
  di_action :: decision
  di_capabilities :: "string list option"
  di_user_id :: string
  di_now :: int

text \<open>What the decision has read when it writes.\<close>

record decision_reading =
  dr_request :: approval_request
  dr_agent :: agent
  dr_host :: "agent_host option"
  dr_pending_grants :: "agent_capability_grant list"
  dr_requested_capabilities :: "string list"

definition belongs_to_another :: "string option \<Rightarrow> string \<Rightarrow> bool" where
  "belongs_to_another owner user_id = (case present owner of None \<Rightarrow> False | Some o' \<Rightarrow> o' \<noteq> user_id)"

definition approval_not_pending :: failure where
  "approval_not_pending = bad_request ''Agent approval is invalid, expired, or no longer pending.''"

definition read_decision :: "decision_input \<Rightarrow> world \<Rightarrow> failure + decision_reading" where
  "read_decision input w =
     (case find (pending_request (di_agent_id input) (di_user_code_hash input) (di_now input)) (w_approvals w) of
        None \<Rightarrow> Inl approval_not_pending
      | Some request \<Rightarrow>
          (let host = (case present (ar_host_id request) of
                 None \<Rightarrow> None | Some i \<Rightarrow> find (\<lambda>h. ah_id h = i) (w_hosts w));
               pending_grants = filter (\<lambda>g. cg_agent_id g = di_agent_id input \<and> cg_status g = ''pending'') (w_grants w);
               requested = (case di_capabilities input of
                 Some capabilities \<Rightarrow> capabilities | None \<Rightarrow> map cg_capability pending_grants)
           in case find (\<lambda>a. ag_id a = di_agent_id input) (w_agents w) of
                None \<Rightarrow> Inl (not_found ''Agent was not found.'')
              | Some current_agent \<Rightarrow>
                  if belongs_to_another (ag_user_id current_agent) (di_user_id input)
                  then Inl (forbidden ''Agent approval belongs to another controller.'')
                  else if (case host of None \<Rightarrow> False | Some h \<Rightarrow> belongs_to_another (ah_user_id h) (di_user_id input))
                  then Inl (forbidden ''Agent host belongs to another controller.'')
                  else if list_ex (\<lambda>c. c \<notin> set (map cg_capability pending_grants)) requested
                  then Inl (bad_request ''Agent approval includes a capability that is not pending.'')
                  else Inr \<lparr>dr_request = request, dr_agent = current_agent, dr_host = host,
                            dr_pending_grants = pending_grants, dr_requested_capabilities = requested\<rparr>))"

definition claimable :: "string option \<Rightarrow> string \<Rightarrow> bool" where
  "claimable owner user_id \<longleftrightarrow> owner = None \<or> owner = Some user_id"

definition controller_claim :: "decision_input \<Rightarrow> approval_request \<Rightarrow> world \<Rightarrow> bool" where
  "controller_claim input request w \<longleftrightarrow>
     list_ex (\<lambda>a. ag_id a = di_agent_id input \<and> claimable (ag_user_id a) (di_user_id input)) (w_agents w) \<and>
     (case present (ar_host_id request) of
        None \<Rightarrow> True
      | Some i \<Rightarrow> list_ex (\<lambda>h. ah_id h = i \<and> claimable (ah_user_id h) (di_user_id input)) (w_hosts w))"

definition decidable_now :: "decision_input \<Rightarrow> approval_request \<Rightarrow> world \<Rightarrow> approval_request \<Rightarrow> bool" where
  "decidable_now input request w r \<longleftrightarrow>
     ar_id r = ar_id request \<and> ar_status r = ''pending'' \<and> controller_claim input request w"

definition audit_statement ::
    "decision_input \<Rightarrow> approval_request \<Rightarrow> agent_audit_event \<Rightarrow> world \<Rightarrow> failure + world" where
  "audit_statement input request audit w =
     (if list_ex (decidable_now input request w) (w_approvals w) then insert_audit audit w else Inr w)"

definition request_statement :: "decision_input \<Rightarrow> approval_request \<Rightarrow> string \<Rightarrow> world \<Rightarrow> failure + world" where
  "request_statement input request status w =
     update_approvals (decidable_now input request w)
       (\<lambda>r. r\<lparr>ar_status := status, ar_updated_at := di_now input\<rparr>) w"

text \<open>An update that names the deciding user in a referencing column needs the user to exist.\<close>

definition naming_user :: "string \<Rightarrow> bool \<Rightarrow> (world \<Rightarrow> failure + world) \<Rightarrow> world \<Rightarrow> failure + world" where
  "naming_user user_id hits f w =
     (if hits \<and> user_id \<notin> set (w_users w) then Inl (SqliteError Foreign_key_constraint) else f w)"

definition grants_statement ::
    "decision_input \<Rightarrow> (agent_capability_grant \<Rightarrow> bool) \<Rightarrow> bool \<Rightarrow> world \<Rightarrow> failure + world" where
  "grants_statement input hit granted w =
     naming_user (di_user_id input) (list_ex hit (w_grants w))
       (update_grants hit
         (if granted
          then (\<lambda>g. g\<lparr>cg_status := ''active'', cg_granted_by := Some (di_user_id input), cg_updated_at := di_now input\<rparr>)
          else (\<lambda>g. g\<lparr>cg_status := ''denied'', cg_denied_by := Some (di_user_id input), cg_updated_at := di_now input\<rparr>))) w"

definition agent_statement :: "decision_input \<Rightarrow> bool \<Rightarrow> world \<Rightarrow> failure + world" where
  "agent_statement input activating w =
     (let hit = (\<lambda>a. ag_id a = di_agent_id input \<and> ag_status a = ''pending'') in
      naming_user (di_user_id input) (list_ex hit (w_agents w))
       (update_agents hit
         (if activating
          then (\<lambda>a. a\<lparr>ag_status := ''active'', ag_user_id := Some (di_user_id input),
                      ag_activated_at := Some (di_now input), ag_updated_at := di_now input\<rparr>)
          else (\<lambda>a. a\<lparr>ag_status := ''rejected'', ag_user_id := Some (di_user_id input),
                      ag_updated_at := di_now input\<rparr>))) w)"

definition host_statement :: "decision_input \<Rightarrow> agent_host \<Rightarrow> world \<Rightarrow> failure + world" where
  "host_statement input host w =
     (let hit = (\<lambda>h. ah_id h = ah_id host \<and> ah_status h = ''pending'') in
      naming_user (di_user_id input) (list_ex hit (w_hosts w))
        (\<lambda>v. Inr (v\<lparr>w_hosts := update_where hit
          (\<lambda>h. h\<lparr>ah_status := ''active'', ah_user_id := Some (di_user_id input),
                 ah_activated_at := Some (di_now input), ah_updated_at := di_now input\<rparr>) (w_hosts v)\<rparr>)) w)"

definition decision_statements ::
    "decision_input \<Rightarrow> decision_reading \<Rightarrow> agent_audit_event \<Rightarrow> (world \<Rightarrow> failure + world) list" where
  "decision_statements input d audit =
     (let request = dr_request d in
      case di_action input of
        Deny \<Rightarrow>
          [audit_statement input request audit, request_statement input request ''denied''] @
          (if dr_pending_grants d \<noteq> []
           then [grants_statement input (\<lambda>g. cg_agent_id g = di_agent_id input \<and> cg_status g = ''pending'') False] else []) @
          (if ag_status (dr_agent d) = ''pending'' then [agent_statement input False] else [])
      | Approve \<Rightarrow>
          [audit_statement input request audit, request_statement input request ''approved''] @
          map (\<lambda>grant. grants_statement input (\<lambda>g. cg_id g = cg_id grant \<and> cg_status g = ''pending'')
                 (cg_capability grant \<in> set (dr_requested_capabilities d))) (dr_pending_grants d) @
          (if ag_status (dr_agent d) = ''pending'' then [agent_statement input True] else []) @
          (case dr_host d of None \<Rightarrow> []
           | Some h \<Rightarrow> if ah_status h = ''pending'' then [host_statement input h] else []))"

text \<open>The batch reports how many requests its second statement updated.\<close>

definition write_decision :: "decision_input \<Rightarrow> decision_reading \<Rightarrow> agent_audit_event \<Rightarrow> decision server" where
  "write_decision input d audit =
     bind (gets (\<lambda>w. filter (decidable_now input (dr_request d) w) (w_approvals w))) (\<lambda>updated.
     bind (atomically (batch (decision_statements input d audit))) (\<lambda>_.
     bind (require (updated \<noteq> []) approval_not_pending) (\<lambda>_.
     ret (di_action input))))"

definition decide_approval :: "decision_input \<Rightarrow> agent_audit_event \<Rightarrow> decision server" where
  "decide_approval input audit =
     bind (gets (read_decision input)) (\<lambda>reading.
     bind (lift_result reading) (\<lambda>d. write_decision input d audit))"

section \<open>Revocations\<close>

definition revoke_agent_record :: "env \<Rightarrow> string \<Rightarrow> unit server" where
  "revoke_agent_record env agent_id =
     bind (new_date env) (\<lambda>now.
     atomically (update_agents (\<lambda>a. ag_id a = agent_id) (\<lambda>a. a\<lparr>ag_status := ''revoked'', ag_updated_at := now\<rparr>)))"

definition revoke_agent_capability_grants :: "env \<Rightarrow> string \<Rightarrow> unit server" where
  "revoke_agent_capability_grants env agent_id =
     bind (new_date env) (\<lambda>now.
     atomically (update_grants (\<lambda>g. cg_agent_id g = agent_id) (\<lambda>g. g\<lparr>cg_status := ''revoked'', cg_updated_at := now\<rparr>)))"

definition revoke_capability_grant_record :: "env \<Rightarrow> string \<Rightarrow> unit server" where
  "revoke_capability_grant_record env grant_id =
     bind (new_date env) (\<lambda>now.
     atomically (update_grants (\<lambda>g. cg_id g = grant_id) (\<lambda>g. g\<lparr>cg_status := ''revoked'', cg_updated_at := now\<rparr>)))"

definition revoke_agent_approval_requests :: "env \<Rightarrow> string \<Rightarrow> unit server" where
  "revoke_agent_approval_requests env agent_id =
     bind (new_date env) (\<lambda>now.
     atomically (update_approvals (\<lambda>r. ar_agent_id r = Some agent_id)
       (\<lambda>r. r\<lparr>ar_status := ''revoked'', ar_updated_at := now\<rparr>)))"

definition revoke_host_approval_requests :: "env \<Rightarrow> string \<Rightarrow> unit server" where
  "revoke_host_approval_requests env host_id =
     bind (new_date env) (\<lambda>now.
     atomically (update_approvals (\<lambda>r. ar_host_id r = Some host_id)
       (\<lambda>r. r\<lparr>ar_status := ''revoked'', ar_updated_at := now\<rparr>)))"

definition revoke_everything_of :: "env \<Rightarrow> string \<Rightarrow> unit server" where
  "revoke_everything_of env agent_id =
     bind (revoke_agent_record env agent_id) (\<lambda>_.
     bind (revoke_agent_capability_grants env agent_id) (\<lambda>_.
     revoke_agent_approval_requests env agent_id))"

definition revoke_agent_for_user :: "env \<Rightarrow> string \<Rightarrow> string \<Rightarrow> unit server" where
  "revoke_agent_for_user env agent_id user_id =
     bind (gets (\<lambda>w. find (\<lambda>a. ag_id a = agent_id \<and> ag_user_id a = Some user_id) (w_agents w))) (\<lambda>current.
     bind (found current (not_found ''Agent was not found.'')) (\<lambda>_.
     revoke_everything_of env agent_id))"

definition revoke_capability_grant_for_user :: "env \<Rightarrow> string \<Rightarrow> string \<Rightarrow> unit server" where
  "revoke_capability_grant_for_user env grant_id user_id =
     bind (gets (\<lambda>w. find (\<lambda>g. cg_id g = grant_id) (w_grants w))) (\<lambda>r.
     bind (found r (not_found ''Agent capability grant was not found.'')) (\<lambda>grant.
     bind (gets (\<lambda>w. find (\<lambda>a. ag_id a = cg_agent_id grant \<and> ag_user_id a = Some user_id) (w_agents w))) (\<lambda>current.
     bind (found current (not_found ''Agent capability grant was not found.'')) (\<lambda>_.
     revoke_capability_grant_record env grant_id))))"

definition revoke_agent :: "env \<Rightarrow> string \<Rightarrow> unit server" where
  "revoke_agent env agent_id =
     bind (gets (\<lambda>w. find (\<lambda>a. ag_id a = agent_id) (w_agents w))) (\<lambda>current.
     bind (found current (not_found ''Agent was not found.'')) (\<lambda>_.
     revoke_everything_of env agent_id))"

definition revoke_host :: "env \<Rightarrow> string \<Rightarrow> unit server" where
  "revoke_host env host_id =
     bind (gets (\<lambda>w. find (\<lambda>h. ah_id h = host_id) (w_hosts w))) (\<lambda>current.
     bind (found current (not_found ''Agent host was not found.'')) (\<lambda>_.
     bind (new_date env) (\<lambda>now.
     bind (modify (\<lambda>w. w\<lparr>w_hosts := update_where (\<lambda>h. ah_id h = host_id)
             (\<lambda>h. h\<lparr>ah_status := ''revoked'', ah_updated_at := now\<rparr>) (w_hosts w)\<rparr>)) (\<lambda>_.
     bind (gets (\<lambda>w. map ag_id (filter (\<lambda>a. ag_host_id a = host_id) (w_agents w)))) (\<lambda>host_agents.
     bind (each (revoke_agent_record env) host_agents) (\<lambda>_.
     bind (each (revoke_agent_capability_grants env) host_agents) (\<lambda>_.
     bind (each (revoke_agent_approval_requests env) host_agents) (\<lambda>_.
     revoke_host_approval_requests env host_id))))))))"

definition revoke_capability_grant :: "env \<Rightarrow> string \<Rightarrow> unit server" where
  "revoke_capability_grant env grant_id =
     bind (gets (\<lambda>w. find (\<lambda>g. cg_id g = grant_id) (w_grants w))) (\<lambda>current.
     bind (found current (not_found ''Agent capability grant was not found.'')) (\<lambda>_.
     revoke_capability_grant_record env grant_id))"

section \<open>Laws\<close>

context agent_law
begin

lemma law_append_audit [law_intros]: "evolves R (append_audit e)"
  unfolding append_audit_def by (intro law_intros) (rule add_audit)

lemma law_create_approval [law_intros]: "evolves R (create_approval_request q)"
  unfolding create_approval_request_def by (intro law_intros) (rule add_approval)

lemma request_statement_law: "request_statement input q status w = Inr w' \<Longrightarrow> status \<noteq> ''pending'' \<Longrightarrow> R w w'"
  unfolding request_statement_def update_approvals_def
  by (auto simp: decidable_now_def approval_step_def intro!: change_approvals)

lemma audit_statement_law: "audit_statement input q e w = Inr w' \<Longrightarrow> R w w'"
  by (auto simp: audit_statement_def law_refl split: if_splits intro: add_audit)

lemma grants_statement_law:
  "(\<And>g. hit g \<Longrightarrow> cg_status g = ''pending'') \<Longrightarrow> grants_statement input hit granted w = Inr w' \<Longrightarrow> R w w'"
  unfolding grants_statement_def naming_user_def update_grants_def
  by (auto simp: grant_step_def split: if_splits intro!: change_grants)

lemma agent_statement_law: "agent_statement input activating w = Inr w' \<Longrightarrow> R w w'"
  unfolding agent_statement_def naming_user_def update_agents_def Let_def
  by (auto simp: agent_step_def references_optional_def list_ex_iff split: if_splits intro!: change_agents)

lemma host_statement_law: "host_statement input h w = Inr w' \<Longrightarrow> R w w'"
  unfolding host_statement_def naming_user_def Let_def
  by (auto simp: host_step_def references_optional_def list_ex_iff split: if_splits intro!: change_hosts)

lemma decision_statement_law:
  assumes f: "f \<in> set (decision_statements input d audit)" and run: "f w = Inr w'"
  shows "R w w'"
proof -
  define lawful where "lawful = (\<lambda>g :: world \<Rightarrow> failure + world. \<forall>u v. g u = Inr v \<longrightarrow> R u v)"
  have "lawful (audit_statement input (dr_request d) audit)"
    unfolding lawful_def by (intro allI impI, erule audit_statement_law)
  moreover have "lawful (request_statement input (dr_request d) ''approved'')"
    "lawful (request_statement input (dr_request d) ''denied'')"
    unfolding lawful_def by ((intro allI impI, erule request_statement_law, simp)+)
  moreover have "lawful (grants_statement input (\<lambda>g. cg_agent_id g = di_agent_id input \<and> cg_status g = ''pending'') False)"
    "\<And>i p. lawful (grants_statement input (\<lambda>g. cg_id g = i \<and> cg_status g = ''pending'') p)"
    unfolding lawful_def by (intro allI impI, erule grants_statement_law [rotated], simp)+
  moreover have "\<And>p. lawful (agent_statement input p)" "\<And>h. lawful (host_statement input h)"
    unfolding lawful_def by (intro allI impI, erule agent_statement_law host_statement_law)+
  ultimately have "\<forall>g \<in> set (decision_statements input d audit). lawful g"
    unfolding decision_statements_def Let_def
    by (cases "di_action input"; cases "dr_host d") auto
  with f run show ?thesis by (simp add: lawful_def)
qed

lemma law_write_decision [law_intros]: "evolves R (write_decision input d audit)"
  unfolding write_decision_def by (intro law_intros) (rule batch_law [OF decision_statement_law])

lemma law_decide_approval [law_intros]: "evolves R (decide_approval input audit)"
  unfolding decide_approval_def by (intro law_intros)

lemma law_revoke_agent_record [law_intros]: "evolves R (revoke_agent_record env a)"
  unfolding revoke_agent_record_def update_agents_def
  by (intro law_intros) (auto simp: agent_step_def intro!: change_agents)

lemma law_revoke_grants [law_intros]: "evolves R (revoke_agent_capability_grants env a)"
  unfolding revoke_agent_capability_grants_def update_grants_def
  by (intro law_intros) (auto simp: grant_step_def intro!: change_grants)

lemma law_revoke_grant_record [law_intros]: "evolves R (revoke_capability_grant_record env g)"
  unfolding revoke_capability_grant_record_def update_grants_def
  by (intro law_intros) (auto simp: grant_step_def intro!: change_grants)

lemma law_revoke_approvals [law_intros]: "evolves R (revoke_agent_approval_requests env a)"
  unfolding revoke_agent_approval_requests_def update_approvals_def
  by (intro law_intros) (auto simp: approval_step_def intro!: change_approvals)

lemma law_revoke_host_approvals [law_intros]: "evolves R (revoke_host_approval_requests env h)"
  unfolding revoke_host_approval_requests_def update_approvals_def
  by (intro law_intros) (auto simp: approval_step_def intro!: change_approvals)

lemma law_repo_revocations [law_intros]:
  "evolves R (revoke_everything_of env a)" "evolves R (revoke_agent_for_user env a u)"
  "evolves R (revoke_capability_grant_for_user env g u)" "evolves R (revoke_agent env a)"
  "evolves R (revoke_capability_grant env g)"
  unfolding revoke_everything_of_def revoke_agent_for_user_def revoke_capability_grant_for_user_def
    revoke_agent_def revoke_capability_grant_def by (intro law_intros)+

lemma law_revoke_host [law_intros]: "evolves R (revoke_host env h)"
  unfolding revoke_host_def
  by (intro law_intros evolves_modify) (auto simp: host_step_def intro!: change_hosts)

end

section \<open>The effect of a decision\<close>

definition grant_decided :: "decision_input \<Rightarrow> bool \<Rightarrow> agent_capability_grant \<Rightarrow> agent_capability_grant" where
  "grant_decided input granted =
     (if granted
      then (\<lambda>g. g\<lparr>cg_status := ''active'', cg_granted_by := Some (di_user_id input), cg_updated_at := di_now input\<rparr>)
      else (\<lambda>g. g\<lparr>cg_status := ''denied'', cg_denied_by := Some (di_user_id input), cg_updated_at := di_now input\<rparr>))"

lemma grant_decided_simps [simp]:
  "cg_id (grant_decided input granted g) = cg_id g"
  "cg_agent_id (grant_decided input granted g) = cg_agent_id g"
  "cg_capability (grant_decided input granted g) = cg_capability g"
  "cg_status (grant_decided input granted g) = (if granted then ''active'' else ''denied'')"
  by (simp_all add: grant_decided_def)

lemma grants_statement_ok:
  "grants_statement input hit granted w = Inr w' \<Longrightarrow>
     w' = w\<lparr>w_grants := update_where hit (grant_decided input granted) (w_grants w)\<rparr>"
  by (auto simp: grants_statement_def naming_user_def update_grants_def grant_decided_def split: if_splits)

lemma grants_batch_ok:
  assumes "batch (map (\<lambda>grant. grants_statement input
             (\<lambda>g. cg_id g = cg_id grant \<and> cg_status g = ''pending'') (granted (cg_capability grant))) gs) w = Inr w'"
  shows "w' = w\<lparr>w_grants := map (\<lambda>h. case find (\<lambda>g. cg_id g = cg_id h) gs of
       None \<Rightarrow> h
     | Some g \<Rightarrow> if cg_status h = ''pending'' then grant_decided input (granted (cg_capability g)) h else h) (w_grants w)\<rparr>"
  using assms
proof (induction gs arbitrary: w)
  case Nil
  then show ?case by simp
next
  case (Cons g gs)
  from Cons.prems obtain v where v: "grants_statement input
      (\<lambda>h. cg_id h = cg_id g \<and> cg_status h = ''pending'') (granted (cg_capability g)) w = Inr v"
    "batch (map (\<lambda>grant. grants_statement input
        (\<lambda>g. cg_id g = cg_id grant \<and> cg_status g = ''pending'') (granted (cg_capability grant))) gs) v = Inr w'"
    by (auto split: sum.splits)
  show ?case
    unfolding Cons.IH [OF v(2)] grants_statement_ok [OF v(1)]
    by (auto simp: update_where_def split: option.split)
qed

lemma batch_append:
  "batch (fs @ gs) w = (case batch fs w of Inl e \<Rightarrow> Inl e | Inr v \<Rightarrow> batch gs v)"
  by (induction fs arbitrary: w) (auto split: sum.split)

lemma agent_host_statement_tables:
  "agent_statement input activating w = Inr w' \<Longrightarrow>
     w_grants w' = w_grants w \<and> w_approvals w' = w_approvals w \<and> w_audits w' = w_audits w"
  "host_statement input h w = Inr w' \<Longrightarrow>
     w_grants w' = w_grants w \<and> w_approvals w' = w_approvals w \<and> w_audits w' = w_audits w"
  by (auto simp: agent_statement_def host_statement_def naming_user_def update_agents_def Let_def split: if_splits)

text \<open>The tail of both batches touches agents and hosts only.\<close>

lemma decision_tail_tables:
  assumes "batch ((if p then [agent_statement input activating] else []) @
      (case h of None \<Rightarrow> [] | Some k \<Rightarrow> if ah_status k = ''pending'' then [host_statement input k] else [])) w = Inr w'"
  shows "w_grants w' = w_grants w \<and> w_approvals w' = w_approvals w \<and> w_audits w' = w_audits w"
  using assms by (auto simp: batch_append split: if_splits option.splits sum.splits
      dest!: agent_host_statement_tables)

lemma decision_head:
  assumes "batch [audit_statement input q audit, request_statement input q status] w = Inr v"
    and "filter (decidable_now input q w) (w_approvals w) \<noteq> []"
  shows "v = w\<lparr>w_audits := w_audits w @ [audit], w_approvals := update_where (decidable_now input q w)
      (\<lambda>r. r\<lparr>ar_status := status, ar_updated_at := di_now input\<rparr>) (w_approvals w)\<rparr>"
proof -
  have "list_ex (decidable_now input q w) (w_approvals w)"
    using assms(2) by (auto simp: list_ex_iff filter_empty_conv)
  moreover have "decidable_now input q (w\<lparr>w_audits := x\<rparr>) = decidable_now input q w" for x
    by (auto simp: decidable_now_def controller_claim_def fun_eq_iff split: option.split)
  ultimately show ?thesis using assms(1)
    by (auto simp: audit_statement_def request_statement_def insert_audit_def update_approvals_def
        split: sum.splits dest!: insert_row_InrD)
qed

definition decision_status :: "decision \<Rightarrow> string" where
  "decision_status a = (case a of Approve \<Rightarrow> ''approved'' | Deny \<Rightarrow> ''denied'')"

text \<open>What a decision makes of a capability grant and of a request.\<close>

definition grant_after :: "decision_input \<Rightarrow> decision_reading \<Rightarrow> agent_capability_grant \<Rightarrow> agent_capability_grant" where
  "grant_after input d g =
     (if cg_agent_id g = di_agent_id input \<and> cg_status g = ''pending''
      then grant_decided input
        (di_action input = Approve \<and> cg_capability g \<in> set (dr_requested_capabilities d)) g
      else g)"

definition request_after :: "decision_input \<Rightarrow> decision_reading \<Rightarrow> approval_request \<Rightarrow> approval_request" where
  "request_after input d r =
     (if ar_id r = ar_id (dr_request d)
      then r\<lparr>ar_status := decision_status (di_action input), ar_updated_at := di_now input\<rparr> else r)"

lemma read_decision_ok:
  assumes "read_decision input w = Inr d"
  shows "dr_request d \<in> set (w_approvals w) \<and>
     pending_request (di_agent_id input) (di_user_code_hash input) (di_now input) (dr_request d) \<and>
     dr_pending_grants d = filter (\<lambda>g. cg_agent_id g = di_agent_id input \<and> cg_status g = ''pending'') (w_grants w) \<and>
     set (dr_requested_capabilities d) \<subseteq> cg_capability ` set (dr_pending_grants d)"
  using assms unfolding read_decision_def Let_def
  by (auto simp: list_ex_iff dest!: find_SomeD split: option.splits if_splits)

lemma decision_grants_ok:
  assumes ids: "distinct (map cg_id (w_grants v))"
    and gs: "gs = filter (\<lambda>g. cg_agent_id g = a \<and> cg_status g = ''pending'') (w_grants v)"
    and run: "batch (map (\<lambda>grant. grants_statement input
       (\<lambda>g. cg_id g = cg_id grant \<and> cg_status g = ''pending'') (granted (cg_capability grant))) gs) v = Inr u"
  shows "u = v\<lparr>w_grants := map (\<lambda>g. if cg_agent_id g = a \<and> cg_status g = ''pending''
       then grant_decided input (granted (cg_capability g)) g else g) (w_grants v)\<rparr>"
proof -
  have "(case find (\<lambda>g. cg_id g = cg_id h) gs of None \<Rightarrow> h
     | Some g \<Rightarrow> if cg_status h = ''pending'' then grant_decided input (granted (cg_capability g)) h else h)
     = (if cg_agent_id h = a \<and> cg_status h = ''pending'' then grant_decided input (granted (cg_capability h)) h else h)"
    if h: "h \<in> set (w_grants v)" for h
  proof (cases "find (\<lambda>g. cg_id g = cg_id h) gs")
    case None
    with h have "\<not> (cg_agent_id h = a \<and> cg_status h = ''pending'')" by (auto simp: gs find_None_iff)
    with None show ?thesis by auto
  next
    case (Some g)
    then have "g \<in> set (w_grants v)" "cg_id g = cg_id h" "cg_agent_id g = a" "cg_status g = ''pending''"
      by (auto simp: gs dest!: find_SomeD)
    with distinct_key_eq [OF ids _ h] have "g = h" by blast
    with Some show ?thesis using \<open>cg_agent_id g = a\<close> by simp
  qed
  then show ?thesis unfolding grants_batch_ok [OF run] by simp
qed

text \<open>Both batches are a head on the request, the grants, and a tail on the agent and the host.\<close>

definition decision_head_part :: "decision_input \<Rightarrow> decision_reading \<Rightarrow> agent_audit_event \<Rightarrow> (world \<Rightarrow> failure + world) list" where
  "decision_head_part input d audit = [audit_statement input (dr_request d) audit,
     request_statement input (dr_request d) (decision_status (di_action input))]"

definition decision_grants_part :: "decision_input \<Rightarrow> decision_reading \<Rightarrow> (world \<Rightarrow> failure + world) list" where
  "decision_grants_part input d = (case di_action input of
      Deny \<Rightarrow> if dr_pending_grants d \<noteq> [] then [grants_statement input
        (\<lambda>g. cg_agent_id g = di_agent_id input \<and> cg_status g = ''pending'') False] else []
    | Approve \<Rightarrow> map (\<lambda>grant. grants_statement input (\<lambda>g. cg_id g = cg_id grant \<and> cg_status g = ''pending'')
                 (cg_capability grant \<in> set (dr_requested_capabilities d))) (dr_pending_grants d))"

definition decision_tail_part :: "decision_input \<Rightarrow> decision_reading \<Rightarrow> (world \<Rightarrow> failure + world) list" where
  "decision_tail_part input d =
     (if ag_status (dr_agent d) = ''pending'' then [agent_statement input (di_action input = Approve)] else []) @
     (case (if di_action input = Approve then dr_host d else None) of
        None \<Rightarrow> [] | Some k \<Rightarrow> if ah_status k = ''pending'' then [host_statement input k] else [])"

lemma decision_parts:
  assumes "batch (decision_statements input d audit) w = Inr w'"
  obtains u v where "batch (decision_head_part input d audit) w = Inr u"
    "batch (decision_grants_part input d) u = Inr v" "batch (decision_tail_part input d) v = Inr w'"
proof -
  have "decision_statements input d audit =
      decision_head_part input d audit @ decision_grants_part input d @ decision_tail_part input d"
    by (cases "di_action input")
      (simp_all add: decision_statements_def decision_status_def decision_head_part_def
        decision_grants_part_def decision_tail_part_def Let_def)
  with assms that show thesis by (auto simp only: batch_append split: sum.splits)
qed

lemma grants_part_tables:
  assumes "batch (decision_grants_part input d) u = Inr v"
  shows "w_audits v = w_audits u \<and> w_approvals v = w_approvals u"
proof (cases "di_action input")
  case Approve
  with assms show ?thesis by (auto simp: decision_grants_part_def dest!: grants_batch_ok)
next
  case Deny
  with assms show ?thesis
    by (auto simp: decision_grants_part_def dest!: grants_statement_ok split: if_splits sum.splits)
qed

lemma decision_tables:
  assumes wf: "well_formed w" and read: "read_decision input w = Inr d"
    and live: "filter (decidable_now input (dr_request d) w) (w_approvals w) \<noteq> []"
    and run: "batch (decision_statements input d audit) w = Inr w'"
  shows "w_audits w' = w_audits w @ [audit] \<and>
     w_approvals w' = map (request_after input d) (w_approvals w) \<and>
     w_grants w' = map (grant_after input d) (w_grants w)"
proof -
  from run obtain u v where u: "batch (decision_head_part input d audit) w = Inr u"
    and v: "batch (decision_grants_part input d) u = Inr v" and t: "batch (decision_tail_part input d) v = Inr w'"
    by (rule decision_parts)
  note head = decision_head [OF u [unfolded decision_head_part_def] live]
  note tail = decision_tail_tables [OF t [unfolded decision_tail_part_def]]
  have key: "distinct (map ar_id (w_approvals w))" and ids: "distinct (map cg_id (w_grants u))"
    using wf by (simp_all add: well_formed_def keys_unique_def head)
  note pending = read_decision_ok [OF read]
  have pend: "dr_pending_grants d = filter (\<lambda>g. cg_agent_id g = di_agent_id input \<and> cg_status g = ''pending'') (w_grants u)"
    using pending by (simp add: head)
  have "decidable_now input (dr_request d) w r = (ar_id r = ar_id (dr_request d))" if "r \<in> set (w_approvals w)" for r
  proof -
    have "controller_claim input (dr_request d) w" using live by (auto simp: decidable_now_def filter_empty_conv)
    moreover have "ar_id r = ar_id (dr_request d) \<Longrightarrow> ar_status r = ''pending''"
      using distinct_key_eq [OF key that] pending by (auto simp: pending_request_def)
    ultimately show ?thesis by (auto simp: decidable_now_def)
  qed
  then have requests: "w_approvals u = map (request_after input d) (w_approvals w)"
    by (auto simp: head update_where_def request_after_def)
  have "v = u\<lparr>w_grants := map (grant_after input d) (w_grants u)\<rparr>"
  proof (cases "di_action input")
    case Approve
    with v decision_grants_ok [OF ids pend, of input "\<lambda>c. c \<in> set (dr_requested_capabilities d)" v]
    show ?thesis by (simp add: grant_after_def [abs_def] decision_grants_part_def)
  next
    case Deny
    show ?thesis
    proof (cases "dr_pending_grants d = []")
      case True
      with pend have "filter (\<lambda>g. cg_agent_id g = di_agent_id input \<and> cg_status g = ''pending'') (w_grants u) = []"
        by simp
      then have "map (grant_after input d) (w_grants u) = w_grants u"
        by (auto simp: grant_after_def filter_empty_conv intro!: map_idI)
      with True Deny v show ?thesis by (simp add: decision_grants_part_def)
    next
      case False
      with v Deny have "v = u\<lparr>w_grants := update_where (\<lambda>g. cg_agent_id g = di_agent_id input \<and> cg_status g = ''pending'')
           (grant_decided input False) (w_grants u)\<rparr>"
        by (auto simp: decision_grants_part_def split: sum.splits dest!: grants_statement_ok)
      with Deny show ?thesis by (simp add: update_where_def grant_after_def [abs_def])
    qed
  qed
  with tail requests show ?thesis by (simp add: head)
qed


definition pending_approval :: approval_request where
  "pending_approval = \<lparr>ar_id = ''a1'', ar_method = ''device_authorization'', ar_agent_id = Some ''p1'',
     ar_host_id = Some ''h1'', ar_user_id = None, ar_capabilities = None, ar_status = ''pending'',
     ar_user_code_hash = Some ''code'', ar_login_hint = None, ar_binding_message = None,
     ar_client_notification_token = None, ar_client_notification_endpoint = None, ar_delivery_mode = None,
     ar_interval = 5, ar_last_polled_at = None, ar_expires_at = 5000, ar_created_at = 1, ar_updated_at = 1\<rparr>"

definition pending_grant :: "string \<Rightarrow> string \<Rightarrow> agent_capability_grant" where
  "pending_grant i c = \<lparr>cg_id = i, cg_agent_id = ''p1'', cg_capability = c, cg_denied_by = None, cg_granted_by = None,
     cg_expires_at = None, cg_created_at = 1, cg_updated_at = 1, cg_status = ''pending'', cg_reason = None,
     cg_constraints = None\<rparr>"

definition decision_audit :: agent_audit_event where
  "decision_audit = \<lparr>au_id = ''d1'', au_action = ''agent.capability_decided'', au_result = ''allowed'',
     au_realm_owned = False, au_owner_user_id = Some ''u1'', au_owner_organization_id = None,
     au_controller_user_id = Some ''u1'', au_subject_issuer = None, au_subject = None, au_agent_identity_id = None,
     au_host_id = Some ''h1'', au_resource_id = None, au_resource_connection_id = None, au_access_request_id = None,
     au_scopes = Some [''read''], au_reason_code = None, au_metadata = None, au_occurred_at = 1000\<rparr>"

definition deciding_world :: world where
  "deciding_world = sample_world\<lparr>w_approvals := [pending_approval],
     w_grants := [pending_grant ''g1'' ''read'', pending_grant ''g2'' ''write'']\<rparr>"

definition deciding_input :: decision_input where
  "deciding_input = \<lparr>di_agent_id = ''p1'', di_user_code_hash = ''code'', di_action = Approve,
     di_capabilities = Some [''read''], di_user_id = ''u1'', di_now = 1000\<rparr>"


text \<open>
  C32. A decision is one-shot under concurrency: one that was read before another decision of
  the same request was written fails, appends no audit event and changes no request.
\<close>

theorem stale_decision_rejected:
  assumes "\<forall>r \<in> set (w_approvals w). ar_id r = ar_id (dr_request d) \<longrightarrow> ar_status r \<noteq> ''pending''"
  shows "(\<exists>e. fst (write_decision input d audit w) = Inl e) \<and>
     w_audits (snd (write_decision input d audit w)) = w_audits w \<and>
     w_approvals (snd (write_decision input d audit w)) = w_approvals w"
proof -
  have none: "filter (decidable_now input (dr_request d) w) (w_approvals w) = []"
    using assms by (auto simp: filter_empty_conv decidable_now_def)
  then have dead: "\<not> list_ex (decidable_now input (dr_request d) w) (w_approvals w)"
    by (auto simp: list_ex_iff filter_empty_conv)
  have "update_where (decidable_now input (dr_request d) w) f (w_approvals w) = w_approvals w" for f
    using none by (auto simp: update_where_def filter_empty_conv intro!: map_idI)
  with dead have head: "batch (decision_head_part input d audit) w = Inr w"
    by (simp add: decision_head_part_def audit_statement_def request_statement_def update_approvals_def)
  have keeps: "w_audits v = w_audits w \<and> w_approvals v = w_approvals w"
    if "batch (decision_statements input d audit) w = Inr v" for v
    using that
  proof (rule decision_parts)
    fix x y
    assume "batch (decision_head_part input d audit) w = Inr x" and grants: "batch (decision_grants_part input d) x = Inr y"
      and tail: "batch (decision_tail_part input d) y = Inr v"
    with head grants_part_tables [OF grants] decision_tail_tables [OF tail [unfolded decision_tail_part_def]]
    show ?thesis by simp
  qed
  show ?thesis
  proof (cases "batch (decision_statements input d audit) w")
    case (Inl e)
    then show ?thesis by (simp add: write_decision_def bind_def gets_def atomically_def)
  next
    case (Inr v)
    with keeps none show ?thesis
      by (simp add: write_decision_def bind_def gets_def atomically_def require_def throw_def)
  qed
qed

theorem stale_decision_rejected_witness:
  "\<exists>d w. read_decision deciding_input deciding_world = Inr d \<and>
     w = snd (decide_approval deciding_input decision_audit deciding_world) \<and>
     w_audits (snd (write_decision deciding_input d decision_audit w)) = [decision_audit] \<and>
     fst (write_decision deciding_input d decision_audit w) \<noteq> Inr Approve"
proof -
  let ?w = "snd (decide_approval deciding_input decision_audit deciding_world)"
  have "read_decision deciding_input deciding_world \<noteq> Inl approval_not_pending \<and>
      (case read_decision deciding_input deciding_world of Inl _ \<Rightarrow> False | Inr d \<Rightarrow> ar_id (dr_request d) = ''a1'')"
    by code_simp
  then obtain d where d: "read_decision deciding_input deciding_world = Inr d" "ar_id (dr_request d) = ''a1''"
    by (auto split: sum.splits)
  have "list_all (\<lambda>r. ar_status r \<noteq> ''pending'') (w_approvals ?w)" "w_audits ?w = [decision_audit]" by code_simp+
  with stale_decision_rejected [of ?w d deciding_input decision_audit] d show ?thesis
    by (fastforce simp: list_all_iff)
qed

section \<open>Revoking a host\<close>

lemma revocation_runs [run_simps]:
  "revoke_agent_record env i w = (Inr (), w\<lparr>w_clock_ticks := Suc (w_clock_ticks w),
     w_agents := update_where (\<lambda>a. ag_id a = i)
       (\<lambda>a. a\<lparr>ag_status := ''revoked'', ag_updated_at := env_clock env (w_clock_ticks w)\<rparr>) (w_agents w)\<rparr>)"
  "revoke_agent_capability_grants env i w = (Inr (), w\<lparr>w_clock_ticks := Suc (w_clock_ticks w),
     w_grants := update_where (\<lambda>g. cg_agent_id g = i)
       (\<lambda>g. g\<lparr>cg_status := ''revoked'', cg_updated_at := env_clock env (w_clock_ticks w)\<rparr>) (w_grants w)\<rparr>)"
  "revoke_agent_approval_requests env i w = (Inr (), w\<lparr>w_clock_ticks := Suc (w_clock_ticks w),
     w_approvals := update_where (\<lambda>r. ar_agent_id r = Some i)
       (\<lambda>r. r\<lparr>ar_status := ''revoked'', ar_updated_at := env_clock env (w_clock_ticks w)\<rparr>) (w_approvals w)\<rparr>)"
  "revoke_host_approval_requests env i w = (Inr (), w\<lparr>w_clock_ticks := Suc (w_clock_ticks w),
     w_approvals := update_where (\<lambda>r. ar_host_id r = Some i)
       (\<lambda>r. r\<lparr>ar_status := ''revoked'', ar_updated_at := env_clock env (w_clock_ticks w)\<rparr>) (w_approvals w)\<rparr>)"
  by (simp_all add: revoke_agent_record_def revoke_agent_capability_grants_def revoke_agent_approval_requests_def
      revoke_host_approval_requests_def bind_def new_date_def atomically_def update_agents_def update_grants_def
      update_approvals_def)

lemma revoke_agents_loop:
  assumes "each (revoke_agent_record env) ids w = (Inr u, w')"
  shows "(\<forall>a \<in> set (w_agents w'). ag_id a \<in> set ids \<longrightarrow> ag_status a = ''revoked'') \<and>
     (\<forall>a \<in> set (w_agents w'). ag_id a \<notin> set ids \<longrightarrow> a \<in> set (w_agents w)) \<and>
     map ag_id (w_agents w') = map ag_id (w_agents w) \<and> map ag_host_id (w_agents w') = map ag_host_id (w_agents w) \<and>
     w_hosts w' = w_hosts w \<and> w_grants w' = w_grants w \<and> w_approvals w' = w_approvals w"
  using assms
proof (induction ids arbitrary: w)
  case (Cons i ids)
  define v where "v = w\<lparr>w_clock_ticks := Suc (w_clock_ticks w), w_agents := update_where (\<lambda>a. ag_id a = i)
       (\<lambda>a. a\<lparr>ag_status := ''revoked'', ag_updated_at := env_clock env (w_clock_ticks w)\<rparr>) (w_agents w)\<rparr>"
  from Cons.prems have v: "each (revoke_agent_record env) ids v = (Inr u, w')"
    by (simp add: bind_def revocation_runs(1) [of env i w] v_def)
  have step: "evolved agent_step (w_agents v) (w_agents w')"
    using keeps_history.law_each [of "revoke_agent_record env" ids] keeps_history.law_revoke_agent_record v
    by (auto dest: evolvesD simp: history_def)
  have len: "length (w_agents w') = length (w_agents v)"
    using Cons.IH [OF v] by (metis length_map)
  have revoked: "ag_status b = ''revoked''" if b: "b \<in> set (w_agents w')" "ag_id b = i" for b
  proof -
    from b(1) obtain k where k: "k < length (w_agents v)" "b = w_agents w' ! k" using len by (metis in_set_conv_nth)
    with step have "agent_step (w_agents v ! k) b" by (auto simp: evolved_def list_all2_conv_all_nth len)
    moreover have "w_agents v ! k \<in> set (w_agents v)" using k(1) by simp
    moreover have "\<forall>a \<in> set (w_agents v). ag_id a = i \<longrightarrow> ag_status a = ''revoked''"
      by (simp add: v_def ball_update_where)
    ultimately show ?thesis using b(2) by (auto simp: agent_step_def)
  qed
  have "a \<in> set (w_agents w)" if "a \<in> set (w_agents v)" "ag_id a \<noteq> i" for a
    using that by (auto simp: in_update_where v_def split: if_splits)
  with Cons.IH [OF v] revoked show ?case by (simp add: v_def map_update_where)
qed simp

lemma revoke_grants_loop:
  assumes "each (revoke_agent_capability_grants env) ids w = (Inr u, w')"
  shows "(\<forall>g \<in> set (w_grants w'). cg_agent_id g \<in> set ids \<longrightarrow> cg_status g = ''revoked'') \<and>
     (\<forall>g \<in> set (w_grants w'). cg_agent_id g \<notin> set ids \<longrightarrow> g \<in> set (w_grants w)) \<and>
     w_hosts w' = w_hosts w \<and> w_agents w' = w_agents w \<and> w_approvals w' = w_approvals w \<and>
     (\<forall>i. (\<forall>g \<in> set (w_grants w). cg_agent_id g = i \<longrightarrow> cg_status g = ''revoked'') \<longrightarrow>
          (\<forall>g \<in> set (w_grants w'). cg_agent_id g = i \<longrightarrow> cg_status g = ''revoked''))"
  using assms
proof (induction ids arbitrary: w)
  case (Cons i ids)
  define v where "v = w\<lparr>w_clock_ticks := Suc (w_clock_ticks w), w_grants := update_where (\<lambda>g. cg_agent_id g = i)
       (\<lambda>g. g\<lparr>cg_status := ''revoked'', cg_updated_at := env_clock env (w_clock_ticks w)\<rparr>) (w_grants w)\<rparr>"
  from Cons.prems have v: "each (revoke_agent_capability_grants env) ids v = (Inr u, w')"
    by (simp add: bind_def revocation_runs(2) [of env i w] v_def)
  have first: "\<forall>g \<in> set (w_grants v). cg_agent_id g = i \<longrightarrow> cg_status g = ''revoked''"
    by (auto simp: ball_update_where v_def)
  have other: "\<forall>g \<in> set (w_grants v). cg_agent_id g \<noteq> i \<longrightarrow> g \<in> set (w_grants w)"
    by (auto simp: ball_update_where v_def)
  have kept: "(\<forall>g \<in> set (w_grants w). cg_agent_id g = j \<longrightarrow> cg_status g = ''revoked'') \<longrightarrow>
      (\<forall>g \<in> set (w_grants v). cg_agent_id g = j \<longrightarrow> cg_status g = ''revoked'')" for j
    using first other by (cases "i = j") auto
  note IH = Cons.IH [OF v]
  have "\<forall>g \<in> set (w_grants w'). cg_agent_id g \<in> set (i # ids) \<longrightarrow> cg_status g = ''revoked''"
    using IH first by (metis set_ConsD)
  moreover have "\<forall>g \<in> set (w_grants w'). cg_agent_id g \<notin> set (i # ids) \<longrightarrow> g \<in> set (w_grants w)"
    using IH other by auto
  moreover have "w_hosts w' = w_hosts w \<and> w_agents w' = w_agents w \<and> w_approvals w' = w_approvals w"
    using IH by (simp add: v_def)
  moreover have "\<forall>j. (\<forall>g \<in> set (w_grants w). cg_agent_id g = j \<longrightarrow> cg_status g = ''revoked'') \<longrightarrow>
      (\<forall>g \<in> set (w_grants w'). cg_agent_id g = j \<longrightarrow> cg_status g = ''revoked'')"
    using IH kept by meson
  ultimately show ?case by blast
qed simp

lemma revoke_approvals_loop:
  assumes "each (revoke_agent_approval_requests env) ids w = (Inr u, w')"
  shows "(\<forall>q \<in> set (w_approvals w'). ar_agent_id q \<in> Some ` set ids \<longrightarrow> ar_status q = ''revoked'') \<and>
     (\<forall>q \<in> set (w_approvals w'). ar_agent_id q \<notin> Some ` set ids \<longrightarrow> q \<in> set (w_approvals w)) \<and>
     w_hosts w' = w_hosts w \<and> w_agents w' = w_agents w \<and> w_grants w' = w_grants w \<and>
     (\<forall>i. (\<forall>q \<in> set (w_approvals w). ar_agent_id q = Some i \<longrightarrow> ar_status q = ''revoked'') \<longrightarrow>
          (\<forall>q \<in> set (w_approvals w'). ar_agent_id q = Some i \<longrightarrow> ar_status q = ''revoked''))"
  using assms
proof (induction ids arbitrary: w)
  case (Cons i ids)
  define v where "v = w\<lparr>w_clock_ticks := Suc (w_clock_ticks w), w_approvals := update_where (\<lambda>q. ar_agent_id q = Some i)
       (\<lambda>q. q\<lparr>ar_status := ''revoked'', ar_updated_at := env_clock env (w_clock_ticks w)\<rparr>) (w_approvals w)\<rparr>"
  from Cons.prems have v: "each (revoke_agent_approval_requests env) ids v = (Inr u, w')"
    by (simp add: bind_def revocation_runs(3) [of env i w] v_def)
  have first: "\<forall>q \<in> set (w_approvals v). ar_agent_id q = Some i \<longrightarrow> ar_status q = ''revoked''"
    by (auto simp: ball_update_where v_def)
  have other: "\<forall>q \<in> set (w_approvals v). ar_agent_id q \<noteq> Some i \<longrightarrow> q \<in> set (w_approvals w)"
    by (auto simp: ball_update_where v_def)
  have kept: "(\<forall>q \<in> set (w_approvals w). ar_agent_id q = Some j \<longrightarrow> ar_status q = ''revoked'') \<longrightarrow>
      (\<forall>q \<in> set (w_approvals v). ar_agent_id q = Some j \<longrightarrow> ar_status q = ''revoked'')" for j
    using first other by (cases "i = j") auto
  note IH = Cons.IH [OF v]
  have "\<forall>q \<in> set (w_approvals w'). ar_agent_id q \<in> Some ` set (i # ids) \<longrightarrow> ar_status q = ''revoked''"
    using IH first by (metis image_iff set_ConsD)
  moreover have "\<forall>q \<in> set (w_approvals w'). ar_agent_id q \<notin> Some ` set (i # ids) \<longrightarrow> q \<in> set (w_approvals w)"
    using IH other by auto
  moreover have "w_hosts w' = w_hosts w \<and> w_agents w' = w_agents w \<and> w_grants w' = w_grants w"
    using IH by (simp add: v_def)
  moreover have "\<forall>j. (\<forall>q \<in> set (w_approvals w). ar_agent_id q = Some j \<longrightarrow> ar_status q = ''revoked'') \<longrightarrow>
      (\<forall>q \<in> set (w_approvals w'). ar_agent_id q = Some j \<longrightarrow> ar_status q = ''revoked'')"
    using IH kept by meson
  ultimately show ?case by blast
qed simp

text \<open>
  C33. Revoking a host revokes it with everything behind it: every protocol agent registered on
  it, every capability grant and approval request of those agents and every approval request of
  the host; agents, grants and requests that do not belong to it are the rows they were.
\<close>

theorem host_revocation_complete:
  assumes run: "revoke_host env k w = (Inr u, w')"
  shows "(\<forall>h \<in> set (w_hosts w'). ah_id h = k \<longrightarrow> ah_status h = ''revoked'') \<and>
     (\<forall>a \<in> set (w_agents w). ag_host_id a = k \<longrightarrow>
        (\<forall>b \<in> set (w_agents w'). ag_id b = ag_id a \<longrightarrow> ag_status b = ''revoked'') \<and>
        (\<forall>g \<in> set (w_grants w'). cg_agent_id g = ag_id a \<longrightarrow> cg_status g = ''revoked'') \<and>
        (\<forall>q \<in> set (w_approvals w'). ar_agent_id q = Some (ag_id a) \<longrightarrow> ar_status q = ''revoked'')) \<and>
     (\<forall>q \<in> set (w_approvals w'). ar_host_id q = Some k \<longrightarrow> ar_status q = ''revoked'') \<and>
     (let ids = ag_id ` {a \<in> set (w_agents w). ag_host_id a = k} in
        (\<forall>a \<in> set (w_agents w'). ag_id a \<notin> ids \<longrightarrow> a \<in> set (w_agents w)) \<and>
        (\<forall>g \<in> set (w_grants w'). cg_agent_id g \<notin> ids \<longrightarrow> g \<in> set (w_grants w)))"
proof -
  let ?now = "env_clock env (w_clock_ticks w)"
  define v where "v = w\<lparr>w_clock_ticks := Suc (w_clock_ticks w), w_hosts := update_where (\<lambda>h. ah_id h = k)
      (\<lambda>h. h\<lparr>ah_status := ''revoked'', ah_updated_at := ?now\<rparr>) (w_hosts w)\<rparr>"
  let ?ids = "map ag_id (filter (\<lambda>a. ag_host_id a = k) (w_agents w))"
  from run obtain x y z where
    x: "each (revoke_agent_record env) ?ids v = (Inr (), x)" and
    y: "each (revoke_agent_capability_grants env) ?ids x = (Inr (), y)" and
    z: "each (revoke_agent_approval_requests env) ?ids y = (Inr (), z)" and
    w': "revoke_host_approval_requests env k z = (Inr u, w')"
    by (auto simp: revoke_host_def bind_ok_iff new_date_def v_def)
  have w'_eq: "w' = z\<lparr>w_clock_ticks := Suc (w_clock_ticks z), w_approvals := update_where (\<lambda>q. ar_host_id q = Some k)
      (\<lambda>q. q\<lparr>ar_status := ''revoked'', ar_updated_at := env_clock env (w_clock_ticks z)\<rparr>) (w_approvals z)\<rparr>"
    using w' by (simp add: revocation_runs)
  note loops = revoke_agents_loop [OF x] revoke_grants_loop [OF y] revoke_approvals_loop [OF z]
  have hosts: "\<forall>h \<in> set (w_hosts w'). ah_id h = k \<longrightarrow> ah_status h = ''revoked''"
    using loops by (simp add: w'_eq v_def ball_update_where)
  have requests: "ar_status q = ''revoked''"
    if "q \<in> set (w_approvals w')" and mine: "ar_host_id q = Some k \<or> ar_agent_id q \<in> Some ` set ?ids" for q
  proof -
    from that obtain p where p: "p \<in> set (w_approvals z)" "q = (if ar_host_id p = Some k
        then p\<lparr>ar_status := ''revoked'', ar_updated_at := env_clock env (w_clock_ticks z)\<rparr> else p)"
      by (auto simp: w'_eq in_update_where)
    show ?thesis
    proof (cases "ar_host_id p = Some k")
      case True with p show ?thesis by simp
    next
      case False with p mine loops(3) show ?thesis by auto
    qed
  qed
  have tables: "w_agents w' = w_agents x" "w_grants w' = w_grants y" "w_agents v = w_agents w" "w_grants x = w_grants w"
    using loops by (simp_all add: w'_eq v_def)
  have ids: "ag_id ` {a \<in> set (w_agents w). ag_host_id a = k} = set ?ids" by auto
  have agents: "\<forall>a \<in> set (w_agents w'). ag_id a \<in> set ?ids \<longrightarrow> ag_status a = ''revoked''"
    "\<forall>a \<in> set (w_agents w'). ag_id a \<notin> set ?ids \<longrightarrow> a \<in> set (w_agents w)"
    using loops(1) unfolding tables(1) tables(3) by blast+
  have grants: "\<forall>g \<in> set (w_grants w'). cg_agent_id g \<in> set ?ids \<longrightarrow> cg_status g = ''revoked''"
    "\<forall>g \<in> set (w_grants w'). cg_agent_id g \<notin> set ?ids \<longrightarrow> g \<in> set (w_grants w)"
    using loops(2) unfolding tables(2) tables(4) by blast+
  have mine: "ag_id a \<in> set ?ids" if "a \<in> set (w_agents w)" "ag_host_id a = k" for a
    using that by simp
  show ?thesis unfolding Let_def ids
  proof (intro conjI ballI impI)
    fix a assume a: "a \<in> set (w_agents w)" "ag_host_id a = k"
    show "ag_status b = ''revoked''" if "b \<in> set (w_agents w')" "ag_id b = ag_id a" for b
      using agents(1) that mine [OF a] by metis
    show "cg_status g = ''revoked''" if "g \<in> set (w_grants w')" "cg_agent_id g = ag_id a" for g
      using grants(1) that mine [OF a] by metis
    show "ar_status q = ''revoked''" if "q \<in> set (w_approvals w')" "ar_agent_id q = Some (ag_id a)" for q
      using requests that mine [OF a] by blast
  qed (use hosts requests agents(2) grants(2) in blast)+
qed

theorem host_revocation_complete_witness:
  "fst (revoke_host sample_env ''h1'' deciding_world) = Inr () \<and>
   list_all (\<lambda>a. ag_status a = ''revoked'')
     (filter (\<lambda>a. ag_id a = ''p1'') (w_agents (snd (revoke_host sample_env ''h1'' deciding_world))))"
proof -
  let ?run = "revoke_host sample_env ''h1'' deciding_world"
  have ok: "fst ?run = Inr ()" by code_simp
  then have run: "?run = (Inr (), snd ?run)" by (metis prod.collapse)
  have "sample_agent ''p1'' \<in> set (w_agents deciding_world)" "ag_host_id (sample_agent ''p1'') = ''h1''"
    "ag_id (sample_agent ''p1'') = ''p1''"
    by (simp_all add: deciding_world_def sample_world_def sample_agent_def)
  then have "\<forall>b \<in> set (w_agents (snd ?run)). ag_id b = ''p1'' \<longrightarrow> ag_status b = ''revoked''"
    using host_revocation_complete [OF run] by fastforce
  with ok show ?thesis by (simp add: list_all_iff)
qed

end
