(* ===== verification/Lease_Revocation.thy ===== *)
theory Lease_Revocation
  imports Sample_World
begin

text \<open>
  Taking an Agent's access to resources away (\<open>revokeAgentResourceAccess\<close> and what it calls in
  \<open>server/usecases/external-resources.ts\<close>, with the entitlement and lease statements of
  \<open>server/adapters/repos/external-resources.ts\<close>).
\<close>

section \<open>Entitlements and leases\<close>

definition entitlement_active :: "int \<Rightarrow> resource_scope_entitlement \<Rightarrow> bool" where
  "entitlement_active now e \<longleftrightarrow> se_ended_at e = None \<and>
     (case se_expires_at e of None \<Rightarrow> True | Some t \<Rightarrow> now < t)"

definition list_active_entitlements_by_agent :: "string \<Rightarrow> int \<Rightarrow> world \<Rightarrow> resource_scope_entitlement list" where
  "list_active_entitlements_by_agent agent_identity_id now w =
     sort_key se_created_at
       (filter (\<lambda>e. se_agent_identity_id e = Some agent_identity_id \<and> entitlement_active now e) (w_entitlements w))"

definition end_entitlement :: "string \<Rightarrow> end_reason \<Rightarrow> int \<Rightarrow> bool server" where
  "end_entitlement i reason now =
     (let hit = (\<lambda>e. se_id e = i \<and> se_ended_at e = None) in
      bind (gets (\<lambda>w. filter hit (w_entitlements w))) (\<lambda>rows.
      bind (modify (\<lambda>w. w\<lparr>w_entitlements := update_where hit
              (\<lambda>e. e\<lparr>se_ended_at := Some now, se_end_reason := Some reason, se_updated_at := now\<rparr>)
              (w_entitlements w)\<rparr>)) (\<lambda>_.
      ret (rows \<noteq> []))))"

definition lease_active :: "int \<Rightarrow> external_token_lease \<Rightarrow> bool" where
  "lease_active now l \<longleftrightarrow> now < tl_expires_at l \<and> tl_revoked_at l = None"

definition list_active_token_leases_by_entitlement :: "string \<Rightarrow> int \<Rightarrow> world \<Rightarrow> external_token_lease list" where
  "list_active_token_leases_by_entitlement entitlement_id now w =
     filter (\<lambda>l. entitlement_id \<in> set (tl_entitlement_ids l) \<and> lease_active now l) (w_leases w)"

definition list_active_token_leases_by_binding :: "string \<Rightarrow> int \<Rightarrow> world \<Rightarrow> external_token_lease list" where
  "list_active_token_leases_by_binding binding_id now w =
     filter (\<lambda>l. tl_binding_id l = binding_id \<and> lease_active now l) (w_leases w)"

definition find_active_token_lease_by_token_hash :: "string \<Rightarrow> int \<Rightarrow> world \<Rightarrow> external_token_lease option" where
  "find_active_token_lease_by_token_hash token_hash now w =
     find (\<lambda>l. tl_token_hash l = token_hash \<and> lease_active now l) (w_leases w)"

definition revoke_token_lease :: "string \<Rightarrow> int \<Rightarrow> bool server" where
  "revoke_token_lease i now =
     (let hit = (\<lambda>l. tl_id l = i \<and> now < tl_expires_at l) in
      bind (gets (\<lambda>w. filter hit (w_leases w))) (\<lambda>rows.
      bind (modify (\<lambda>w. w\<lparr>w_leases := update_where hit (\<lambda>l. l\<lparr>tl_revoked_at := Some now\<rparr>) (w_leases w)\<rparr>)) (\<lambda>_.
      ret (rows \<noteq> []))))"

section \<open>Revocation at the target\<close>

definition find_access_request :: "string \<Rightarrow> world \<Rightarrow> access_request option" where
  "find_access_request i w = find (\<lambda>r. rq_id r = i) (w_requests w)"

definition find_resource :: "string \<Rightarrow> world \<Rightarrow> resource_server option" where
  "find_resource i w = find (\<lambda>r. rs_id r = i \<and> rs_deleted_at r = None) (w_resources w)"

definition find_connection :: "string \<Rightarrow> world \<Rightarrow> resource_connection option" where
  "find_connection i w = find (\<lambda>c. cn_id c = i) (w_connections w)"

definition active_provider_credentials :: "resource_connection \<Rightarrow> provider_credential list" where
  "active_provider_credentials c = filter (\<lambda>p. pc_status p = ''active'') (cn_credentials c)"

definition provider_credential_generation :: "resource_connection \<Rightarrow> nat" where
  "provider_credential_generation c =
     (case active_provider_credentials c of [] \<Rightarrow> 1 | p # _ \<Rightarrow> pc_client_generation p)"

definition external_oauth_authorization ::
    "env \<Rightarrow> resource_server \<Rightarrow> nat \<Rightarrow> external_authorization option server" where
  "external_oauth_authorization env resource generation =
     (if rs_authorization_model resource \<noteq> External_model then ret None
      else (case env_active_authorization env (rs_id resource) generation of
              None \<Rightarrow> throw (not_found ''Active external API resource authorization was not found.'')
            | Some a \<Rightarrow> ret (Some a)))"

definition token_lease_context :: "string \<Rightarrow> string" where
  "token_lease_context lease_id = ''external-token-lease:'' @ lease_id @ '':access-token''"

definition post_empty_form :: "env \<Rightarrow> string \<Rightarrow> (string \<times> string) list \<Rightarrow> string \<Rightarrow> string \<Rightarrow> unit server" where
  "post_empty_form env url body client_id client_secret =
     (case env_post_form env url body client_id client_secret of
        None \<Rightarrow> throw (bad_gateway ''External authorization server revocation is unavailable.'' None)
      | Some status \<Rightarrow> require (200 \<le> status \<and> status \<le> 299)
          (unauthorized ''External authorization server rejected the revocation request.''))"

definition revoke_token_lease_at_target :: "env \<Rightarrow> external_token_lease \<Rightarrow> int \<Rightarrow> bool \<Rightarrow> unit server" where
  "revoke_token_lease_at_target env lease now persist =
     (let persisted = (if persist then bind (revoke_token_lease (tl_id lease) now) (\<lambda>_. ret ()) else ret ()) in
      bind (gets (find_access_request (tl_request_id lease))) (\<lambda>r.
      bind (found r (not_found ''Approved Agent access request was not found.'')) (\<lambda>request.
      bind (gets (find_resource (rq_resource_id request))) (\<lambda>s.
      bind (found s (not_found ''API resource was not found.'')) (\<lambda>resource.
      bind (gets (\<lambda>w. case rq_connection_id request of None \<Rightarrow> None | Some c \<Rightarrow> find_connection c w)) (\<lambda>connection.
      bind (external_oauth_authorization env resource
              (case connection of None \<Rightarrow> 1 | Some c \<Rightarrow> provider_credential_generation c)) (\<lambda>authorization.
      case authorization of
        None \<Rightarrow> persisted
      | Some a \<Rightarrow>
          bind (require (connection \<noteq> None) (not_found ''Resource account connection was not found.'')) (\<lambda>_.
          bind (lift_result (env_open_secret env (tl_encrypted_access_token lease) (token_lease_context (tl_id lease)))) (\<lambda>token.
          bind (post_empty_form env (ea_revocation_endpoint a)
                  [(''token'', token), (''token_type_hint'', ''access_token'')]
                  (ea_client_id a) (ea_encrypted_client_secret a)) (\<lambda>_.
          persisted))))))))))"

definition revoke_entitlement_token_leases :: "env \<Rightarrow> resource_scope_entitlement \<Rightarrow> int \<Rightarrow> unit server" where
  "revoke_entitlement_token_leases env entitlement now =
     bind (gets (list_active_token_leases_by_entitlement (se_id entitlement) now)) (\<lambda>leases.
     each (\<lambda>lease. revoke_token_lease_at_target env lease now True) leases)"

definition revoke_entitlement_token_leases_at_target ::
    "env \<Rightarrow> resource_scope_entitlement \<Rightarrow> int \<Rightarrow> string list server" where
  "revoke_entitlement_token_leases_at_target env entitlement now =
     bind (gets (list_active_token_leases_by_entitlement (se_id entitlement) now)) (\<lambda>leases.
     bind (each (\<lambda>lease. revoke_token_lease_at_target env lease now False) leases) (\<lambda>_.
     ret (map tl_id leases)))"

definition revoke_agent_resource_access :: "env \<Rightarrow> string \<Rightarrow> unit server" where
  "revoke_agent_resource_access env agent_identity_id =
     bind (new_date env) (\<lambda>now.
     bind (gets (list_active_entitlements_by_agent agent_identity_id now)) (\<lambda>entitlements.
     each (\<lambda>entitlement.
       bind (revoke_entitlement_token_leases env entitlement now) (\<lambda>_.
       bind (end_entitlement (se_id entitlement) Revoked now) (\<lambda>_. ret ()))) entitlements))"

definition revoke_agent_resource_leases_for_binding :: "env \<Rightarrow> string \<Rightarrow> unit server" where
  "revoke_agent_resource_leases_for_binding env binding_id =
     bind (new_date env) (\<lambda>now.
     bind (gets (list_active_token_leases_by_binding binding_id now)) (\<lambda>leases.
     each (\<lambda>lease. revoke_token_lease_at_target env lease now True) leases))"

section \<open>Laws\<close>

context agent_law
begin

lemma law_end_entitlement [law_intros]: "evolves R (end_entitlement i reason now)"
  unfolding end_entitlement_def Let_def
  by (intro law_intros evolves_modify end_entitlements) simp

lemma law_revoke_token_lease [law_intros]: "evolves R (revoke_token_lease i now)"
  unfolding revoke_token_lease_def Let_def
  by (intro law_intros evolves_modify change_leases) (auto simp: lease_step_def)

lemma law_external_authorization [law_intros]: "evolves R (external_oauth_authorization env s n)"
  unfolding external_oauth_authorization_def by (intro law_intros)

lemma law_post_empty_form [law_intros]: "evolves R (post_empty_form env url body c s)"
  unfolding post_empty_form_def by (intro law_intros)

lemma law_revoke_at_target [law_intros]: "evolves R (revoke_token_lease_at_target env l now persist)"
  unfolding revoke_token_lease_at_target_def Let_def by (intro law_intros)

lemma law_revoke_entitlement_leases [law_intros]: "evolves R (revoke_entitlement_token_leases env e now)"
  unfolding revoke_entitlement_token_leases_def by (intro law_intros)

lemma law_revoke_access [law_intros]: "evolves R (revoke_agent_resource_access env a)"
  unfolding revoke_agent_resource_access_def by (intro law_intros)

lemma law_revoke_binding_leases [law_intros]: "evolves R (revoke_agent_resource_leases_for_binding env b)"
  unfolding revoke_agent_resource_leases_for_binding_def by (intro law_intros)

end

section \<open>What is left of an Agent's access\<close>

lemma update_where_twice:
  "(\<And>r. k (f r) = k r) \<Longrightarrow> (\<And>r. \<not> open_row (f r)) \<Longrightarrow>
     update_where (\<lambda>r. k r \<in> B \<and> open_row r) f (update_where (\<lambda>r. k r = a \<and> open_row r) f rows)
       = update_where (\<lambda>r. k r \<in> insert a B \<and> open_row r) f rows"
  by (induction rows) auto

lemma update_where_again:
  "(\<And>r. k (f r) = k r) \<Longrightarrow> (\<And>r. q (f r) = q r) \<Longrightarrow> (\<And>r. f (f r) = f r) \<Longrightarrow>
     update_where (\<lambda>r. k r \<in> B \<and> q r) f (update_where (\<lambda>r. k r = a \<and> q r) f rows)
       = update_where (\<lambda>r. k r \<in> insert a B \<and> q r) f rows"
  by (induction rows) auto

abbreviation lease_revoked :: "int \<Rightarrow> external_token_lease \<Rightarrow> external_token_lease" where
  "lease_revoked now \<equiv> (\<lambda>l. l\<lparr>tl_revoked_at := Some now\<rparr>)"

lemma revoke_token_lease_ok:
  "revoke_token_lease i now w = (Inr y, w') \<Longrightarrow>
     w' = w\<lparr>w_leases := update_where (\<lambda>r. tl_id r = i \<and> now < tl_expires_at r) (lease_revoked now) (w_leases w)\<rparr>"
  by (auto simp: revoke_token_lease_def bind_ok_iff Let_def)

lemma external_authorization_ok:
  "external_oauth_authorization env s n w = (Inr a, w') \<Longrightarrow> w' = w"
  by (auto simp: external_oauth_authorization_def split: if_splits option.splits)

lemma post_empty_form_ok: "post_empty_form env url body c s w = (Inr a, w') \<Longrightarrow> w' = w"
  by (auto simp: post_empty_form_def split: option.splits)

lemma revoke_at_target_ok:
  assumes "revoke_token_lease_at_target env l now True w = (Inr u, w')"
  shows "w' = w\<lparr>w_leases := update_where (\<lambda>r. tl_id r = tl_id l \<and> now < tl_expires_at r) (lease_revoked now) (w_leases w)\<rparr>"
proof -
  have "\<exists>y. revoke_token_lease (tl_id l) now w = (Inr y, w')"
    using assms unfolding revoke_token_lease_at_target_def Let_def
    by (auto simp: bind_ok_iff dest!: external_authorization_ok post_empty_form_ok split: option.splits)
  then show ?thesis by (blast dest: revoke_token_lease_ok)
qed

lemma revoke_leases_ok:
  assumes "each (\<lambda>l. revoke_token_lease_at_target env l now True) ls w = (Inr u, w')"
  shows "w' = w\<lparr>w_leases := update_where (\<lambda>r. tl_id r \<in> tl_id ` set ls \<and> now < tl_expires_at r)
            (lease_revoked now) (w_leases w)\<rparr>"
  using assms
proof (induction ls arbitrary: w)
  case Nil
  then show ?case by (simp add: update_where_def)
next
  case (Cons l ls)
  from Cons.prems obtain v where v: "revoke_token_lease_at_target env l now True w = (Inr (), v)"
    "each (\<lambda>l. revoke_token_lease_at_target env l now True) ls v = (Inr u, w')"
    by (auto simp: bind_ok_iff)
  show ?case
    unfolding Cons.IH [OF v(2)] revoke_at_target_ok [OF v(1)]
    by (simp add: update_where_again)
qed

lemma end_entitlement_ok:
  "end_entitlement i reason now w = (Inr u, w') \<Longrightarrow>
     w' = w\<lparr>w_entitlements := update_where (\<lambda>e. se_id e = i \<and> se_ended_at e = None)
            (entitlement_ended reason now) (w_entitlements w)\<rparr>"
  by (auto simp: end_entitlement_def bind_ok_iff Let_def)

text \<open>The leases an entitlement loop revokes: exactly those naming one of the entitlements.\<close>

lemma no_lease_left:
  assumes "distinct (map tl_id rows)"
    and "ls = filter (\<lambda>l. i \<in> set (tl_entitlement_ids l) \<and> lease_active now l) rows"
    and "l \<in> set (update_where (\<lambda>r. tl_id r \<in> tl_id ` set ls \<and> now < tl_expires_at r) (lease_revoked now) rows)"
    and "lease_active now l"
  shows "l \<in> set rows \<and> i \<notin> set (tl_entitlement_ids l)"
proof -
  let ?hit = "\<lambda>r. tl_id r \<in> tl_id ` set ls \<and> now < tl_expires_at r"
  from assms(3) obtain q where q: "q \<in> set rows" "l = (if ?hit q then lease_revoked now q else q)"
    by (auto simp: in_update_where)
  with assms(4) have "\<not> ?hit q" "l = q" by (auto simp: lease_active_def split: if_splits)
  with q(1) assms(2,4) show ?thesis by (auto simp: lease_active_def)
qed

lemma access_loop_ok:
  assumes "each (\<lambda>e. bind (revoke_entitlement_token_leases env e now) (\<lambda>_.
             bind (end_entitlement (se_id e) Revoked now) (\<lambda>_. ret ()))) es w = (Inr u, w')"
    and "distinct (map tl_id (w_leases w))"
  shows "w_entitlements w' = update_where (\<lambda>e. se_id e \<in> se_id ` set es \<and> se_ended_at e = None)
            (entitlement_ended Revoked now) (w_entitlements w) \<and>
         (\<forall>l \<in> set (w_leases w'). lease_active now l \<longrightarrow>
            l \<in> set (w_leases w) \<and> se_id ` set es \<inter> set (tl_entitlement_ids l) = {})"
  using assms
proof (induction es arbitrary: w)
  case Nil
  then show ?case by (simp add: update_where_def)
next
  case (Cons e es)
  let ?ls = "list_active_token_leases_by_entitlement (se_id e) now w"
  from Cons.prems(1) obtain v x y where
    v: "each (\<lambda>l. revoke_token_lease_at_target env l now True) ?ls w = (Inr (), v)"
    and x: "end_entitlement (se_id e) Revoked now v = (Inr y, x)"
    and rest: "each (\<lambda>e. bind (revoke_entitlement_token_leases env e now) (\<lambda>_.
             bind (end_entitlement (se_id e) Revoked now) (\<lambda>_. ret ()))) es x = (Inr u, w')"
    by (auto simp: bind_ok_iff revoke_entitlement_token_leases_def)
  note after_leases = revoke_leases_ok [OF v]
  note after_end = end_entitlement_ok [OF x]
  have leases: "w_leases x = update_where (\<lambda>r. tl_id r \<in> tl_id ` set ?ls \<and> now < tl_expires_at r)
      (lease_revoked now) (w_leases w)"
    and entitlements: "w_entitlements x = update_where (\<lambda>r. se_id r = se_id e \<and> se_ended_at r = None)
      (entitlement_ended Revoked now) (w_entitlements w)"
    by (simp_all add: after_end after_leases)
  have "distinct (map tl_id (w_leases x))"
    using Cons.prems(2) by (simp add: leases map_update_where)
  note IH = Cons.IH [OF rest this]
  have "w_entitlements w' = update_where (\<lambda>r. se_id r \<in> se_id ` set (e # es) \<and> se_ended_at r = None)
      (entitlement_ended Revoked now) (w_entitlements w)"
    using IH unfolding entitlements by (simp add: update_where_twice)
  moreover have "l \<in> set (w_leases w) \<and> se_id ` set (e # es) \<inter> set (tl_entitlement_ids l) = {}"
    if "l \<in> set (w_leases w')" "lease_active now l" for l
  proof -
    from IH that have "l \<in> set (w_leases x)" "se_id ` set es \<inter> set (tl_entitlement_ids l) = {}" by blast+
    with no_lease_left [OF Cons.prems(2) _ _ that(2), of ?ls "se_id e"] show ?thesis
      unfolding leases by (simp add: list_active_token_leases_by_entitlement_def)
  qed
  ultimately show ?case by blast
qed

lemma access_loop_tables:
  assumes "each (\<lambda>e. bind (revoke_entitlement_token_leases env e now) (\<lambda>_.
             bind (end_entitlement (se_id e) Revoked now) (\<lambda>_. ret ()))) es w = (Inr u, w')"
  shows "\<exists>ls fs. w' = w\<lparr>w_leases := ls, w_entitlements := fs\<rparr>"
  using assms
proof (induction es arbitrary: w)
  case Nil
  then show ?case by (intro exI [of _ "w_leases w"] exI [of _ "w_entitlements w"]) (cases w, simp)
next
  case (Cons e es)
  from Cons.prems obtain v x y where
    v: "revoke_entitlement_token_leases env e now w = (Inr (), v)" and
    x: "end_entitlement (se_id e) Revoked now v = (Inr y, x)" and
    rest: "each (\<lambda>e. bind (revoke_entitlement_token_leases env e now) (\<lambda>_.
             bind (end_entitlement (se_id e) Revoked now) (\<lambda>_. ret ()))) es x = (Inr u, w')"
    by (auto simp: bind_ok_iff)
  from v obtain ls where "v = w\<lparr>w_leases := ls\<rparr>"
    unfolding revoke_entitlement_token_leases_def by (auto simp: bind_ok_iff dest!: revoke_leases_ok)
  with end_entitlement_ok [OF x] Cons.IH [OF rest] show ?case by auto
qed

lemma revoke_access_tables:
  assumes "revoke_agent_resource_access env a w = (Inr u, w')"
  shows "\<exists>ls fs. w' = w\<lparr>w_clock_ticks := Suc (w_clock_ticks w), w_leases := ls, w_entitlements := fs\<rparr>"
  using assms
  by (auto simp: revoke_agent_resource_access_def new_date_def bind_ok_iff dest!: access_loop_tables)

lemma access_revocation_ok:
  assumes wf: "well_formed w" and run: "revoke_agent_resource_access env a w = (Inr u, w')"
  shows "list_active_entitlements_by_agent a (env_clock env (w_clock_ticks w)) w' = [] \<and>
    (\<forall>l \<in> set (w_leases w'). lease_active (env_clock env (w_clock_ticks w)) l \<longrightarrow>
       (\<forall>e \<in> set (list_active_entitlements_by_agent a (env_clock env (w_clock_ticks w)) w).
          se_id e \<notin> set (tl_entitlement_ids l))) \<and>
    filter (\<lambda>e. se_agent_identity_id e \<noteq> Some a) (w_entitlements w')
      = filter (\<lambda>e. se_agent_identity_id e \<noteq> Some a) (w_entitlements w)"
proof -
  let ?now = "env_clock env (w_clock_ticks w)"
  let ?es = "list_active_entitlements_by_agent a ?now w"
  let ?v = "w\<lparr>w_clock_ticks := Suc (w_clock_ticks w)\<rparr>"
  let ?hit = "\<lambda>e. se_id e \<in> se_id ` set ?es \<and> se_ended_at e = None"
  have "list_active_entitlements_by_agent a ?now ?v = ?es"
    by (simp add: list_active_entitlements_by_agent_def)
  with run have loop: "each (\<lambda>e. bind (revoke_entitlement_token_leases env e ?now) (\<lambda>_.
      bind (end_entitlement (se_id e) Revoked ?now) (\<lambda>_. ret ()))) ?es ?v = (Inr u, w')"
    by (auto simp: revoke_agent_resource_access_def new_date_def bind_ok_iff)
  have leases: "distinct (map tl_id (w_leases ?v))" and ids: "distinct (map se_id (w_entitlements w))"
    using wf by (auto simp: well_formed_def resources_sound_def)
  note looped = access_loop_ok [OF loop leases]
  have after: "w_entitlements w' = update_where ?hit (entitlement_ended Revoked ?now) (w_entitlements w)"
    using looped by simp
  have mine: "se_agent_identity_id e = Some a" if "e \<in> set (w_entitlements w)" "?hit e" for e
  proof -
    from that(2) obtain q where "q \<in> set ?es" "se_id e = se_id q" by auto
    with distinct_key_eq [OF ids that(1), of q] show ?thesis
      by (auto simp: list_active_entitlements_by_agent_def)
  qed
  have "\<not> (se_agent_identity_id e = Some a \<and> entitlement_active ?now e)" if "e \<in> set (w_entitlements w')" for e
  proof -
    from that obtain q where q: "q \<in> set (w_entitlements w)" "e = (if ?hit q then entitlement_ended Revoked ?now q else q)"
      unfolding after by (auto simp: in_update_where)
    show ?thesis
    proof (cases "?hit q")
      case True
      with q show ?thesis by (simp add: entitlement_active_def)
    next
      case False
      with q show ?thesis
        by (auto simp: list_active_entitlements_by_agent_def entitlement_active_def)
    qed
  qed
  then have "list_active_entitlements_by_agent a ?now w' = []"
    by (simp add: list_active_entitlements_by_agent_def filter_empty_conv)
  moreover have "filter (\<lambda>e. se_agent_identity_id e \<noteq> Some a) (update_where ?hit (entitlement_ended Revoked ?now) rows)
      = filter (\<lambda>e. se_agent_identity_id e \<noteq> Some a) rows" if "set rows \<subseteq> set (w_entitlements w)" for rows
    using that mine by (induction rows) auto
  ultimately show ?thesis using looped after by auto
qed



text \<open>
  The leases that remain: a lease issued by a one-time entitlement outlives the
  revocation of its Agent's access, because consuming the entitlement ended it and only
  entitlements that have not ended are visited. The lease still authenticates by its hash.
\<close>

theorem consumed_lease_survives:
  "\<exists>w env. well_formed w \<and> fst (revoke_agent_resource_access env ''i1'' w) = Inr () \<and>
     (case find_active_token_lease_by_token_hash ''l2-hash'' 2000 (snd (revoke_agent_resource_access env ''i1'' w)) of
        None \<Rightarrow> False | Some l \<Rightarrow> tl_binding_id l = ''b1'' \<and> tl_entitlement_ids l = [''e2''])"
proof (intro exI conjI)
  show "well_formed sample_world" by (rule sample_world_well_formed)
  show "fst (revoke_agent_resource_access sample_env ''i1'' sample_world) = Inr ()" by code_simp
  show "case find_active_token_lease_by_token_hash ''l2-hash'' 2000
        (snd (revoke_agent_resource_access sample_env ''i1'' sample_world)) of
      None \<Rightarrow> False | Some l \<Rightarrow> tl_binding_id l = ''b1'' \<and> tl_entitlement_ids l = [''e2'']"
    by code_simp
qed

end
