(* ===== verification/Canonical_Json.thy ===== *)
theory Canonical_Json
  imports Failures "HOL-Library.Multiset"
begin

text \<open>
  \<open>canonicalJson\<close> of \<open>server/usecases/agent-identities.ts\<close>: the text that request fingerprints
  and replay comparisons are made of. \<open>localeCompare\<close> compares collation keys, a parameter.
\<close>

fun nat_text :: "nat \<Rightarrow> string" where
  "nat_text n = (if n < 10 then [''0123456789'' ! n] else nat_text (n div 10) @ [''0123456789'' ! (n mod 10)])"

declare nat_text.simps [simp del]

definition int_text :: "int \<Rightarrow> string" where
  "int_text i = (if i < 0 then CHR ''-'' # nat_text (nat (- i)) else nat_text (nat i))"

text \<open>
  \<open>undefined\<close> stringifies to \<open>undefined\<close>, which a template writes out and \<open>join\<close> leaves empty.
  Members are sorted by name; the sort is stable.
\<close>

definition array_item :: "json \<times> string \<Rightarrow> string" where
  "array_item p = (if fst p = JUndefined then [] else snd p)"

lemma member_smaller: "p \<in> set members \<Longrightarrow> size (snd p) < Suc (size_list (size_prod (\<lambda>_. 0) size) members)"
  by (induction members) auto

function canonical_json :: "(string \<Rightarrow> string) \<Rightarrow> json \<Rightarrow> string" where
  "canonical_json key JNull = ''null''"
| "canonical_json key (JBool b) = (if b then ''true'' else ''false'')"
| "canonical_json key (JNum n) = int_text n"
| "canonical_json key (JStr s) = json_string s"
| "canonical_json key (JArr items) =
     ''['' @ join_with '','' (map (\<lambda>v. array_item (v, canonical_json key v)) items) @ '']''"
| "canonical_json key (JObj members) =
     ''{'' @ join_with '',''
       (map (\<lambda>(name, text). json_string name @ '':'' @ text)
         (sort_key (\<lambda>p. key (fst p)) (map (\<lambda>p. (fst p, canonical_json key (snd p))) members))) @ ''}''"
| "canonical_json key JUndefined = ''undefined''"
  by pat_completeness auto
termination
  by (relation "measure (\<lambda>(_, v). size v)") (auto simp: member_smaller less_Suc_eq_le size_list_estimation')

text \<open>
  The canonical text does not depend on the order of an object's members, whatever the
  locale: when collation keys tell the names apart, every ordering of the same members gives
  the same text, so a replayed request with reordered members has the same fingerprint.
\<close>

theorem canonical_order_independent:
  assumes same: "mset members = mset others" and names: "distinct (map fst members)"
    and collation: "inj_on key (fst ` set members)"
  shows "canonical_json key (JObj members) = canonical_json key (JObj others)"
proof -
  let ?text = "\<lambda>ms. map (\<lambda>p. (fst p, canonical_json key (snd p))) ms"
  have "mset (?text members) = mset (?text others)" using same by simp
  moreover have "inj_on (\<lambda>p. key (fst p)) (set (?text members))"
  proof (rule inj_onI)
    fix p q assume p: "p \<in> set (?text members)" "q \<in> set (?text members)" "key (fst p) = key (fst q)"
    then obtain a b where a: "a \<in> set members" "p = (fst a, canonical_json key (snd a))"
      and b: "b \<in> set members" "q = (fst b, canonical_json key (snd b))" by auto
    with p(3) collation have "fst a = fst b" by (auto dest: inj_onD)
    with names a b show "p = q" by (metis distinct_key_eq)
  qed
  ultimately have "sort_key (\<lambda>p. key (fst p)) (?text members) = sort_key (\<lambda>p. key (fst p)) (?text others)"
    by (intro sort_key_inj_key_eq) simp_all
  then show ?thesis by simp
qed

theorem canonical_order_independent_witness:
  "canonical_json (\<lambda>s. s) (JObj [(''a'', JNum 12), (''b'', JArr [JStr ''x'', JUndefined])]) =
   canonical_json (\<lambda>s. s) (JObj [(''b'', JArr [JStr ''x'', JUndefined]), (''a'', JNum 12)])"
  by (rule canonical_order_independent) (simp_all only: mset.simps add_mset_commute list.map, auto)

end
