(* ===== verification/Agent_Enrollment.thy ===== *)
theory Agent_Enrollment
  imports Agent_Repo Lease_Revocation Canonical_Json Tenancy
begin

text \<open>
  The use cases that create stable Agent identities and bind protocol agents to them
  (\<open>server/usecases/agent-identities.ts\<close>): guards and record builders, governance audit
  (\<open>agent-audit.ts\<close>), creation by an application with its idempotent and legacy replays, and
  enrollment intents with their approval.
\<close>

section \<open>Governance audit\<close>

record governance_event =
  ge_action :: string
  ge_result :: string
  ge_tenant :: authorization_tenant
  ge_controller_user_id :: "string option"
  ge_issuer :: "string option"
  ge_subject :: "string option"
  ge_agent_identity_id :: "string option"
  ge_host_id :: "string option"
  ge_capabilities :: "string list option"
  ge_reason_code :: "string option"
  ge_metadata :: "json option"

definition agent_governance_audit_record :: "env \<Rightarrow> string \<Rightarrow> governance_event \<Rightarrow> agent_audit_event server" where
  "agent_governance_audit_record env i e =
     bind (new_date env) (\<lambda>now.
     ret \<lparr>au_id = i, au_action = ge_action e, au_result = ge_result e, au_realm_owned = False,
          au_owner_user_id = (case ge_tenant e of User_tenant u \<Rightarrow> Some u | Organization_tenant _ \<Rightarrow> None),
          au_owner_organization_id = (case ge_tenant e of User_tenant _ \<Rightarrow> None | Organization_tenant o' \<Rightarrow> Some o'),
          au_controller_user_id = ge_controller_user_id e, au_subject_issuer = ge_issuer e,
          au_subject = ge_subject e, au_agent_identity_id = ge_agent_identity_id e, au_host_id = ge_host_id e,
          au_resource_id = None, au_resource_connection_id = None, au_access_request_id = None,
          au_scopes = ge_capabilities e, au_reason_code = ge_reason_code e, au_metadata = ge_metadata e,
          au_occurred_at = now\<rparr>)"

definition append_agent_governance_audit :: "env \<Rightarrow> governance_event \<Rightarrow> unit server" where
  "append_agent_governance_audit env e =
     bind (generate_id env) (\<lambda>i.
     bind (agent_governance_audit_record env i e) append_audit)"

definition append_identity_audit ::
    "env \<Rightarrow> string \<Rightarrow> agent_identity_aggregate \<Rightarrow> string option \<Rightarrow> json option \<Rightarrow> unit server" where
  "append_identity_audit env action a controller_user_id metadata =
     append_agent_governance_audit env
       \<lparr>ge_action = action, ge_result = ''allowed'', ge_tenant = User_tenant (ai_owner_user_id (agg_identity a)),
        ge_controller_user_id = controller_user_id, ge_issuer = Some (ai_issuer (agg_identity a)),
        ge_subject = Some (ai_subject (agg_identity a)), ge_agent_identity_id = Some (ai_id (agg_identity a)),
        ge_host_id = (if agg_bindings a = [] then None else Some (bb_host_id (last (agg_bindings a)))),
        ge_capabilities = None, ge_reason_code = None, ge_metadata = metadata\<rparr>"

section \<open>Representations\<close>

datatype home_space = Personal string

fun home_user :: "home_space \<Rightarrow> string" where
  "home_user (Personal u) = u"

definition identity_home_space :: "agent_identity \<Rightarrow> home_space" where
  "identity_home_space i = Personal (ai_owner_user_id i)"

definition intent_home_space :: "agent_enrollment_intent \<Rightarrow> home_space" where
  "intent_home_space r = Personal (ei_owner_user_id r)"

record agent_view =
  av_id :: string
  av_issuer :: string
  av_subject :: string
  av_username :: "string option"
  av_name :: string
  av_runtime :: "string option"
  av_home_space :: home_space
  av_status :: identity_status
  av_created_at :: int
  av_updated_at :: int

record binding_view =
  bv_id :: string
  bv_protocol_agent_id :: string
  bv_host_id :: string
  bv_status :: string
  bv_bound_at :: int
  bv_revoked_at :: "int option"

record identity_view = agent_view +
  av_bindings :: "binding_view list"

definition to_agent :: "agent_identity_aggregate \<Rightarrow> agent_view" where
  "to_agent a = (let r = agg_identity a in
     \<lparr>av_id = ai_id r, av_issuer = ai_issuer r, av_subject = ai_subject r, av_username = ai_username r,
      av_name = ai_name r, av_runtime = ai_runtime r, av_home_space = identity_home_space r,
      av_status = ai_status r, av_created_at = ai_created_at r, av_updated_at = ai_updated_at r\<rparr>)"

definition to_binding :: "bound_binding \<Rightarrow> binding_view" where
  "to_binding b = \<lparr>bv_id = ab_id b, bv_protocol_agent_id = ab_protocol_agent_id b, bv_host_id = bb_host_id b,
     bv_status = ab_status b, bv_bound_at = ab_bound_at b, bv_revoked_at = ab_revoked_at b\<rparr>"

definition to_identity :: "agent_identity_aggregate \<Rightarrow> identity_view" where
  "to_identity a = (let r = agg_identity a in
     \<lparr>av_id = ai_id r, av_issuer = ai_issuer r, av_subject = ai_subject r, av_username = ai_username r,
      av_name = ai_name r, av_runtime = ai_runtime r, av_home_space = identity_home_space r,
      av_status = ai_status r, av_created_at = ai_created_at r, av_updated_at = ai_updated_at r,
      av_bindings = map to_binding (agg_bindings a)\<rparr>)"

record intent_view =
  iv_id :: string
  iv_agent_identity_id :: "string option"
  iv_requested_nickname :: "string option"
  iv_requested_username :: "string option"
  iv_requested_runtime :: "string option"
  iv_home_space :: home_space
  iv_protocol_agent_id :: string
  iv_status :: string
  iv_expires_at :: int
  iv_approved_at :: "int option"
  iv_created_at :: int
  iv_updated_at :: int

definition to_intent :: "agent_enrollment_intent \<Rightarrow> intent_view" where
  "to_intent r = \<lparr>iv_id = ei_id r, iv_agent_identity_id = ei_agent_identity_id r,
     iv_requested_nickname = ei_requested_name r, iv_requested_username = ei_requested_username r,
     iv_requested_runtime = ei_requested_runtime r, iv_home_space = intent_home_space r,
     iv_protocol_agent_id = ei_protocol_agent_id r, iv_status = ei_status r, iv_expires_at = ei_expires_at r,
     iv_approved_at = ei_approved_at r, iv_created_at = ei_created_at r, iv_updated_at = ei_updated_at r\<rparr>"

section \<open>Guards\<close>

definition require_identity :: "string \<Rightarrow> agent_identity_aggregate server" where
  "require_identity identity_id =
     bind (gets (find_identity identity_id)) (\<lambda>i. found i (not_found ''Agent identity was not found.''))"

definition assert_controller :: "home_space \<Rightarrow> string \<Rightarrow> unit server" where
  "assert_controller home actor_user_id =
     require (home_user home = actor_user_id) (forbidden ''Agent identity controller access is required.'')"

definition require_controlled_identity :: "string \<Rightarrow> string \<Rightarrow> agent_identity_aggregate server" where
  "require_controlled_identity identity_id actor_user_id =
     bind (require_identity identity_id) (\<lambda>i.
     bind (assert_controller (identity_home_space (agg_identity i)) actor_user_id) (\<lambda>_.
     ret i))"

definition assert_same_home_space :: "home_space \<Rightarrow> home_space \<Rightarrow> unit server" where
  "assert_same_home_space l r =
     require (home_user l = home_user r)
       (forbidden ''Enrollment intent does not belong to the Agent identity home space.'')"

definition assert_protocol_agent_can_enroll :: "string \<Rightarrow> string \<Rightarrow> unit server" where
  "assert_protocol_agent_can_enroll protocol_agent_id actor_user_id =
     bind (gets (find_protocol_agent protocol_agent_id)) (\<lambda>p.
     bind (require (case p of None \<Rightarrow> False
             | Some a \<Rightarrow> ag_status a = ''active'' \<and> ag_user_id a = Some actor_user_id)
             (not_found ''Active Agent protocol registration was not found.'')) (\<lambda>_.
     bind (gets (find_binding_by_protocol_agent protocol_agent_id)) (\<lambda>b.
     require (b = None) (bad_request ''Agent protocol registration is already bound.''))))"

definition require_available_agent_username :: "string \<Rightarrow> unit server" where
  "require_available_agent_username username =
     bind (gets (find_by_username username)) (\<lambda>r.
     require (r = None) (conflict (''Agent username \"'' @ username @ ''\" is unavailable.'')))"

definition require_or_claim_identity_profile ::
    "env \<Rightarrow> agent_identity_aggregate \<Rightarrow> identity_profile \<Rightarrow> agent_identity_aggregate server" where
  "require_or_claim_identity_profile env a input =
     (case present (ai_username (agg_identity a)) of
        Some username \<Rightarrow>
          bind (require (username = ip_username input) (conflict ''Agent username is immutable.'')) (\<lambda>_. ret a)
      | None \<Rightarrow>
          bind (require_available_agent_username (ip_username input)) (\<lambda>_.
          bind (new_date env) (\<lambda>now.
          bind (claim_identity_profile (ai_id (agg_identity a)) input now) (\<lambda>claimed.
          found claimed (conflict ''Agent username has already been assigned.'')))))"

definition new_agent_identity_record ::
    "string \<Rightarrow> string \<Rightarrow> string \<Rightarrow> string option \<Rightarrow> string \<Rightarrow> string option \<Rightarrow> home_space \<Rightarrow> int \<Rightarrow> agent_identity" where
  "new_agent_identity_record i subject issuer username name runtime home now =
     \<lparr>ai_id = i, ai_issuer = issuer, ai_subject = subject, ai_username = username, ai_name = name,
      ai_runtime = runtime, ai_owner_user_id = home_user home, ai_status = Identity_active, ai_deleted_at = None,
      ai_created_at = now, ai_updated_at = now\<rparr>"

definition new_agent_identity_binding :: "string \<Rightarrow> string \<Rightarrow> string \<Rightarrow> int \<Rightarrow> agent_identity_binding" where
  "new_agent_identity_binding i identity_id protocol_agent_id now =
     \<lparr>ab_id = i, ab_agent_identity_id = identity_id, ab_protocol_agent_id = protocol_agent_id,
      ab_status = ''active'', ab_bound_at = now, ab_revoked_at = None, ab_created_at = now, ab_updated_at = now\<rparr>"

section \<open>Creation by an application\<close>

record agent_installation =
  in_agent_id :: string
  in_host_id :: string
  in_name :: string
  in_kid :: string
  in_public_key :: "(string \<times> json) list"

record create_agent =
  ca_username :: string
  ca_name :: string
  ca_runtime :: string
  ca_installation :: agent_installation

record creation_context =
  cc_application_id :: string
  cc_actor_user_id :: string
  cc_issuer :: string
  cc_idempotency_key :: string

definition canonical :: "env \<Rightarrow> json \<Rightarrow> string" where
  "canonical env v = canonical_json (env_collation_key env) v"

definition sha256_hex :: "env \<Rightarrow> string \<Rightarrow> string" where
  "sha256_hex env text = concat (map (\<lambda>byte. [hex_digit (byte div 16), hex_digit byte]) (env_sha256 env text))"

definition create_agent_json :: "create_agent \<Rightarrow> json" where
  "create_agent_json input = (let n = ca_installation input in JObj
     [(''username'', JStr (ca_username input)), (''name'', JStr (ca_name input)), (''runtime'', JStr (ca_runtime input)),
      (''installation'', JObj [(''agentId'', JStr (in_agent_id n)), (''hostId'', JStr (in_host_id n)),
         (''name'', JStr (in_name n)), (''kid'', JStr (in_kid n)), (''publicKey'', JObj (in_public_key n))])])"

definition application_agent_creation_fingerprint :: "env \<Rightarrow> create_agent \<Rightarrow> creation_context \<Rightarrow> string" where
  "application_agent_creation_fingerprint env input context =
     sha256_hex env (canonical env (JObj
       [(''applicationId'', JStr (cc_application_id context)), (''actorUserId'', JStr (cc_actor_user_id context)),
        (''issuer'', JStr (cc_issuer context)), (''agent'', create_agent_json input)]))"

definition require_matching_application_agent_creation :: "string \<Rightarrow> string \<Rightarrow> unit server" where
  "require_matching_application_agent_creation actual_fingerprint request_fingerprint =
     require (actual_fingerprint = request_fingerprint)
       (conflict ''Idempotency-Key was already used for a different Agent.'')"

definition require_live_application_agent :: "agent_identity_aggregate \<Rightarrow> unit server" where
  "require_live_application_agent a =
     require (ai_deleted_at (agg_identity a) = None)
       (conflict ''The Agent identity remains reserved after deletion and cannot be recreated.'')"

definition require_available_agent_installation :: "create_agent \<Rightarrow> unit server" where
  "require_available_agent_installation input =
     bind (gets (find_protocol_agent (in_agent_id (ca_installation input)))) (\<lambda>existing_protocol_agent.
     bind (gets (list_hosts_for_agents [in_host_id (ca_installation input)])) (\<lambda>existing_hosts.
     require (existing_protocol_agent = None \<and> existing_hosts = [])
       (conflict ''The Agent installation identifiers are already in use.'')))"

record managed_ids =
  mi_identity_id :: string
  mi_subject :: string
  mi_binding_id :: string
  mi_audit_id :: string
  mi_reservation_id :: string

definition managed_agent_ids :: "env \<Rightarrow> managed_ids server" where
  "managed_agent_ids env =
     bind (generate_id env) (\<lambda>a. bind (generate_id env) (\<lambda>b. bind (generate_id env) (\<lambda>c.
     bind (generate_id env) (\<lambda>d. bind (generate_id env) (\<lambda>e.
     ret \<lparr>mi_identity_id = a, mi_subject = b, mi_binding_id = c, mi_audit_id = d, mi_reservation_id = e\<rparr>)))))"

definition new_installation_host :: "env \<Rightarrow> create_agent \<Rightarrow> string \<Rightarrow> int \<Rightarrow> agent_host" where
  "new_installation_host env input user_id now = (let n = ca_installation input in
     \<lparr>ah_id = in_host_id n, ah_name = Some (in_name n), ah_user_id = Some user_id,
      ah_default_capabilities = Some ''[]'', ah_public_key = Some (canonical env (JObj (in_public_key n))),
      ah_kid = Some (in_kid n), ah_jwks_url = None, ah_enrollment_token_hash = None,
      ah_enrollment_token_expires_at = None, ah_status = ''active'', ah_activated_at = Some now,
      ah_expires_at = None, ah_last_used_at = None, ah_created_at = now, ah_updated_at = now\<rparr>)"

definition new_installation_agent :: "env \<Rightarrow> create_agent \<Rightarrow> string \<Rightarrow> int \<Rightarrow> agent" where
  "new_installation_agent env input user_id now = (let n = ca_installation input in
     \<lparr>ag_id = in_agent_id n, ag_name = ca_name input, ag_user_id = Some user_id, ag_host_id = in_host_id n,
      ag_status = ''active'', ag_mode = ''delegated'', ag_public_key = canonical env (JObj (in_public_key n)),
      ag_kid = Some (in_kid n), ag_jwks_url = None, ag_last_used_at = None, ag_activated_at = Some now,
      ag_expires_at = None, ag_metadata = None, ag_created_at = now, ag_updated_at = now\<rparr>)"

definition application_metadata :: "creation_context \<Rightarrow> json" where
  "application_metadata context =
     JObj [(''source'', JStr ''application''), (''applicationId'', JStr (cc_application_id context))]"

definition create_uuid_v7_application_agent ::
    "env \<Rightarrow> create_agent \<Rightarrow> creation_context \<Rightarrow> string \<Rightarrow> creation_outcome server" where
  "create_uuid_v7_application_agent env input context request_fingerprint =
     bind (require_available_agent_installation input) (\<lambda>_.
     bind (require_available_agent_username (ca_username input)) (\<lambda>_.
     bind (new_date env) (\<lambda>now.
     bind (managed_agent_ids env) (\<lambda>ids.
     (let actor = cc_actor_user_id context;
          identity = new_agent_identity_record (mi_identity_id ids) (mi_subject ids) (cc_issuer context)
            (Some (ca_username input)) (ca_name input) (Some (ca_runtime input)) (Personal actor) now
      in bind (agent_governance_audit_record env (mi_audit_id ids)
           \<lparr>ge_action = ''agent.identity_enrolled'', ge_result = ''allowed'', ge_tenant = User_tenant actor,
            ge_controller_user_id = Some actor, ge_issuer = Some (ai_issuer identity),
            ge_subject = Some (ai_subject identity), ge_agent_identity_id = Some (ai_id identity),
            ge_host_id = Some (in_host_id (ca_installation input)), ge_capabilities = None, ge_reason_code = None,
            ge_metadata = Some (application_metadata context)\<rparr>) (\<lambda>audit.
         create_agent_with_installation
           \<lparr>aw_host = new_installation_host env input actor now,
            aw_protocol_agent = new_installation_agent env input actor now, aw_identity = identity,
            aw_binding = new_agent_identity_binding (mi_binding_id ids) (ai_id identity)
              (in_agent_id (ca_installation input)) now,
            aw_audit = audit,
            aw_reservation = \<lparr>ac_id = mi_reservation_id ids, ac_application_id = cc_application_id context,
              ac_actor_user_id = actor, ac_idempotency_key = cc_idempotency_key context,
              ac_request_fingerprint = request_fingerprint, ac_agent_identity_id = ai_id identity,
              ac_created_at = now\<rparr>\<rparr>))))))"

section \<open>Replaying creations made before reservations\<close>

record legacy_ids =
  li_identity_id :: string
  li_subject :: string
  li_binding_id :: string
  li_audit_id :: string

definition legacy_application_agent_lookup_ids :: "env \<Rightarrow> creation_context \<Rightarrow> legacy_ids" where
  "legacy_application_agent_lookup_ids env context =
     (let hash = sha256_hex env (cc_application_id context @ [CHR 0x00] @ cc_actor_user_id context @
                   [CHR 0x00] @ cc_idempotency_key context)
      in \<lparr>li_identity_id = ''agi_'' @ hash, li_subject = ''agt_'' @ hash, li_binding_id = ''agb_'' @ hash,
          li_audit_id = ''aga_'' @ hash\<rparr>)"

text \<open>A date is an object without members of its own; null and undefined are themselves.\<close>

definition json_optional :: "string option \<Rightarrow> json" where
  "json_optional s = (case s of None \<Rightarrow> JNull | Some v \<Rightarrow> JStr v)"

definition json_date :: "int option \<Rightarrow> json" where
  "json_date d = (case d of None \<Rightarrow> JNull | Some _ \<Rightarrow> JObj [])"

definition json_status :: "identity_status \<Rightarrow> json" where
  "json_status s = (case s of Identity_active \<Rightarrow> JStr ''active'' | Identity_inactive \<Rightarrow> JStr ''inactive'')"

definition actual_legacy_agent ::
    "agent_identity_aggregate \<Rightarrow> agent option \<Rightarrow> agent_host option \<Rightarrow> agent_audit_event option \<Rightarrow> legacy_ids \<Rightarrow> json" where
  "actual_legacy_agent a protocol_agent host audit ids = (let i = agg_identity a in JObj
     [(''identity'', JObj
        [(''id'', JStr (ai_id i)), (''issuer'', JStr (ai_issuer i)), (''subject'', JStr (ai_subject i)),
         (''username'', json_optional (ai_username i)), (''name'', JStr (ai_name i)),
         (''runtime'', json_optional (ai_runtime i)), (''ownerUserId'', JStr (ai_owner_user_id i)),
         (''status'', json_status (ai_status i)), (''deletedAt'', json_date (ai_deleted_at i))]),
      (''binding'', (case find (\<lambda>b. ab_id b = li_binding_id ids) (agg_bindings a) of
         None \<Rightarrow> JUndefined
       | Some b \<Rightarrow> JObj
           [(''id'', JStr (ab_id b)), (''agentIdentityId'', JStr (ab_agent_identity_id b)),
            (''protocolAgentId'', JStr (ab_protocol_agent_id b)), (''hostId'', JStr (bb_host_id b)),
            (''status'', JStr (ab_status b)), (''revokedAt'', json_date (ab_revoked_at b))])),
      (''protocolAgent'', (case protocol_agent of
         None \<Rightarrow> JNull
       | Some p \<Rightarrow> JObj
           [(''id'', JStr (ag_id p)), (''name'', JStr (ag_name p)), (''userId'', json_optional (ag_user_id p)),
            (''hostId'', JStr (ag_host_id p)), (''status'', JStr (ag_status p)), (''mode'', JStr (ag_mode p)),
            (''kid'', json_optional (ag_kid p)), (''publicKey'', JStr (ag_public_key p))])),
      (''host'', (case host of
         None \<Rightarrow> JNull
       | Some h \<Rightarrow> JObj
           [(''id'', JStr (ah_id h)), (''name'', json_optional (ah_name h)), (''userId'', json_optional (ah_user_id h)),
            (''status'', JStr (ah_status h)), (''kid'', json_optional (ah_kid h)),
            (''publicKey'', json_optional (ah_public_key h))])),
      (''audit'', (case audit of
         None \<Rightarrow> JNull
       | Some e \<Rightarrow> JObj
           [(''id'', JStr (au_id e)), (''action'', JStr (au_action e)), (''result'', JStr (au_result e)),
            (''realmOwned'', JBool (au_realm_owned e)), (''ownerUserId'', json_optional (au_owner_user_id e)),
            (''ownerOrganizationId'', json_optional (au_owner_organization_id e)),
            (''controllerUserId'', json_optional (au_controller_user_id e)),
            (''subjectIssuer'', json_optional (au_subject_issuer e)), (''subject'', json_optional (au_subject e)),
            (''agentIdentityId'', json_optional (au_agent_identity_id e)), (''hostId'', json_optional (au_host_id e)),
            (''metadata'', (case au_metadata e of None \<Rightarrow> JNull | Some m \<Rightarrow> m))]))])"

definition expected_legacy_agent :: "env \<Rightarrow> create_agent \<Rightarrow> legacy_ids \<Rightarrow> creation_context \<Rightarrow> json" where
  "expected_legacy_agent env input ids context =
     (let n = ca_installation input; public_key = JStr (canonical env (JObj (in_public_key n)));
          actor = JStr (cc_actor_user_id context) in JObj
     [(''identity'', JObj
        [(''id'', JStr (li_identity_id ids)), (''issuer'', JStr (cc_issuer context)), (''subject'', JStr (li_subject ids)),
         (''username'', JStr (ca_username input)), (''name'', JStr (ca_name input)), (''runtime'', JStr (ca_runtime input)),
         (''ownerUserId'', actor), (''status'', JStr ''active''), (''deletedAt'', JNull)]),
      (''binding'', JObj
        [(''id'', JStr (li_binding_id ids)), (''agentIdentityId'', JStr (li_identity_id ids)),
         (''protocolAgentId'', JStr (in_agent_id n)), (''hostId'', JStr (in_host_id n)),
         (''status'', JStr ''active''), (''revokedAt'', JNull)]),
      (''protocolAgent'', JObj
        [(''id'', JStr (in_agent_id n)), (''name'', JStr (ca_name input)), (''userId'', actor),
         (''hostId'', JStr (in_host_id n)), (''status'', JStr ''active''), (''mode'', JStr ''delegated''),
         (''kid'', JStr (in_kid n)), (''publicKey'', public_key)]),
      (''host'', JObj
        [(''id'', JStr (in_host_id n)), (''name'', JStr (in_name n)), (''userId'', actor), (''status'', JStr ''active''),
         (''kid'', JStr (in_kid n)), (''publicKey'', public_key)]),
      (''audit'', JObj
        [(''id'', JStr (li_audit_id ids)), (''action'', JStr ''agent.identity_enrolled''), (''result'', JStr ''allowed''),
         (''realmOwned'', JBool False), (''ownerUserId'', actor), (''ownerOrganizationId'', JNull),
         (''controllerUserId'', actor), (''subjectIssuer'', JStr (cc_issuer context)), (''subject'', JStr (li_subject ids)),
         (''agentIdentityId'', JStr (li_identity_id ids)), (''hostId'', JStr (in_host_id n)),
         (''metadata'', application_metadata context)])])"

definition require_matching_legacy_application_agent ::
    "env \<Rightarrow> agent_identity_aggregate \<Rightarrow> agent option \<Rightarrow> agent_host option \<Rightarrow> agent_audit_event option \<Rightarrow>
     create_agent \<Rightarrow> legacy_ids \<Rightarrow> creation_context \<Rightarrow> unit server" where
  "require_matching_legacy_application_agent env a protocol_agent host audit input ids context =
     require (canonical env (actual_legacy_agent a protocol_agent host audit ids)
        = canonical env (expected_legacy_agent env input ids context))
       (conflict ''Idempotency-Key was already used for a different Agent.'')"

definition replay_legacy_application_agent ::
    "env \<Rightarrow> create_agent \<Rightarrow> creation_context \<Rightarrow> string \<Rightarrow> (agent_view \<times> bool) option server" where
  "replay_legacy_application_agent env input context request_fingerprint =
     (let ids = legacy_application_agent_lookup_ids env context in
      bind (gets (find_identity (li_identity_id ids))) (\<lambda>found_identity.
      case found_identity of
        None \<Rightarrow> ret None
      | Some identity \<Rightarrow>
          bind (gets (find_protocol_agent (in_agent_id (ca_installation input)))) (\<lambda>protocol_agent.
          bind (gets (list_hosts_for_agents [in_host_id (ca_installation input)])) (\<lambda>hosts.
          bind (gets (find_audit_by_id (li_audit_id ids))) (\<lambda>audit.
          bind (require_matching_legacy_application_agent env identity protocol_agent
                  (case hosts of [] \<Rightarrow> None | h # _ \<Rightarrow> Some h) audit input ids context) (\<lambda>_.
          bind (generate_id env) (\<lambda>reservation_id.
          bind (new_date env) (\<lambda>now.
          bind (reserve_application_creation
                  \<lparr>ac_id = reservation_id, ac_application_id = cc_application_id context,
                   ac_actor_user_id = cc_actor_user_id context, ac_idempotency_key = cc_idempotency_key context,
                   ac_request_fingerprint = request_fingerprint,
                   ac_agent_identity_id = ai_id (agg_identity identity), ac_created_at = now\<rparr>)
            (\<lambda>(reservation, i, _).
          bind (require_matching_application_agent_creation (ac_request_fingerprint reservation) request_fingerprint) (\<lambda>_.
          bind (require_live_application_agent i) (\<lambda>_.
          ret (Some (to_agent i, True)))))))))))))"

definition recover_legacy_application_agent_after_failure ::
    "env \<Rightarrow> create_agent \<Rightarrow> creation_context \<Rightarrow> string \<Rightarrow> failure \<Rightarrow> (agent_view \<times> bool) option server" where
  "recover_legacy_application_agent_after_failure env input context request_fingerprint original_error =
     catch (replay_legacy_application_agent env input context request_fingerprint)
       (\<lambda>recovery_error. if is_api_error recovery_error then throw recovery_error else throw original_error)"

definition public_key_kid :: "agent_installation \<Rightarrow> json" where
  "public_key_kid n = (case map_of (in_public_key n) ''kid'' of None \<Rightarrow> JUndefined | Some v \<Rightarrow> v)"

definition create_or_recover_application_agent ::
    "env \<Rightarrow> create_agent \<Rightarrow> creation_context \<Rightarrow> string \<Rightarrow> (agent_view \<times> bool) server" where
  "create_or_recover_application_agent env input context request_fingerprint =
     bind (catch (bind (create_uuid_v7_application_agent env input context request_fingerprint) (\<lambda>c. ret (Inl c)))
             (\<lambda>error. bind (recover_legacy_application_agent_after_failure env input context request_fingerprint error)
                (\<lambda>recovered. case recovered of Some answer \<Rightarrow> ret (Inr answer) | None \<Rightarrow> throw error)))
       (\<lambda>created. case created of
          Inr answer \<Rightarrow> ret answer
        | Inl (reservation, i, is_new) \<Rightarrow>
            bind (require_matching_application_agent_creation (ac_request_fingerprint reservation) request_fingerprint) (\<lambda>_.
            bind (require_live_application_agent i) (\<lambda>_.
            ret (to_agent i, \<not> is_new))))"

text \<open>
  The whole use case. The second step of the outcome pair says whether the answer replays an
  earlier creation.
\<close>

definition create_application_agent ::
    "env \<Rightarrow> create_agent \<Rightarrow> creation_context \<Rightarrow> (agent_view \<times> bool) server" where
  "create_application_agent env input context =
     (let n = ca_installation input; request_fingerprint = application_agent_creation_fingerprint env input context in
      bind (require (public_key_kid n = JUndefined \<or> public_key_kid n = JStr (in_kid n))
              (bad_request ''The installation kid must match the public JWK kid.'')) (\<lambda>_.
      bind (require (env_imports_jwk env (JObj (in_public_key n)))
              (bad_request ''The installation publicKey must be a valid Ed25519 verification JWK.'')) (\<lambda>_.
      bind (find_application_creation (cc_application_id context) (cc_actor_user_id context)
              (cc_idempotency_key context)) (\<lambda>existing.
      case existing of
        Some (reservation, i) \<Rightarrow>
          bind (require_matching_application_agent_creation (ac_request_fingerprint reservation) request_fingerprint) (\<lambda>_.
          bind (require_live_application_agent i) (\<lambda>_.
          ret (to_agent i, True)))
      | None \<Rightarrow>
          bind (replay_legacy_application_agent env input context request_fingerprint) (\<lambda>legacy_replay.
          case legacy_replay of
            Some answer \<Rightarrow> ret answer
          | None \<Rightarrow>
              create_or_recover_application_agent env input context request_fingerprint)))))"

section \<open>Login identities\<close>

record login_input =
  lg_protocol_agent_id :: string
  lg_username :: string
  lg_nickname :: "string option"
  lg_runtime :: string

definition profile_of :: "login_input \<Rightarrow> identity_profile" where
  "profile_of input = \<lparr>ip_username = lg_username input,
     ip_name = (case lg_nickname input of None \<Rightarrow> lg_runtime input | Some n \<Rightarrow> n), ip_runtime = lg_runtime input\<rparr>"

definition create_agent_login_identity :: "env \<Rightarrow> login_input \<Rightarrow> string \<Rightarrow> string \<Rightarrow> identity_view server" where
  "create_agent_login_identity env input issuer controller_user_id =
     bind (gets (find_active_by_protocol_agent (lg_protocol_agent_id input))) (\<lambda>existing.
     case existing of
       Some a \<Rightarrow> bind (require_or_claim_identity_profile env a (profile_of input)) (\<lambda>c. ret (to_identity c))
     | None \<Rightarrow>
         bind (assert_protocol_agent_can_enroll (lg_protocol_agent_id input) controller_user_id) (\<lambda>_.
         bind (new_date env) (\<lambda>now.
         bind (require_available_agent_username (lg_username input)) (\<lambda>_.
         bind (generate_id env) (\<lambda>identity_id.
         bind (generate_id env) (\<lambda>subject.
         bind (generate_id env) (\<lambda>binding_id.
         bind (create_identity
                 (new_agent_identity_record identity_id subject issuer (Some (lg_username input))
                    (ip_name (profile_of input)) (Some (lg_runtime input)) (Personal controller_user_id) now)
                 (new_agent_identity_binding binding_id identity_id (lg_protocol_agent_id input) now)) (\<lambda>a.
         bind (append_identity_audit env ''agent.identity_enrolled'' a (Some controller_user_id) None) (\<lambda>_.
         ret (to_identity a))))))))))"

section \<open>Laws\<close>

context agent_law
begin

lemma law_audit_record [law_intros]: "evolves R (agent_governance_audit_record env i e)"
  unfolding agent_governance_audit_record_def by (intro law_intros)

lemma law_append_governance [law_intros]: "evolves R (append_agent_governance_audit env e)"
  unfolding append_agent_governance_audit_def by (intro law_intros)

lemma law_append_identity_audit [law_intros]: "evolves R (append_identity_audit env action a u m)"
  unfolding append_identity_audit_def by (intro law_intros)

lemma law_guards [law_intros]:
  "evolves R (require_identity k)" "evolves R (assert_controller h u)"
  "evolves R (assert_same_home_space h h')" "evolves R (assert_protocol_agent_can_enroll p u)"
  "evolves R (require_available_agent_username n)" "evolves R (require_matching_application_agent_creation f g)"
  "evolves R (require_live_application_agent a)" "evolves R (require_available_agent_installation input)"
  "evolves R (require_matching_legacy_application_agent env a pa ho au input ids context)"
  unfolding require_identity_def assert_controller_def assert_same_home_space_def
    assert_protocol_agent_can_enroll_def require_available_agent_username_def
    require_matching_application_agent_creation_def require_live_application_agent_def
    require_available_agent_installation_def require_matching_legacy_application_agent_def
  by (intro law_intros)+

lemma law_controlled [law_intros]: "evolves R (require_controlled_identity k u)"
  unfolding require_controlled_identity_def by (intro law_intros)

lemma law_require_or_claim [law_intros]: "evolves R (require_or_claim_identity_profile env a input)"
  unfolding require_or_claim_identity_profile_def by (intro law_intros)

lemma law_managed_ids [law_intros]: "evolves R (managed_agent_ids env)"
  unfolding managed_agent_ids_def by (intro law_intros)

lemma law_create_uuid [law_intros]: "evolves R (create_uuid_v7_application_agent env input context f)"
  unfolding create_uuid_v7_application_agent_def Let_def
  by (intro law_intros) (simp_all add: new_agent_identity_record_def new_agent_identity_binding_def)

lemma law_replay_legacy [law_intros]: "evolves R (replay_legacy_application_agent env input context f)"
  unfolding replay_legacy_application_agent_def Let_def by (intro law_intros)

lemma law_recover_legacy [law_intros]: "evolves R (recover_legacy_application_agent_after_failure env input context f e)"
  unfolding recover_legacy_application_agent_after_failure_def by (intro law_intros)

lemma law_create_application_agent [law_intros]: "evolves R (create_application_agent env input context)"
  unfolding create_application_agent_def create_or_recover_application_agent_def Let_def by (intro law_intros)

lemma law_create_login_identity [law_intros]: "evolves R (create_agent_login_identity env input issuer u)"
  unfolding create_agent_login_identity_def
  by (intro law_intros) (simp_all add: new_agent_identity_record_def new_agent_identity_binding_def)

end

end
