(* ===== verification/Agent_Intents.thy ===== *)
theory Agent_Intents
  imports Agent_Enrollment
begin

text \<open>
  Enrollment intents (\<open>server/usecases/agent-identities.ts\<close>): the idempotent creation of an
  intent for a new identity or an additional installation, its representations, and its
  approval, which creates or extends the identity.
\<close>

section \<open>Creating an intent\<close>

definition enrollment_lifetime_ms :: int where
  "enrollment_lifetime_ms = 10 * 60 * 1000"

text \<open>The profile is compared column by column; a column of the intent may be null.\<close>

definition require_matching_identity_enrollment ::
    "agent_enrollment_intent \<Rightarrow> string option \<times> string option \<times> string option \<Rightarrow> home_space \<Rightarrow> string \<Rightarrow> unit server" where
  "require_matching_identity_enrollment intent profile home actor_user_id =
     (case profile of (username, nickname, runtime) \<Rightarrow>
      bind (require (ei_created_by_user_id intent = actor_user_id)
              (forbidden ''This Agent cannot replay the enrollment request.'')) (\<lambda>_.
      require (ei_agent_identity_id intent = None \<and> ei_requested_name intent = nickname \<and>
               ei_requested_username intent = username \<and> ei_requested_runtime intent = runtime \<and>
               ei_owner_user_id intent = home_user home)
        (conflict ''Idempotency-Key was already used for a different Agent identity enrollment.'')))"

definition require_matching_installation_enrollment ::
    "agent_enrollment_intent \<Rightarrow> string \<Rightarrow> string \<Rightarrow> unit server" where
  "require_matching_installation_enrollment intent identity_id actor_user_id =
     bind (require (ei_created_by_user_id intent = actor_user_id)
             (forbidden ''This Agent cannot replay the enrollment request.'')) (\<lambda>_.
     require (ei_agent_identity_id intent = Some identity_id)
       (conflict ''Idempotency-Key was already used for a different Agent installation enrollment.''))"

definition new_intent ::
    "string \<Rightarrow> string option \<Rightarrow> string option \<times> string option \<times> string option \<Rightarrow> home_space \<Rightarrow> string \<Rightarrow>
     string \<Rightarrow> string \<Rightarrow> string \<Rightarrow> int \<Rightarrow> agent_enrollment_intent" where
  "new_intent i identity_id profile home protocol_agent_id idempotency_key status actor now =
     (case profile of (username, nickname, runtime) \<Rightarrow>
       \<lparr>ei_id = i, ei_agent_identity_id = identity_id, ei_requested_name = nickname,
        ei_requested_username = username, ei_requested_runtime = runtime, ei_owner_user_id = home_user home,
        ei_protocol_agent_id = protocol_agent_id, ei_idempotency_key = Some idempotency_key, ei_status = status,
        ei_created_by_user_id = actor,
        ei_approved_by_user_id = (if status = ''approved'' then Some actor else None),
        ei_expires_at = now + enrollment_lifetime_ms,
        ei_approved_at = (if status = ''approved'' then Some now else None), ei_created_at = now, ei_updated_at = now\<rparr>)"

definition profile_columns :: "identity_profile \<Rightarrow> string option \<times> string option \<times> string option" where
  "profile_columns p = (Some (ip_username p), Some (ip_name p), Some (ip_runtime p))"

definition replay_identity_intent ::
    "env \<Rightarrow> login_input \<Rightarrow> string \<Rightarrow> agent_enrollment_intent \<Rightarrow> (intent_view \<times> bool) server" where
  "replay_identity_intent env input actor_user_id existing =
     (let profile = profile_of input;
          profiled_intent = (if present (ei_requested_username existing) \<noteq> None then existing
            else existing\<lparr>ei_requested_name := Some (ip_name profile),
                          ei_requested_username := Some (ip_username profile),
                          ei_requested_runtime := Some (ip_runtime profile)\<rparr>)
      in bind (require_matching_identity_enrollment profiled_intent (profile_columns profile)
                 (Personal actor_user_id) actor_user_id) (\<lambda>_.
         bind (if present (ei_requested_username existing) \<noteq> None then ret ()
               else bind (gets (find_active_by_protocol_agent (lg_protocol_agent_id input))) (\<lambda>bound.
                    bind (found bound
                      (conflict ''The existing Agent enrollment cannot claim a username without its identity.'')) (\<lambda>b.
                    bind (require_or_claim_identity_profile env b profile) (\<lambda>_. ret ())))) (\<lambda>_.
         ret (to_intent profiled_intent, True))))"

definition adopt_bound_identity ::
    "env \<Rightarrow> login_input \<Rightarrow> string \<Rightarrow> string \<Rightarrow> agent_identity_aggregate \<Rightarrow> (intent_view \<times> bool) server" where
  "adopt_bound_identity env input actor_user_id idempotency_key bound_identity =
     (let profile = profile_of input; bound_home = identity_home_space (agg_identity bound_identity) in
      bind (require_or_claim_identity_profile env bound_identity profile) (\<lambda>profiled.
      bind (assert_controller bound_home actor_user_id) (\<lambda>_.
      bind (gets (find_latest_approved_identity_intent (lg_protocol_agent_id input))) (\<lambda>approved.
      case approved of
        Some r \<Rightarrow>
          bind (require_matching_identity_enrollment r
                  (if present (ei_requested_username r) \<noteq> None
                   then (ei_requested_username r, ei_requested_name r, ei_requested_runtime r)
                   else profile_columns profile) bound_home actor_user_id) (\<lambda>_.
          ret (to_intent r, True))
      | None \<Rightarrow>
          bind (new_date env) (\<lambda>now.
          bind (generate_id env) (\<lambda>i.
          bind (create_intent_idempotently
                  (new_intent i None
                     (ai_username (agg_identity profiled), Some (ai_name (agg_identity profiled)),
                      ai_runtime (agg_identity profiled))
                     bound_home (lg_protocol_agent_id input) idempotency_key ''approved'' actor_user_id now)
                  idempotency_key) (\<lambda>(migrated, _).
          bind (require_matching_identity_enrollment migrated (profile_columns profile) bound_home actor_user_id) (\<lambda>_.
          ret (to_intent migrated, True)))))))))"

definition create_agent_enrollment_intent ::
    "env \<Rightarrow> login_input \<Rightarrow> string \<Rightarrow> string \<Rightarrow> (intent_view \<times> bool) server" where
  "create_agent_enrollment_intent env input actor_user_id idempotency_key =
     (let profile = profile_of input; home = Personal actor_user_id;
          protocol_agent_id = lg_protocol_agent_id input in
      bind (gets (find_intent_by_idempotency_key protocol_agent_id idempotency_key)) (\<lambda>found_intent.
      case found_intent of
        Some existing \<Rightarrow> replay_identity_intent env input actor_user_id existing
      | None \<Rightarrow>
          bind (gets (find_active_by_protocol_agent protocol_agent_id)) (\<lambda>bound.
          case bound of
            Some bound_identity \<Rightarrow> adopt_bound_identity env input actor_user_id idempotency_key bound_identity
          | None \<Rightarrow>
              bind (assert_controller home actor_user_id) (\<lambda>_.
              bind (assert_protocol_agent_can_enroll protocol_agent_id actor_user_id) (\<lambda>_.
              bind (require_available_agent_username (ip_username profile)) (\<lambda>_.
              bind (new_date env) (\<lambda>now.
              bind (generate_id env) (\<lambda>i.
              bind (create_intent_idempotently
                      (new_intent i None (profile_columns profile) home protocol_agent_id idempotency_key
                         ''pending'' actor_user_id now) idempotency_key) (\<lambda>(reserved, created).
              bind (require_matching_identity_enrollment reserved (profile_columns profile) home actor_user_id) (\<lambda>_.
              ret (to_intent reserved, \<not> created)))))))))))"

definition create_additional_agent_enrollment_intent ::
    "env \<Rightarrow> string \<Rightarrow> string \<Rightarrow> string \<Rightarrow> string \<Rightarrow> (intent_view \<times> bool) server" where
  "create_additional_agent_enrollment_intent env identity_id protocol_agent_id actor_user_id idempotency_key =
     bind (gets (find_intent_by_idempotency_key protocol_agent_id idempotency_key)) (\<lambda>found_intent.
     case found_intent of
       Some existing \<Rightarrow>
         bind (require_matching_installation_enrollment existing identity_id actor_user_id) (\<lambda>_.
         ret (to_intent existing, True))
     | None \<Rightarrow>
         bind (require_identity identity_id) (\<lambda>a.
         bind (assert_controller (identity_home_space (agg_identity a)) actor_user_id) (\<lambda>_.
         bind (assert_protocol_agent_can_enroll protocol_agent_id actor_user_id) (\<lambda>_.
         bind (new_date env) (\<lambda>now.
         bind (generate_id env) (\<lambda>i.
         bind (create_intent_idempotently
                 (new_intent i (Some identity_id) (None, None, None) (identity_home_space (agg_identity a))
                    protocol_agent_id idempotency_key ''pending'' actor_user_id now) idempotency_key) (\<lambda>(reserved, created).
         bind (require_matching_installation_enrollment reserved identity_id actor_user_id) (\<lambda>_.
         ret (to_intent reserved, \<not> created)))))))))"

section \<open>Reading an intent\<close>

record enrollment_view =
  nv_id :: string
  nv_agent_id :: "string option"
  nv_username :: "string option"
  nv_nickname :: string
  nv_runtime :: "string option"
  nv_additional_host :: bool
  nv_home_space :: home_space
  nv_status :: string
  nv_expires_at :: int
  nv_decided_at :: "int option"
  nv_created_at :: int
  nv_updated_at :: int

definition enrollment_agent_profile :: "intent_view \<Rightarrow> (string option \<times> string \<times> string option) server" where
  "enrollment_agent_profile intent =
     (case present (iv_requested_nickname intent) of
        Some nickname \<Rightarrow> ret (iv_requested_username intent, nickname, iv_requested_runtime intent)
      | None \<Rightarrow>
          (case present (iv_agent_identity_id intent) of
             None \<Rightarrow> throw (PlainError (''Agent enrollment '' @ iv_id intent @ '' has no requested or existing identity.''))
           | Some i \<Rightarrow>
               bind (require_identity i) (\<lambda>a.
               ret (ai_username (agg_identity a), ai_name (agg_identity a), ai_runtime (agg_identity a)))))"

definition to_agent_enrollment :: "intent_view \<Rightarrow> string option \<times> string \<times> string option \<Rightarrow> enrollment_view" where
  "to_agent_enrollment intent profile =
     (case profile of (username, nickname, runtime) \<Rightarrow>
       \<lparr>nv_id = iv_id intent, nv_agent_id = iv_agent_identity_id intent, nv_username = username,
        nv_nickname = nickname, nv_runtime = runtime,
        nv_additional_host = (present (iv_agent_identity_id intent) \<noteq> None), nv_home_space = iv_home_space intent,
        nv_status = iv_status intent, nv_expires_at = iv_expires_at intent, nv_decided_at = iv_approved_at intent,
        nv_created_at = iv_created_at intent, nv_updated_at = iv_updated_at intent\<rparr>)"

definition get_agent_enrollment_intent :: "string \<Rightarrow> string \<Rightarrow> intent_view server" where
  "get_agent_enrollment_intent intent_id actor_user_id =
     bind (gets (find_intent intent_id)) (\<lambda>r.
     bind (found r (not_found ''Agent enrollment intent was not found.'')) (\<lambda>intent.
     bind (assert_controller (intent_home_space intent) actor_user_id) (\<lambda>_.
     ret (to_intent intent))))"

definition get_public_agent_enrollment :: "string \<Rightarrow> string \<Rightarrow> enrollment_view server" where
  "get_public_agent_enrollment enrollment_id actor_user_id =
     bind (get_agent_enrollment_intent enrollment_id actor_user_id) (\<lambda>intent.
     bind (enrollment_agent_profile intent) (\<lambda>profile.
     ret (to_agent_enrollment intent profile)))"

definition get_protocol_agent_enrollment :: "string \<Rightarrow> string \<Rightarrow> enrollment_view server" where
  "get_protocol_agent_enrollment enrollment_id protocol_agent_id =
     bind (gets (find_intent enrollment_id)) (\<lambda>r.
     bind (found r (not_found ''Agent enrollment was not found.'')) (\<lambda>intent.
     bind (require (ei_protocol_agent_id intent = protocol_agent_id)
             (forbidden ''This Agent cannot read the enrollment.'')) (\<lambda>_.
     bind (enrollment_agent_profile (to_intent intent)) (\<lambda>profile.
     ret (to_agent_enrollment (to_intent intent) profile)))))"

section \<open>Approving an intent\<close>

definition approval_guards :: "env \<Rightarrow> string \<Rightarrow> string \<Rightarrow> agent_enrollment_intent server" where
  "approval_guards env intent_id actor_user_id =
     bind (gets (find_intent intent_id)) (\<lambda>r.
     bind (found r (not_found ''Agent enrollment intent was not found.'')) (\<lambda>intent.
     bind (require (ei_status intent = ''pending'') (bad_request ''Agent enrollment intent is no longer pending.'')) (\<lambda>_.
     bind (new_date env) (\<lambda>date_now.
     bind (require (date_now < ei_expires_at intent) (bad_request ''Agent enrollment intent has expired.'')) (\<lambda>_.
     bind (assert_controller (intent_home_space intent) actor_user_id) (\<lambda>_.
     bind (assert_protocol_agent_can_enroll (ei_protocol_agent_id intent) actor_user_id) (\<lambda>_.
     ret intent)))))))"

text \<open>
  The identity the binding will name: an existing one, or a new one with its record. A name
  that is null would violate the column when it is written.
\<close>

definition approval_identity ::
    "env \<Rightarrow> agent_enrollment_intent \<Rightarrow> string \<Rightarrow> int \<Rightarrow> (string \<times> agent_identity option) server" where
  "approval_identity env intent issuer now =
     (case present (ei_agent_identity_id intent) of
        Some identity_id \<Rightarrow>
          bind (require_identity identity_id) (\<lambda>existing.
          bind (assert_same_home_space (intent_home_space intent) (identity_home_space (agg_identity existing))) (\<lambda>_.
          ret (identity_id, None)))
      | None \<Rightarrow>
          bind (generate_id env) (\<lambda>identity_id.
          bind (generate_id env) (\<lambda>subject.
          bind (found (ei_requested_name intent) (SqliteError Not_null_constraint)) (\<lambda>name.
          ret (identity_id, Some (new_agent_identity_record identity_id subject issuer
            (ei_requested_username intent) name (ei_requested_runtime intent) (intent_home_space intent) now))))))"

definition approve_agent_enrollment :: "env \<Rightarrow> string \<Rightarrow> string \<Rightarrow> string \<Rightarrow> identity_view server" where
  "approve_agent_enrollment env intent_id issuer actor_user_id =
     bind (approval_guards env intent_id actor_user_id) (\<lambda>intent.
     bind (new_date env) (\<lambda>now.
     bind (approval_identity env intent issuer now) (\<lambda>(identity_id, identity).
     bind (generate_id env) (\<lambda>binding_id.
     bind (approve_intent
             \<lparr>ia_intent_id = intent_id, ia_identity = identity,
              ia_binding = new_agent_identity_binding binding_id identity_id (ei_protocol_agent_id intent) now,
              ia_approved_by = actor_user_id, ia_approved_at = now\<rparr>) (\<lambda>a.
     bind (append_identity_audit env ''agent.identity_enrolled'' a (Some actor_user_id) None) (\<lambda>_.
     ret (to_identity a)))))))"

section \<open>Laws\<close>

context agent_law
begin

lemma law_matching [law_intros]:
  "evolves R (require_matching_identity_enrollment r p h u)"
  "evolves R (require_matching_installation_enrollment r k u)"
  unfolding require_matching_identity_enrollment_def require_matching_installation_enrollment_def
  by (intro law_intros)+

lemma law_replay_identity_intent [law_intros]: "evolves R (replay_identity_intent env input u r)"
  unfolding replay_identity_intent_def Let_def by (intro law_intros)

lemma law_adopt [law_intros]: "evolves R (adopt_bound_identity env input u k a)"
  unfolding adopt_bound_identity_def Let_def by (intro law_intros)

lemma law_create_enrollment [law_intros]: "evolves R (create_agent_enrollment_intent env input u k)"
  unfolding create_agent_enrollment_intent_def Let_def by (intro law_intros)

lemma law_create_additional [law_intros]: "evolves R (create_additional_agent_enrollment_intent env i p u k)"
  unfolding create_additional_agent_enrollment_intent_def by (intro law_intros)

lemma law_enrollment_profile [law_intros]: "evolves R (enrollment_agent_profile v)"
  unfolding enrollment_agent_profile_def by (intro law_intros)

lemma law_enrollment_reads [law_intros]:
  "evolves R (get_agent_enrollment_intent i u)" "evolves R (get_public_agent_enrollment i u)"
  "evolves R (get_protocol_agent_enrollment i p)"
  unfolding get_agent_enrollment_intent_def get_public_agent_enrollment_def get_protocol_agent_enrollment_def
  by (intro law_intros)+

lemma law_approval_guards [law_intros]: "evolves R (approval_guards env i u)"
  unfolding approval_guards_def by (intro law_intros)

lemma law_approval_identity [law_intros]: "evolves R (approval_identity env r issuer now)"
  unfolding approval_identity_def by (intro law_intros)

lemma bind_at:
  assumes "R s (snd (m s))" and "\<And>x t. m s = (Inr x, t) \<Longrightarrow> R t (snd (f x t))"
  shows "R s (snd (bind m f s))"
  using assms by (cases "m s"; cases "fst (m s)") (auto simp: bind_def intro: law_trans)

lemma snd_evolves: "evolves R m \<Longrightarrow> R s (snd (m s))"
  by (simp add: evolves_def)

lemma approval_identity_target:
  assumes run: "approval_identity env r issuer now s = (Inr (i, ident), t)" and wf: "distinct (map ai_id (w_identities s))"
  shows "case ident of Some x \<Rightarrow> ai_deleted_at x = None \<and> ai_id x = i
     | None \<Rightarrow> live_target (new_agent_identity_binding b i p now) (t\<lparr>w_ids_taken := n\<rparr>)"
proof (cases "present (ei_agent_identity_id r)")
  case None
  with run show ?thesis
    by (auto simp: approval_identity_def bind_ok_iff generate_id_def new_agent_identity_record_def split: option.splits)
next
  case (Some k)
  with run obtain a where a: "find_identity k s = Some a" "i = k" "ident = None" "t = s"
    by (auto simp: approval_identity_def bind_ok_iff require_identity_def assert_same_home_space_def)
  then obtain x where x: "x \<in> set (w_identities s)" "ai_id x = k" "ai_deleted_at x = None"
    by (auto simp: find_identity_def dest!: find_SomeD)
  have "ai_deleted_at y = None" if "y \<in> set (w_identities s)" "ai_id y = k" for y
    using distinct_key_eq [OF wf that(1) x(1)] that(2) x(2,3) by simp
  with a show ?thesis by (simp add: live_target_def new_agent_identity_binding_def)
qed

end

text \<open>
  The approval is lawful from every world whose identities have distinct keys; the law then
  holds along whole histories, because well-formed worlds have them.
\<close>

locale keyed_agent_law = agent_law +
  assumes keyed: "\<not> identities_unique w \<Longrightarrow> R w v"
begin

lemma law_approve [law_intros]: "evolves R (approve_agent_enrollment env i issuer u)"
  unfolding evolves_def
proof
  fix w
  show "R w (snd (approve_agent_enrollment env i issuer u w))"
  proof (cases "identities_unique w")
    case False
    then show ?thesis by (rule keyed)
  next
    case True
    have same: "w_identities t = w_identities s"
      if "approval_guards env i u s = (Inr r, t)" for s t r
      using that by (auto simp: approval_guards_def bind_ok_iff new_date_def assert_controller_def
          assert_protocol_agent_can_enroll_def)
    show ?thesis unfolding approve_agent_enrollment_def
    proof (rule bind_at [OF snd_evolves [OF law_approval_guards]])
      fix r t assume r: "approval_guards env i u w = (Inr r, t)"
      show "R t (snd (bind (new_date env) (\<lambda>now. bind (approval_identity env r issuer now)
          (\<lambda>(identity_id, identity). bind (generate_id env) (\<lambda>binding_id. bind (approve_intent
             \<lparr>ia_intent_id = i, ia_identity = identity,
              ia_binding = new_agent_identity_binding binding_id identity_id (ei_protocol_agent_id r) now,
              ia_approved_by = u, ia_approved_at = now\<rparr>)
           (\<lambda>a. bind (append_identity_audit env ''agent.identity_enrolled'' a (Some u) None) (\<lambda>_. ret (to_identity a)))))) t))"
      proof (rule bind_at [OF snd_evolves [OF law_new_date]], rule bind_at [OF snd_evolves [OF law_approval_identity]])
        fix now t1 x t2
        assume now: "new_date env t = (Inr now, t1)" and x: "approval_identity env r issuer now t1 = (Inr x, t2)"
        obtain identity_id identity where x_eq: "x = (identity_id, identity)" by (cases x)
        have "distinct (map ai_id (w_identities t1))"
          using now True same [OF r] by (auto simp: new_date_def identities_unique_def)
        note target = approval_identity_target [OF x [unfolded x_eq] this]
        show "R t2 (snd ((case x of (identity_id, identity) \<Rightarrow> bind (generate_id env) (\<lambda>binding_id. bind (approve_intent
             \<lparr>ia_intent_id = i, ia_identity = identity,
              ia_binding = new_agent_identity_binding binding_id identity_id (ei_protocol_agent_id r) now,
              ia_approved_by = u, ia_approved_at = now\<rparr>)
           (\<lambda>a. bind (append_identity_audit env ''agent.identity_enrolled'' a (Some u) None) (\<lambda>_. ret (to_identity a))))) t2))"
          unfolding x_eq prod.case
        proof (rule bind_at [OF snd_evolves [OF law_generate_id]], rule bind_at)
          fix b t3 assume b: "generate_id env t2 = (Inr b, t3)"
          then have t3: "t3 = t2\<lparr>w_ids_taken := Suc (w_ids_taken t2)\<rparr>" by (simp add: generate_id_def)
          let ?input = "\<lparr>ia_intent_id = i, ia_identity = identity,
              ia_binding = new_agent_identity_binding b identity_id (ei_protocol_agent_id r) now,
              ia_approved_by = u, ia_approved_at = now\<rparr>"
          show "R t3 (snd (approve_intent ?input t3))"
            using target by (intro approve_intent_law [of ?input t3 "fst (approve_intent ?input t3)"])
              (auto simp: t3 new_agent_identity_binding_def split: option.splits)
        next
          fix b t3 a t4
          show "R t4 (snd (bind (append_identity_audit env ''agent.identity_enrolled'' a (Some u) None)
              (\<lambda>_. ret (to_identity a)) t4))"
            by (rule snd_evolves) (intro law_intros)
        qed
      qed
    qed
  qed
qed

end

end
