(* ===== verification/Agent_Lifecycle.thy ===== *)
theory Agent_Lifecycle
  imports Agent_Intents
begin

text \<open>
  The life of a stable identity after enrollment (\<open>server/usecases/agent-identities.ts\<close>): the
  reads, the revocation of a host, recovery, deactivation, activation and deletion by the
  controller, and their emergency variants for the realm.
\<close>

section \<open>Reads\<close>

definition list_personal_agent_identities :: "string \<Rightarrow> identity_view list server" where
  "list_personal_agent_identities user_id =
     bind (gets (list_personal user_id)) (\<lambda>rows. ret (map to_identity rows))"

definition list_personal_agents ::
    "string \<Rightarrow> page_input \<Rightarrow> (agent_view list \<times> page_metadata) server" where
  "list_personal_agents user_id page =
     bind (gets (list_personal user_id)) (\<lambda>rows.
     (let agents = map to_agent rows
      in ret (page_of page agents, pagination_metadata (pg_limit page) (pg_offset page) (length agents))))"

definition get_personal_agent :: "string \<Rightarrow> string \<Rightarrow> agent_view server" where
  "get_personal_agent agent_id actor_user_id =
     bind (require_controlled_identity agent_id actor_user_id) (\<lambda>a. ret (to_agent a))"

definition get_agent :: "string \<Rightarrow> agent_view server" where
  "get_agent agent_id = bind (require_identity agent_id) (\<lambda>a. ret (to_agent a))"

definition list_all_agent_identities :: "page_input \<Rightarrow> (identity_view list \<times> nat) server" where
  "list_all_agent_identities page =
     bind (gets (list_all_identities page)) (\<lambda>result.
     ret (map to_identity (pg_items result), pg_total result))"

definition get_agent_identity_by_protocol_agent :: "string \<Rightarrow> identity_view server" where
  "get_agent_identity_by_protocol_agent protocol_agent_id =
     bind (gets (find_active_by_protocol_agent protocol_agent_id)) (\<lambda>r.
     bind (found r (not_found ''The Agent does not have an active stable identity.'')) (\<lambda>a.
     ret (to_identity a)))"

definition require_active_agent_identity :: "string \<Rightarrow> agent_identity_aggregate server" where
  "require_active_agent_identity protocol_agent_id =
     bind (gets (find_active_by_protocol_agent protocol_agent_id)) (\<lambda>r.
     found r (forbidden ''Agent protocol identity is not bound to an active Realmroot Agent identity.''))"

record installation_view =
  nw_id :: string
  nw_name :: string
  nw_status :: string
  nw_remote_jwks :: bool
  nw_bound_at :: int
  nw_last_seen_at :: "int option"

text \<open>Newest binding first; ties are broken by the collation of identifiers, descending.\<close>

definition installation_order :: "env \<Rightarrow> bound_binding list \<Rightarrow> bound_binding list" where
  "installation_order env bindings =
     sort_key (\<lambda>b. - ab_bound_at b)
       (rev (sort_key (\<lambda>b. env_collation_key env (ab_id b)) (rev bindings)))"

definition to_installation :: "agent_host list \<Rightarrow> bound_binding \<Rightarrow> failure + installation_view" where
  "to_installation hosts b =
     (case find (\<lambda>h. ah_id h = bb_host_id b) hosts of
        None \<Rightarrow> Inl (PlainError (''Agent Host '' @ bb_host_id b @ '' was not found for its stable identity binding.''))
      | Some h \<Rightarrow>
          if present (ah_jwks_url h) = None \<and> present (ah_public_key h) = None
          then Inl (PlainError (''Agent Host '' @ ah_id h @ '' has no authentication credential.''))
          else Inr \<lparr>nw_id = ab_id b, nw_name = (case ah_name h of None \<Rightarrow> ah_id h | Some n \<Rightarrow> n),
                    nw_status = ab_status b, nw_remote_jwks = (present (ah_jwks_url h) \<noteq> None),
                    nw_bound_at = ab_bound_at b, nw_last_seen_at = ah_last_used_at h\<rparr>)"

definition list_management_agent_installations ::
    "env \<Rightarrow> string \<Rightarrow> page_input \<Rightarrow> (installation_view list \<times> page_metadata) server" where
  "list_management_agent_installations env agent_id page =
     bind (require_identity agent_id) (\<lambda>a.
     (let all_bindings = installation_order env (agg_bindings a); bindings = page_of page all_bindings in
      bind (gets (list_hosts_for_agents (uniq (map bb_host_id bindings)))) (\<lambda>hosts.
      bind (lift_result (collect_results (to_installation hosts) bindings)) (\<lambda>views.
      ret (views, pagination_metadata (pg_limit page) (pg_offset page) (length all_bindings))))))"

section \<open>The controller's operations\<close>

definition revoked_metadata :: "string \<Rightarrow> bound_binding option \<Rightarrow> json" where
  "revoked_metadata protocol_agent_id binding =
     JObj [(''protocolAgentId'', JStr protocol_agent_id),
           (''hostId'', (case binding of None \<Rightarrow> JNull | Some b \<Rightarrow> JStr (bb_host_id b)))]"

definition revoke_agent_identity_host :: "env \<Rightarrow> string \<Rightarrow> string \<Rightarrow> string \<Rightarrow> unit server" where
  "revoke_agent_identity_host env identity_id protocol_agent_id actor_user_id =
     bind (require_controlled_identity identity_id actor_user_id) (\<lambda>identity.
     bind (new_date env) (\<lambda>now.
     bind (revoke_binding identity_id protocol_agent_id now) (\<lambda>revoked.
     bind (require revoked (not_found ''Active Agent host binding was not found.'')) (\<lambda>_.
     (let binding = find (\<lambda>b. ab_protocol_agent_id b = protocol_agent_id) (agg_bindings identity) in
      bind (case binding of None \<Rightarrow> ret () | Some b \<Rightarrow> revoke_agent_resource_leases_for_binding env (ab_id b)) (\<lambda>_.
      append_identity_audit env ''agent.host_revoked'' identity (Some actor_user_id)
        (Some (revoked_metadata protocol_agent_id binding))))))))"

definition recover_agent_identity :: "env \<Rightarrow> string \<Rightarrow> string \<Rightarrow> unit server" where
  "recover_agent_identity env identity_id actor_user_id =
     bind (require_controlled_identity identity_id actor_user_id) (\<lambda>identity.
     bind (require (ai_status (agg_identity identity) = Identity_active)
             (bad_request ''Only an active Agent identity can be recovered.'')) (\<lambda>_.
     bind (new_date env) (\<lambda>now.
     bind (deactivate_identity identity_id now True) (\<lambda>ok.
     bind (require ok (bad_request ''Only an active Agent identity can be recovered.'')) (\<lambda>_.
     bind (revoke_agent_resource_access env identity_id) (\<lambda>_.
     append_identity_audit env ''agent.identity_recovered'' identity (Some actor_user_id) None))))))"

definition deactivate_agent_identity :: "env \<Rightarrow> string \<Rightarrow> string \<Rightarrow> unit server" where
  "deactivate_agent_identity env identity_id actor_user_id =
     bind (require_controlled_identity identity_id actor_user_id) (\<lambda>identity.
     bind (new_date env) (\<lambda>now.
     bind (deactivate_identity identity_id now False) (\<lambda>ok.
     bind (require ok (not_found ''Agent identity was not found.'')) (\<lambda>_.
     append_identity_audit env ''agent.identity_deactivated'' identity (Some actor_user_id) None))))"

definition activate_agent_identity :: "env \<Rightarrow> string \<Rightarrow> string \<Rightarrow> unit server" where
  "activate_agent_identity env identity_id actor_user_id =
     bind (require_controlled_identity identity_id actor_user_id) (\<lambda>identity.
     if ai_status (agg_identity identity) = Identity_active then ret ()
     else
       bind (new_date env) (\<lambda>now.
       bind (activate_identity identity_id now) (\<lambda>ok.
       bind (require ok (bad_request ''Agent identity requires a new installation before it can be activated.'')) (\<lambda>_.
       append_identity_audit env ''agent.identity_activated'' identity (Some actor_user_id) None))))"

definition delete_agent_identity :: "env \<Rightarrow> string \<Rightarrow> string \<Rightarrow> unit server" where
  "delete_agent_identity env identity_id actor_user_id =
     bind (require_controlled_identity identity_id actor_user_id) (\<lambda>identity.
     bind (new_date env) (\<lambda>now.
     bind (delete_identity identity_id now) (\<lambda>ok.
     bind (require ok (not_found ''Agent identity was not found.'')) (\<lambda>_.
     bind (revoke_agent_resource_access env identity_id) (\<lambda>_.
     append_identity_audit env ''agent.identity_deleted'' identity (Some actor_user_id) None)))))"

section \<open>Emergency operations\<close>

definition emergency_metadata :: json where
  "emergency_metadata = JObj [(''emergency'', JBool True)]"

definition emergency_delete_agent_identity :: "env \<Rightarrow> string \<Rightarrow> string option \<Rightarrow> unit server" where
  "emergency_delete_agent_identity env identity_id actor_user_id =
     bind (require_identity identity_id) (\<lambda>identity.
     bind (new_date env) (\<lambda>now.
     bind (delete_identity identity_id now) (\<lambda>ok.
     bind (require ok (not_found ''Agent identity was not found.'')) (\<lambda>_.
     bind (revoke_agent_resource_access env identity_id) (\<lambda>_.
     append_identity_audit env ''agent.identity_deleted'' identity actor_user_id (Some emergency_metadata))))))"

definition emergency_deactivate_agent_identity :: "env \<Rightarrow> string \<Rightarrow> string option \<Rightarrow> unit server" where
  "emergency_deactivate_agent_identity env identity_id actor_user_id =
     bind (require_identity identity_id) (\<lambda>identity.
     bind (new_date env) (\<lambda>now.
     bind (deactivate_identity identity_id now False) (\<lambda>ok.
     bind (require ok (not_found ''Agent identity was not found.'')) (\<lambda>_.
     append_identity_audit env ''agent.identity_deactivated'' identity actor_user_id (Some emergency_metadata)))))"

definition emergency_activate_agent_identity :: "env \<Rightarrow> string \<Rightarrow> string option \<Rightarrow> unit server" where
  "emergency_activate_agent_identity env identity_id actor_user_id =
     bind (require_identity identity_id) (\<lambda>identity.
     if ai_status (agg_identity identity) = Identity_active then ret ()
     else
       bind (new_date env) (\<lambda>now.
       bind (activate_identity identity_id now) (\<lambda>ok.
       bind (require ok (bad_request ''Agent identity requires a new installation before it can be activated.'')) (\<lambda>_.
       append_identity_audit env ''agent.identity_activated'' identity actor_user_id (Some emergency_metadata)))))"

section \<open>Laws\<close>

context agent_law
begin

lemma law_lifecycle [law_intros]:
  "evolves R (revoke_agent_identity_host env k p u)" "evolves R (recover_agent_identity env k u)"
  "evolves R (deactivate_agent_identity env k u)" "evolves R (activate_agent_identity env k u)"
  "evolves R (delete_agent_identity env k u)" "evolves R (emergency_delete_agent_identity env k v)"
  "evolves R (emergency_deactivate_agent_identity env k v)" "evolves R (emergency_activate_agent_identity env k v)"
  unfolding revoke_agent_identity_host_def recover_agent_identity_def deactivate_agent_identity_def
    activate_agent_identity_def delete_agent_identity_def emergency_delete_agent_identity_def
    emergency_deactivate_agent_identity_def emergency_activate_agent_identity_def Let_def
  by (intro law_intros)+

end

end
