(* ===== verification/Agent_Approvals.thy ===== *)
theory Agent_Approvals
  imports Agent_Enrollment Password_Hash
begin

text \<open>
  The use cases on protocol agents (\<open>server/usecases/agents.ts\<close>): what an account sees of its
  agents, the preview and the decision of an approval, and the revocations.
\<close>

section \<open>Account agents\<close>

record host_summary =
  hs_id :: string
  hs_name :: "string option"
  hs_status :: string

record grant_summary =
  gs_id :: string
  gs_agent_id :: string
  gs_capability :: string
  gs_status :: string
  gs_expires_at :: "int option"
  gs_created_at :: int
  gs_updated_at :: int

record account_agent =
  aa_id :: string
  aa_name :: string
  aa_host :: host_summary
  aa_status :: string
  aa_mode :: string
  aa_last_used_at :: "int option"
  aa_activated_at :: "int option"
  aa_expires_at :: "int option"
  aa_created_at :: int
  aa_updated_at :: int
  aa_capability_grants :: "grant_summary list"

definition to_host_summary :: "agent_host \<Rightarrow> host_summary" where
  "to_host_summary h = \<lparr>hs_id = ah_id h, hs_name = ah_name h, hs_status = ah_status h\<rparr>"

definition to_grant_summary :: "agent_capability_grant \<Rightarrow> grant_summary" where
  "to_grant_summary g = \<lparr>gs_id = cg_id g, gs_agent_id = cg_agent_id g, gs_capability = cg_capability g,
     gs_status = cg_status g, gs_expires_at = cg_expires_at g, gs_created_at = cg_created_at g,
     gs_updated_at = cg_updated_at g\<rparr>"

text \<open>Reading a property of a host that is not there throws.\<close>

definition to_account_agent ::
    "agent_host list \<Rightarrow> agent_capability_grant list \<Rightarrow> agent \<Rightarrow> failure + account_agent" where
  "to_account_agent hosts grants a =
     (case find (\<lambda>h. ah_id h = ag_host_id a) hosts of
        None \<Rightarrow> Inl (PlainError ''Cannot read properties of undefined'')
      | Some h \<Rightarrow> Inr \<lparr>aa_id = ag_id a, aa_name = ag_name a, aa_host = to_host_summary h, aa_status = ag_status a,
          aa_mode = ag_mode a, aa_last_used_at = ag_last_used_at a, aa_activated_at = ag_activated_at a,
          aa_expires_at = ag_expires_at a, aa_created_at = ag_created_at a, aa_updated_at = ag_updated_at a,
          aa_capability_grants = map to_grant_summary (filter (\<lambda>g. cg_agent_id g = ag_id a) grants)\<rparr>)"

definition list_account_agents ::
    "string \<Rightarrow> page_input \<Rightarrow> (account_agent list \<times> page_metadata) server" where
  "list_account_agents user_id page =
     bind (gets (list_agents_for_user user_id page)) (\<lambda>agents.
     bind (gets (list_hosts_for_agents (uniq (map ag_host_id (pg_items agents))))) (\<lambda>hosts.
     bind (gets (list_capability_grants_for_user user_id)) (\<lambda>grants.
     bind (lift_result (collect_results (to_account_agent hosts grants) (pg_items agents))) (\<lambda>views.
     ret (views, pagination_metadata (pg_limit agents) (pg_offset agents) (pg_total agents))))))"

section \<open>Approvals\<close>

definition is_code_char :: "char \<Rightarrow> bool" where
  "is_code_char c \<longleftrightarrow> (let n = (of_char c :: nat) in
     65 \<le> n \<and> n \<le> 90 \<or> 97 \<le> n \<and> n \<le> 122 \<or> 48 \<le> n \<and> n \<le> 57)"

definition normalize_user_code :: "string \<Rightarrow> string" where
  "normalize_user_code user_code =
     (let stripped = to_upper (filter is_code_char user_code)
      in if length stripped = 8 then take 4 stripped @ ''-'' @ drop 4 stripped else to_upper user_code)"

definition hash_agent_user_code :: "env \<Rightarrow> string \<Rightarrow> string" where
  "hash_agent_user_code env user_code = encode_base64_url (env_sha256 env (normalize_user_code user_code))"

record approval_preview =
  pv_agent_id :: string
  pv_agent_name :: string
  pv_host_id :: string
  pv_host_name :: "string option"

definition get_agent_approval_preview :: "env \<Rightarrow> string \<Rightarrow> string \<Rightarrow> string \<Rightarrow> approval_preview server" where
  "get_agent_approval_preview env agent_id user_code user_id =
     bind (new_date env) (\<lambda>now.
     bind (gets (find_pending_approval_preview agent_id (hash_agent_user_code env user_code) now)) (\<lambda>r.
     bind (found r approval_not_pending) (\<lambda>(request, a, h).
     bind (require (\<not> belongs_to_another (ag_user_id a) user_id)
             (forbidden ''Agent approval belongs to another controller.'')) (\<lambda>_.
     bind (require (\<not> belongs_to_another (ah_user_id h) user_id)
             (forbidden ''Agent host belongs to another controller.'')) (\<lambda>_.
     ret \<lparr>pv_agent_id = ag_id a, pv_agent_name = ag_name a, pv_host_id = ah_id h, pv_host_name = ah_name h\<rparr>)))))"

record approval_decision =
  ad_agent_id :: string
  ad_user_code :: string
  ad_action :: decision
  ad_capabilities :: "string list option"

definition decide_agent_approval :: "env \<Rightarrow> approval_decision \<Rightarrow> string \<Rightarrow> decision server" where
  "decide_agent_approval env input user_id =
     bind (gets (list_capability_grants_for_agent (ad_agent_id input))) (\<lambda>grants.
     (let pending_capabilities = map cg_capability (filter (\<lambda>g. cg_status g = ''pending'') grants);
          capabilities = (case ad_action input of
            Deny \<Rightarrow> pending_capabilities
          | Approve \<Rightarrow> (case ad_capabilities input of None \<Rightarrow> pending_capabilities | Some c \<Rightarrow> c)) in
      bind (gets (find_active_by_protocol_agent (ad_agent_id input))) (\<lambda>identity.
      bind (gets (find_protocol_agent (ad_agent_id input))) (\<lambda>protocol_agent.
      bind (new_date env) (\<lambda>now.
      bind (generate_id env) (\<lambda>audit_id.
      bind (agent_governance_audit_record env audit_id
              \<lparr>ge_action = (if capabilities \<noteq> [] then ''agent.capability_decided'' else ''agent.enrollment_decided''),
               ge_result = (case ad_action input of Approve \<Rightarrow> ''allowed'' | Deny \<Rightarrow> ''denied''),
               ge_tenant = User_tenant (case identity of
                   Some i \<Rightarrow> ai_owner_user_id (agg_identity i)
                 | None \<Rightarrow> (case Option.bind protocol_agent (\<lambda>p. present (ag_user_id p)) of
                     Some u \<Rightarrow> u | None \<Rightarrow> user_id)),
               ge_controller_user_id = Some user_id,
               ge_issuer = map_option (\<lambda>i. ai_issuer (agg_identity i)) identity,
               ge_subject = map_option (\<lambda>i. ai_subject (agg_identity i)) identity,
               ge_agent_identity_id = map_option (\<lambda>i. ai_id (agg_identity i)) identity,
               ge_host_id = map_option ag_host_id protocol_agent, ge_capabilities = Some capabilities,
               ge_reason_code = None, ge_metadata = None\<rparr>) (\<lambda>audit.
      decide_approval
        \<lparr>di_agent_id = ad_agent_id input, di_user_code_hash = hash_agent_user_code env (ad_user_code input),
         di_action = ad_action input, di_capabilities = ad_capabilities input, di_user_id = user_id, di_now = now\<rparr>
        audit)))))))"

section \<open>Laws\<close>

context agent_law
begin

lemma law_decide_agent_approval [law_intros]: "evolves R (decide_agent_approval env input u)"
  unfolding decide_agent_approval_def Let_def by (intro law_intros)

end

section \<open>User codes\<close>

lemma upper_char_code:
  "(of_char (upper_char c) :: nat) =
     (if 97 \<le> (of_char c :: nat) \<and> (of_char c :: nat) \<le> 122 then of_char c - 32 else of_char c)"
  by (auto simp: upper_char_def of_char_of)

lemma is_code_char_upper [simp]: "is_code_char (upper_char c) = is_code_char c"
  unfolding is_code_char_def Let_def upper_char_code by (simp, linarith)

lemma upper_char_idem [simp]: "upper_char (upper_char c) = upper_char c"
proof -
  have "\<not> (97 \<le> (of_char (upper_char c) :: nat) \<and> (of_char (upper_char c) :: nat) \<le> 122)"
    unfolding upper_char_code by (simp, linarith)
  then show ?thesis by (subst upper_char_def) auto
qed

lemma filter_code_upper: "filter is_code_char (to_upper s) = to_upper (filter is_code_char s)"
  unfolding to_upper_def by (induction s) simp_all

lemma to_upper_idem [simp]: "to_upper (to_upper s) = to_upper s"
  by (simp add: to_upper_def)

lemma filter_parts:
  assumes "filter P xs = xs"
  shows "filter P (take n xs) = take n xs" "filter P (drop n xs) = drop n xs"
proof -
  have all: "\<forall>x \<in> set xs. P x" using assms by (metis filter_id_conv)
  show "filter P (take n xs) = take n xs" by (rule filter_True) (meson all in_set_takeD)
  show "filter P (drop n xs) = drop n xs" by (rule filter_True) (meson all in_set_dropD)
qed

text \<open>
  The user code that is hashed does not depend on how an eight-character code was typed:
  case, hyphens, blanks and other separators make no difference, and the normal form is its own
  normal form, so the code printed as \<open>XXXX-XXXX\<close> and the code typed hash alike.
\<close>

theorem user_code_normal:
  assumes same: "to_upper (filter is_code_char typed) = to_upper (filter is_code_char printed)"
    and eight: "length (filter is_code_char printed) = 8"
  shows "hash_agent_user_code env typed = hash_agent_user_code env printed \<and>
     normalize_user_code (normalize_user_code typed) = normalize_user_code typed"
proof -
  let ?c = "to_upper (filter is_code_char printed)"
  have len: "length ?c = 8" "length (to_upper (filter is_code_char typed)) = 8"
    using eight same by (simp_all add: to_upper_def)
  have typed: "normalize_user_code typed = take 4 ?c @ ''-'' @ drop 4 ?c"
    using len same by (simp add: normalize_user_code_def Let_def)
  have codes: "filter is_code_char ?c = ?c"
    by (simp add: filter_code_upper)
  then have parts: "filter is_code_char (take 4 ?c) = take 4 ?c" "filter is_code_char (drop 4 ?c) = drop 4 ?c"
    by (rule filter_parts)+
  have "filter is_code_char (take 4 ?c @ ''-'' @ drop 4 ?c) = ?c"
  proof -
    have "\<not> is_code_char (CHR ''-'')" by code_simp
    with parts show ?thesis by simp
  qed
  then have "normalize_user_code (take 4 ?c @ ''-'' @ drop 4 ?c) = take 4 ?c @ ''-'' @ drop 4 ?c"
    using len by (simp add: normalize_user_code_def Let_def)
  moreover have "normalize_user_code printed = take 4 ?c @ ''-'' @ drop 4 ?c"
    using len by (simp add: normalize_user_code_def Let_def)
  ultimately show ?thesis using typed by (simp add: hash_agent_user_code_def)
qed

theorem user_code_normal_witness:
  "hash_agent_user_code sample_env ''abcd 1234'' = hash_agent_user_code sample_env ''ABCD-1234''"
proof -
  have "to_upper (filter is_code_char ''abcd 1234'') = to_upper (filter is_code_char ''ABCD-1234'')"
    "length (filter is_code_char ''ABCD-1234'') = 8" by code_simp+
  from user_code_normal [OF this] show ?thesis by blast
qed

end
