(* ===== verification/Agent_Commands.thy ===== *)
theory Agent_Commands
  imports Agent_Lifecycle Agent_Approvals
begin

text \<open>
  The Agents component as a state machine: every use case and repository operation that changes
  the tables is a command, a history is a sequence of commands, and the laws hold along all of
  them. A command that throws is a step too: what it wrote before it threw stays.
\<close>

section \<open>Commands\<close>

datatype agent_command =
    Create_application_agent create_agent creation_context
  | Create_login_identity login_input string string
  | Create_enrollment_intent login_input string string
  | Create_additional_intent string string string string
  | Approve_enrollment string string string
  | Revoke_identity_host string string string
  | Recover_identity string string
  | Deactivate_identity string string
  | Activate_identity string string
  | Delete_identity string string
  | Emergency_delete string "string option"
  | Emergency_deactivate string "string option"
  | Emergency_activate string "string option"
  | Request_approval approval_request
  | Decide_approval approval_decision string
  | Revoke_account_agent string string
  | Revoke_account_grant string string
  | Revoke_agent string
  | Revoke_agent_host string
  | Revoke_grant string

fun perform :: "env \<Rightarrow> agent_command \<Rightarrow> world \<Rightarrow> world" where
  "perform env (Create_application_agent input context) w = snd (create_application_agent env input context w)"
| "perform env (Create_login_identity input issuer u) w = snd (create_agent_login_identity env input issuer u w)"
| "perform env (Create_enrollment_intent input u key) w = snd (create_agent_enrollment_intent env input u key w)"
| "perform env (Create_additional_intent k p u key) w = snd (create_additional_agent_enrollment_intent env k p u key w)"
| "perform env (Approve_enrollment t issuer u) w = snd (approve_agent_enrollment env t issuer u w)"
| "perform env (Revoke_identity_host k p u) w = snd (revoke_agent_identity_host env k p u w)"
| "perform env (Recover_identity k u) w = snd (recover_agent_identity env k u w)"
| "perform env (Deactivate_identity k u) w = snd (deactivate_agent_identity env k u w)"
| "perform env (Activate_identity k u) w = snd (activate_agent_identity env k u w)"
| "perform env (Delete_identity k u) w = snd (delete_agent_identity env k u w)"
| "perform env (Emergency_delete k u) w = snd (emergency_delete_agent_identity env k u w)"
| "perform env (Emergency_deactivate k u) w = snd (emergency_deactivate_agent_identity env k u w)"
| "perform env (Emergency_activate k u) w = snd (emergency_activate_agent_identity env k u w)"
| "perform env (Request_approval q) w = snd (create_approval_request q w)"
| "perform env (Decide_approval input u) w = snd (decide_agent_approval env input u w)"
| "perform env (Revoke_account_agent a u) w = snd (revoke_agent_for_user env a u w)"
| "perform env (Revoke_account_grant g u) w = snd (revoke_capability_grant_for_user env g u w)"
| "perform env (Revoke_agent a) w = snd (revoke_agent env a w)"
| "perform env (Revoke_agent_host h) w = snd (revoke_host env h w)"
| "perform env (Revoke_grant g) w = snd (revoke_capability_grant env g w)"

inductive agent_history :: "env \<Rightarrow> world \<Rightarrow> world \<Rightarrow> bool" for env :: env where
  Begin: "agent_history env w w"
| Step: "agent_history env w v \<Longrightarrow> agent_history env w (perform env c v)"

inductive_cases agent_history_cases: "agent_history env w v"

lemma agent_history_run: "agent_history env w (fold (perform env) cs w)"
  by (induction cs rule: rev_induct) (auto intro: agent_history.intros)

section \<open>Both laws at once\<close>

definition sound_step :: "world \<Rightarrow> world \<Rightarrow> bool" where
  "sound_step w v \<longleftrightarrow> (well_formed w \<longrightarrow> well_formed v \<and> history w v)"

lemma sound_stepI: "(well_formed w \<longrightarrow> well_formed v) \<Longrightarrow> history w v \<Longrightarrow> sound_step w v"
  by (simp add: sound_step_def)

interpretation sound: keyed_agent_law sound_step env for env
proof (unfold_locales, goal_cases)
  case 1 show ?case by (simp add: sound_step_def history_refl)
next
  case (2 s t u) then show ?case unfolding sound_step_def by (blast intro: history_trans)
next
  case 3 show ?case by (rule sound_stepI [OF keeps_well_formed.take_id keeps_history.take_id])
next
  case 4 show ?case by (rule sound_stepI [OF keeps_well_formed.take_time keeps_history.take_time])
next
  case 5 show ?case by (rule sound_stepI [OF keeps_well_formed.change_connections keeps_history.change_connections])
next
  case 6 then show ?case by (intro sound_stepI keeps_well_formed.change_jtis keeps_history.change_jtis)
next
  case 7 then show ?case by - (rule sound_stepI, erule keeps_well_formed.add_host, erule keeps_history.add_host)
next
  case 8 then show ?case by - (rule sound_stepI, erule keeps_well_formed.add_agent, erule keeps_history.add_agent)
next
  case 9 then show ?case by - (rule sound_stepI, erule keeps_well_formed.add_approval, erule keeps_history.add_approval)
next
  case 10 then show ?case by - (rule sound_stepI, erule (1) keeps_well_formed.add_identity, erule (1) keeps_history.add_identity)
next
  case 11 then show ?case by - (rule sound_stepI, erule (1) keeps_well_formed.add_binding, erule (1) keeps_history.add_binding)
next
  case 12 then show ?case by - (rule sound_stepI, erule keeps_well_formed.add_creation, erule keeps_history.add_creation)
next
  case 13 then show ?case by - (rule sound_stepI, erule keeps_well_formed.add_intent, erule keeps_history.add_intent)
next
  case 14 then show ?case by - (rule sound_stepI, erule keeps_well_formed.add_audit, erule keeps_history.add_audit)
next
  case 15 then show ?case
    by (intro sound_stepI keeps_well_formed.change_identities keeps_history.change_identities)
next
  case 16 then show ?case by - (rule sound_stepI, erule keeps_well_formed.claim_name, erule keeps_history.claim_name)
next
  case 17 then show ?case
    by (intro sound_stepI keeps_well_formed.change_bindings keeps_history.change_bindings)
next
  case 18 then show ?case by (intro sound_stepI keeps_well_formed.change_agents keeps_history.change_agents)
next
  case 19 then show ?case by (intro sound_stepI keeps_well_formed.change_hosts keeps_history.change_hosts)
next
  case 20 then show ?case by (intro sound_stepI keeps_well_formed.change_grants keeps_history.change_grants)
next
  case 21 then show ?case by (intro sound_stepI keeps_well_formed.change_approvals keeps_history.change_approvals)
next
  case 22 then show ?case by (intro sound_stepI keeps_well_formed.change_intents keeps_history.change_intents)
next
  case 23 then show ?case by - (rule sound_stepI, erule (1) keeps_well_formed.add_request, erule (1) keeps_history.add_request)
next
  case 24
  then show ?case by - (rule sound_stepI, erule (1) keeps_well_formed.decide_request, erule (1) keeps_history.decide_request)
next
  case 25 show ?case by (rule sound_stepI [OF keeps_well_formed.consume_request keeps_history.consume_request])
next
  case 26 then show ?case by (intro sound_stepI keeps_well_formed.add_entitlement keeps_history.add_entitlement)
next
  case (27 w pe fe es w')
  then show ?case
    using keeps_well_formed.rewrite_entitlements [of w pe fe es w'] keeps_history.rewrite_entitlements [of w pe fe es w']
    by (intro sound_stepI) blast+
next
  case 28 then show ?case by (intro sound_stepI keeps_well_formed.end_entitlements keeps_history.end_entitlements)
next
  case 29 then show ?case by - (rule sound_stepI, erule (2) keeps_well_formed.add_lease, erule (2) keeps_history.add_lease)
next
  case 30 show ?case by (rule sound_stepI [OF keeps_well_formed.change_resources keeps_history.change_resources])
next
  case 31
  show ?case by (rule sound_stepI [OF keeps_well_formed.change_organization_roles keeps_history.change_organization_roles])
next
  case 32 then show ?case by (intro sound_stepI keeps_well_formed.change_leases keeps_history.change_leases)
next
  case 33 then show ?case by - (rule sound_stepI, erule keeps_well_formed.remove_identity, erule keeps_history.remove_identity)
next
  case 34 then show ?case by (simp add: sound_step_def well_formed_def)
qed

lemma sound_run: "evolves sound_step m \<Longrightarrow> sound_step w (snd (m w))"
  by (simp add: evolves_def)

lemma perform_sound: "sound_step w (perform env c w)"
  by (cases c)
    (simp_all add: sound_run sound.law_create_application_agent sound.law_create_login_identity
      sound.law_create_enrollment sound.law_create_additional sound.law_approve sound.law_lifecycle
      sound.law_create_approval sound.law_decide_agent_approval sound.law_repo_revocations sound.law_revoke_host)

lemma agent_history_sound: "agent_history env w v \<Longrightarrow> sound_step w v"
  by (induction rule: agent_history.induct) (blast intro: sound.law_refl sound.law_trans perform_sound)+

end
