(* ===== verification/Agent_Principals.thy ===== *)
theory Agent_Principals
  imports Agent_Commands
begin

text \<open>
  What holds along every history of the Agents component, whatever its commands are, in which
  order they run and which of them throw: the database stays well formed, a principal is never
  reassigned, the audit log only grows, a deletion and a revocation are final.
\<close>

section \<open>Reading the two laws\<close>

lemma evolved_row: "evolved step old new \<Longrightarrow> r \<in> set old \<Longrightarrow> \<exists>q \<in> set new. step r q"
proof -
  assume e: "evolved step old new" and r: "r \<in> set old"
  from r obtain i where i: "i < length old" "r = old ! i" by (metis in_set_conv_nth)
  with e have "step r (new ! i)" "i < length new"
    by (auto simp: evolved_def list_all2_conv_all_nth)
  then show ?thesis by force
qed

lemma evolved_equal: "evolved (=) old new \<longleftrightarrow> (\<exists>more. new = old @ more)"
proof
  assume "evolved (=) old new"
  then have "take (length old) new = old" by (simp add: evolved_def list.rel_eq)
  then show "\<exists>more. new = old @ more" by (metis append_take_drop_id)
qed (auto simp: evolved_def list.rel_eq)

lemma distinct_map_filter_eq:
  "distinct (List.map_filter k rows) \<Longrightarrow> k r = Some u \<Longrightarrow> r \<in> set rows \<Longrightarrow> q \<in> set rows \<Longrightarrow> k q = Some u \<Longrightarrow> q = r"
  by (induction rows) (auto simp: map_filter_simps set_map_filter split: option.splits)

lemma history_of: "agent_history env w v \<Longrightarrow> well_formed w \<Longrightarrow> well_formed v \<and> history w v"
  by (drule agent_history_sound) (simp add: sound_step_def)

lemma identity_kept:
  assumes "agent_history env w v" "well_formed w" "i \<in> set (w_identities w)"
  obtains j where "j \<in> set (w_identities v)" "identity_step i j"
  using history_of [OF assms(1,2)] evolved_row [OF _ assms(3)] unfolding history_def by blast

lemma one_identity:
  assumes "well_formed w" "i \<in> set (w_identities w)" "j \<in> set (w_identities w)"
    and "ai_id i = ai_id j \<or> ai_issuer i = ai_issuer j \<and> ai_subject i = ai_subject j"
  shows "i = j"
proof -
  have d: "distinct (map ai_id (w_identities w))" "distinct (map (\<lambda>i. (ai_issuer i, ai_subject i)) (w_identities w))"
    using assms(1) by (simp_all add: well_formed_def identities_unique_def)
  from assms(4) show ?thesis
    using distinct_key_eq [OF d(1) assms(2,3)] distinct_key_eq [OF d(2) assms(2,3)] by auto
qed

lemma active_by_protocol_agent:
  assumes "find_active_by_protocol_agent p w = Some a"
  shows "\<exists>b r. a = aggregate w r \<and> b \<in> set (w_bindings w) \<and> r \<in> set (w_identities w) \<and>
     ab_protocol_agent_id b = p \<and> ab_status b = ''active'' \<and> ab_agent_identity_id b = ai_id r \<and>
     ai_status r = Identity_active \<and> ai_deleted_at r = None"
proof -
  from assms obtain b r where r: "(b, r) \<in> set (active_binding_pairs p w)" "a = aggregate w r"
    by (auto simp: find_active_by_protocol_agent_def split: list.splits)
  from r(1) have "b \<in> set (w_bindings w)" "r \<in> set (w_identities w)" "ab_protocol_agent_id b = p"
    "ab_status b = ''active''" "ab_agent_identity_id b = ai_id r" "ai_status r = Identity_active" "ai_deleted_at r = None"
    unfolding active_binding_pairs_def by (auto simp: set_map_filter dest: find_SomeD)
  with r(2) show ?thesis by blast
qed

section \<open>Invariants\<close>

text \<open>
  C2. Every history of commands, in any order and with any of them failing half way, keeps the
  tables of the Agents component well formed: primary keys and unique indexes hold, every
  reference resolves, enrollment intents keep their shape, an audit event has one owner, and a
  deleted identity is inactive without an active binding.
\<close>

theorem agent_tables_stay_well_formed:
  assumes "well_formed w" and "agent_history env w v"
  shows "well_formed v"
  using history_of [OF assms(2,1)] by blast

theorem agent_tables_stay_well_formed_witness:
  "well_formed (fold (perform sample_env)
     [Deactivate_identity ''i1'' ''u1'', Revoke_agent_host ''h1'', Delete_identity ''i1'' ''u2''] sample_world)"
  by (rule agent_tables_stay_well_formed [OF sample_world_well_formed agent_history_run])

text \<open>
  C7. A principal is never reassigned: whatever happens afterwards, an issuer and subject that
  named an Agent name the same identity with the same owner, and a username once claimed is
  never changed and never given to another identity, even after the Agent was deleted.
\<close>

theorem principal_never_reassigned:
  assumes wf: "well_formed w" and run: "agent_history env w v"
    and i: "i \<in> set (w_identities w)" and j: "j \<in> set (w_identities v)"
    and same: "ai_issuer j = ai_issuer i \<and> ai_subject j = ai_subject i"
  shows "ai_id j = ai_id i \<and> ai_owner_user_id j = ai_owner_user_id i \<and> ai_created_at j = ai_created_at i \<and>
     (\<forall>u k. ai_username i = Some u \<longrightarrow> k \<in> set (w_identities v) \<longrightarrow> (ai_username k = Some u \<longleftrightarrow> k = j))"
proof -
  obtain j' where j': "j' \<in> set (w_identities v)" "identity_step i j'" by (rule identity_kept [OF run wf i])
  have wfv: "well_formed v" using history_of [OF run wf] by blast
  have "j' = j" by (rule one_identity [OF wfv j'(1) j]) (use same j'(2) in \<open>simp add: identity_step_def\<close>)
  with j'(2) have step: "identity_step i j" by simp
  have names: "distinct (List.map_filter ai_username (w_identities v))"
    using wfv by (simp add: well_formed_def identities_unique_def)
  have "ai_username k = Some u \<longleftrightarrow> k = j" if "ai_username i = Some u" "k \<in> set (w_identities v)" for u k
  proof -
    have "ai_username j = Some u" using step that(1) by (simp add: identity_step_def)
    with distinct_map_filter_eq [OF names this j that(2)] show ?thesis by blast
  qed
  then show ?thesis using step unfolding identity_step_def by blast
qed

theorem principal_never_reassigned_witness:
  "ai_owner_user_id (hd (w_identities (fold (perform sample_env)
     [Delete_identity ''i1'' ''u1'', Activate_identity ''i1'' ''u1''] sample_world))) = ''u1''"
proof -
  let ?v = "fold (perform sample_env) [Delete_identity ''i1'' ''u1'', Activate_identity ''i1'' ''u1''] sample_world"
  have j: "hd (w_identities ?v) \<in> set (w_identities ?v)" by code_simp
  have same: "ai_issuer (hd (w_identities ?v)) = ai_issuer sample_identity \<and>
     ai_subject (hd (w_identities ?v)) = ai_subject sample_identity" by code_simp
  have i: "sample_identity \<in> set (w_identities sample_world)" by (simp add: sample_world_def)
  have "ai_owner_user_id (hd (w_identities ?v)) = ai_owner_user_id sample_identity"
    using principal_never_reassigned [OF sample_world_well_formed agent_history_run i j same] by (elim conjE)
  then show ?thesis by (simp only: sample_identity_def agent_identity.simps)
qed

text \<open>
  C27. The audit log is append-only: every event that was written is still there, unchanged and
  in its place, after any history, and every event that was added has exactly one owner.
\<close>

theorem audit_log_append_only:
  assumes wf: "well_formed w" and run: "agent_history env w v"
  shows "\<exists>more. w_audits v = w_audits w @ more \<and> list_all exactly_one_owner more"
proof -
  have "well_formed v" "history w v" using history_of [OF run wf] by blast+
  then obtain more where more: "w_audits v = w_audits w @ more"
    by (auto simp: history_def evolved_equal)
  with \<open>well_formed v\<close> have "list_all exactly_one_owner more"
    by (auto simp: well_formed_def audits_owned_def list_all_iff)
  with more show ?thesis by blast
qed

theorem audit_log_append_only_witness:
  "\<exists>more. w_audits (fold (perform sample_env) [Deactivate_identity ''i1'' ''u1'', Delete_identity ''i1'' ''u1''] sample_world) =
     w_audits sample_world @ more \<and> list_all exactly_one_owner more"
  by (rule audit_log_append_only [OF sample_world_well_formed agent_history_run])

text \<open>
  C8. Deletion is final: after any history a deleted identity is found by none of the lookups
  that admit an Agent, neither by its identifier, nor by issuer and subject, nor by its
  username, nor through any protocol agent, and its identifier and its name stay taken.
\<close>

theorem deleted_agent_never_returns:
  assumes wf: "well_formed w" and run: "agent_history env w v"
    and i: "i \<in> set (w_identities w)" and gone: "ai_deleted_at i \<noteq> None"
  shows "find_identity (ai_id i) v = None \<and> find_by_issuer_subject (ai_issuer i) (ai_subject i) v = None \<and>
     (\<forall>a. find_active_by_protocol_agent p v = Some a \<longrightarrow> ai_id (agg_identity a) \<noteq> ai_id i) \<and>
     (\<forall>u. ai_username i = Some u \<longrightarrow> find_by_username u v = None \<and> \<not> username_free (Some u) (w_identities v)) \<and>
     ai_id i \<in> ai_id ` set (w_identities v)"
proof -
  obtain j where j: "j \<in> set (w_identities v)" "identity_step i j" by (rule identity_kept [OF run wf i])
  have wfv: "well_formed v" using history_of [OF run wf] by blast
  have dead: "ai_deleted_at j \<noteq> None" "ai_id j = ai_id i" "ai_issuer j = ai_issuer i" "ai_subject j = ai_subject i"
    using j(2) gone by (auto simp: identity_step_def)
  have only: "k = j" if "k \<in> set (w_identities v)"
    "ai_id k = ai_id i \<or> ai_issuer k = ai_issuer i \<and> ai_subject k = ai_subject i" for k
    by (rule one_identity [OF wfv that(1) j(1)]) (use that(2) dead in simp)
  have died: "ai_deleted_at k \<noteq> None" if "k \<in> set (w_identities v)"
    "ai_id k = ai_id i \<or> ai_issuer k = ai_issuer i \<and> ai_subject k = ai_subject i" for k
    using only [OF that] dead(1) by simp
  have names: "distinct (List.map_filter ai_username (w_identities v))"
    using wfv by (simp add: well_formed_def identities_unique_def)
  have named: "ai_username j = Some u" if "ai_username i = Some u" for u
    using j(2) that by (simp add: identity_step_def)
  have byname: "k = j" if "ai_username i = Some u" "k \<in> set (w_identities v)" "ai_username k = Some u" for u k
    by (rule distinct_map_filter_eq [OF names named [OF that(1)] j(1) that(2,3)])
  have "ai_id (agg_identity a) \<noteq> ai_id i" if a: "find_active_by_protocol_agent p v = Some a" for a
  proof -
    obtain b r where r: "a = aggregate v r" "r \<in> set (w_identities v)" "ai_deleted_at r = None"
      using active_by_protocol_agent [OF a] by blast
    with died [OF r(2)] show ?thesis by (auto simp: aggregate_def)
  qed
  moreover have "find_identity (ai_id i) v = None"
    unfolding find_identity_def option.map_disc_iff find_None_iff by (auto dest: died)
  moreover have "find_by_issuer_subject (ai_issuer i) (ai_subject i) v = None"
    unfolding find_by_issuer_subject_def find_None_iff by (auto dest: died)
  moreover have "find_by_username u v = None \<and> \<not> username_free (Some u) (w_identities v)"
    if u: "ai_username i = Some u" for u
  proof
    show "find_by_username u v = None"
      unfolding find_by_username_def find_None_iff using byname [OF u] dead(1) by metis
    show "\<not> username_free (Some u) (w_identities v)"
      using named [OF u] j(1) unfolding username_free_def by (auto simp: image_iff dest: sym)
  qed
  moreover have "ai_id i \<in> ai_id ` set (w_identities v)" using j(1) dead(2) by (metis imageI)
  ultimately show ?thesis by blast
qed

definition deleted_world :: world where
  "deleted_world = sample_world\<lparr>w_identities := [sample_identity\<lparr>ai_status := Identity_inactive, ai_deleted_at := Some 5\<rparr>],
     w_bindings := [sample_binding\<lparr>ab_status := ''revoked'', ab_revoked_at := Some 5\<rparr>]\<rparr>"

lemma deleted_world_well_formed: "well_formed deleted_world"
  by code_simp

theorem deleted_agent_never_returns_witness:
  "find_identity ''i1'' (fold (perform sample_env) [Activate_identity ''i1'' ''u1'', Emergency_activate ''i1'' None] deleted_world) = None"
proof -
  let ?i = "sample_identity\<lparr>ai_status := Identity_inactive, ai_deleted_at := Some 5\<rparr>"
  let ?v = "fold (perform sample_env) [Activate_identity ''i1'' ''u1'', Emergency_activate ''i1'' None] deleted_world"
  have i: "?i \<in> set (w_identities deleted_world)" "ai_deleted_at ?i \<noteq> None"
    by (simp_all add: deleted_world_def)
  have "find_identity (ai_id ?i) ?v = None"
    by (rule deleted_agent_never_returns [OF deleted_world_well_formed agent_history_run i, THEN conjunct1])
  then show ?thesis by (simp only: sample_identity_def agent_identity.simps)
qed

text \<open>
  C28. Revocations are final: a revoked host, protocol agent or capability grant is revoked after
  any history, an inactive binding is never active again, a decided enrollment intent and an
  ended entitlement are the rows they were, and a revoked token lease authenticates nothing.
\<close>

theorem revocations_are_final:
  assumes wf: "well_formed w" and run: "agent_history env w v"
  shows "(\<forall>h \<in> set (w_hosts w). ah_status h = ''revoked'' \<longrightarrow> (\<exists>k \<in> set (w_hosts v). ah_id k = ah_id h \<and> ah_status k = ''revoked'')) \<and>
     (\<forall>a \<in> set (w_agents w). ag_status a = ''revoked'' \<longrightarrow>
        (\<exists>b. find_protocol_agent (ag_id a) v = Some b \<and> ag_status b = ''revoked'')) \<and>
     (\<forall>g \<in> set (w_grants w). cg_status g = ''revoked'' \<longrightarrow> (\<exists>h \<in> set (w_grants v). cg_id h = cg_id g \<and> cg_status h = ''revoked'')) \<and>
     (\<forall>b \<in> set (w_bindings w). ab_status b \<noteq> ''active'' \<longrightarrow> find_active_by_protocol_agent (ab_protocol_agent_id b) v = None) \<and>
     (\<forall>t \<in> set (w_intents w). ei_status t \<noteq> ''pending'' \<longrightarrow> find_intent (ei_id t) v = Some t) \<and>
     (\<forall>e \<in> set (w_entitlements w). se_ended_at e \<noteq> None \<longrightarrow> e \<in> set (w_entitlements v)) \<and>
     (\<forall>l \<in> set (w_leases w). tl_revoked_at l \<noteq> None \<longrightarrow>
        (\<exists>m \<in> set (w_leases v). tl_id m = tl_id l \<and> \<not> lease_active now m))"
proof -
  have wfv: "well_formed v" and h: "history w v" using history_of [OF run wf] by blast+
  note rows = h [unfolded history_def]
  have keys: "distinct (map ag_id (w_agents v))" "distinct (map ei_id (w_intents v))"
    "distinct (map ab_protocol_agent_id (w_bindings v))"
    using wfv by (simp_all add: well_formed_def keys_unique_def)
  show ?thesis
  proof (intro conjI ballI impI)
    fix x assume "x \<in> set (w_hosts w)" "ah_status x = ''revoked''"
    with rows show "\<exists>k \<in> set (w_hosts v). ah_id k = ah_id x \<and> ah_status k = ''revoked''"
      by (metis evolved_row host_step_def)
  next
    fix x assume x: "x \<in> set (w_agents w)" "ag_status x = ''revoked''"
    then obtain b where b: "b \<in> set (w_agents v)" "agent_step x b" using rows evolved_row by metis
    with x show "\<exists>b. find_protocol_agent (ag_id x) v = Some b \<and> ag_status b = ''revoked''"
      unfolding find_protocol_agent_def agent_step_def using find_key_unique [OF keys(1) b(1)] by metis
  next
    fix x assume "x \<in> set (w_grants w)" "cg_status x = ''revoked''"
    with rows show "\<exists>h \<in> set (w_grants v). cg_id h = cg_id x \<and> cg_status h = ''revoked''"
      by (metis evolved_row grant_step_def)
  next
    fix x assume x: "x \<in> set (w_bindings w)" "ab_status x \<noteq> ''active''"
    then obtain c where c: "c \<in> set (w_bindings v)" "binding_step x c" using rows evolved_row by metis
    have "filter (\<lambda>b. ab_protocol_agent_id b = ab_protocol_agent_id x \<and> ab_status b = ''active'') (w_bindings v) = []"
      using c x(2) distinct_key_eq [OF keys(3) _ c(1)] by (auto simp: filter_empty_conv binding_step_def)
    then show "find_active_by_protocol_agent (ab_protocol_agent_id x) v = None"
      by (simp add: find_active_by_protocol_agent_def active_binding_pairs_def map_filter_simps)
  next
    fix x assume x: "x \<in> set (w_intents w)" "ei_status x \<noteq> ''pending''"
    then have "x \<in> set (w_intents v)" using rows evolved_row [of intent_step "w_intents w" "w_intents v" x]
      by (auto simp: intent_step_def)
    then show "find_intent (ei_id x) v = Some x"
      unfolding find_intent_def by (rule find_key_unique [OF keys(2)])
  next
    fix x assume "x \<in> set (w_entitlements w)" "se_ended_at x \<noteq> None"
    then show "x \<in> set (w_entitlements v)"
      using rows evolved_row [of entitlement_step "w_entitlements w" "w_entitlements v" x]
      by (auto simp: entitlement_step_def)
  next
    fix x assume "x \<in> set (w_leases w)" "tl_revoked_at x \<noteq> None"
    then show "\<exists>m \<in> set (w_leases v). tl_id m = tl_id x \<and> \<not> lease_active now m"
      using rows evolved_row [of lease_step "w_leases w" "w_leases v" x]
      by (auto simp: lease_step_def lease_active_def)
  qed
qed

theorem revocations_are_final_witness:
  "find_active_by_protocol_agent ''p1'' (fold (perform sample_env) [Activate_identity ''i1'' ''u1''] deleted_world) = None"
proof -
  have b: "sample_binding\<lparr>ab_status := ''revoked'', ab_revoked_at := Some 5\<rparr> \<in> set (w_bindings deleted_world)"
    by (simp add: deleted_world_def)
  have r: "ab_status (sample_binding\<lparr>ab_status := ''revoked'', ab_revoked_at := Some 5\<rparr>) \<noteq> ''active''"
    by code_simp
  have "find_active_by_protocol_agent (ab_protocol_agent_id (sample_binding\<lparr>ab_status := ''revoked'', ab_revoked_at := Some 5\<rparr>))
      (fold (perform sample_env) [Activate_identity ''i1'' ''u1''] deleted_world) = None"
    using revocations_are_final [OF deleted_world_well_formed agent_history_run] b r by blast
  then show ?thesis by (simp only: sample_binding_def agent_identity_binding.simps)
qed

end
