(* ===== verification/Agent_Operations.thy ===== *)
theory Agent_Operations
  imports Agent_Principals
begin

text \<open>
  What the single operations on an Agent promise their caller: who may call them, what a
  deletion, a deactivation, a recovery and an approval leave behind, and what a replay answers.
\<close>

section \<open>Runs of the shared steps\<close>

lemma update_where_none [simp]: "update_where (\<lambda>r. False) f rows = rows"
  by (simp add: update_where_def)

lemma require_identity_run:
  "require_identity k w = (case find_identity k w of
     None \<Rightarrow> (Inl (not_found ''Agent identity was not found.''), w) | Some a \<Rightarrow> (Inr a, w))"
  by (simp add: require_identity_def bind_def gets_def found_def ret_def throw_def split: option.split)

lemma require_controlled_run:
  "require_controlled_identity k u w = (case find_identity k w of
     None \<Rightarrow> (Inl (not_found ''Agent identity was not found.''), w)
   | Some a \<Rightarrow> if ai_owner_user_id (agg_identity a) = u then (Inr a, w)
       else (Inl (forbidden ''Agent identity controller access is required.''), w))"
  by (simp add: require_controlled_identity_def require_identity_run bind_def assert_controller_def
      identity_home_space_def require_def ret_def throw_def split: option.split)

lemma controlled_ok:
  "require_controlled_identity k u w = (Inr a, w') \<longleftrightarrow>
     w' = w \<and> find_identity k w = Some a \<and> ai_owner_user_id (agg_identity a) = u"
  by (auto simp: require_controlled_run split: option.splits)

lemma find_identity_live:
  "find_identity k w = Some a \<Longrightarrow> live_identity k w = Some (agg_identity a) \<and> agg_identity a \<in> set (w_identities w) \<and>
     ai_id (agg_identity a) = k \<and> ai_deleted_at (agg_identity a) = None"
  by (auto simp: find_identity_def live_identity_def aggregate_def dest: find_SomeD)

lemma append_identity_audit_ok:
  assumes "append_identity_audit env action a u m w = (Inr x, v)"
  shows "\<exists>e. v = w\<lparr>w_ids_taken := Suc (w_ids_taken w), w_clock_ticks := Suc (w_clock_ticks w),
       w_audits := w_audits w @ [e]\<rparr> \<and>
     au_action e = action \<and> au_result e = ''allowed'' \<and> au_agent_identity_id e = Some (ai_id (agg_identity a)) \<and>
     au_controller_user_id e = u \<and> au_owner_user_id e = Some (ai_owner_user_id (agg_identity a)) \<and> au_metadata e = m \<and>
     au_id e = env_ids env (w_ids_taken w)"
  using assms
  by (auto simp: append_identity_audit_def append_agent_governance_audit_def agent_governance_audit_record_def
      append_audit_def insert_audit_def insert_row_def bind_ok_iff generate_id_def new_date_def split: if_splits)

section \<open>Access control\<close>



section \<open>Deletion\<close>

lemma delete_identity_ok:
  assumes "delete_identity k now w = (Inr True, v)"
  shows "live_identity k w \<noteq> None \<and>
     w_identities v = update_where (\<lambda>i. ai_id i = k \<and> ai_deleted_at i = None)
       (\<lambda>i. i\<lparr>ai_status := Identity_inactive, ai_deleted_at := Some now, ai_updated_at := now\<rparr>) (w_identities w) \<and>
     w_bindings v = update_where (\<lambda>b. ab_agent_identity_id b = k \<and> ab_status b = ''active'')
       (\<lambda>b. b\<lparr>ab_status := ''revoked'', ab_revoked_at := Some now, ab_updated_at := now\<rparr>) (w_bindings w) \<and>
     w_agents v = update_where (\<lambda>a. ag_id a \<in> set (active_protocol_agent_ids k w))
       (\<lambda>a. a\<lparr>ag_status := ''revoked'', ag_updated_at := now\<rparr>) (w_agents w) \<and>
     w_grants v = update_where (\<lambda>g. cg_agent_id g \<in> set (active_protocol_agent_ids k w))
       (\<lambda>g. g\<lparr>cg_status := ''revoked'', cg_updated_at := now\<rparr>) (w_grants w) \<and>
     w_approvals v = update_where (\<lambda>r. ar_agent_id r \<in> Some ` set (active_protocol_agent_ids k w))
       (\<lambda>r. r\<lparr>ar_status := ''revoked'', ar_updated_at := now\<rparr>) (w_approvals w) \<and>
     w_entitlements v = w_entitlements w \<and> w_leases v = w_leases w \<and> w_audits v = w_audits w \<and>
     w_clock_ticks v = w_clock_ticks w"
  using assms unfolding delete_identity_def
  by (auto simp: bind_ok_iff revoke_protocol_agent_statements_def update_identities_def update_bindings_def
      update_agents_def update_grants_def update_approvals_def update_where_none split: option.splits if_splits)

text \<open>
  C16. Deleting an Agent leaves nothing of it: when the controller's deletion returns, the
  identity is found no more and is tombstoned, no binding of it is active, every protocol agent
  that was bound to it is revoked with its grants and its approval requests, none of its
  entitlements is active, and exactly one audit event was added, naming the identity and the
  controller.
\<close>

theorem agent_deletion_complete:
  assumes wf: "well_formed w" and run: "delete_agent_identity env k u w = (Inr r, v)"
  shows "find_identity k v = None \<and> k \<in> ai_id ` set (w_identities v) \<and>
     (\<forall>b \<in> set (w_bindings v). ab_agent_identity_id b = k \<longrightarrow> ab_status b \<noteq> ''active'') \<and>
     (\<forall>a \<in> set (w_agents v). ag_id a \<in> set (active_protocol_agent_ids k w) \<longrightarrow> ag_status a = ''revoked'') \<and>
     (\<forall>g \<in> set (w_grants v). cg_agent_id g \<in> set (active_protocol_agent_ids k w) \<longrightarrow> cg_status g = ''revoked'') \<and>
     (\<forall>q \<in> set (w_approvals v). ar_agent_id q \<in> Some ` set (active_protocol_agent_ids k w) \<longrightarrow> ar_status q = ''revoked'') \<and>
     list_active_entitlements_by_agent k (env_clock env (Suc (w_clock_ticks w))) v = [] \<and>
     (\<exists>e. w_audits v = w_audits w @ [e] \<and> au_action e = ''agent.identity_deleted'' \<and>
        au_agent_identity_id e = Some k \<and> au_controller_user_id e = Some u)"
proof -
  let ?now = "env_clock env (w_clock_ticks w)" and ?t = "w\<lparr>w_clock_ticks := Suc (w_clock_ticks w)\<rparr>"
  from run obtain a x y where a: "find_identity k w = Some a" "ai_owner_user_id (agg_identity a) = u"
    and x: "delete_identity k ?now ?t = (Inr True, x)"
    and y: "revoke_agent_resource_access env k x = (Inr (), y)"
    and v: "append_identity_audit env ''agent.identity_deleted'' a (Some u) None y = (Inr r, v)"
    by (auto simp: delete_agent_identity_def bind_ok_iff controlled_ok new_date_def)
  note live = find_identity_live [OF a(1)]
  have wft: "well_formed ?t" using wf by (rule keeps_well_formed.take_time [THEN mp])
  have wfx: "well_formed x" using evolvesD [OF keeps_well_formed.law_delete x] wft by blast
  note del = delete_identity_ok [OF x]
  note acc = access_revocation_ok [OF wfx y]
  obtain ls fs where y_eq: "y = x\<lparr>w_clock_ticks := Suc (w_clock_ticks x), w_leases := ls, w_entitlements := fs\<rparr>"
    using revoke_access_tables [OF y] by blast
  obtain e where v_eq: "v = y\<lparr>w_ids_taken := Suc (w_ids_taken y), w_clock_ticks := Suc (w_clock_ticks y),
       w_audits := w_audits y @ [e]\<rparr>"
    and e: "au_action e = ''agent.identity_deleted''" "au_agent_identity_id e = Some (ai_id (agg_identity a))"
      "au_controller_user_id e = Some u"
    using append_identity_audit_ok [OF v] by blast
  have ids: "active_protocol_agent_ids k ?t = active_protocol_agent_ids k w"
    by (simp add: active_protocol_agent_ids_def)
  have "\<forall>i \<in> set (w_identities x). ai_id i = k \<longrightarrow> ai_deleted_at i \<noteq> None"
    using del by (simp add: ball_update_where)
  then have "find_identity k v = None"
    unfolding find_identity_def option.map_disc_iff find_None_iff by (auto simp: v_eq y_eq)
  moreover have "k \<in> ai_id ` set (w_identities v)"
  proof -
    have "map ai_id (w_identities v) = map ai_id (w_identities w)"
      using del by (simp add: v_eq y_eq map_update_where)
    then have "ai_id ` set (w_identities v) = ai_id ` set (w_identities w)" by (metis set_map)
    with live show ?thesis by auto
  qed
  moreover have "list_active_entitlements_by_agent k (env_clock env (Suc (w_clock_ticks w))) v = []"
    using acc del by (simp add: v_eq list_active_entitlements_by_agent_def)
  moreover have "\<exists>e. w_audits v = w_audits w @ [e] \<and> au_action e = ''agent.identity_deleted'' \<and>
        au_agent_identity_id e = Some k \<and> au_controller_user_id e = Some u"
    using e del live by (simp add: v_eq y_eq)
  ultimately show ?thesis using del by (simp add: v_eq y_eq ids ball_update_where)
qed

theorem agent_deletion_complete_witness:
  "fst (delete_agent_identity sample_env ''i1'' ''u1'' sample_world) = Inr () \<and>
   find_identity ''i1'' (snd (delete_agent_identity sample_env ''i1'' ''u1'' sample_world)) = None"
proof -
  let ?run = "delete_agent_identity sample_env ''i1'' ''u1'' sample_world"
  have ok: "fst ?run = Inr ()" by code_simp
  then have "?run = (Inr (), snd ?run)" by (metis prod.collapse)
  from agent_deletion_complete [OF sample_world_well_formed this] ok show ?thesis by blast
qed

section \<open>Deactivation, activation and recovery\<close>

text \<open>The identifiers still to be generated are distinct and name no audit event yet.\<close>

definition fresh_ids :: "env \<Rightarrow> world \<Rightarrow> bool" where
  "fresh_ids env w \<longleftrightarrow> inj (env_ids env) \<and> (\<forall>n \<ge> w_ids_taken w. env_ids env n \<notin> au_id ` set (w_audits w))"

lemma append_identity_audit_run:
  assumes "fresh_ids env w"
  shows "\<exists>e. append_identity_audit env action a u m w = (Inr (), w\<lparr>w_ids_taken := Suc (w_ids_taken w),
       w_clock_ticks := Suc (w_clock_ticks w), w_audits := w_audits w @ [e]\<rparr>) \<and>
     au_action e = action \<and> au_id e = env_ids env (w_ids_taken w)"
proof -
  have "\<exists>v. append_identity_audit env action a u m w = (Inr (), v)"
    using assms
    by (simp add: fresh_ids_def append_identity_audit_def append_agent_governance_audit_def
        agent_governance_audit_record_def append_audit_def insert_audit_def insert_row_def bind_def ret_def
        generate_id_def new_date_def atomically_def exactly_one_owner_def)
  then show ?thesis using append_identity_audit_ok by blast
qed

lemma fresh_ids_appended:
  assumes "fresh_ids env w" "w_ids_taken v = Suc (w_ids_taken w)" "w_audits v = w_audits w @ [e]"
    "au_id e = env_ids env (w_ids_taken w)"
  shows "fresh_ids env v"
  using assms unfolding fresh_ids_def by (auto dest: injD)

lemma deactivate_identity_run:
  assumes "live_identity k w = Some i" "ai_status i = Identity_active"
  shows "deactivate_identity k now False w = (Inr True, w\<lparr>w_identities := update_where (\<lambda>r. ai_id r = k)
     (\<lambda>r. r\<lparr>ai_status := Identity_inactive, ai_updated_at := now\<rparr>) (w_identities w)\<rparr>)"
  using assms by (simp add: deactivate_identity_def bind_def gets_def ret_def atomically_def update_identities_def)

lemma activate_identity_run:
  assumes "active_protocol_agent_ids k w \<noteq> []"
    and "list_ex (\<lambda>i. ai_id i = k \<and> ai_status i = Identity_inactive \<and> ai_deleted_at i = None) (w_identities w)"
  shows "activate_identity k now w = (Inr True, w\<lparr>w_identities := update_where
     (\<lambda>i. ai_id i = k \<and> ai_status i = Identity_inactive \<and> ai_deleted_at i = None)
     (\<lambda>i. i\<lparr>ai_status := Identity_active, ai_updated_at := now\<rparr>) (w_identities w)\<rparr>)"
  using assms
  by (auto simp: activate_identity_def bind_def gets_def ret_def atomically_def update_identities_def Let_def
      filter_empty_conv list_ex_iff)

lemma find_update_hit:
  "(\<And>r. p r \<Longrightarrow> q r) \<Longrightarrow> (\<And>r. p (f r) = p r) \<Longrightarrow> find p (update_where q f rows) = map_option f (find p rows)"
  by (induction rows) auto

lemma find_switched_off:
  "find (\<lambda>i. ai_id i = k \<and> ai_deleted_at i = None)
       (update_where (\<lambda>r. ai_id r = k) (\<lambda>r. r\<lparr>ai_status := Identity_inactive, ai_updated_at := t\<rparr>) rows)
     = map_option (\<lambda>r. r\<lparr>ai_status := Identity_inactive, ai_updated_at := t\<rparr>)
         (find (\<lambda>i. ai_id i = k \<and> ai_deleted_at i = None) rows)"
  by (rule find_update_hit) simp_all

text \<open>Switching the one live row of an identifier off and on again changes only its time stamp.\<close>

lemma off_and_on:
  assumes only: "\<And>r. r \<in> set rows \<Longrightarrow> ai_id r = k \<Longrightarrow> ai_status r = Identity_active \<and> ai_deleted_at r = None"
  shows "update_where (\<lambda>i. ai_id i = k \<and> ai_status i = Identity_inactive \<and> ai_deleted_at i = None)
       (\<lambda>i. i\<lparr>ai_status := Identity_active, ai_updated_at := t2\<rparr>)
       (update_where (\<lambda>r. ai_id r = k) (\<lambda>r. r\<lparr>ai_status := Identity_inactive, ai_updated_at := t1\<rparr>) rows)
     = update_where (\<lambda>i. ai_id i = k) (\<lambda>i. i\<lparr>ai_updated_at := t2\<rparr>) rows"
proof -
  have row: "i\<lparr>ai_status := Identity_inactive, ai_updated_at := t1\<rparr>\<lparr>ai_status := Identity_active, ai_updated_at := t2\<rparr> =
      i\<lparr>ai_updated_at := t2\<rparr>" if "ai_status i = Identity_active" for i :: agent_identity
    using that by (cases i) simp
  show ?thesis
    unfolding update_where_def map_map
    by (rule map_cong [OF refl]) (simp add: only row del: agent_identity.update_convs)
qed

lemma activate_identity_refused:
  "active_protocol_agent_ids k w = [] \<Longrightarrow> activate_identity k now w = (Inr False, w)"
  by (simp add: activate_identity_def bind_def gets_def ret_def)

lemma activate_agent_run:
  assumes "find_identity k w = Some a" "ai_owner_user_id (agg_identity a) = u" "ai_status (agg_identity a) = Identity_inactive"
    and "activate_identity k (env_clock env (w_clock_ticks w)) (w\<lparr>w_clock_ticks := Suc (w_clock_ticks w)\<rparr>) = (Inr True, y)"
    and "append_identity_audit env ''agent.identity_activated'' a (Some u) None y = (Inr (), v)"
  shows "activate_agent_identity env k u w = (Inr (), v)"
  using assms
  by (simp add: activate_agent_identity_def bind_def controlled_ok [THEN iffD2, of w w k a u] new_date_def require_def ret_def)

lemma deactivate_agent_run:
  assumes "find_identity k w = Some a" "ai_owner_user_id (agg_identity a) = u"
    and "deactivate_identity k (env_clock env (w_clock_ticks w)) False (w\<lparr>w_clock_ticks := Suc (w_clock_ticks w)\<rparr>) = (Inr True, y)"
    and "append_identity_audit env ''agent.identity_deactivated'' a (Some u) None y = (Inr (), v)"
  shows "deactivate_agent_identity env k u w = (Inr (), v)"
  using assms
  by (simp add: deactivate_agent_identity_def bind_def controlled_ok [THEN iffD2, of w w k a u] new_date_def require_def ret_def)

lemma find_active_inactive:
  assumes "\<forall>i \<in> set (w_identities w). ai_id i = k \<longrightarrow> ai_status i = Identity_inactive"
    and "find_active_by_protocol_agent p w = Some a"
  shows "ai_id (agg_identity a) \<noteq> k"
  using active_by_protocol_agent [OF assms(2)] assms(1) by (auto simp: aggregate_def)

text \<open>
  Deactivation is reversible: a controller who deactivates an active Agent with an active
  installation and activates it again succeeds both times; in between no protocol agent resolves
  to the identity, and afterwards every table is what it was, except for the identity's
  modification time and the two audit events.
\<close>

theorem deactivate_activate_round_trip:
  assumes wf: "well_formed w" and a: "find_identity k w = Some a" "ai_owner_user_id (agg_identity a) = u"
    and active: "ai_status (agg_identity a) = Identity_active" "active_protocol_agent_ids k w \<noteq> []"
    and fresh: "fresh_ids env w"
  shows "\<exists>w1 w2 t e1 e2. deactivate_agent_identity env k u w = (Inr (), w1) \<and>
     activate_agent_identity env k u w1 = (Inr (), w2) \<and>
     (\<forall>p b. find_active_by_protocol_agent p w1 = Some b \<longrightarrow> ai_id (agg_identity b) \<noteq> k) \<and>
     au_action e1 = ''agent.identity_deactivated'' \<and> au_action e2 = ''agent.identity_activated'' \<and>
     w2 = w\<lparr>w_identities := update_where (\<lambda>i. ai_id i = k) (\<lambda>i. i\<lparr>ai_updated_at := t\<rparr>) (w_identities w),
       w_audits := w_audits w @ [e1, e2], w_ids_taken := w_ids_taken w + 2, w_clock_ticks := w_clock_ticks w + 4\<rparr>"
proof -
  let ?t1 = "env_clock env (w_clock_ticks w)" and ?i = "agg_identity a"
  let ?off = "update_where (\<lambda>r. ai_id r = k) (\<lambda>r. r\<lparr>ai_status := Identity_inactive, ai_updated_at := ?t1\<rparr>) (w_identities w)"
  let ?v = "w\<lparr>w_clock_ticks := Suc (w_clock_ticks w), w_identities := ?off\<rparr>"
  note live = find_identity_live [OF a(1)]
  have "fresh_ids env ?v" using fresh by (simp add: fresh_ids_def)
  then obtain e1 w1 where w1: "append_identity_audit env ''agent.identity_deactivated'' a (Some u) None ?v = (Inr (), w1)"
    "w1 = ?v\<lparr>w_ids_taken := Suc (w_ids_taken w), w_clock_ticks := Suc (Suc (w_clock_ticks w)), w_audits := w_audits w @ [e1]\<rparr>"
    and e1: "au_action e1 = ''agent.identity_deactivated''" "au_id e1 = env_ids env (w_ids_taken w)"
    using append_identity_audit_run [of env ?v] by fastforce
  have off: "deactivate_agent_identity env k u w = (Inr (), w1)"
    using deactivate_identity_run [of k "w\<lparr>w_clock_ticks := Suc (w_clock_ticks w)\<rparr>" ?i ?t1] live a active w1(1)
    by (intro deactivate_agent_run) (simp_all add: live_identity_def)
  let ?j = "?i\<lparr>ai_status := Identity_inactive, ai_updated_at := ?t1\<rparr>"
  let ?t2 = "env_clock env (Suc (Suc (w_clock_ticks w)))"
  have found: "find_identity k w1 = Some (aggregate w1 ?j)"
    using live by (simp add: live_identity_def find_identity_def w1(2) find_switched_off)
  let ?x = "w1\<lparr>w_clock_ticks := Suc (w_clock_ticks w1)\<rparr>"
  let ?on = "update_where (\<lambda>i. ai_id i = k \<and> ai_status i = Identity_inactive \<and> ai_deleted_at i = None)
     (\<lambda>i. i\<lparr>ai_status := Identity_active, ai_updated_at := ?t2\<rparr>) (w_identities w1)"
  let ?y = "?x\<lparr>w_identities := ?on\<rparr>"
  have only: "ai_status r = Identity_active \<and> ai_deleted_at r = None"
    if "r \<in> set (w_identities w)" "ai_id r = k" for r
    using one_identity [OF wf that(1), of ?i] live active(1) that(2) by simp
  have on: "activate_identity k ?t2 ?x = (Inr True, ?y)"
  proof (rule activate_identity_run [of k ?x, simplified])
    show "active_protocol_agent_ids k ?x \<noteq> []"
      using active(2) by (simp add: active_protocol_agent_ids_def w1(2))
    show "list_ex (\<lambda>i. ai_id i = k \<and> ai_status i = Identity_inactive \<and> ai_deleted_at i = None) (w_identities w1)"
      using find_identity_live [OF found] unfolding list_ex_iff by (intro bexI [of _ ?j]) (simp_all add: aggregate_def)
  qed
  have "fresh_ids env ?y"
    by (rule fresh_ids_appended [OF fresh, of _ e1]) (simp_all add: w1(2) e1(2))
  from append_identity_audit_run [OF this, of "''agent.identity_activated''" "aggregate w1 ?j" "Some u" None]
  obtain e2 where e2: "au_action e2 = ''agent.identity_activated''" and
    w2: "append_identity_audit env ''agent.identity_activated'' (aggregate w1 ?j) (Some u) None ?y = (Inr (),
      ?y\<lparr>w_ids_taken := Suc (w_ids_taken ?y), w_clock_ticks := Suc (w_clock_ticks ?y), w_audits := w_audits ?y @ [e2]\<rparr>)"
    (is "_ = (Inr (), ?w2)") by blast
  have "activate_agent_identity env k u w1 = (Inr (), ?w2)"
  proof (rule activate_agent_run [OF found])
    show "activate_identity k (env_clock env (w_clock_ticks w1)) (w1\<lparr>w_clock_ticks := Suc (w_clock_ticks w1)\<rparr>) = (Inr True, ?y)"
      using on by (simp add: w1(2))
  qed (use a(2) w2 in \<open>simp_all add: aggregate_def\<close>)
  moreover have "?w2 = w\<lparr>w_identities := update_where (\<lambda>i. ai_id i = k) (\<lambda>i. i\<lparr>ai_updated_at := ?t2\<rparr>) (w_identities w),
       w_audits := w_audits w @ [e1, e2], w_ids_taken := w_ids_taken w + 2, w_clock_ticks := w_clock_ticks w + 4\<rparr>"
    using off_and_on [OF only] by (simp add: w1(2))
  moreover have "ai_id (agg_identity b) \<noteq> k" if "find_active_by_protocol_agent p w1 = Some b" for p b
    by (rule find_active_inactive [OF _ that]) (simp add: w1(2) ball_update_where)
  ultimately show ?thesis using off e1(1) e2 by blast
qed

theorem deactivate_activate_round_trip_witness:
  "\<exists>w2. activate_agent_identity sample_env ''i1'' ''u1''
     (snd (deactivate_agent_identity sample_env ''i1'' ''u1'' sample_world)) = (Inr (), w2) \<and>
     w_bindings w2 = w_bindings sample_world"
proof -
  have ids: "inj (env_ids sample_env)"
    by (simp add: sample_env_def inj_def)
  have fresh: "fresh_ids sample_env sample_world"
    using ids by (simp add: fresh_ids_def sample_world_def empty_world_def)
  have a: "find_identity ''i1'' sample_world = Some (aggregate sample_world sample_identity)"
    "ai_owner_user_id (agg_identity (aggregate sample_world sample_identity)) = ''u1''"
    "ai_status (agg_identity (aggregate sample_world sample_identity)) = Identity_active"
    "active_protocol_agent_ids ''i1'' sample_world \<noteq> []" by code_simp+
  from deactivate_activate_round_trip [OF sample_world_well_formed a fresh] show ?thesis by fastforce
qed

lemma deactivate_revoking_ok:
  assumes "deactivate_identity k now True w = (Inr True, v)"
  shows "w_identities v = update_where (\<lambda>i. ai_id i = k)
       (\<lambda>i. i\<lparr>ai_status := Identity_inactive, ai_updated_at := now\<rparr>) (w_identities w) \<and>
     w_bindings v = update_where (\<lambda>b. ab_agent_identity_id b = k \<and> ab_status b = ''active'')
       (\<lambda>b. b\<lparr>ab_status := ''revoked'', ab_revoked_at := Some now, ab_updated_at := now\<rparr>) (w_bindings w) \<and>
     w_agents v = update_where (\<lambda>a. ag_id a \<in> set (active_protocol_agent_ids k w))
       (\<lambda>a. a\<lparr>ag_status := ''revoked'', ag_updated_at := now\<rparr>) (w_agents w) \<and>
     w_clock_ticks v = w_clock_ticks w"
  using assms unfolding deactivate_identity_def
  by (auto simp: bind_ok_iff revoke_protocol_agent_statements_def update_identities_def update_bindings_def
      update_agents_def update_grants_def update_approvals_def split: option.splits if_splits)

lemma activate_agent_refused:
  assumes "find_identity k w = Some a" "ai_owner_user_id (agg_identity a) = u" "ai_status (agg_identity a) = Identity_inactive"
    and "active_protocol_agent_ids k w = []"
  shows "activate_agent_identity env k u w =
     (Inl (bad_request ''Agent identity requires a new installation before it can be activated.''),
      w\<lparr>w_clock_ticks := Suc (w_clock_ticks w)\<rparr>)"
proof -
  have "active_protocol_agent_ids k (w\<lparr>w_clock_ticks := Suc (w_clock_ticks w)\<rparr>) = []"
    using assms(4) by (simp add: active_protocol_agent_ids_def)
  note refused = activate_identity_refused [OF this]
  show ?thesis
    using assms(1-3)
    by (simp add: activate_agent_identity_def bind_def controlled_ok [THEN iffD2, of w w k a u] new_date_def
        require_def throw_def refused)
qed

text \<open>
  C23. Recovery evicts every installation: when a controller's recovery returns, no binding of the
  identity is active, the protocol agents that were bound to it are revoked, none of its
  entitlements is active, and activating it is refused, without writing anything, until a new
  installation is enrolled.
\<close>

theorem recovery_requires_new_installation:
  assumes wf: "well_formed w" and run: "recover_agent_identity env k u w = (Inr r, v)"
  shows "active_protocol_agent_ids k v = [] \<and>
     (\<forall>a \<in> set (w_agents v). ag_id a \<in> set (active_protocol_agent_ids k w) \<longrightarrow> ag_status a = ''revoked'') \<and>
     list_active_entitlements_by_agent k (env_clock env (Suc (w_clock_ticks w))) v = [] \<and>
     activate_agent_identity env k u v =
       (Inl (bad_request ''Agent identity requires a new installation before it can be activated.''),
        v\<lparr>w_clock_ticks := Suc (w_clock_ticks v)\<rparr>)"
proof -
  let ?now = "env_clock env (w_clock_ticks w)" and ?t = "w\<lparr>w_clock_ticks := Suc (w_clock_ticks w)\<rparr>"
  from run obtain a x y where a: "find_identity k w = Some a" "ai_owner_user_id (agg_identity a) = u"
    and x: "deactivate_identity k ?now True ?t = (Inr True, x)"
    and y: "revoke_agent_resource_access env k x = (Inr (), y)"
    and v: "append_identity_audit env ''agent.identity_recovered'' a (Some u) None y = (Inr r, v)"
    by (auto simp: recover_agent_identity_def bind_ok_iff controlled_ok new_date_def)
  have wfx: "well_formed x"
    using evolvesD [OF keeps_well_formed.law_deactivate x] keeps_well_formed.take_time wf by blast
  note off = deactivate_revoking_ok [OF x, simplified]
  note acc = access_revocation_ok [OF wfx y]
  obtain ls fs where y_eq: "y = x\<lparr>w_clock_ticks := Suc (w_clock_ticks x), w_leases := ls, w_entitlements := fs\<rparr>"
    using revoke_access_tables [OF y] by blast
  obtain e where v_eq: "v = y\<lparr>w_ids_taken := Suc (w_ids_taken y), w_clock_ticks := Suc (w_clock_ticks y),
       w_audits := w_audits y @ [e]\<rparr>"
    using append_identity_audit_ok [OF v] by blast
  have "\<forall>b \<in> set (w_bindings v). ab_agent_identity_id b = k \<longrightarrow> ab_status b \<noteq> ''active''"
    using off by (simp add: v_eq y_eq ball_update_where)
  then have evicted: "active_protocol_agent_ids k v = []"
    by (simp add: active_protocol_agent_ids_def filter_empty_conv)
  have "find_identity k v = Some (aggregate v ((agg_identity a)\<lparr>ai_status := Identity_inactive, ai_updated_at := ?now\<rparr>))"
    using off find_identity_live [OF a(1)]
    by (simp add: find_identity_def live_identity_def v_eq y_eq find_switched_off)
  from activate_agent_refused [OF this _ _ evicted] a(2)
  have "activate_agent_identity env k u v =
       (Inl (bad_request ''Agent identity requires a new installation before it can be activated.''),
        v\<lparr>w_clock_ticks := Suc (w_clock_ticks v)\<rparr>)" by (simp add: aggregate_def)
  moreover have "list_active_entitlements_by_agent k (env_clock env (Suc (w_clock_ticks w))) v = []"
    using acc off by (simp add: v_eq list_active_entitlements_by_agent_def)
  moreover have "\<forall>a \<in> set (w_agents v). ag_id a \<in> set (active_protocol_agent_ids k w) \<longrightarrow> ag_status a = ''revoked''"
    using off by (simp add: v_eq y_eq ball_update_where active_protocol_agent_ids_def)
  ultimately show ?thesis using evicted by blast
qed

theorem recovery_requires_new_installation_witness:
  "fst (recover_agent_identity sample_env ''i1'' ''u1'' sample_world) = Inr () \<and>
   active_protocol_agent_ids ''i1'' (snd (recover_agent_identity sample_env ''i1'' ''u1'' sample_world)) = []"
proof -
  let ?run = "recover_agent_identity sample_env ''i1'' ''u1'' sample_world"
  have ok: "fst ?run = Inr ()" by code_simp
  then have "?run = (Inr (), snd ?run)" by (metis prod.collapse)
  from recovery_requires_new_installation [OF sample_world_well_formed this] ok show ?thesis by blast
qed

lemma filter_key:
  assumes "distinct (map k rows)" "r \<in> set rows" "P r"
  shows "filter (\<lambda>x. k x = k r \<and> P x) rows = [r]"
  using assms(1,2)
proof (induction rows)
  case (Cons x rows)
  show ?case
  proof (cases "x = r")
    case True
    with Cons.prems(1) have "filter (\<lambda>x. k x = k r \<and> P x) rows = []"
      unfolding filter_empty_conv by (metis distinct.simps(2) imageI list.simps(9) set_map)
    with True assms(3) show ?thesis by simp
  next
    case False
    then have r: "r \<in> set rows" using Cons.prems(2) by simp
    then have "k x \<noteq> k r" using Cons.prems(1) by (metis distinct.simps(2) imageI list.simps(9) set_map)
    then show ?thesis using Cons.IH [OF _ r] Cons.prems(1) by simp
  qed
qed simp

lemma find_key:
  assumes "distinct (map k rows)" "r \<in> set rows" "P r"
  shows "find (\<lambda>x. k x = k r \<and> P x) rows = Some r"
  using filter_key [of k rows r P, OF assms] by (simp add: find_filter_first)

lemma active_pair:
  assumes wf: "well_formed w" and b: "b \<in> set (w_bindings w)" "ab_status b = ''active''"
    and i: "i \<in> set (w_identities w)" "ai_id i = ab_agent_identity_id b" "ai_status i = Identity_active" "ai_deleted_at i = None"
  shows "active_binding_pairs (ab_protocol_agent_id b) w = [(b, i)]" and "\<exists>h. with_host w b = Some h"
proof -
  have keys: "distinct (map ab_protocol_agent_id (w_bindings w))" "distinct (map ai_id (w_identities w))"
    using wf by (simp_all add: well_formed_def keys_unique_def identities_unique_def)
  have "filter (\<lambda>x. ab_protocol_agent_id x = ab_protocol_agent_id b \<and> ab_status x = ''active'') (w_bindings w) = [b]"
    by (rule filter_key [of ab_protocol_agent_id "w_bindings w" b "\<lambda>x. ab_status x = ''active''", OF keys(1) b])
  moreover have "find (\<lambda>x. ai_id x = ai_id i \<and> ai_status x = Identity_active \<and> ai_deleted_at x = None) (w_identities w) = Some i"
    by (rule find_key [of ai_id "w_identities w" i "\<lambda>x. ai_status x = Identity_active \<and> ai_deleted_at x = None", OF keys(2) i(1)])
      (simp add: i)
  ultimately show "active_binding_pairs (ab_protocol_agent_id b) w = [(b, i)]"
    by (simp add: active_binding_pairs_def map_filter_simps i(2))
  have "ab_protocol_agent_id b \<in> ag_id ` set (w_agents w)"
    using wf b(1) by (auto simp: well_formed_def references_hold_def)
  then show "\<exists>h. with_host w b = Some h"
    by (cases "find (\<lambda>a. ag_id a = ab_protocol_agent_id b) (w_agents w)") (auto simp: with_host_def find_None_iff)
qed

text \<open>
  C29. Resolving a protocol agent is sound and complete: it yields an identity exactly when the
  protocol agent has an active binding to an identity that is active and not deleted, and then
  that identity; the lookup that also yields the binding agrees with it, and the use case that
  requires an active identity refuses exactly the others.
\<close>

theorem protocol_agent_resolution:
  assumes wf: "well_formed w"
  shows "(find_active_by_protocol_agent p w = Some a \<longleftrightarrow>
       (\<exists>b \<in> set (w_bindings w). \<exists>i \<in> set (w_identities w). ab_protocol_agent_id b = p \<and> ab_status b = ''active'' \<and>
          ab_agent_identity_id b = ai_id i \<and> ai_status i = Identity_active \<and> ai_deleted_at i = None \<and> a = aggregate w i)) \<and>
     map_option fst (find_active_binding_by_protocol_agent p w)
       = map_option agg_identity (find_active_by_protocol_agent p w) \<and>
     fst (require_active_agent_identity p w) = (case find_active_by_protocol_agent p w of Some b \<Rightarrow> Inr b
       | None \<Rightarrow> Inl (forbidden ''Agent protocol identity is not bound to an active Realmroot Agent identity.''))"
proof (cases "\<exists>b \<in> set (w_bindings w). \<exists>i \<in> set (w_identities w). ab_protocol_agent_id b = p \<and> ab_status b = ''active'' \<and>
          ab_agent_identity_id b = ai_id i \<and> ai_status i = Identity_active \<and> ai_deleted_at i = None")
  case True
  then obtain b i where b: "b \<in> set (w_bindings w)" "ab_status b = ''active''" "ab_protocol_agent_id b = p"
    and i: "i \<in> set (w_identities w)" "ai_id i = ab_agent_identity_id b" "ai_status i = Identity_active" "ai_deleted_at i = None"
    by auto
  note pair = active_pair(1) [OF wf b(1,2) i, unfolded b(3)]
  have resolved: "find_active_by_protocol_agent p w = Some (aggregate w i)"
    by (simp add: find_active_by_protocol_agent_def pair)
  have same: "aggregate w i' = aggregate w i" if "b' \<in> set (w_bindings w)" "i' \<in> set (w_identities w)"
    "ab_protocol_agent_id b' = p" "ab_status b' = ''active''" "ab_agent_identity_id b' = ai_id i'"
    "ai_status i' = Identity_active" "ai_deleted_at i' = None" for b' i'
    using active_pair(1) [OF wf that(1,4,2) that(5)[symmetric] that(6,7)] pair that(3) by simp
  obtain h where "with_host w b = Some h" using active_pair(2) [OF wf b(1,2) i] by blast
  then have joined: "map_option fst (find_active_binding_by_protocol_agent p w) = Some i"
    by (simp add: find_active_binding_by_protocol_agent_def pair map_filter_simps)
  have "fst (require_active_agent_identity p w) = Inr (aggregate w i)"
    by (simp add: require_active_agent_identity_def bind_def gets_def found_def ret_def resolved)
  with joined have others: "map_option fst (find_active_binding_by_protocol_agent p w)
       = map_option agg_identity (find_active_by_protocol_agent p w) \<and>
     fst (require_active_agent_identity p w) = (case find_active_by_protocol_agent p w of Some b \<Rightarrow> Inr b
       | None \<Rightarrow> Inl (forbidden ''Agent protocol identity is not bound to an active Realmroot Agent identity.''))"
    by (simp add: resolved aggregate_def)
  show ?thesis
  proof (intro conjI iffI)
    assume "find_active_by_protocol_agent p w = Some a"
    then have "a = aggregate w i" by (simp add: resolved)
    then show "\<exists>b \<in> set (w_bindings w). \<exists>i \<in> set (w_identities w). ab_protocol_agent_id b = p \<and> ab_status b = ''active'' \<and>
          ab_agent_identity_id b = ai_id i \<and> ai_status i = Identity_active \<and> ai_deleted_at i = None \<and> a = aggregate w i"
      by (intro bexI [of _ b] bexI [of _ i]) (simp_all add: b i)
  next
    assume "\<exists>b \<in> set (w_bindings w). \<exists>i \<in> set (w_identities w). ab_protocol_agent_id b = p \<and> ab_status b = ''active'' \<and>
          ab_agent_identity_id b = ai_id i \<and> ai_status i = Identity_active \<and> ai_deleted_at i = None \<and> a = aggregate w i"
    then show "find_active_by_protocol_agent p w = Some a" using same by (elim bexE conjE) (simp add: resolved)
  qed (use others in \<open>simp_all only:\<close>)
next
  case False
  then have none: "find_active_by_protocol_agent p w = None"
    using active_by_protocol_agent [of p w] by (cases "find_active_by_protocol_agent p w") blast+
  then have "active_binding_pairs p w = []"
    by (auto simp: find_active_by_protocol_agent_def split: list.splits)
  with none False show ?thesis
    by (auto simp: find_active_binding_by_protocol_agent_def map_filter_simps require_active_agent_identity_def
        bind_def gets_def found_def throw_def)
qed

theorem protocol_agent_resolution_witness:
  "fst (require_active_agent_identity ''p1'' sample_world) = (case find_active_by_protocol_agent ''p1'' sample_world of
     Some b \<Rightarrow> Inr b
   | None \<Rightarrow> Inl (forbidden ''Agent protocol identity is not bound to an active Realmroot Agent identity.'')) \<and>
   find_active_by_protocol_agent ''p1'' sample_world = Some (aggregate sample_world sample_identity)"
proof -
  have "find_active_by_protocol_agent ''p1'' sample_world = Some (aggregate sample_world sample_identity)" by code_simp
  with protocol_agent_resolution [OF sample_world_well_formed, of "''p1''"] show ?thesis by blast
qed

end
