(* ===== verification/Agent_Replays.thy ===== *)
theory Agent_Replays
  imports Agent_Operations
begin

text \<open>
  What an enrollment and a creation promise when they are repeated: an approval happens once, an
  idempotency key is bound to the request that used it first, and a retried creation answers
  with the Agent it created.
\<close>

section \<open>Approval\<close>

lemma fst_InrD: "\<not> isl (fst r) \<Longrightarrow> \<exists>x v. r = (Inr x, v)"
  by (cases r, cases "fst r") auto

lemma assert_controller_ok [simp]: "assert_controller h u w = (Inr x, w') \<longleftrightarrow> w' = w \<and> home_user h = u"
  by (auto simp: assert_controller_def)

lemma can_enroll_ok:
  "assert_protocol_agent_can_enroll p u w = (Inr x, w') \<longleftrightarrow>
     w' = w \<and> (\<exists>a. find_protocol_agent p w = Some a \<and> ag_status a = ''active'' \<and> ag_user_id a = Some u) \<and>
     find_binding_by_protocol_agent p w = None"
  by (auto simp: assert_protocol_agent_can_enroll_def bind_ok_iff split: option.splits)

lemma with_host_counters [simp]:
  "with_host (w\<lparr>w_clock_ticks := n\<rparr>) = with_host w" "with_host (w\<lparr>w_ids_taken := n\<rparr>) = with_host w"
  by (rule ext, simp add: with_host_def)+

lemma available_ok [simp]:
  "require_available_agent_username n w = (Inr x, w') \<longleftrightarrow> w' = w \<and> find_by_username n w = None"
  by (auto simp: require_available_agent_username_def bind_ok_iff)

lemma approval_guards_ok:
  assumes "approval_guards env t u w = (Inr r, v)"
  shows "v = w\<lparr>w_clock_ticks := Suc (w_clock_ticks w)\<rparr> \<and> find_intent t w = Some r \<and> ei_status r = ''pending'' \<and>
     env_clock env (w_clock_ticks w) < ei_expires_at r \<and> ei_owner_user_id r = u \<and>
     (\<exists>a. find_protocol_agent (ei_protocol_agent_id r) w = Some a \<and> ag_status a = ''active'' \<and> ag_user_id a = Some u) \<and>
     find_binding_by_protocol_agent (ei_protocol_agent_id r) w = None"
  using assms
  by (auto simp: approval_guards_def bind_ok_iff new_date_def can_enroll_ok intent_home_space_def find_intent_def
      find_protocol_agent_def find_binding_by_protocol_agent_def binding_rows_def with_host_def)

lemma approval_identity_ok:
  assumes "approval_identity env r issuer now w = (Inr (k, new), v)"
  shows "\<exists>n. v = w\<lparr>w_ids_taken := n\<rparr> \<and> (case new of Some i \<Rightarrow> ai_id i = k \<and> ai_owner_user_id i = ei_owner_user_id r
     | None \<Rightarrow> \<exists>a. find_identity k w = Some a \<and> ai_owner_user_id (agg_identity a) = ei_owner_user_id r)"
  using assms
  by (auto simp: approval_identity_def bind_ok_iff generate_id_def require_identity_def assert_same_home_space_def
      intent_home_space_def identity_home_space_def new_agent_identity_record_def split: option.splits
      intro: exI [of _ "w_ids_taken w"])

lemma approve_intent_ok:
  assumes "approve_intent input w = (Inr a, v)"
  shows "w_intents v = update_where (\<lambda>r. ei_id r = ia_intent_id input \<and> ei_status r = ''pending'')
        (\<lambda>r. r\<lparr>ei_status := ''approved'', ei_approved_by_user_id := Some (ia_approved_by input),
               ei_approved_at := Some (ia_approved_at input), ei_updated_at := ia_approved_at input\<rparr>) (w_intents w) \<and>
     w_bindings v = w_bindings w @ [ia_binding input] \<and>
     find_identity (ab_agent_identity_id (ia_binding input)) v = Some a"
  using assms
  unfolding approve_intent_def identity_key_write_def
  by (auto simp: bind_ok_iff catch_def approval_statements_def approve_intent_statement_def Let_def
      insert_identity_def insert_binding_def insert_row_def atomically_def throw_def
      split: option.splits sum.splits if_splits prod.splits)

lemma find_first_update:
  "find (\<lambda>r. k r = t) rows = Some r \<Longrightarrow> P r \<Longrightarrow> (\<And>x. k (f x) = k x) \<Longrightarrow>
     find (\<lambda>r. k r = t) (update_where (\<lambda>r. k r = t \<and> P r) f rows) = Some (f r)"
  by (induction rows) (auto split: if_splits)

lemma approved_intent_refused:
  assumes "find_intent t w = Some r" "ei_status r \<noteq> ''pending''"
  shows "approve_agent_enrollment env t issuer u w =
     (Inl (bad_request ''Agent enrollment intent is no longer pending.''), w)"
  using assms
  by (simp add: approve_agent_enrollment_def approval_guards_def bind_def gets_def found_def ret_def require_def throw_def)

lemma decided_intent_kept:
  assumes "well_formed w" "agent_history env w v" "find_intent t w = Some r" "ei_status r \<noteq> ''pending''"
  shows "find_intent t v = Some r"
proof -
  note kept = history_of [OF assms(2,1)]
  have r: "r \<in> set (w_intents w)" "ei_id r = t" using assms(3) by (auto simp: find_intent_def dest: find_SomeD)
  have "evolved intent_step (w_intents w) (w_intents v)" using kept by (simp add: history_def)
  from evolved_row [OF this r(1)] assms(4) have "r \<in> set (w_intents v)" by (auto simp: intent_step_def)
  moreover have "distinct (map ei_id (w_intents v))" using kept by (simp add: well_formed_def keys_unique_def)
  ultimately show ?thesis using r(2) find_key_unique [of ei_id "w_intents v" r] by (simp add: find_intent_def)
qed

text \<open>
  C24. An enrollment is approved once, by its owner, in time: when an approval returns, the
  intent was pending and unexpired and the actor its owner with an active protocol agent; the
  intent is now approved by the actor and the protocol agent bound to the identity returned, and
  at every later time every further approval of it, by anyone, is refused without a write.
\<close>

theorem approval_happens_once:
  assumes wf: "well_formed w" and run: "approve_agent_enrollment env t issuer u w = (Inr view, v)"
  shows "(\<exists>r now. find_intent t w = Some r \<and> ei_status r = ''pending'' \<and>
       env_clock env (w_clock_ticks w) < ei_expires_at r \<and> ei_owner_user_id r = u \<and>
       (\<exists>a. find_protocol_agent (ei_protocol_agent_id r) w = Some a \<and> ag_status a = ''active'' \<and> ag_user_id a = Some u) \<and>
       find_intent t v = Some (r\<lparr>ei_status := ''approved'', ei_approved_by_user_id := Some u,
         ei_approved_at := Some now, ei_updated_at := now\<rparr>) \<and>
       (\<exists>b \<in> set (w_bindings v). ab_protocol_agent_id b = ei_protocol_agent_id r \<and> ab_status b = ''active'' \<and>
          ab_agent_identity_id b = av_id view)) \<and>
     (\<forall>v' issuer' u'. agent_history env v v' \<longrightarrow> approve_agent_enrollment env t issuer' u' v' =
        (Inl (bad_request ''Agent enrollment intent is no longer pending.''), v'))"
proof -
  from run obtain r x now y k new z bid q a where
    r: "approval_guards env t u w = (Inr r, x)" and now: "new_date env x = (Inr now, y)" and
    k: "approval_identity env r issuer now y = (Inr (k, new), z)" and bid: "generate_id env z = (Inr bid, q)" and
    store: "\<exists>p. approve_intent \<lparr>ia_intent_id = t, ia_identity = new,
        ia_binding = new_agent_identity_binding bid k (ei_protocol_agent_id r) now,
        ia_approved_by = u, ia_approved_at = now\<rparr> q = (Inr a, p) \<and>
      append_identity_audit env ''agent.identity_enrolled'' a (Some u) None p = (Inr (), v)" and
    view: "view = to_identity a"
    by (auto simp: approve_agent_enrollment_def bind_ok_iff)
  note guards = approval_guards_ok [OF r]
  obtain p where p: "approve_intent \<lparr>ia_intent_id = t, ia_identity = new,
        ia_binding = new_agent_identity_binding bid k (ei_protocol_agent_id r) now,
        ia_approved_by = u, ia_approved_at = now\<rparr> q = (Inr a, p)"
    "append_identity_audit env ''agent.identity_enrolled'' a (Some u) None p = (Inr (), v)" using store by blast
  note stored = approve_intent_ok [OF p(1), simplified]
  have tables: "w_intents q = w_intents w" "w_intents v = w_intents p" "w_bindings v = w_bindings p"
    using guards now approval_identity_ok [OF k] bid append_identity_audit_ok [OF p(2)]
    by (auto simp: new_date_def generate_id_def)
  let ?q = "r\<lparr>ei_status := ''approved'', ei_approved_by_user_id := Some u, ei_approved_at := Some now, ei_updated_at := now\<rparr>"
  have approved: "find_intent t v = Some ?q"
    using guards stored find_first_update [of ei_id t "w_intents w" r "\<lambda>r. ei_status r = ''pending''"]
    by (simp add: find_intent_def tables)
  have "ai_id (agg_identity a) = k"
    using stored find_identity_live [of k p a] by (simp add: new_agent_identity_binding_def)
  then have bound: "\<exists>b \<in> set (w_bindings v). ab_protocol_agent_id b = ei_protocol_agent_id r \<and> ab_status b = ''active'' \<and>
          ab_agent_identity_id b = av_id view"
    using stored by (simp add: tables view to_identity_def Let_def new_agent_identity_binding_def)
  have wfv: "well_formed v"
    using evolvesD [OF sound.law_approve run] wf by (simp add: sound_step_def)
  have "approve_agent_enrollment env t issuer' u' v' =
        (Inl (bad_request ''Agent enrollment intent is no longer pending.''), v')" if "agent_history env v v'" for v' issuer' u'
    by (rule approved_intent_refused [OF decided_intent_kept [OF wfv that approved]]) simp_all
  with guards approved bound show ?thesis by blast
qed

definition pending_intent :: agent_enrollment_intent where
  "pending_intent = \<lparr>ei_id = ''t1'', ei_agent_identity_id = None, ei_requested_name = Some ''Second'',
     ei_requested_username = Some ''second'', ei_requested_runtime = Some ''codex'', ei_owner_user_id = ''u1'',
     ei_protocol_agent_id = ''p2'', ei_idempotency_key = Some ''key-1'', ei_status = ''pending'',
     ei_created_by_user_id = ''u1'', ei_approved_by_user_id = None, ei_expires_at = 600000, ei_approved_at = None,
     ei_created_at = 5, ei_updated_at = 5\<rparr>"

definition enrolling_world :: world where
  "enrolling_world = sample_world\<lparr>w_intents := [pending_intent]\<rparr>"

lemma enrolling_world_well_formed: "well_formed enrolling_world"
  by code_simp

theorem approval_happens_once_witness:
  "\<exists>v view. approve_agent_enrollment sample_env ''t1'' ''https://id'' ''u1'' enrolling_world = (Inr view, v) \<and>
     approve_agent_enrollment sample_env ''t1'' ''https://id'' ''u1'' v =
       (Inl (bad_request ''Agent enrollment intent is no longer pending.''), v)"
proof -
  let ?run = "approve_agent_enrollment sample_env ''t1'' ''https://id'' ''u1'' enrolling_world"
  have "\<not> isl (fst ?run)" by code_simp
  then obtain view v where run: "?run = (Inr view, v)" using fst_InrD by blast
  from approval_happens_once [OF enrolling_world_well_formed run] run agent_history.Begin show ?thesis by blast
qed

section \<open>Enrollment intents and their idempotency keys\<close>

lemma intent_by_key:
  assumes "well_formed w" "q \<in> set (w_intents w)" "ei_protocol_agent_id q = p" "ei_idempotency_key q = Some key"
  shows "find_intent_by_idempotency_key p key w = Some q"
proof -
  have d: "distinct (List.map_filter intent_key (w_intents w))"
    using assms(1) by (simp add: well_formed_def keys_unique_def)
  have q: "intent_key q = Some (p, key)" using assms(3,4) by (simp add: intent_key_def)
  have "x = q" if "x \<in> set (w_intents w)" "ei_protocol_agent_id x = p \<and> ei_idempotency_key x = Some key" for x
    by (rule distinct_map_filter_eq [OF d q assms(2) that(1)]) (use that(2) in \<open>simp add: intent_key_def\<close>)
  then have "find_intent_by_idempotency_key p key w \<in> {None, Some q}"
    unfolding find_intent_by_idempotency_key_def
    by (cases "find (\<lambda>r. ei_protocol_agent_id r = p \<and> ei_idempotency_key r = Some key) (w_intents w)")
      (blast dest: find_SomeD)+
  moreover have "find_intent_by_idempotency_key p key w \<noteq> None"
    unfolding find_intent_by_idempotency_key_def find_None_iff using assms(2-4) by blast
  ultimately show ?thesis by blast
qed

lemma matching_run:
  "require_matching_identity_enrollment r (a, b, c) h u w =
     (if ei_created_by_user_id r \<noteq> u then (Inl (forbidden ''This Agent cannot replay the enrollment request.''), w)
      else if ei_agent_identity_id r = None \<and> ei_requested_name r = b \<and> ei_requested_username r = a \<and>
        ei_requested_runtime r = c \<and> ei_owner_user_id r = home_user h then (Inr (), w)
      else (Inl (conflict ''Idempotency-Key was already used for a different Agent identity enrollment.''), w))"
  by (simp add: require_matching_identity_enrollment_def bind_def require_def ret_def throw_def)

text \<open>What a repeated request answers when the intent of its key carries a profile.\<close>

lemma replay_run:
  assumes "find_intent_by_idempotency_key (lg_protocol_agent_id input) key w = Some q"
    and "present (ei_requested_username q) = Some n"
  shows "create_agent_enrollment_intent env input u key w =
     (if ei_created_by_user_id q \<noteq> u then (Inl (forbidden ''This Agent cannot replay the enrollment request.''), w)
      else if ei_agent_identity_id q = None \<and> ei_requested_name q = Some (ip_name (profile_of input)) \<and>
        ei_requested_username q = Some (lg_username input) \<and> ei_requested_runtime q = Some (lg_runtime input) \<and>
        ei_owner_user_id q = u then (Inr (to_intent q, True), w)
      else (Inl (conflict ''Idempotency-Key was already used for a different Agent identity enrollment.''), w))"
  using assms
  by (simp add: create_agent_enrollment_intent_def replay_identity_intent_def Let_def bind_def gets_def ret_def
      profile_columns_def matching_run) (simp add: profile_of_def)

lemma create_intent_ok:
  assumes "create_intent_idempotently r key w = (Inr (q, c), v)" "find_intent_by_idempotency_key (ei_protocol_agent_id r) key w = None"
  shows "q = r \<and> c \<and> w_intents v = w_intents w @ [r]"
  using assms by (auto simp: create_intent_idempotently_def insert_intent_def insert_row_def split: sum.splits if_splits option.splits)

lemma first_enrollment_ok:
  assumes "find_intent_by_idempotency_key (lg_protocol_agent_id input) key w = None"
    and "find_active_by_protocol_agent (lg_protocol_agent_id input) w = None"
    and run: "create_agent_enrollment_intent env input u key w = (Inr (iv, replayed), v)"
  shows "\<exists>i now r c. create_intent_idempotently
       (new_intent i None (profile_columns (profile_of input)) (Personal u) (lg_protocol_agent_id input) key ''pending'' u now)
       key (w\<lparr>w_clock_ticks := Suc (w_clock_ticks w), w_ids_taken := Suc (w_ids_taken w)\<rparr>) = (Inr (r, c), v) \<and>
     iv = to_intent r \<and> replayed = (\<not> c)"
proof -
  let ?y = "w\<lparr>w_clock_ticks := Suc (w_clock_ticks w), w_ids_taken := Suc (w_ids_taken w)\<rparr>"
  let ?r = "new_intent (env_ids env (w_ids_taken w)) None (profile_columns (profile_of input)) (Personal u)
    (lg_protocol_agent_id input) key ''pending'' u (env_clock env (w_clock_ticks w))"
  from run assms(1,2) have "bind (create_intent_idempotently ?r key) (\<lambda>(reserved, created).
       bind (require_matching_identity_enrollment reserved (profile_columns (profile_of input)) (Personal u) u) (\<lambda>_.
       ret (to_intent reserved, \<not> created))) ?y = (Inr (iv, replayed), v)"
    by (auto simp: create_agent_enrollment_intent_def Let_def bind_ok_iff [of "gets f" for f]
        bind_ok_iff [of "assert_controller h u" for h u] bind_ok_iff [of "assert_protocol_agent_can_enroll h u" for h u]
        bind_ok_iff [of "require_available_agent_username h" for h] bind_ok_iff [of "new_date env"]
        bind_ok_iff [of "generate_id env"] bind_ok_iff [of "require b e" for b e]
        new_date_def generate_id_def can_enroll_ok)
  then obtain r c x where "create_intent_idempotently ?r key ?y = (Inr (r, c), x)"
    "bind (require_matching_identity_enrollment r (profile_columns (profile_of input)) (Personal u) u) (\<lambda>_.
       ret (to_intent r, \<not> c)) x = (Inr (iv, replayed), v)"
    by (rule bind_ok_elim) (auto split: prod.splits)
  moreover from this(2) have "x = v \<and> iv = to_intent r \<and> replayed = (\<not> c)"
    by (auto simp: bind_ok_iff matching_run profile_columns_def split: if_splits)
  ultimately show ?thesis by blast
qed


definition sample_login :: login_input where
  "sample_login = \<lparr>lg_protocol_agent_id = ''p2'', lg_username = ''second'', lg_nickname = None, lg_runtime = ''codex''\<rparr>"


section \<open>Creation by an application\<close>

text \<open>An answer recorded in a world: the reservation of the key with the identity it names.\<close>

definition recorded :: "string \<times> string \<times> string \<Rightarrow> agent_application_creation \<Rightarrow> agent_identity_aggregate \<Rightarrow> world \<Rightarrow> bool" where
  "recorded key r i w \<longleftrightarrow> r \<in> set (w_creations w) \<and> creation_key r = key \<and> ai_id (agg_identity i) = ac_agent_identity_id r"

lemma find_creation_ok:
  assumes "find_application_creation a u k w = (Inr (Some (r, i)), v)"
  shows "v = w \<and> recorded (a, u, k) r i w"
  using assms unfolding find_application_creation_def recorded_def
  by (auto simp: ret_def throw_def aggregate_def split: option.splits dest!: find_SomeD)

lemma find_creation_none:
  assumes "find_application_creation a u k w = (Inr None, v)"
  shows "v = w"
  using assms unfolding find_application_creation_def by (auto simp: ret_def throw_def split: option.splits)

lemma raced_ok:
  assumes "raced_creation c e w = (Inr (r, i, b), v)"
  shows "v = w \<and> recorded (creation_key c) r i w"
  using assms unfolding raced_creation_def creation_key_def
  by (auto simp: bind_ok_iff catch_def throw_def split: prod.splits sum.splits option.splits
      dest!: find_creation_ok)

lemma reserve_ok:
  assumes "reserve_application_creation c w = (Inr (r, i, b), v)"
  shows "recorded (creation_key c) r i v"
proof -
  let ?find = "find_application_creation (ac_application_id c) (ac_actor_user_id c) (ac_idempotency_key c)"
  from assms obtain x u where x: "?find w = (Inr x, u)" and rest: "(case x of
          Some (r, i) \<Rightarrow> ret (r, i, False)
        | None \<Rightarrow>
            (\<lambda>w. case insert_creation c w of
               Inl error \<Rightarrow> raced_creation c error w
             | Inr w' \<Rightarrow>
                 bind ?find (\<lambda>persisted. case persisted of
                      Some (r, i) \<Rightarrow> ret (r, i, True)
                    | None \<Rightarrow> throw (PlainError ''Agent application creation reservation was not persisted.'')) w')) u
      = (Inr (r, i, b), v)"
    unfolding reserve_application_creation_def by (rule bind_ok_elim)
  show ?thesis
  proof (cases x)
    case (Some q)
    with x rest show ?thesis by (auto simp: creation_key_def split: prod.splits dest: find_creation_ok)
  next
    case None
    show ?thesis
    proof (cases "insert_creation c u")
      case (Inl e)
      with None rest show ?thesis by (auto dest: raced_ok)
    next
      case (Inr y)
      with None rest show ?thesis
        by (auto simp: bind_ok_iff creation_key_def split: option.splits dest: find_creation_ok)
    qed
  qed
qed

lemma create_agent_ok:
  assumes "create_agent_with_installation input w = (Inr (r, i, b), v)"
    and named: "ac_agent_identity_id (aw_reservation input) = ai_id (aw_identity input)"
  shows "recorded (creation_key (aw_reservation input)) r i v"
proof -
  from assms(1) consider
      (found) "find_application_creation (ac_application_id (aw_reservation input)) (ac_actor_user_id (aw_reservation input))
         (ac_idempotency_key (aw_reservation input)) w = (Inr (Some (r, i)), v)"
    | (raced) e x where "raced_creation (aw_reservation input) e x = (Inr (r, i, b), v)"
    | (new) x where "batch (installation_statements input) x = Inr v" "find_identity (ai_id (aw_identity input)) v = Some i"
        "r = aw_reservation input"
  proof -
    from assms(1) obtain x u where x: "find_application_creation (ac_application_id (aw_reservation input))
         (ac_actor_user_id (aw_reservation input)) (ac_idempotency_key (aw_reservation input)) w = (Inr x, u)"
      and rest: "(case x of Some (r, i) \<Rightarrow> ret (r, i, False)
        | None \<Rightarrow> (\<lambda>w. case batch (installation_statements input) w of
               Inl error \<Rightarrow> raced_creation (aw_reservation input) error w
             | Inr w' \<Rightarrow>
                 (case find_identity (ai_id (aw_identity input)) w' of
                    None \<Rightarrow> throw (PlainError ''Agent identity and installation were not persisted.'') w'
                  | Some i \<Rightarrow> ret (aw_reservation input, i, True) w'))) u = (Inr (r, i, b), v)"
      unfolding create_agent_with_installation_def Let_def by (rule bind_ok_elim)
    show thesis
    proof (cases x)
      case (Some q)
      with x rest found show thesis by (auto split: prod.splits)
    next
      case None
      show thesis
      proof (cases "batch (installation_statements input) u")
        case (Inl e)
        with None rest raced show thesis by simp
      next
        case (Inr y)
        with None rest new show thesis by (auto simp: ret_def throw_def split: option.splits)
      qed
    qed
  qed
  then show ?thesis
  proof cases
    case found
    then show ?thesis by (auto simp: creation_key_def dest: find_creation_ok)
  next
    case raced
    then show ?thesis using raced_ok by blast
  next
    case new
    from new(1) obtain x where "insert_creation (aw_reservation input) x = Inr v"
      by (auto simp: installation_statements_def split: sum.splits)
    then have "r \<in> set (w_creations v)" using new(3) by (auto simp: insert_creation_def insert_row_def split: if_splits)
    with find_identity_live [OF new(2)] named new(3) show ?thesis by (simp add: recorded_def)
  qed
qed

abbreviation context_key :: "creation_context \<Rightarrow> string \<times> string \<times> string" where
  "context_key context \<equiv> (cc_application_id context, cc_actor_user_id context, cc_idempotency_key context)"

lemma replay_legacy_ok:
  assumes "replay_legacy_application_agent env input context fp w = (Inr (Some (view, b)), v)"
  shows "\<exists>r i. recorded (context_key context) r i v \<and> ac_request_fingerprint r = fp \<and> view = to_agent i"
  using assms unfolding replay_legacy_application_agent_def Let_def
  by (auto simp: bind_ok_iff require_matching_application_agent_creation_def require_live_application_agent_def
      creation_key_def split: option.splits dest!: reserve_ok) blast

lemma catch_ok_iff:
  "catch m h s = (Inr y, t) \<longleftrightarrow> m s = (Inr y, t) \<or> (\<exists>e u. m s = (Inl e, u) \<and> h e u = (Inr y, t))"
  by (auto simp: catch_def split: prod.splits sum.splits)

lemma create_uuid_ok:
  assumes "create_uuid_v7_application_agent env input context fp w = (Inr (r, i, b), v)"
  shows "recorded (context_key context) r i v"
  using assms unfolding create_uuid_v7_application_agent_def Let_def
  by (auto simp: bind_ok_iff creation_key_def dest!: create_agent_ok)

abbreviation answered :: "env \<Rightarrow> create_agent \<Rightarrow> creation_context \<Rightarrow> agent_view \<Rightarrow> world \<Rightarrow> bool" where
  "answered env input context view v \<equiv> \<exists>r i. recorded (context_key context) r i v \<and>
     ac_request_fingerprint r = application_agent_creation_fingerprint env input context \<and> view = to_agent i"

lemma matching_creation_ok [simp]:
  "require_matching_application_agent_creation f g w = (Inr x, v) \<longleftrightarrow> v = w \<and> f = g"
  "require_live_application_agent i w = (Inr x, v) \<longleftrightarrow> v = w \<and> ai_deleted_at (agg_identity i) = None"
  by (auto simp: require_matching_application_agent_creation_def require_live_application_agent_def)

lemma create_or_recover_ok:
  assumes "create_or_recover_application_agent env input context
      (application_agent_creation_fingerprint env input context) y = (Inr (view, replayed), v)"
  shows "answered env input context view v"
proof -
  let ?fp = "application_agent_creation_fingerprint env input context"
  from assms obtain c z where
    c: "catch (bind (create_uuid_v7_application_agent env input context ?fp) (\<lambda>c. ret (Inl c)))
         (\<lambda>error. bind (recover_legacy_application_agent_after_failure env input context ?fp error)
            (\<lambda>recovered. case recovered of Some answer \<Rightarrow> ret (Inr answer) | None \<Rightarrow> throw error)) y = (Inr c, z)" and
    rest: "(case c of Inr answer \<Rightarrow> ret answer
       | Inl (reservation, i, is_new) \<Rightarrow>
           bind (require_matching_application_agent_creation (ac_request_fingerprint reservation) ?fp) (\<lambda>_.
           bind (require_live_application_agent i) (\<lambda>_. ret (to_agent i, \<not> is_new)))) z = (Inr (view, replayed), v)"
    unfolding create_or_recover_application_agent_def by (rule bind_ok_elim)
  show ?thesis
  proof (cases c)
    case (Inl q)
    with c have "create_uuid_v7_application_agent env input context ?fp y = (Inr q, z)"
      by (auto simp: catch_ok_iff bind_ok_iff split: option.splits)
    with Inl rest show ?thesis
      by (auto simp: bind_ok_iff split: prod.splits dest!: create_uuid_ok)
  next
    case (Inr q)
    with c obtain e s where "recover_legacy_application_agent_after_failure env input context ?fp e s = (Inr (Some q), z)"
      by (auto simp: catch_ok_iff bind_ok_iff split: option.splits)
    then have "replay_legacy_application_agent env input context ?fp s = (Inr (Some q), z)"
      unfolding recover_legacy_application_agent_after_failure_def by (auto simp: catch_ok_iff split: if_splits)
    with Inr rest show ?thesis by (auto dest: replay_legacy_ok)
  qed
qed

lemma create_application_ok:
  assumes run: "create_application_agent env input context w = (Inr (view, replayed), v)"
  shows "(public_key_kid (ca_installation input) = JUndefined \<or>
        public_key_kid (ca_installation input) = JStr (in_kid (ca_installation input))) \<and>
     env_imports_jwk env (JObj (in_public_key (ca_installation input))) \<and> answered env input context view v"
proof -
  let ?fp = "application_agent_creation_fingerprint env input context"
  from run obtain x u where checks: "public_key_kid (ca_installation input) = JUndefined \<or>
        public_key_kid (ca_installation input) = JStr (in_kid (ca_installation input))"
      "env_imports_jwk env (JObj (in_public_key (ca_installation input)))"
    and x: "find_application_creation (cc_application_id context) (cc_actor_user_id context) (cc_idempotency_key context) w = (Inr x, u)"
    and rest: "(case x of
        Some (reservation, i) \<Rightarrow>
          bind (require_matching_application_agent_creation (ac_request_fingerprint reservation) ?fp) (\<lambda>_.
          bind (require_live_application_agent i) (\<lambda>_. ret (to_agent i, True)))
      | None \<Rightarrow>
          bind (replay_legacy_application_agent env input context ?fp) (\<lambda>legacy_replay.
          case legacy_replay of Some answer \<Rightarrow> ret answer
          | None \<Rightarrow> create_or_recover_application_agent env input context ?fp)) u = (Inr (view, replayed), v)"
    unfolding create_application_agent_def Let_def by (elim bind_ok_elim) (simp add: require_ok_iff)
  have "answered env input context view v"
  proof (cases x)
    case (Some q)
    with x rest show ?thesis
      by (auto simp: bind_ok_iff split: prod.splits dest!: find_creation_ok)
  next
    case None
    with rest show ?thesis
      by (auto simp: bind_ok_iff split: option.splits dest!: replay_legacy_ok dest: create_or_recover_ok)
  qed
  with checks show ?thesis by blast
qed

text \<open>What a retried request answers once its reservation exists.\<close>

lemma create_application_replay:
  assumes checks: "public_key_kid (ca_installation input) = JUndefined \<or>
        public_key_kid (ca_installation input) = JStr (in_kid (ca_installation input))"
      "env_imports_jwk env (JObj (in_public_key (ca_installation input)))"
    and existing: "find_application_creation (cc_application_id context) (cc_actor_user_id context) (cc_idempotency_key context) w
      = (Inr (Some (r, i)), w)"
  shows "create_application_agent env input context w =
     (if ac_request_fingerprint r \<noteq> application_agent_creation_fingerprint env input context
      then Inl (conflict ''Idempotency-Key was already used for a different Agent.'')
      else if ai_deleted_at (agg_identity i) \<noteq> None
      then Inl (conflict ''The Agent identity remains reserved after deletion and cannot be recreated.'')
      else Inr (to_agent i, True), w)"
  using assms
  by (simp add: create_application_agent_def Let_def bind_def require_def ret_def throw_def
      require_matching_application_agent_creation_def require_live_application_agent_def)

lemma recorded_found:
  assumes "well_formed w" "r \<in> set (w_creations w)" "creation_key r = (a, u, k)"
  shows "\<exists>j \<in> set (w_identities w). ai_id j = ac_agent_identity_id r \<and>
     find_application_creation a u k w = (Inr (Some (r, aggregate w j)), w)"
proof -
  have keys: "distinct (map creation_key (w_creations w))"
    and refers: "ac_agent_identity_id r \<in> ai_id ` set (w_identities w)"
    using assms(1,2) by (auto simp: well_formed_def keys_unique_def references_hold_def)
  have found: "find (\<lambda>q. creation_key q = (a, u, k)) (w_creations w) = Some r"
    using find_key_unique [OF keys assms(2)] assms(3) by simp
  from refers obtain j where j: "find (\<lambda>i. ai_id i = ac_agent_identity_id r) (w_identities w) = Some j"
    by (cases "find (\<lambda>i. ai_id i = ac_agent_identity_id r) (w_identities w)") (auto simp: find_None_iff)
  with find_SomeD [OF j] found show ?thesis
    by (intro bexI [of _ j]) (simp_all add: find_application_creation_def ret_def)
qed

text \<open>
  C26. An application's creation request happens at most once: after a creation returned, at every
  later time the same request under the same idempotency key answers with the same Agent and
  writes nothing, or, once the Agent was deleted, with a conflict; a request with another
  fingerprint under that key never creates anything.
\<close>

theorem creation_key_bound:
  assumes wf: "well_formed w" and run: "create_application_agent env input context w = (Inr (view, replayed), v)"
    and later: "agent_history env v v'"
  shows "(\<exists>i \<in> set (w_identities v'). ai_id i = av_id view \<and>
       create_application_agent env input context v' =
         (if ai_deleted_at i = None then Inr (to_agent (aggregate v' i), True)
          else Inl (conflict ''The Agent identity remains reserved after deletion and cannot be recreated.''), v')) \<and>
     (\<forall>input'. application_agent_creation_fingerprint env input' context
          \<noteq> application_agent_creation_fingerprint env input context \<longrightarrow>
        (\<exists>e. create_application_agent env input' context v' = (Inl e, v')))"
proof -
  note ok = create_application_ok [OF run]
  then obtain r i where r: "recorded (context_key context) r i v"
    "ac_request_fingerprint r = application_agent_creation_fingerprint env input context" "view = to_agent i" by blast
  have "well_formed v" using evolvesD [OF sound.law_create_application_agent run] wf by (simp add: sound_step_def)
  note kept = history_of [OF later this]
  have "r \<in> set (w_creations v')"
    using kept r(1) by (auto simp: history_def evolved_equal recorded_def)
  from recorded_found [OF _ this] kept r(1) obtain j where j: "j \<in> set (w_identities v')" "ai_id j = ac_agent_identity_id r"
    and found: "find_application_creation (cc_application_id context) (cc_actor_user_id context) (cc_idempotency_key context) v'
      = (Inr (Some (r, aggregate v' j)), v')"
    unfolding recorded_def by blast
  have same: "ai_id j = av_id view" using j(2) r(1,3) by (simp add: recorded_def to_agent_def Let_def)
  have "create_application_agent env input context v' =
         (if ai_deleted_at j = None then Inr (to_agent (aggregate v' j), True)
          else Inl (conflict ''The Agent identity remains reserved after deletion and cannot be recreated.''), v')"
    using create_application_replay [OF _ _ found, of input env] ok r(2) by (simp add: aggregate_def)
  moreover have "\<exists>e. create_application_agent env input' context v' = (Inl e, v')"
    if "application_agent_creation_fingerprint env input' context \<noteq> application_agent_creation_fingerprint env input context" for input'
    using that r(2) by (auto simp: create_application_agent_def Let_def bind_def require_def ret_def throw_def found
        require_matching_application_agent_creation_def)
  ultimately show ?thesis using j(1) same by blast
qed

definition sample_creation :: create_agent where
  "sample_creation = \<lparr>ca_username = ''builder'', ca_name = ''Builder'', ca_runtime = ''codex'',
     ca_installation = \<lparr>in_agent_id = ''p3'', in_host_id = ''h3'', in_name = ''ci'', in_kid = ''k'',
       in_public_key = [(''kty'', JStr ''OKP''), (''x'', JStr ''abc'')]\<rparr>\<rparr>"

definition sample_context :: creation_context where
  "sample_context = \<lparr>cc_application_id = ''app'', cc_actor_user_id = ''u1'', cc_issuer = ''https://id'',
     cc_idempotency_key = ''key-2''\<rparr>"

theorem creation_key_bound_witness:
  "\<exists>view replayed v i. create_application_agent sample_env sample_creation sample_context sample_world = (Inr (view, replayed), v) \<and>
     ai_id i = av_id view \<and> create_application_agent sample_env sample_creation sample_context v =
       (if ai_deleted_at i = None then Inr (to_agent (aggregate v i), True)
        else Inl (conflict ''The Agent identity remains reserved after deletion and cannot be recreated.''), v)"
proof -
  let ?run = "create_application_agent sample_env sample_creation sample_context sample_world"
  have "\<not> isl (fst ?run)" by code_simp
  then obtain view c v where run: "?run = (Inr (view, c), v)" using fst_InrD by fastforce
  from creation_key_bound [OF sample_world_well_formed run agent_history.Begin] run show ?thesis by blast
qed

end
