(* ===== verification/Authorization_Details.thy ===== *)
theory Authorization_Details
  imports Lease_Revocation Canonical_Json
begin

text \<open>
  Authorization details (RFC 9396) as access requests, entitlements and leases carry them, and
  their comparisons in \<open>server/usecases/external-resources.ts\<close>: exact equality and inclusion up to
  order, matching against templates, and the selections a resource accepts. \<open>key\<close> is the
  collation key of the canonical text.
\<close>

section \<open>One detail\<close>

definition detail_member :: "json \<Rightarrow> string \<Rightarrow> json" where
  "detail_member detail name =
     (case detail of JObj members \<Rightarrow> (case map_of members name of None \<Rightarrow> JUndefined | Some v \<Rightarrow> v)
      | _ \<Rightarrow> JUndefined)"

fun detail_entries :: "json \<Rightarrow> (string \<times> json) list" where
  "detail_entries (JObj members) = members"
| "detail_entries _ = []"

text \<open>\<open>String(value)\<close>: an array joins its items, and null and undefined items are empty.\<close>

fun js_text :: "json \<Rightarrow> string" where
  "js_text JNull = ''null''"
| "js_text (JBool b) = (if b then ''true'' else ''false'')"
| "js_text (JNum n) = int_text n"
| "js_text (JStr s) = s"
| "js_text (JArr items) = join_with '','' (map (\<lambda>v. if v = JNull \<or> v = JUndefined then [] else js_text v) items)"
| "js_text (JObj _) = ''[object Object]''"
| "js_text JUndefined = ''undefined''"

fun is_json_string :: "json \<Rightarrow> bool" where
  "is_json_string (JStr _) = True"
| "is_json_string _ = False"

definition authorization_detail_matches_template :: "(string \<Rightarrow> string) \<Rightarrow> json \<Rightarrow> json \<Rightarrow> bool" where
  "authorization_detail_matches_template key detail template =
     list_all (\<lambda>(name, v). canonical_json key (detail_member detail name) = canonical_json key v)
       (detail_entries template)"

section \<open>Lists of details\<close>

definition exact_authorization_details :: "(string \<Rightarrow> string) \<Rightarrow> json list \<Rightarrow> json list \<Rightarrow> bool" where
  "exact_authorization_details key left right \<longleftrightarrow>
     length left = length right \<and>
     list_all2 (=) (sort (map (canonical_json key) left)) (sort (map (canonical_json key) right))"

fun removes_all :: "string list \<Rightarrow> string list \<Rightarrow> bool" where
  "removes_all [] remaining = True"
| "removes_all (detail # details) remaining =
     (detail \<in> set remaining \<and> removes_all details (remove1 detail remaining))"

definition is_authorization_details_subset :: "(string \<Rightarrow> string) \<Rightarrow> json list \<Rightarrow> json list \<Rightarrow> bool" where
  "is_authorization_details_subset key requested allowed =
     removes_all (map (canonical_json key) requested) (map (canonical_json key) allowed)"

definition has_duplicate_authorization_details :: "(string \<Rightarrow> string) \<Rightarrow> json list \<Rightarrow> bool" where
  "has_duplicate_authorization_details key details \<longleftrightarrow>
     length (uniq (map (canonical_json key) details)) \<noteq> length (map (canonical_json key) details)"

text \<open>\<open>findIndex\<close> and \<open>splice\<close>: the list without the first element that satisfies the test.\<close>

fun without_first :: "('a \<Rightarrow> bool) \<Rightarrow> 'a list \<Rightarrow> 'a list option" where
  "without_first p [] = None"
| "without_first p (x # xs) = (if p x then Some xs else map_option (Cons x) (without_first p xs))"

definition detail_answers :: "(string \<Rightarrow> string) \<Rightarrow> json \<Rightarrow> json \<Rightarrow> bool" where
  "detail_answers key candidate requirement \<longleftrightarrow>
     canonical_json key candidate = canonical_json key requirement \<or>
     authorization_detail_matches_template key candidate requirement"

fun answers_all :: "(string \<Rightarrow> string) \<Rightarrow> json list \<Rightarrow> json list \<Rightarrow> bool" where
  "answers_all key remaining [] = True"
| "answers_all key remaining (requirement # requirements) =
     (case without_first (\<lambda>candidate. detail_answers key candidate requirement) remaining of
        None \<Rightarrow> False
      | Some rest \<Rightarrow> answers_all key rest requirements)"

definition authorization_details_match_request :: "(string \<Rightarrow> string) \<Rightarrow> json list \<Rightarrow> json list \<Rightarrow> bool" where
  "authorization_details_match_request key approved requested \<longleftrightarrow>
     \<not> (length approved \<noteq> length requested \<or>
        length (uniq (map (canonical_json key) approved)) \<noteq> length approved) \<and>
     answers_all key approved requested"

section \<open>What a resource accepts\<close>

definition requires_account_connection :: "resource_server \<Rightarrow> bool" where
  "requires_account_connection resource \<longleftrightarrow> rs_authorization_model resource = External_model"

definition invalid_authorization_details :: "string \<Rightarrow> failure" where
  "invalid_authorization_details description = oauth_error ''invalid_authorization_details'' description 400 [] []"

definition ensure :: "bool \<Rightarrow> failure \<Rightarrow> failure + unit" where
  "ensure b e = (if b then Inr () else Inl e)"

definition assert_native_authority_selection :: "json list \<Rightarrow> failure + unit" where
  "assert_native_authority_selection details =
     (let detail = (case details of [] \<Rightarrow> JUndefined | d # _ \<Rightarrow> d) in
      ensure (\<not> (length details \<noteq> 1 \<or> detail_member detail ''type'' \<noteq> JStr ''realmroot_authority'' \<or>
                 js_text (detail_member detail ''authority'') \<notin> {''organization'', ''user''} \<or>
                 \<not> is_json_string (detail_member detail ''id'')))
        (invalid_authorization_details ''Select exactly one Realmroot authority Context.''))"

definition assert_concrete_authorization_details ::
    "(string \<Rightarrow> string) \<Rightarrow> json list \<Rightarrow> json list \<Rightarrow> string \<Rightarrow> failure + unit" where
  "assert_concrete_authorization_details key templates details label =
     ensure (\<not> list_ex (\<lambda>detail.
                \<not> list_ex (authorization_detail_matches_template key detail) templates \<or>
                list_ex (\<lambda>template. canonical_json key template = canonical_json key detail) templates) details)
       (invalid_authorization_details (label @ '' authorization details must identify concrete resource contexts.''))"

definition assert_authorization_details_selection ::
    "(string \<Rightarrow> string) \<Rightarrow> resource_server \<Rightarrow> json list option \<Rightarrow> json list \<Rightarrow> failure + unit" where
  "assert_authorization_details_selection key resource connection_details details =
     (if \<not> requires_account_connection resource then assert_native_authority_selection details
      else if rs_authorization_details resource = [] then
        ensure (details = [])
          (invalid_authorization_details ''This external API resource does not use authorization details.'')
      else if (case connection_details of None \<Rightarrow> True | Some ds \<Rightarrow> ds = []) then
        Inl (invalid_authorization_details
          ''The resource account must be explicitly reauthorized for authorization details.'')
      else if details = [] then
        Inl (invalid_authorization_details ''Select at least one concrete authorization detail entry.'')
      else case assert_concrete_authorization_details key (rs_authorization_details resource) details ''Selected'' of
        Inl e \<Rightarrow> Inl e
      | Inr _ \<Rightarrow> ensure (\<not> has_duplicate_authorization_details key details)
          (invalid_authorization_details ''Selected authorization details contain duplicate entries.''))"

definition assert_access_request_authorization_details ::
    "(string \<Rightarrow> string) \<Rightarrow> resource_server \<Rightarrow> json list \<Rightarrow> failure + unit" where
  "assert_access_request_authorization_details key resource details =
     (let supported = map (\<lambda>d. detail_member d ''type'') (rs_authorization_details resource) in
      if \<not> requires_account_connection resource then assert_native_authority_selection details
      else if supported = [] then
        ensure (details = [])
          (invalid_authorization_details ''This external API resource does not use authorization details.'')
      else if details = [] then
        Inl (invalid_authorization_details ''Select at least one concrete authorization detail entry.'')
      else if list_ex (\<lambda>d. detail_member d ''type'' \<notin> set supported) details then
        Inl (invalid_authorization_details ''Requested authorization details contain an unsupported type.'')
      else case assert_concrete_authorization_details key (rs_authorization_details resource) details ''Requested'' of
        Inl e \<Rightarrow> Inl e
      | Inr _ \<Rightarrow> ensure (\<not> has_duplicate_authorization_details key details)
          (invalid_authorization_details ''Requested authorization details contain duplicate entries.''))"

definition concrete_details :: "(string \<Rightarrow> string) \<Rightarrow> resource_server \<Rightarrow> json list \<Rightarrow> json list" where
  "concrete_details key resource details =
     filter (\<lambda>d. \<not> list_ex (\<lambda>t. canonical_json key t = canonical_json key d) (rs_authorization_details resource)) details"

definition access_request_authorization_details ::
    "(string \<Rightarrow> string) \<Rightarrow> resource_server \<Rightarrow> json list \<Rightarrow> failure + json list" where
  "access_request_authorization_details key resource details =
     (let templates = rs_authorization_details resource; concrete = concrete_details key resource details in
      if \<not> requires_account_connection resource \<or> templates = [] then
        (case assert_access_request_authorization_details key resource details of Inl e \<Rightarrow> Inl e | Inr _ \<Rightarrow> Inr details)
      else if details = [] then Inr templates
      else if list_ex (\<lambda>d. \<not> list_ex (authorization_detail_matches_template key d) templates) details \<or>
              has_duplicate_authorization_details key details then
        Inl (invalid_authorization_details ''Requested authorization details contain an unsupported or duplicate entry.'')
      else if concrete \<noteq> [] then
        (case assert_access_request_authorization_details key resource concrete of Inl e \<Rightarrow> Inl e | Inr _ \<Rightarrow> Inr details)
      else Inr details)"

definition assert_authorization_details_subset ::
    "(string \<Rightarrow> string) \<Rightarrow> json list \<Rightarrow> json list \<Rightarrow> string \<Rightarrow> failure + unit" where
  "assert_authorization_details_subset key requested allowed boundary =
     ensure (is_authorization_details_subset key requested allowed)
       (invalid_authorization_details (''Requested authorization details exceed the '' @ boundary @ '' boundary.''))"

section \<open>Order does not matter\<close>

lemma exact_details_iff:
  "exact_authorization_details key l r \<longleftrightarrow>
     mset (map (canonical_json key) l) = mset (map (canonical_json key) r)"
proof -
  have "sort xs = sort ys \<longleftrightarrow> mset xs = mset ys" for xs ys :: "string list"
    by (metis mset_sort properties_for_sort sorted_sort)
  moreover have "mset (map f l) = mset (map f r) \<Longrightarrow> length l = length r" for f :: "json \<Rightarrow> string"
    by (metis length_map mset_eq_length)
  ultimately show ?thesis
    unfolding exact_authorization_details_def list.rel_eq by blast
qed

lemma removes_all_iff: "removes_all xs ys \<longleftrightarrow> mset xs \<subseteq># mset ys"
  by (induction xs arbitrary: ys) (auto simp: insert_subset_eq_iff)

lemma uniq_length_iff: "length (uniq xs) = length xs \<longleftrightarrow> distinct xs"
  using length_remdups_eq [of "rev xs"] by (simp add: uniq_def)

lemma without_first_Some:
  "without_first p xs = Some ys \<Longrightarrow> \<exists>x. p x \<and> mset xs = add_mset x (mset ys)"
proof (induction xs arbitrary: ys)
  case (Cons x xs)
  show ?case
  proof (cases "p x")
    case True
    with Cons.prems show ?thesis by auto
  next
    case False
    with Cons.prems obtain zs where "without_first p xs = Some zs" "ys = x # zs" by auto
    with Cons.IH [of zs] show ?thesis by auto
  qed
qed simp

lemma answers_all_pairs:
  "answers_all key approved requested \<Longrightarrow> length approved = length requested \<Longrightarrow>
     \<exists>order. mset order = mset approved \<and> list_all2 (detail_answers key) order requested"
proof (induction requested arbitrary: approved)
  case (Cons q qs)
  from Cons.prems obtain rest where rest: "without_first (\<lambda>c. detail_answers key c q) approved = Some rest"
    "answers_all key rest qs" by (auto split: option.splits)
  from without_first_Some [OF rest(1)] obtain c where c: "detail_answers key c q" "mset approved = add_mset c (mset rest)"
    by blast
  then have "length rest = length qs" using Cons.prems(2)
    by (metis Suc_inject length_Cons size_add_mset size_mset)
  from Cons.IH [OF rest(2) this] obtain order where "mset order = mset rest" "list_all2 (detail_answers key) order qs"
    by blast
  with c show ?case by (intro exI [of _ "c # order"]) simp
qed simp

text \<open>
  C38. Authorization details are compared as multisets of canonical texts: two lists are the
  same exactly when one is a reordering of the other, also within each detail, and a list is
  within another exactly when the other has every detail at least as often.
\<close>

theorem details_compared_as_multisets:
  "(exact_authorization_details key left right \<longleftrightarrow>
      mset (map (canonical_json key) left) = mset (map (canonical_json key) right)) \<and>
   (is_authorization_details_subset key requested allowed \<longleftrightarrow>
      mset (map (canonical_json key) requested) \<subseteq># mset (map (canonical_json key) allowed)) \<and>
   (has_duplicate_authorization_details key details \<longleftrightarrow> \<not> distinct (map (canonical_json key) details))"
  by (simp add: exact_details_iff is_authorization_details_subset_def removes_all_iff
      has_duplicate_authorization_details_def uniq_length_iff del: length_map)

text \<open>
  What an approval names answers the request: the approved details are pairwise different,
  and some order of them pairs each with one requested detail, of which it is a copy or, for a
  template, an instance.
\<close>

theorem approved_details_answer_request:
  assumes "authorization_details_match_request key approved requested"
  shows "distinct (map (canonical_json key) approved) \<and>
    (\<exists>order. mset order = mset approved \<and> list_all2 (detail_answers key) order requested)"
proof
  from assms have answers: "answers_all key approved requested" "length approved = length requested"
    and unique: "length (uniq (map (canonical_json key) approved)) = length (map (canonical_json key) approved)"
    by (simp_all add: authorization_details_match_request_def)
  from unique show "distinct (map (canonical_json key) approved)" by (rule uniq_length_iff [THEN iffD1])
  from answers show "\<exists>order. mset order = mset approved \<and> list_all2 (detail_answers key) order requested"
    by (rule answers_all_pairs)
qed

theorem approved_details_answer_request_witness:
  "list_ex (\<lambda>order. list_all2 (detail_answers (\<lambda>s. s)) order
       [JObj [(''type'', JStr ''repo'')], JObj [(''type'', JStr ''repo''), (''name'', JStr ''a'')]])
     [[JObj [(''type'', JStr ''repo''), (''name'', JStr ''b'')], JObj [(''type'', JStr ''repo''), (''name'', JStr ''a'')]]] \<and>
   distinct (map (canonical_json (\<lambda>s. s))
     [JObj [(''type'', JStr ''repo''), (''name'', JStr ''b'')], JObj [(''type'', JStr ''repo''), (''name'', JStr ''a'')]])"
  (is "list_ex _ [?approved] \<and> distinct (map ?canonical ?approved)")
proof -
  have "authorization_details_match_request (\<lambda>s. s) ?approved
     [JObj [(''type'', JStr ''repo'')], JObj [(''type'', JStr ''repo''), (''name'', JStr ''a'')]]"
    by code_simp
  from approved_details_answer_request [OF this] have "distinct (map ?canonical ?approved)" by (rule conjunct1)
  moreover have "list_ex (\<lambda>order. list_all2 (detail_answers (\<lambda>s. s)) order
       [JObj [(''type'', JStr ''repo'')], JObj [(''type'', JStr ''repo''), (''name'', JStr ''a'')]]) [?approved]"
    by code_simp
  ultimately show ?thesis by (rule conjI [rotated])
qed

text \<open>
  The pairing is greedy, so it depends on the order of the approved details: the same two
  details answer the request in one order and not in the other.
\<close>

lemma match_depends_on_order:
  "authorization_details_match_request (\<lambda>s. s)
     [JObj [(''type'', JStr ''repo''), (''name'', JStr ''b'')], JObj [(''type'', JStr ''repo''), (''name'', JStr ''a'')]]
     [JObj [(''type'', JStr ''repo'')], JObj [(''type'', JStr ''repo''), (''name'', JStr ''a'')]] \<and>
   \<not> authorization_details_match_request (\<lambda>s. s)
     [JObj [(''type'', JStr ''repo''), (''name'', JStr ''a'')], JObj [(''type'', JStr ''repo''), (''name'', JStr ''b'')]]
     [JObj [(''type'', JStr ''repo'')], JObj [(''type'', JStr ''repo''), (''name'', JStr ''a'')]]"
  by code_simp

end
