(* ===== verification/Resource_Scopes.thy ===== *)
theory Resource_Scopes
  imports Authorization_Details Scope_Registry Role_Scope Tenancy Paging
begin

text \<open>
  Which scopes a subject effectively holds on a resource server: \<open>resource-visibility.ts\<close>,
  \<open>organization-membership-scopes.ts\<close>, \<open>resource-scope-entitlements.ts\<close>, \<open>system-resources.ts\<close> and
  \<open>nativeAuthorityEffectiveScopes\<close> under \<open>server/usecases\<close>, with the queries they make
  (\<open>server/adapters/repos/authorization.ts\<close>).
\<close>

section \<open>Visibility\<close>

definition resource_visible_to_organization :: "resource_server \<Rightarrow> string \<Rightarrow> bool" where
  "resource_visible_to_organization resource organization_id \<longleftrightarrow>
     rs_visibility resource = Public_resource \<or> rs_owner_organization_id resource = organization_id"

definition active_resource_visible_to_organization :: "resource_server \<Rightarrow> string \<Rightarrow> bool" where
  "active_resource_visible_to_organization resource organization_id \<longleftrightarrow>
     rs_enabled resource \<and> resource_visible_to_organization resource organization_id"

definition active_public_resource :: "resource_server \<Rightarrow> bool" where
  "active_public_resource resource \<longleftrightarrow> rs_enabled resource \<and> rs_visibility resource = Public_resource"

definition is_realmroot :: "resource_server \<Rightarrow> bool" where
  "is_realmroot resource \<longleftrightarrow> is_realmroot_resource_server (rs_identifier resource)"

section \<open>Queries\<close>

record membership =
  mv_organization_id :: string
  mv_user_id :: string
  mv_roles :: "string list"

definition deserialize_roles :: "string \<Rightarrow> string list" where
  "deserialize_roles value = sort (uniq (filter (\<lambda>r. r \<noteq> []) (map trim (split_on (CHR '','') value))))"

definition to_member :: "organization_member \<Rightarrow> membership" where
  "to_member m = \<lparr>mv_organization_id = mb_organization_id m, mv_user_id = mb_user_id m,
     mv_roles = deserialize_roles (mb_role m)\<rparr>"

definition newest_members :: "organization_member list \<Rightarrow> organization_member list" where
  "newest_members rows = rev (sort_key (\<lambda>m. (mb_created_at m, mb_id m)) rows)"

definition list_user_memberships :: "string \<Rightarrow> world \<Rightarrow> membership list" where
  "list_user_memberships user_id w =
     map to_member (newest_members (filter (\<lambda>m. mb_user_id m = user_id) (w_members w)))"

definition find_member_by_organization_user :: "string \<Rightarrow> string \<Rightarrow> world \<Rightarrow> membership option" where
  "find_member_by_organization_user organization_id user_id w =
     map_option to_member
       (find (\<lambda>m. mb_organization_id m = organization_id \<and> mb_user_id m = user_id) (w_members w))"

definition find_organization :: "string \<Rightarrow> world \<Rightarrow> organization option" where
  "find_organization i w = find (\<lambda>o'. og_id o' = i) (w_organizations w)"

definition decode_permission_scopes :: "string list option \<Rightarrow> (string \<times> string) list" where
  "decode_permission_scopes permission =
     concat (map (\<lambda>value.
       let separator = length (takeWhile (\<lambda>c. c \<noteq> CHR ''/'') value) in
       if CHR ''/'' \<notin> set value \<or> separator < 1 \<or> separator = length value - 1 then []
       else (case (decode_uri_component (take separator value), decode_uri_component (drop (separator + 1) value)) of
               (Some resource_id, Some scope) \<Rightarrow> [(resource_id, scope)]
             | _ \<Rightarrow> []))
       (case permission of None \<Rightarrow> [] | Some values \<Rightarrow> values))"

text \<open>The map from a role to its scopes; of two rows with one role the later one counts.\<close>

definition list_organization_role_scopes :: "string \<Rightarrow> world \<Rightarrow> (string \<times> (string \<times> string) list) list" where
  "list_organization_role_scopes organization_id w =
     rev (map (\<lambda>r. (ol_role r, decode_permission_scopes (ol_permission_scope r)))
       (filter (\<lambda>r. ol_organization_id r = organization_id) (w_organization_roles w)))"

definition list_active_user_scope_entitlements ::
    "string \<Rightarrow> string \<Rightarrow> int \<Rightarrow> world \<Rightarrow> resource_scope_entitlement list" where
  "list_active_user_scope_entitlements user_id resource_id now w =
     filter (\<lambda>e. se_user_id e = Some user_id \<and> se_resource_server_id e = resource_id \<and> entitlement_active now e)
       (w_entitlements w)"

definition list_active_application_scope_entitlements ::
    "string \<Rightarrow> string \<Rightarrow> int \<Rightarrow> world \<Rightarrow> resource_scope_entitlement list" where
  "list_active_application_scope_entitlements application_id resource_id now w =
     filter (\<lambda>e. se_application_id e = Some application_id \<and> se_resource_server_id e = resource_id \<and>
                entitlement_active now e) (w_entitlements w)"

definition list_team_names_for_user :: "string \<Rightarrow> string \<Rightarrow> world \<Rightarrow> string list" where
  "list_team_names_for_user organization_id user_id w =
     sort (map tm_team_name
       (filter (\<lambda>t. tm_organization_id t = organization_id \<and> tm_user_id t = user_id) (w_team_members w)))"

section \<open>Lifecycle of an entitlement\<close>

definition resource_scope_entitlement_lifecycle ::
    "resource_scope_entitlement \<Rightarrow> int \<Rightarrow> string \<times> end_reason option" where
  "resource_scope_entitlement_lifecycle e now =
     (if se_ended_at e \<noteq> None then (''ended'', se_end_reason e)
      else if (case se_expires_at e of None \<Rightarrow> False | Some t \<Rightarrow> t \<le> now) then (''ended'', Some Expired)
      else (''active'', None))"

definition scope_entitlement_status_condition :: "string \<Rightarrow> int \<Rightarrow> resource_scope_entitlement \<Rightarrow> bool" where
  "scope_entitlement_status_condition status now e =
     (if status = ''inactive'' then
        se_ended_at e \<noteq> None \<or> (case se_expires_at e of None \<Rightarrow> False | Some t \<Rightarrow> t \<le> now)
      else se_ended_at e = None \<and> (case se_expires_at e of None \<Rightarrow> True | Some t \<Rightarrow> now < t))"

section \<open>Built-in resources, page by page\<close>

function find_in_pages :: "('a \<Rightarrow> bool) \<Rightarrow> 'a list \<Rightarrow> nat \<Rightarrow> 'a option" where
  "find_in_pages p rows offset =
     (let page = page_of \<lparr>pg_limit = 100, pg_offset = offset\<rparr> rows;
          metadata = pagination_metadata 100 offset (length rows) in
      case find p page of
        Some r \<Rightarrow> Some r
      | None \<Rightarrow> if pm_total_pages metadata \<le> pm_page metadata then None
                else find_in_pages p rows (offset + 100))"
  by pat_completeness auto
termination
proof (relation "measure (\<lambda>(p, rows, offset). length rows - offset)", simp, clarsimp)
  fix rows :: "'a list" and offset
  assume "\<not> pm_total_pages (pagination_metadata 100 offset (length rows)) \<le> pm_page (pagination_metadata 100 offset (length rows))"
  then have "\<not> length rows \<le> (offset div 100 + 1) * 100"
    using ceil_div_le_iff [of 100 "length rows" "offset div 100 + 1"] by (simp add: pagination_metadata_def)
  moreover have "offset < 100 + offset div 100 * 100" by (rule dividend_less_div_times) simp
  ultimately have "offset < length rows" by simp
  then show "length rows - (offset + 100) < length rows - offset" by simp
qed

declare find_in_pages.simps [simp del]

definition newest_resources :: "world \<Rightarrow> resource_server list" where
  "newest_resources w =
     rev (sort_key (\<lambda>r. (rs_created_at r, rs_id r)) (filter (\<lambda>r. rs_deleted_at r = None) (w_resources w)))"

definition find_realmroot_resource_server :: "world \<Rightarrow> resource_server option" where
  "find_realmroot_resource_server w = find_in_pages is_realmroot (newest_resources w) 0"

definition newest_organizations :: "world \<Rightarrow> organization list" where
  "newest_organizations w = rev (sort_key (\<lambda>o'. (og_created_at o', og_id o')) (w_organizations w))"

definition find_platform_organization :: "world \<Rightarrow> organization option" where
  "find_platform_organization w =
     find_in_pages (\<lambda>o'. is_platform_organization (og_slug o')) (newest_organizations w) 0"

section \<open>Scopes of a membership\<close>

text \<open>
  \<open>role in predefinedOrganizationRoleScopes\<close> also holds of the names every object inherits; the
  value found there is no list, and iterating over it throws. \<open>scope in realmrootScopeRegistry\<close>
  lets the same names through.
\<close>

definition not_iterable :: failure where
  "not_iterable = PlainError ''predefinedOrganizationRoleScopes[role] is not iterable''"

definition predefined_role_scopes :: "string \<Rightarrow> failure + string list" where
  "predefined_role_scopes role =
     (case predefined_organization_role_scopes role of
        Some scopes \<Rightarrow> Inr scopes
      | None \<Rightarrow> if role \<in> set object_prototype_keys then Inl not_iterable else Inr [])"

definition in_scope_registry :: "string \<Rightarrow> bool" where
  "in_scope_registry scope \<longleftrightarrow> scope \<in> set realmroot_management_scopes \<or> scope \<in> set object_prototype_keys"

definition declared_scopes :: "resource_server \<Rightarrow> declared_scope list" where
  "declared_scopes resource = (case rs_scope_registry resource of None \<Rightarrow> [] | Some scopes \<Rightarrow> scopes)"

definition scopes_with_mode :: "grant_mode \<Rightarrow> resource_server \<Rightarrow> string list" where
  "scopes_with_mode m resource = map ds_value (filter (\<lambda>s. ds_grant_mode s = m) (declared_scopes resource))"

definition filter_current_resource_scopes :: "resource_server \<Rightarrow> string \<Rightarrow> string list \<Rightarrow> string list" where
  "filter_current_resource_scopes resource organization_id candidates =
     (if candidates = [] then []
      else if \<not> active_resource_visible_to_organization resource organization_id then []
      else if is_realmroot resource then sort (filter in_scope_registry candidates)
      else sort (filter (\<lambda>s. s \<in> set (scopes_with_mode Assigned_grant resource)) candidates))"

definition dynamic_role_scopes :: "string \<Rightarrow> string list \<Rightarrow> resource_server option \<Rightarrow> world \<Rightarrow> string list" where
  "dynamic_role_scopes organization_id roles resource w =
     concat (map (\<lambda>role.
       case map_of (list_organization_role_scopes organization_id w) role of
         None \<Rightarrow> []
       | Some items \<Rightarrow> map snd (filter (\<lambda>item. Some (fst item) = map_option rs_id resource) items)) roles)"

definition membership_scopes_for_resource ::
    "string \<Rightarrow> string list \<Rightarrow> resource_server option \<Rightarrow> world \<Rightarrow> failure + string list" where
  "membership_scopes_for_resource organization_id roles resource w =
     (let realmroot = (case resource of None \<Rightarrow> False | Some r \<Rightarrow> is_realmroot r);
          dynamic = dynamic_role_scopes organization_id roles resource w in
      case (if realmroot then collect_results predefined_role_scopes roles else Inr []) of
        Inl e \<Rightarrow> Inl e
      | Inr predefined \<Rightarrow>
          (let scopes = uniq (concat predefined @ dynamic) in
           if realmroot then Inr (sort (filter in_scope_registry scopes))
           else if scopes = [] \<and> ''owner'' \<notin> set roles then Inr []
           else (case resource of
               None \<Rightarrow> Inr []
             | Some r \<Rightarrow>
                 Inr (filter_current_resource_scopes r organization_id
                   (if rs_owner_organization_id r = organization_id \<and> ''owner'' \<in> set roles
                    then uniq (scopes @ scopes_with_mode Assigned_grant r) else scopes)))))"

definition resolve_organization_membership_scopes ::
    "string \<Rightarrow> string list \<Rightarrow> string \<Rightarrow> world \<Rightarrow> failure + string list" where
  "resolve_organization_membership_scopes organization_id roles resource_id w =
     membership_scopes_for_resource organization_id roles (find_resource resource_id w) w"

definition organization_user_authorization_context ::
    "string \<Rightarrow> string \<Rightarrow> world \<Rightarrow> failure + authorization_context" where
  "organization_user_authorization_context organization_id user_id w =
     (case (case (find_member_by_organization_user organization_id user_id w, find_realmroot_resource_server w) of
              (Some m, Some r) \<Rightarrow> membership_scopes_for_resource organization_id (mv_roles m) (Some r) w
            | _ \<Rightarrow> Inr []) of
        Inl e \<Rightarrow> Inl e
      | Inr scopes \<Rightarrow> Inr \<lparr>cx_subject = User_subject user_id, cx_tenant = Organization_tenant organization_id,
          cx_scopes = scopes\<rparr>)"

definition organization_user_has_scope :: "string \<Rightarrow> string \<Rightarrow> string \<Rightarrow> world \<Rightarrow> failure + bool" where
  "organization_user_has_scope organization_id user_id required_scope w =
     (case organization_user_authorization_context organization_id user_id w of
        Inl e \<Rightarrow> Inl e
      | Inr context \<Rightarrow> Inr (can_authorize context (Organization_tenant organization_id) required_scope))"

section \<open>Effective scopes\<close>

definition automatic_scopes :: "resource_server \<Rightarrow> string list" where
  "automatic_scopes resource = uniq (scopes_with_mode Automatic_grant resource)"

definition current_registry_scopes :: "resource_server \<Rightarrow> string list \<Rightarrow> string list" where
  "current_registry_scopes resource scopes =
     sort (filter (\<lambda>s. s \<in> set (map ds_value (declared_scopes resource))) (uniq scopes))"

text \<open>The tenant: not given, the user's own, or an organization.\<close>

type_synonym tenant_filter = "string option option"

definition user_entitlement_matches_organization :: "tenant_filter \<Rightarrow> resource_scope_entitlement \<Rightarrow> bool" where
  "user_entitlement_matches_organization tenant e =
     (case tenant of None \<Rightarrow> True | Some o' \<Rightarrow> o' = se_organization_id e)"

definition user_effective_resource_scopes ::
    "string \<Rightarrow> resource_server \<Rightarrow> int \<Rightarrow> tenant_filter \<Rightarrow> world \<Rightarrow> failure + string list" where
  "user_effective_resource_scopes user_id resource now tenant w =
     (let memberships = list_user_memberships user_id w;
          tenant_memberships = (case tenant of
              None \<Rightarrow> memberships
            | Some None \<Rightarrow> []
            | Some (Some o') \<Rightarrow> filter (\<lambda>m. mv_organization_id m = o') memberships);
          hidden = (tenant = None \<and> rs_visibility resource = Private_resource);
          visible = (if hidden
            then filter (\<lambda>m. mv_organization_id m = rs_owner_organization_id resource) tenant_memberships
            else tenant_memberships) in
      if hidden \<and> visible = [] then Inr []
      else case collect_results (\<lambda>m. resolve_organization_membership_scopes (mv_organization_id m) (mv_roles m)
                                       (rs_id resource) w) visible of
        Inl e \<Rightarrow> Inl e
      | Inr by_membership \<Rightarrow>
          Inr (current_registry_scopes resource
            (automatic_scopes resource @
             map se_scope (filter (user_entitlement_matches_organization tenant)
               (list_active_user_scope_entitlements user_id (rs_id resource) now w)) @
             concat by_membership)))"

definition application_effective_resource_scopes ::
    "string \<Rightarrow> string \<Rightarrow> resource_server \<Rightarrow> int \<Rightarrow> world \<Rightarrow> string list" where
  "application_effective_resource_scopes application_id owner_organization_id resource now w =
     (if \<not> active_resource_visible_to_organization resource owner_organization_id then []
      else current_registry_scopes resource
        (automatic_scopes resource @
         map se_scope (list_active_application_scope_entitlements application_id (rs_id resource) now w)))"

section \<open>Scopes a controller can grant to an Agent\<close>

definition discover_agent_resource_scopes :: "resource_server \<Rightarrow> string list option" where
  "discover_agent_resource_scopes resource =
     (if is_realmroot resource then Some realmroot_oauth_scopes
      else map_option (map ds_value) (rs_scope_registry resource))"

definition agent_current_scopes :: "resource_server \<Rightarrow> string list \<Rightarrow> string list" where
  "agent_current_scopes resource scopes =
     (let declared = (case discover_agent_resource_scopes resource of None \<Rightarrow> [] | Some s \<Rightarrow> s) in
      sort (filter (\<lambda>s. s \<in> set declared) (uniq scopes)))"

definition user_effective_now ::
    "env \<Rightarrow> string \<Rightarrow> resource_server \<Rightarrow> tenant_filter \<Rightarrow> string list server" where
  "user_effective_now env user_id resource tenant =
     bind (new_date env) (\<lambda>now.
     bind (gets (user_effective_resource_scopes user_id resource now tenant)) lift_result)"

definition native_authority_effective_scopes ::
    "env \<Rightarrow> string option \<Rightarrow> resource_server \<Rightarrow> json \<Rightarrow> string list server" where
  "native_authority_effective_scopes env controller resource detail =
     (let current = agent_current_scopes resource;
          declared = (case discover_agent_resource_scopes resource of None \<Rightarrow> [] | Some s \<Rightarrow> s);
          authority = detail_member detail ''authority''; id = detail_member detail ''id'';
          organization = (if authority = JStr ''organization'' then (case id of JStr i \<Rightarrow> Some i | _ \<Rightarrow> None) else None);
          own = (case present controller of None \<Rightarrow> None
                 | Some u \<Rightarrow> if authority = JStr ''user'' \<and> id = JStr u then Some u else None) in
      if \<not> is_realmroot resource then
        (case present controller of
           None \<Rightarrow> ret (if authority = JStr ''organization'' then current declared else [])
         | Some u \<Rightarrow>
             (case organization of
                Some i \<Rightarrow> bind (user_effective_now env u resource (Some (Some i))) (\<lambda>s. ret (current s))
              | None \<Rightarrow>
                  (case own of
                     Some _ \<Rightarrow> bind (user_effective_now env u resource (Some None)) (\<lambda>s. ret (current s))
                   | None \<Rightarrow> ret [])))
      else
        (case organization of
           Some i \<Rightarrow>
             (case present controller of
                None \<Rightarrow> ret (current realmroot_management_scopes)
              | Some u \<Rightarrow>
                  bind (gets (list_user_memberships u)) (\<lambda>memberships.
                  if \<not> list_ex (\<lambda>m. mv_organization_id m = i) memberships then ret []
                  else bind (user_effective_now env u resource (Some (Some i))) (\<lambda>s. ret (current s))))
         | None \<Rightarrow>
             (case own of
                None \<Rightarrow> ret []
              | Some u \<Rightarrow>
                  bind (user_effective_now env u resource (Some None)) (\<lambda>s.
                  ret (current ([''agents:read'', ''agents:write'', ''audit-events:read''] @ s))))))"

section \<open>The pages find what the table holds\<close>

lemma find_append: "find p (xs @ ys) = (case find p xs of None \<Rightarrow> find p ys | Some r \<Rightarrow> Some r)"
  by (induction xs) auto

lemma find_in_pages_from: "find_in_pages p rows (k * 100) = find p (drop (k * 100) rows)"
proof (induction "length rows - k * 100" arbitrary: k rule: less_induct)
  case less
  let ?page = "page_of \<lparr>pg_limit = 100, pg_offset = k * 100\<rparr> rows"
  have cut: "find p (drop (k * 100) rows) =
      (case find p ?page of None \<Rightarrow> find p (drop (Suc k * 100) rows) | Some r \<Rightarrow> Some r)"
    using find_append [of p ?page "drop (Suc k * 100) rows"]
    by (simp add: page_of_def slice_def add.commute flip: drop_drop)
  let ?m = "pagination_metadata 100 (k * 100) (length rows)"
  have last: "pm_total_pages ?m \<le> pm_page ?m \<longleftrightarrow> length rows \<le> Suc k * 100"
    using ceil_div_le_iff [of 100 "length rows" "Suc k"] by (simp add: pagination_metadata_def)
  have step: "find_in_pages p rows (k * 100 + 100) = find p (drop (Suc k * 100) rows)"
    if "\<not> length rows \<le> Suc k * 100"
    using less [of "Suc k"] that by (simp add: add.commute)
  show ?case
    using cut last step by (subst find_in_pages.simps) (auto simp: Let_def split: option.splits)
qed

lemma find_in_pages_eq: "find_in_pages p rows 0 = find p rows"
  using find_in_pages_from [of p rows 0] by simp

text \<open>
  C39. The page-by-page searches for the built-in resource server and the built-in organization
  end, and find the newest such row of the whole table, whatever number of pages it takes: they
  answer null exactly when no row that is not deleted is one.
\<close>

theorem built_in_rows_found:
  "find_realmroot_resource_server w = find is_realmroot (newest_resources w) \<and>
   find_platform_organization w = find (\<lambda>o'. is_platform_organization (og_slug o')) (newest_organizations w) \<and>
   (find_realmroot_resource_server w = None \<longleftrightarrow>
      filter (\<lambda>r. rs_deleted_at r = None \<and> is_realmroot r) (w_resources w) = []) \<and>
   (find_platform_organization w = None \<longleftrightarrow>
      filter (\<lambda>o'. is_platform_organization (og_slug o')) (w_organizations w) = [])"
  by (auto simp: find_realmroot_resource_server_def find_platform_organization_def find_in_pages_eq
      newest_resources_def newest_organizations_def find_None_iff filter_empty_conv)

section \<open>An entitlement is active to every reader\<close>

lemma lifecycle_agrees:
  "fst (resource_scope_entitlement_lifecycle e now) = ''active'' \<longleftrightarrow> entitlement_active now e"
  "scope_entitlement_status_condition ''active'' now e \<longleftrightarrow> entitlement_active now e"
  "scope_entitlement_status_condition ''inactive'' now e \<longleftrightarrow> \<not> entitlement_active now e"
  by (auto simp: resource_scope_entitlement_lifecycle_def scope_entitlement_status_condition_def
      entitlement_active_def not_less split: option.splits)

section \<open>Tenants are isolated\<close>

text \<open>Two worlds an organization cannot tell apart.\<close>

definition same_tenant_view :: "string \<Rightarrow> world \<Rightarrow> world \<Rightarrow> bool" where
  "same_tenant_view organization_id w v \<longleftrightarrow>
     w_resources v = w_resources w \<and>
     filter (\<lambda>m. mb_organization_id m = organization_id) (w_members v)
       = filter (\<lambda>m. mb_organization_id m = organization_id) (w_members w) \<and>
     filter (\<lambda>r. ol_organization_id r = organization_id) (w_organization_roles v)
       = filter (\<lambda>r. ol_organization_id r = organization_id) (w_organization_roles w) \<and>
     filter (\<lambda>e. se_organization_id e = Some organization_id) (w_entitlements v)
       = filter (\<lambda>e. se_organization_id e = Some organization_id) (w_entitlements w)"

lemma filter_swap: "filter p (filter q xs) = filter q (filter p xs)"
  by (simp add: conj_commute)

lemma filter_newest_members: "filter p (newest_members rows) = newest_members (filter p rows)"
  by (simp add: newest_members_def filter_sort rev_filter flip: rev_filter)

lemma tenant_memberships:
  "filter (\<lambda>m. mv_organization_id m = o') (list_user_memberships u w) =
     map to_member (newest_members (filter (\<lambda>m. mb_user_id m = u)
       (filter (\<lambda>m. mb_organization_id m = o') (w_members w))))"
  by (simp add: list_user_memberships_def filter_map comp_def to_member_def filter_newest_members conj_commute)

lemma tenant_role_scopes:
  "same_tenant_view o' w v \<Longrightarrow> resolve_organization_membership_scopes o' roles r v =
     resolve_organization_membership_scopes o' roles r w"
  by (simp add: same_tenant_view_def resolve_organization_membership_scopes_def membership_scopes_for_resource_def
      dynamic_role_scopes_def list_organization_role_scopes_def find_resource_def)

lemma tenant_entitlements:
  "filter (user_entitlement_matches_organization (Some (Some o'))) (list_active_user_scope_entitlements u r now w) =
     filter (\<lambda>e. se_user_id e = Some u \<and> se_resource_server_id e = r \<and> entitlement_active now e)
       (filter (\<lambda>e. se_organization_id e = Some o') (w_entitlements w))"
  by (simp add: list_active_user_scope_entitlements_def user_entitlement_matches_organization_def)
    (rule filter_cong [OF refl], auto)

lemma collect_results_cong:
  "(\<And>x. x \<in> set xs \<Longrightarrow> f x = g x) \<Longrightarrow> collect_results f xs = collect_results g xs"
  by (induction xs) (auto split: sum.split)

lemma current_registry_scopes_bound:
  "sorted (current_registry_scopes r scopes)" "distinct (current_registry_scopes r scopes)"
  "set (current_registry_scopes r scopes) \<subseteq> set (map ds_value (declared_scopes r))"
  by (auto simp: current_registry_scopes_def)

lemma effective_scopes_bound:
  assumes "user_effective_resource_scopes u r now tenant w = Inr scopes"
  shows "sorted scopes \<and> distinct scopes \<and> set scopes \<subseteq> set (map ds_value (declared_scopes r))"
proof -
  from assms have "scopes = [] \<or> (\<exists>all. scopes = current_registry_scopes r all)"
    by (auto simp: user_effective_resource_scopes_def Let_def split: sum.splits if_splits)
  then show ?thesis using current_registry_scopes_bound [of r] by (elim disjE exE) simp_all
qed

text \<open>
  C40. In the context of an organization the effective scopes of a user depend on that
  organization alone: memberships, custom roles and entitlements of every other tenant can
  change without changing the answer. The scopes are sorted, without duplicates, and declared by
  the resource's current registry.
\<close>

theorem tenant_scopes_isolated:
  assumes "same_tenant_view organization_id w v"
    and "user_effective_resource_scopes user_id resource now (Some (Some organization_id)) w = Inr scopes"
  shows "user_effective_resource_scopes user_id resource now (Some (Some organization_id)) v = Inr scopes \<and>
    sorted scopes \<and> distinct scopes \<and> set scopes \<subseteq> set (map ds_value (declared_scopes resource))"
proof -
  let ?visible = "\<lambda>w. filter (\<lambda>m. mv_organization_id m = organization_id) (list_user_memberships user_id w)"
  let ?scopes = "\<lambda>w m. resolve_organization_membership_scopes (mv_organization_id m) (mv_roles m) (rs_id resource) w"
  have "?visible v = ?visible w"
    using assms(1) unfolding tenant_memberships same_tenant_view_def by simp
  moreover have "collect_results (?scopes v) (?visible w) = collect_results (?scopes w) (?visible w)"
    using tenant_role_scopes [OF assms(1)] by (intro collect_results_cong) simp
  moreover have "filter (user_entitlement_matches_organization (Some (Some organization_id)))
        (list_active_user_scope_entitlements user_id (rs_id resource) now v) =
      filter (user_entitlement_matches_organization (Some (Some organization_id)))
        (list_active_user_scope_entitlements user_id (rs_id resource) now w)"
    using assms(1) unfolding tenant_entitlements same_tenant_view_def by simp
  ultimately have "user_effective_resource_scopes user_id resource now (Some (Some organization_id)) v =
      user_effective_resource_scopes user_id resource now (Some (Some organization_id)) w"
    by (simp add: user_effective_resource_scopes_def split: sum.split)
  with assms(2) effective_scopes_bound [OF assms(2)] show ?thesis by simp
qed

definition tenant_world :: world where
  "tenant_world = sample_world\<lparr>
     w_members := [\<lparr>mb_id = ''m1'', mb_organization_id = ''o1'', mb_user_id = ''u1'', mb_role = ''owner'', mb_created_at = 1\<rparr>],
     w_organization_roles := []\<rparr>"

definition other_tenant_world :: world where
  "other_tenant_world = tenant_world\<lparr>
     w_members := w_members tenant_world @
       [\<lparr>mb_id = ''m2'', mb_organization_id = ''o2'', mb_user_id = ''u1'', mb_role = ''owner'', mb_created_at = 2\<rparr>],
     w_organization_roles := [\<lparr>ol_organization_id = ''o2'', ol_role = ''owner'', ol_permission_scope = Some [''r1/read'']\<rparr>]\<rparr>"

theorem tenant_scopes_isolated_witness:
  "user_effective_resource_scopes ''u1'' sample_resource 1000 (Some (Some ''o1'')) other_tenant_world
     = Inr [''list'', ''read''] \<and>
   set [''list'', ''read''] \<subseteq> set (map ds_value (declared_scopes sample_resource))"
proof -
  have "same_tenant_view ''o1'' tenant_world other_tenant_world"
    by (simp add: same_tenant_view_def tenant_world_def other_tenant_world_def)
  moreover have "user_effective_resource_scopes ''u1'' sample_resource 1000 (Some (Some ''o1'')) tenant_world
     = Inr [''list'', ''read'']" by code_simp
  ultimately show ?thesis using tenant_scopes_isolated by blast
qed

end
