(* ===== verification/Access_Repo.thy ===== *)
theory Access_Repo
  imports Resource_Scopes Agent_Repo
begin

text \<open>
  The repository of access requests, entitlements and token leases
  (\<open>server/adapters/repos/external-resources.ts\<close>, and \<open>createScopeEntitlement\<close> of
  \<open>repos/authorization.ts\<close>): the batches put together from the statements on the resource tables.
  A batch answers with the rows its statements returned; what the repository makes of them is
  decided after it was committed.
\<close>

section \<open>Connections\<close>

definition connection_granted_scopes :: "resource_connection \<Rightarrow> string list" where
  "connection_granted_scopes c = sort (uniq (concat (map pc_granted_scopes (active_provider_credentials c))))"

definition connection_authorization_details :: "resource_connection \<Rightarrow> json list" where
  "connection_authorization_details c = uniq (concat (map pc_authorization_details (active_provider_credentials c)))"

definition find_connection_by_owner_resource :: "string \<Rightarrow> string \<Rightarrow> world \<Rightarrow> resource_connection option" where
  "find_connection_by_owner_resource resource_id owner_user_id w =
     find (\<lambda>c. cn_resource_id c = resource_id \<and> cn_owner_user_id c = Some owner_user_id) (w_connections w)"

section \<open>Access requests\<close>

definition create_access_request_with_audit ::
    "access_request \<Rightarrow> agent_audit_event \<Rightarrow> access_request option server" where
  "create_access_request_with_audit r audit w =
     (case insert_access_request r w of
        Inl e \<Rightarrow> (Inl e, w)
      | Inr (rows, v) \<Rightarrow>
          (case audit_where (list_ex (\<lambda>q. rq_id q = rq_id r) (w_requests v)) audit v of
             Inl e \<Rightarrow> (Inl e, w)
           | Inr v' \<Rightarrow> (Inr (case rows of [] \<Rightarrow> None | q # _ \<Rightarrow> Some q), v')))"

definition find_access_request_by_approval_token_hash :: "string \<Rightarrow> world \<Rightarrow> access_request option" where
  "find_access_request_by_approval_token_hash token_hash w =
     find (\<lambda>r. rq_approval_token_hash r = token_hash) (w_requests w)"

definition list_pending_access_requests_by_agent :: "string \<Rightarrow> int \<Rightarrow> world \<Rightarrow> access_request list" where
  "list_pending_access_requests_by_agent agent_identity_id now w =
     sort_key rq_created_at
       (filter (\<lambda>r. rq_agent_identity_id r = agent_identity_id \<and> rq_status r = ''pending'' \<and> now < rq_expires_at r)
         (w_requests w))"

definition decide_access_request_with_audit ::
    "string \<Rightarrow> access_decision \<Rightarrow> agent_audit_event \<Rightarrow> access_request option server" where
  "decide_access_request_with_audit i d audit w =
     (case audit_where (list_ex (\<lambda>r. rq_id r = i \<and> rq_status r = ''pending'') (w_requests w)) audit w of
        Inl e \<Rightarrow> (Inl e, w)
      | Inr v \<Rightarrow>
          (case update_access_request_decision i d v of
             Inl e \<Rightarrow> (Inl e, w)
           | Inr (rows, v') \<Rightarrow> (Inr (case rows of [] \<Rightarrow> None | q # _ \<Rightarrow> Some q), v')))"

section \<open>Approval\<close>

record entitlement_update =
  eu_id :: string
  eu_mode :: entitlement_mode
  eu_expires_at :: "int option"
  eu_authorization_context_hash :: string
  eu_updated_at :: int

definition apply_entitlement_update ::
    "entitlement_update \<Rightarrow> resource_scope_entitlement \<Rightarrow> resource_scope_entitlement" where
  "apply_entitlement_update u e =
     e\<lparr>se_mode := eu_mode u, se_expires_at := eu_expires_at u,
       se_authorization_context_hash := eu_authorization_context_hash u, se_updated_at := eu_updated_at u\<rparr>"

definition entitlement_update_statement :: "entitlement_update \<Rightarrow> resource_scope_entitlement statement" where
  "entitlement_update_statement u =
     update_entitlements (\<lambda>e. se_id e = eu_id u \<and> se_ended_at e = None) (apply_entitlement_update u)"

text \<open>The statements of one kind, one after the other; the rows each of them returned.\<close>

primrec statements :: "('a \<Rightarrow> 'r statement) \<Rightarrow> 'a list \<Rightarrow> world \<Rightarrow> failure + ('r list list \<times> world)" where
  "statements f [] w = Inr ([], w)"
| "statements f (x # xs) w =
     (case f x w of
        Inl e \<Rightarrow> Inl e
      | Inr (rows, v) \<Rightarrow>
          (case statements f xs v of
             Inl e \<Rightarrow> Inl e
           | Inr (results, v') \<Rightarrow> Inr (rows # results, v')))"

datatype approval_outcome =
    Entitlements_changed | Resource_unavailable | Request_changed
  | Approved "resource_scope_entitlement list" access_request

definition approval_batch ::
    "resource_scope_entitlement list \<Rightarrow> entitlement_update list \<Rightarrow> string \<Rightarrow> access_decision \<Rightarrow> agent_audit_event \<Rightarrow>
     world \<Rightarrow> failure + ((resource_scope_entitlement list list \<times> resource_scope_entitlement list list \<times> access_request list) \<times> world)" where
  "approval_batch entitlements updates request_id d audit w =
     (case statements (insert_entitlement request_id) entitlements w of
        Inl e \<Rightarrow> Inl e
      | Inr (inserted, w1) \<Rightarrow>
          (case statements entitlement_update_statement updates w1 of
             Inl e \<Rightarrow> Inl e
           | Inr (updated, w2) \<Rightarrow>
               (case update_access_request_decision request_id d w2 of
                  Inl e \<Rightarrow> Inl e
                | Inr (requests, w3) \<Rightarrow>
                    (case audit_where (list_ex (\<lambda>r. rq_id r = request_id \<and> rq_status r = ''approved'') (w_requests w3))
                            audit w3 of
                       Inl e \<Rightarrow> Inl e
                     | Inr w4 \<Rightarrow> Inr ((inserted, updated, requests), w4)))))"

definition approve_access_request_with_entitlements ::
    "resource_scope_entitlement list \<Rightarrow> entitlement_update list \<Rightarrow> string \<Rightarrow> access_decision \<Rightarrow> agent_audit_event \<Rightarrow>
     approval_outcome server" where
  "approve_access_request_with_entitlements entitlements updates request_id d audit w =
     (case approval_batch entitlements updates request_id d audit w of
        Inl e \<Rightarrow> (Inl e, w)
      | Inr ((results, updated, requests), w') \<Rightarrow>
          (Inr (let inserted = concat results in
            if length inserted \<noteq> length entitlements then Entitlements_changed
            else if list_ex (\<lambda>rows. length rows \<noteq> 1) updated then Resource_unavailable
            else (case requests of [] \<Rightarrow> Request_changed | r # _ \<Rightarrow> Approved inserted r)), w'))"

section \<open>Token leases\<close>

definition issue_token_lease_with_audit ::
    "external_token_lease \<Rightarrow> lease_boundary \<Rightarrow> string list \<Rightarrow> int \<Rightarrow> agent_audit_event \<Rightarrow>
     external_token_lease option server" where
  "issue_token_lease_with_audit l boundary consume_entitlement_ids now audit w =
     (case insert_token_lease boundary l w of
        Inl e \<Rightarrow> (Inl e, w)
      | Inr (leases, w1) \<Rightarrow>
          (let w2 = consume_request_statement (tl_request_id l) (tl_id l) now w1;
               w3 = (if consume_entitlement_ids \<noteq> []
                     then consume_entitlements_statement consume_entitlement_ids (tl_id l) now w2 else w2) in
           case audit_where (lease_exists (tl_id l) w3) audit w3 of
             Inl e \<Rightarrow> (Inl e, w)
           | Inr w4 \<Rightarrow> (Inr (case leases of [] \<Rightarrow> None | x # _ \<Rightarrow> Some x), w4)))"

definition end_entitlement_with_audit ::
    "string \<Rightarrow> end_reason \<Rightarrow> string list \<Rightarrow> int \<Rightarrow> agent_audit_event \<Rightarrow> bool server" where
  "end_entitlement_with_audit i reason token_lease_ids now audit w =
     (let hit = (\<lambda>e. se_id e = i \<and> se_ended_at e = None); rows = filter hit (w_entitlements w) in
      case audit_where (rows \<noteq> []) audit w of
        Inl e \<Rightarrow> (Inl e, w)
      | Inr v \<Rightarrow>
          (Inr (rows \<noteq> []),
           (let v1 = v\<lparr>w_entitlements := update_where hit (entitlement_ended reason now) (w_entitlements v)\<rparr> in
            if token_lease_ids \<noteq> []
            then v1\<lparr>w_leases := update_where (\<lambda>l. tl_id l \<in> set token_lease_ids \<and> tl_revoked_at l = None)
                     (\<lambda>l. l\<lparr>tl_revoked_at := Some now\<rparr>) (w_leases v1)\<rparr>
            else v1)))"

section \<open>Direct grants\<close>

text \<open>
  \<open>coalesce\<close>d comparison of the code: an absent or empty identifier is compared with null. The
  stored details are compared as their JSON text.
\<close>

definition same_optional :: "string option \<Rightarrow> string option \<Rightarrow> bool" where
  "same_optional wanted stored \<longleftrightarrow>
     (case present wanted of None \<Rightarrow> stored = None | Some s \<Rightarrow> stored = Some s)"

definition active_equivalent_entitlement ::
    "resource_scope_entitlement \<Rightarrow> resource_scope_entitlement \<Rightarrow> bool" where
  "active_equivalent_entitlement input e \<longleftrightarrow>
     same_optional (se_user_id input) (se_user_id e) \<and>
     same_optional (se_application_id input) (se_application_id e) \<and>
     same_optional (se_agent_identity_id input) (se_agent_identity_id e) \<and>
     same_optional (se_organization_id input) (se_organization_id e) \<and>
     se_resource_server_id e = se_resource_server_id input \<and>
     same_optional (se_connection_id input) (se_connection_id e) \<and>
     (se_authorization_context_hash e = se_authorization_context_hash input \<or>
      se_authorization_details e = se_authorization_details input) \<and>
     se_scope e = se_scope input \<and> se_ended_at e = None"

text \<open>\<open>null < x\<close> and \<open>x > null\<close> never arise: both modes are \<open>until\<close> where the expiries are compared.\<close>

definition later :: "int option \<Rightarrow> int option \<Rightarrow> bool" where
  "later x y = (case (x, y) of (Some a, Some b) \<Rightarrow> b < a | _ \<Rightarrow> False)"

definition stronger_lifetime ::
    "resource_scope_entitlement \<Rightarrow> resource_scope_entitlement \<Rightarrow> (entitlement_mode \<times> int option) option" where
  "stronger_lifetime current requested =
     (if se_mode current = Persistent \<or> se_mode requested = Once then None
      else if se_mode requested = Persistent then Some (Persistent, None)
      else if se_mode current = Once then Some (Until, se_expires_at requested)
      else if later (se_expires_at requested) (se_expires_at current) then Some (Until, se_expires_at requested)
      else None)"

definition expire_and_replace :: "string \<Rightarrow> resource_scope_entitlement \<Rightarrow> int \<Rightarrow> world \<Rightarrow> failure + world" where
  "expire_and_replace existing_id input now w =
     (case update_entitlements (\<lambda>e. se_id e = existing_id) (entitlement_ended Expired now) w of
        Inl e \<Rightarrow> Inl e
      | Inr (_, v) \<Rightarrow> insert_plain_entitlement input v)"

definition strengthen_entitlement ::
    "resource_scope_entitlement \<Rightarrow> resource_scope_entitlement \<Rightarrow> int \<Rightarrow> resource_scope_entitlement server" where
  "strengthen_entitlement existing input now w =
     (let lifetime = stronger_lifetime existing input;
          same_hash = (se_authorization_context_hash existing = se_authorization_context_hash input) in
      if lifetime = None \<and> same_hash then (Inr existing, w)
      else
        case update_entitlements (\<lambda>e. se_id e = se_id existing)
               (\<lambda>e. (case lifetime of None \<Rightarrow> e | Some (m, t) \<Rightarrow> e\<lparr>se_mode := m, se_expires_at := t\<rparr>)
                    \<lparr>se_authorization_context_hash := se_authorization_context_hash input, se_updated_at := now\<rparr>) w of
          Inl e \<Rightarrow> (Inl e, w)
        | Inr (rows, v) \<Rightarrow> (Inr (hd rows), v))"

text \<open>
  The lookup, the insert and the update are separate statements; nothing happens between them
  here, so the second lookup, after an insert that was skipped, is only reached when the key that
  is taken belongs to no equivalent entitlement.
\<close>

definition create_scope_entitlement ::
    "resource_scope_entitlement \<Rightarrow> int \<Rightarrow> resource_scope_entitlement server" where
  "create_scope_entitlement input now w =
     (case find (active_equivalent_entitlement input) (w_entitlements w) of
        None \<Rightarrow>
          (case insert_or_skip_entitlement input w of
             Inl e \<Rightarrow> (Inl e, w)
           | Inr (inserted # _, v) \<Rightarrow> (Inr inserted, v)
           | Inr ([], v) \<Rightarrow>
               (Inl (PlainError ''Equivalent active permission was not found after a concurrent grant.''), v))
      | Some existing \<Rightarrow>
          (if (case se_expires_at existing of None \<Rightarrow> False | Some t \<Rightarrow> t \<le> now) then
             (case expire_and_replace (se_id existing) input now w of
                Inl e \<Rightarrow> (Inl e, w)
              | Inr v \<Rightarrow> (Inr input, v))
           else strengthen_entitlement existing input now w))"

section \<open>Discovery of a resource's scopes\<close>

text \<open>
  Replacing the registry of a resource prunes what hangs on it: entitlements whose scope is no
  longer assigned end, and custom roles lose the scope. The applications and consents the code
  prunes with them are not part of the model.
\<close>

definition assigned_values :: "declared_scope list \<Rightarrow> string list" where
  "assigned_values registry = map ds_value (filter (\<lambda>s. ds_grant_mode s = Assigned_grant) registry)"

definition prune_role_scopes :: "string \<Rightarrow> declared_scope list \<Rightarrow> organization_role \<Rightarrow> organization_role" where
  "prune_role_scopes i registry role =
     (let encoded = (case ol_permission_scope role of None \<Rightarrow> [] | Some values \<Rightarrow> values);
          kept = concat (map (\<lambda>value.
            case decode_role_scope value of
              None \<Rightarrow> [value]
            | Some (resource_id, scope) \<Rightarrow>
                if resource_id \<noteq> i then [value]
                else if scope \<in> set (assigned_values registry) then [encode_role_scope i scope] else []) encoded) in
      if length kept \<noteq> length encoded then role\<lparr>ol_permission_scope := Some kept\<rparr> else role)"

definition replace_resource_discovery :: "env \<Rightarrow> string \<Rightarrow> string \<Rightarrow> declared_scope list \<Rightarrow> unit server" where
  "replace_resource_discovery env i name registry =
     bind (new_date env) (\<lambda>now.
     bind (modify (\<lambda>w. w\<lparr>w_resources := update_where (\<lambda>r. rs_id r = i \<and> rs_deleted_at r = None)
             (\<lambda>r. r\<lparr>rs_name := name, rs_scope_registry := Some registry\<rparr>) (w_resources w)\<rparr>)) (\<lambda>_.
     bind (modify (\<lambda>w. w\<lparr>w_entitlements := update_where
             (\<lambda>e. se_resource_server_id e = i \<and> se_scope e \<notin> set (assigned_values registry) \<and> se_ended_at e = None)
             (entitlement_ended Revoked now) (w_entitlements w)\<rparr>)) (\<lambda>_.
     modify (\<lambda>w. w\<lparr>w_organization_roles := map (prune_role_scopes i registry) (w_organization_roles w)\<rparr>))))"

section \<open>Laws\<close>

context agent_law
begin

lemma audit_where_law: "audit_where b e w = Inr w' \<Longrightarrow> R w w'"
  by (auto simp: audit_where_def law_refl intro: add_audit split: if_splits)

lemma statements_law:
  assumes "\<And>x w rs w'. x \<in> set xs \<Longrightarrow> f x w = Inr (rs, w') \<Longrightarrow> R w w'" "statements f xs w = Inr (rss, w')"
  shows "R w w'"
  using assms
proof (induction xs arbitrary: w rss)
  case Nil
  then show ?case by (simp add: law_refl)
next
  case (Cons x xs)
  from Cons.prems(2) obtain rs v rss' where v: "f x w = Inr (rs, v)" "statements f xs v = Inr (rss', w')"
    by (auto split: sum.splits prod.splits)
  have "R w v" by (rule Cons.prems(1) [OF _ v(1)]) simp
  moreover have "R v w'" by (rule Cons.IH [OF _ v(2)]) (rule Cons.prems(1), simp_all)
  ultimately show ?case by (rule law_trans)
qed

lemma insert_or_skip_law:
  "se_ended_at e = None \<Longrightarrow> entitlement_sourced e w \<Longrightarrow> insert_or_skip_entitlement e w = Inr (rs, w') \<Longrightarrow> R w w'"
  by (auto simp: insert_or_skip_entitlement_def law_refl intro: add_entitlement split: if_splits)

lemma insert_entitlement_law:
  assumes "insert_entitlement k e w = Inr (rs, w')"
  shows "R w w'"
proof (cases "w' = w")
  case True
  then show ?thesis by (simp add: law_refl)
next
  case False
  let ?row = "e\<lparr>se_user_id := None, se_application_id := None, se_organization_id := None,
     se_source_access_request_id := Some k, se_ended_at := None, se_end_reason := None\<rparr>"
  from assms False have guard: "list_ex (\<lambda>r. rq_id r = k \<and> rq_resource_id r = se_resource_server_id e \<and>
      Some (rq_agent_identity_id r) = se_agent_identity_id e \<and> rq_status r = ''pending'') (w_requests w)"
    and ins: "insert_or_skip_entitlement ?row w = Inr (rs, w')"
    by (auto simp: insert_entitlement_def split: if_splits)
  from guard have "entitlement_sourced ?row w"
    by (auto simp: entitlement_sourced_def list_ex_iff)
  with ins show ?thesis by (intro insert_or_skip_law [of ?row]) simp_all
qed

lemma entitlement_update_law: "entitlement_update_statement u w = Inr (rs, w') \<Longrightarrow> R w w'"
  unfolding entitlement_update_statement_def
  by (erule rewrite_entitlements [rotated]) (simp add: entitlement_step_def apply_entitlement_update_def)

lemma law_replace_discovery [law_intros]: "evolves R (replace_resource_discovery env i name registry)"
  unfolding replace_resource_discovery_def
  by (intro law_intros evolves_modify change_resources end_entitlements change_organization_roles) simp

lemma law_create_request [law_intros]:
  "rq_status r \<in> {''pending'', ''approved''} \<Longrightarrow> evolves R (create_access_request_with_audit r audit)"
  by (rule evolvesI) (auto simp: create_access_request_with_audit_def law_refl
      intro: law_trans [OF add_request audit_where_law] split: sum.splits prod.splits)

lemma law_decide_request [law_intros]:
  "ad_status d \<in> {''approved'', ''denied''} \<Longrightarrow> evolves R (decide_access_request_with_audit i d audit)"
  by (rule evolvesI) (auto simp: decide_access_request_with_audit_def law_refl
      intro: law_trans [OF audit_where_law decide_request] split: sum.splits prod.splits)

lemma approval_batch_law:
  assumes d: "ad_status d \<in> {''approved'', ''denied''}"
    and run: "approval_batch es us k d audit w = Inr (x, w')"
  shows "R w w'"
proof -
  from run obtain ins w1 upd w2 qs w3 where
    steps: "statements (insert_entitlement k) es w = Inr (ins, w1)"
      "statements entitlement_update_statement us w1 = Inr (upd, w2)"
      "update_access_request_decision k d w2 = Inr (qs, w3)"
      "audit_where (list_ex (\<lambda>r. rq_id r = k \<and> rq_status r = ''approved'') (w_requests w3)) audit w3 = Inr w'"
    by (auto simp: approval_batch_def split: sum.splits prod.splits)
  have "R w w1" by (rule statements_law [OF insert_entitlement_law steps(1)])
  moreover have "R w1 w2" by (rule statements_law [OF entitlement_update_law steps(2)])
  moreover have "R w2 w3" by (rule decide_request [OF d steps(3)])
  moreover have "R w3 w'" by (rule audit_where_law [OF steps(4)])
  ultimately show ?thesis by (blast intro: law_trans)
qed

lemma law_approve_request [law_intros]:
  "ad_status d \<in> {''approved'', ''denied''} \<Longrightarrow>
     evolves R (approve_access_request_with_entitlements es us k d audit)"
  by (rule evolvesI) (auto simp: approve_access_request_with_entitlements_def law_refl
      intro: approval_batch_law split: sum.splits prod.splits)

lemma consume_entitlements_law: "R w (consume_entitlements_statement ids l now w)"
  unfolding consume_entitlements_statement_def by (rule end_entitlements) simp

lemma law_issue_lease [law_intros]:
  assumes "tl_revoked_at l = None" "tl_scopes l = lb_scopes b"
  shows "evolves R (issue_token_lease_with_audit l b ids now audit)"
proof (rule evolvesI)
  fix w r t
  assume run: "issue_token_lease_with_audit l b ids now audit w = (r, t)"
  show "R w t"
  proof (cases "insert_token_lease b l w")
    case (Inl e)
    with run show ?thesis by (simp add: issue_token_lease_with_audit_def law_refl)
  next
    case (Inr p)
    obtain ls w1 where p: "p = (ls, w1)" by (cases p)
    let ?w2 = "consume_request_statement (tl_request_id l) (tl_id l) now w1"
    let ?w3 = "if ids \<noteq> [] then consume_entitlements_statement ids (tl_id l) now ?w2 else ?w2"
    have "R w w1" using add_lease [OF assms] Inr p by blast
    moreover have "R w1 ?w2" by (rule consume_request)
    moreover have "R ?w2 ?w3" by (simp add: law_refl consume_entitlements_law)
    ultimately have "R w ?w3" by (blast intro: law_trans)
    moreover have "t = w \<or> R ?w3 t"
      using run Inr p audit_where_law [of "lease_exists (tl_id l) ?w3" audit ?w3]
      by (auto simp: issue_token_lease_with_audit_def Let_def split: sum.splits)
    ultimately show ?thesis by (blast intro: law_refl law_trans)
  qed
qed

lemma law_end_with_audit [law_intros]: "evolves R (end_entitlement_with_audit i reason ids now audit)"
proof (rule evolvesI)
  fix w r t
  assume run: "end_entitlement_with_audit i reason ids now audit w = (r, t)"
  let ?hit = "\<lambda>e. se_id e = i \<and> se_ended_at e = None"
  show "R w t"
  proof (cases "audit_where (filter ?hit (w_entitlements w) \<noteq> []) audit w")
    case (Inl e)
    with run show ?thesis by (simp add: end_entitlement_with_audit_def law_refl)
  next
    case (Inr v)
    let ?v1 = "v\<lparr>w_entitlements := update_where ?hit (entitlement_ended reason now) (w_entitlements v)\<rparr>"
    have "R w v" by (rule audit_where_law [OF Inr])
    moreover have "R v ?v1" by (rule end_entitlements) simp
    moreover have "R ?v1 t"
      using run Inr change_leases [of ?v1 "\<lambda>l. tl_id l \<in> set ids \<and> tl_revoked_at l = None" "\<lambda>l. l\<lparr>tl_revoked_at := Some now\<rparr>"]
      by (auto simp: end_entitlement_with_audit_def Let_def law_refl lease_step_def split: if_splits)
    ultimately show ?thesis by (blast intro: law_trans)
  qed
qed

end

end
