(* ===== verification/Access_Requests.thy ===== *)
theory Access_Requests
  imports Access_Repo Password_Hash "HOL-Library.AList"
begin

text \<open>
  An Agent asks for access to a resource, its controller decides
  (\<open>server/usecases/external-resources.ts\<close>): \<open>createAgentAccessRequest\<close>,
  \<open>decideAgentAccessRequest\<close>, \<open>createAgentPermission\<close>, \<open>revokeAgentPermission\<close> and what they call.
\<close>

section \<open>Principals and targets\<close>

record agent_principal =
  pr_issuer :: string
  pr_subject :: string
  pr_identity_id :: string
  pr_protocol_agent_id :: string
  pr_host_id :: string
  pr_runtime :: "string option"
  pr_session_id :: "string option"
  pr_identity :: agent_identity
  pr_binding :: bound_binding

definition require_active_identity_and_binding :: "agent_principal \<Rightarrow> failure + agent_identity_aggregate" where
  "require_active_identity_and_binding p =
     (if ai_id (pr_identity p) \<noteq> pr_identity_id p \<or> ai_status (pr_identity p) \<noteq> Identity_active \<or>
         ab_agent_identity_id (pr_binding p) \<noteq> pr_identity_id p \<or>
         ab_protocol_agent_id (pr_binding p) \<noteq> pr_protocol_agent_id p \<or>
         bb_host_id (pr_binding p) \<noteq> pr_host_id p \<or> ab_status (pr_binding p) \<noteq> ''active''
      then Inl (forbidden ''An active Agent identity and host binding are required.'')
      else Inr \<lparr>agg_identity = pr_identity p, agg_bindings = [pr_binding p]\<rparr>)"

definition sha256_text :: "env \<Rightarrow> string \<Rightarrow> string" where
  "sha256_text env s = encode_base64_url (env_sha256 env s)"

definition canonical_details :: "env \<Rightarrow> json list \<Rightarrow> string" where
  "canonical_details env details = canonical_json (env_collation_key env) (JArr details)"

definition context_hash :: "env \<Rightarrow> json list \<Rightarrow> string" where
  "context_hash env details = sha256_text env (canonical_details env details)"

definition require_enabled_resource :: "env \<Rightarrow> string \<Rightarrow> resource_server server" where
  "require_enabled_resource env i =
     bind (gets (find_resource i)) (\<lambda>r.
     bind (found r (not_found ''Enabled Resource Server was not found.'')) (\<lambda>resource.
     bind (require (rs_enabled resource) (not_found ''Enabled Resource Server was not found.'')) (\<lambda>_.
     case present (rs_connector_id resource) of
       None \<Rightarrow> ret resource
     | Some connector \<Rightarrow>
         if rs_authorization_model resource \<noteq> External_model then ret resource
         else bind (lift_result (env_connector_authorization env connector)) (\<lambda>_. ret resource))))"

definition active_identity_organization_ids :: "string \<Rightarrow> world \<Rightarrow> string list" where
  "active_identity_organization_ids owner_user_id w =
     uniq (concat (map (\<lambda>i. case find_organization i w of
               None \<Rightarrow> []
             | Some o' \<Rightarrow> if og_disabled o' then [] else [og_id o'])
       (uniq (map mv_organization_id (list_user_memberships owner_user_id w)))))"

definition active_resource_visible_to_agent :: "resource_server \<Rightarrow> string list \<Rightarrow> bool" where
  "active_resource_visible_to_agent resource organization_ids \<longleftrightarrow>
     active_public_resource resource \<or> list_ex (active_resource_visible_to_organization resource) organization_ids"

definition require_agent_resource_visibility :: "resource_server \<Rightarrow> string \<Rightarrow> unit server" where
  "require_agent_resource_visibility resource owner_user_id =
     bind (gets (active_identity_organization_ids owner_user_id)) (\<lambda>ids.
     require (rs_available_to_agents resource \<and> active_resource_visible_to_agent resource ids)
       (forbidden ''Resource Server is not visible to this Agent.''))"

definition validate_requested_scopes :: "declared_scope list option \<Rightarrow> string list \<Rightarrow> failure + unit" where
  "validate_requested_scopes registry scopes =
     (let declared = (case registry of None \<Rightarrow> [] | Some s \<Rightarrow> map ds_value s) in
      ensure (scopes = [] \<or> list_all (\<lambda>s. s \<in> set declared) scopes)
        (bad_request ''Requested scope is not declared by the Resource Server scope registry.''))"

definition validate_resource_requested_scopes :: "resource_server \<Rightarrow> string list \<Rightarrow> failure + unit" where
  "validate_resource_requested_scopes resource scopes =
     (if is_realmroot resource
      then ensure (list_all (\<lambda>s. s \<in> set realmroot_oauth_scopes) scopes)
        (bad_request ''Requested scope is not declared by the Realmroot scope registry.'')
      else validate_requested_scopes (rs_scope_registry resource) scopes)"

definition assert_scope_subset :: "string list \<Rightarrow> string list \<Rightarrow> string \<Rightarrow> failure + unit" where
  "assert_scope_subset requested allowed boundary =
     (let missing = filter (\<lambda>s. s \<notin> set allowed) requested in
      ensure (missing = [])
        (bad_request (''Requested scopes exceed the '' @ boundary @ '' boundary: '' @ join_with '', '' missing @ ''.'')))"

definition exact_scopes :: "string list \<Rightarrow> string list \<Rightarrow> bool" where
  "exact_scopes left right \<longleftrightarrow> length left = length right \<and> list_all2 (=) (sort left) (sort right)"

section \<open>Native authority contexts\<close>

definition native_authority :: "string \<Rightarrow> string \<Rightarrow> json" where
  "native_authority authority i =
     JObj [(''type'', JStr ''realmroot_authority''), (''authority'', JStr authority), (''id'', JStr i)]"

definition native_authority_details :: "string \<Rightarrow> world \<Rightarrow> json list" where
  "native_authority_details owner_user_id w =
     native_authority ''user'' owner_user_id #
     map (native_authority ''organization'') (sort (active_identity_organization_ids owner_user_id w))"

definition require_current_native_authority_context :: "env \<Rightarrow> string \<Rightarrow> json list \<Rightarrow> unit server" where
  "require_current_native_authority_context env owner_user_id details =
     bind (lift_result (assert_native_authority_selection details)) (\<lambda>_.
     bind (gets (native_authority_details owner_user_id)) (\<lambda>available.
     require (list_ex (\<lambda>c. exact_authorization_details (env_collation_key env) [c] [hd details]) available)
       (forbidden ''Selected Realmroot authority Context is no longer available.'')))"

section \<open>Control\<close>

definition controls_agent_identity :: "string \<Rightarrow> string \<Rightarrow> world \<Rightarrow> bool" where
  "controls_agent_identity identity_id actor_user_id w =
     (case find_identity identity_id w of
        None \<Rightarrow> False
      | Some a \<Rightarrow> ai_owner_user_id (agg_identity a) = actor_user_id)"

definition require_controlled_connection :: "string \<Rightarrow> string \<Rightarrow> resource_connection server" where
  "require_controlled_connection connection_id actor_user_id =
     bind (gets (find_connection connection_id)) (\<lambda>c.
     bind (found c (not_found ''Resource account connection was not found.'')) (\<lambda>connection.
     if cn_owner_user_id connection = Some actor_user_id then ret connection
     else
       bind (case present (cn_owner_organization_id connection) of
               None \<Rightarrow> ret False
             | Some o' \<Rightarrow> bind (gets (organization_user_has_scope o' actor_user_id ''agents:write'')) lift_result) (\<lambda>allowed.
       if allowed then ret connection
       else throw (forbidden ''Resource account controller access is required.''))))"

definition require_controlled_request_target ::
    "access_request \<Rightarrow> string \<Rightarrow> resource_connection option server" where
  "require_controlled_request_target request actor_user_id =
     (case present (rq_connection_id request) of
        Some c \<Rightarrow> bind (require_controlled_connection c actor_user_id) (\<lambda>connection. ret (Some connection))
      | None \<Rightarrow>
          bind (gets (controls_agent_identity (rq_agent_identity_id request) actor_user_id)) (\<lambda>controls.
          if controls then ret None else throw (forbidden ''Agent controller access is required.'')))"

definition assert_connection_in_home_space :: "resource_connection \<Rightarrow> string \<Rightarrow> failure + unit" where
  "assert_connection_in_home_space connection owner_user_id =
     ensure (cn_owner_user_id connection = Some owner_user_id)
       (forbidden ''Resource account connection is outside the Agent home space.'')"

section \<open>Audit\<close>

record resource_audit =
  ra_action :: string
  ra_result :: string
  ra_principal :: "agent_principal option"
  ra_request :: "access_request option"
  ra_resource_id :: string
  ra_connection :: "resource_connection option"
  ra_access_request_id :: "string option"
  ra_controller_user_id :: "string option"
  ra_scopes :: "string list"
  ra_authorization_details :: "json list"
  ra_reason_code :: "string option"

definition audit_identity_id :: "resource_audit \<Rightarrow> string option" where
  "audit_identity_id a =
     (case ra_principal a of Some p \<Rightarrow> Some (pr_identity_id p)
      | None \<Rightarrow> map_option rq_agent_identity_id (ra_request a))"

definition resolve_audit_tenant :: "resource_audit \<Rightarrow> authorization_tenant server" where
  "resolve_audit_tenant a =
     (case Option.bind (ra_connection a) (\<lambda>c. present (cn_owner_user_id c)) of
        Some u \<Rightarrow> ret (User_tenant u)
      | None \<Rightarrow>
          (case Option.bind (ra_connection a) (\<lambda>c. present (cn_owner_organization_id c)) of
             Some o' \<Rightarrow> ret (Organization_tenant o')
           | None \<Rightarrow>
               (case present (audit_identity_id a) of
                  None \<Rightarrow> throw (PlainError ''Agent audit event has no tenant-owned resource.'')
                | Some i \<Rightarrow>
                    bind (gets (find_identity i)) (\<lambda>x.
                    bind (found x (PlainError (''Agent identity '' @ i @ '' was not found while writing its audit event.'')))
                      (\<lambda>identity. ret (User_tenant (ai_owner_user_id (agg_identity identity))))))))"

definition detail_projection :: "json \<Rightarrow> json" where
  "detail_projection detail =
     JObj ((''type'', detail_member detail ''type'') #
       (if is_json_string (detail_member detail ''identifier'')
        then [(''identifier'', detail_member detail ''identifier'')] else []))"

definition resource_audit_record :: "env \<Rightarrow> resource_audit \<Rightarrow> agent_audit_event server" where
  "resource_audit_record env a =
     bind (resolve_audit_tenant a) (\<lambda>tenant.
     bind (generate_id env) (\<lambda>i.
     bind (new_date env) (\<lambda>now.
     ret \<lparr>au_id = i, au_action = ra_action a, au_result = ra_result a, au_realm_owned = False,
          au_owner_user_id = (case tenant of User_tenant u \<Rightarrow> Some u | Organization_tenant _ \<Rightarrow> None),
          au_owner_organization_id = (case tenant of User_tenant _ \<Rightarrow> None | Organization_tenant o' \<Rightarrow> Some o'),
          au_controller_user_id = ra_controller_user_id a,
          au_subject_issuer = map_option pr_issuer (ra_principal a),
          au_subject = map_option pr_subject (ra_principal a), au_agent_identity_id = audit_identity_id a,
          au_host_id = map_option pr_host_id (ra_principal a), au_resource_id = Some (ra_resource_id a),
          au_resource_connection_id = map_option cn_id (ra_connection a),
          au_access_request_id = ra_access_request_id a, au_scopes = Some (ra_scopes a),
          au_reason_code = ra_reason_code a,
          au_metadata = (if ra_authorization_details a = [] then None
            else Some (JObj [(''authorizationDetails'', JArr (map detail_projection (ra_authorization_details a)))])),
          au_occurred_at = now\<rparr>)))"

section \<open>Catalogs of a connected account\<close>

text \<open>
  A connection's catalog, as the answers to the requests for its pages of 100 items, up to the
  last page: of the catalog its connector advertises, else of the details the account was
  connected with. The loops over it stop at the first page that fails.
\<close>

definition stored_pages :: "json list \<Rightarrow> catalog_item list list" where
  "stored_pages details =
     map (\<lambda>k. map (\<lambda>d. \<lparr>ci_authorization_detail = d, ci_granted_scopes = None\<rparr>)
            (page_of \<lparr>pg_limit = 100, pg_offset = k * 100\<rparr> details))
       [0..<max 1 (ceil_div (length details) 100)]"

definition resource_catalog ::
    "env \<Rightarrow> resource_server \<Rightarrow> resource_connection \<Rightarrow> (failure + catalog_item list) list" where
  "resource_catalog env resource connection =
     (case env_catalog env (rs_id resource) (cn_id connection) of
        Some pages \<Rightarrow> pages
      | None \<Rightarrow> map Inr (stored_pages (connection_authorization_details connection)))"

definition catalog_items :: "(failure + catalog_item list) list \<Rightarrow> failure + catalog_item list" where
  "catalog_items pages = map_sum id concat (collect_results id pages)"

text \<open>The map from a requested detail to its scopes; reading ends once every detail was found.\<close>

primrec granted_by_detail ::
    "env \<Rightarrow> string list \<Rightarrow> (failure + catalog_item list) list \<Rightarrow> (string \<times> string list option) list \<Rightarrow>
     failure + (string \<times> string list option) list" where
  "granted_by_detail env requested [] granted = Inr granted"
| "granted_by_detail env requested (page # pages) granted =
     (case page of
        Inl e \<Rightarrow> Inl e
      | Inr items \<Rightarrow>
          (let granted' = foldl (\<lambda>m item.
                 let k = canonical_json (env_collation_key env) (ci_authorization_detail item) in
                 if k \<in> set requested then AList.update k (ci_granted_scopes item) m else m) granted items in
           if length granted' = length requested then Inr granted'
           else granted_by_detail env requested pages granted'))"

definition account_scopes_for_authorization_details ::
    "env \<Rightarrow> resource_server \<Rightarrow> resource_connection \<Rightarrow> json list \<Rightarrow> failure + string list option" where
  "account_scopes_for_authorization_details env resource connection details =
     (let requested = uniq (map (canonical_json (env_collation_key env)) details) in
      case granted_by_detail env requested (resource_catalog env resource connection) [] of
        Inl e \<Rightarrow> Inl e
      | Inr granted \<Rightarrow>
          (let contextual = map snd granted in
           if length granted \<noteq> length requested then Inr (Some [])
           else if list_ex (\<lambda>x. x = None) contextual then Inr None
           else (case map the contextual of
               [] \<Rightarrow> Inr (Some [])
             | first # rest \<Rightarrow> Inr (Some (sort (filter (\<lambda>s. list_all (\<lambda>scopes. s \<in> set scopes) rest) first))))))"

definition fallback_authorization :: "env \<Rightarrow> resource_server \<Rightarrow> resource_connection \<Rightarrow> bool server" where
  "fallback_authorization env resource connection =
     (if connection_authorization_details connection \<noteq> [] then ret False
      else case present (rs_connector_id resource) of
        None \<Rightarrow> ret True
      | Some _ \<Rightarrow>
          if rs_authorization_model resource \<noteq> External_model then ret True
          else (case env_active_authorization env (rs_id resource) (provider_credential_generation connection) of
              None \<Rightarrow> throw (not_found ''Active external API resource authorization was not found.'')
            | Some a \<Rightarrow> ret (present (ea_catalog_endpoint a) = None)))"

definition details_available :: "env \<Rightarrow> json list \<Rightarrow> json list \<Rightarrow> bool" where
  "details_available env available details \<longleftrightarrow>
     list_all (\<lambda>d. list_ex (\<lambda>c. exact_authorization_details (env_collation_key env) [c] [d]) available) details"

definition resolve_requested_authorization_details ::
    "env \<Rightarrow> resource_server \<Rightarrow> resource_connection option \<Rightarrow> json list \<Rightarrow> string \<Rightarrow> unit server" where
  "resolve_requested_authorization_details env resource connection details owner_user_id =
     (if details = [] then ret ()
      else if has_duplicate_authorization_details (env_collation_key env) details then
        throw (invalid_authorization_details ''Authorization details contain duplicate entries.'')
      else if \<not> requires_account_connection resource then
        bind (gets (native_authority_details owner_user_id)) (\<lambda>available.
        require (details_available env available details)
          (invalid_authorization_details ''Realmroot authority Context is not available to this Agent owner.''))
      else (case connection of
          None \<Rightarrow> throw (invalid_authorization_details
            ''Connect the Resource Server before selecting authorization details.'')
        | Some c \<Rightarrow>
            bind (fallback_authorization env resource c) (\<lambda>fallback.
            if fallback then throw (invalid_authorization_details ''This Resource Server does not use authorization details.'')
            else
              bind (lift_result (catalog_items (resource_catalog env resource c))) (\<lambda>items.
              require (details_available env (map ci_authorization_detail items) details)
                (invalid_authorization_details
                  ''Authorization detail is not available through this Resource Server connection.'')))))"

section \<open>Who may be granted what\<close>

definition validate_agent_permission_target ::
    "env \<Rightarrow> resource_server \<Rightarrow> string \<Rightarrow> string list \<Rightarrow> string option \<Rightarrow> json list \<Rightarrow> string \<Rightarrow> string list option \<Rightarrow>
     (resource_connection option \<times> string option) server" where
  "validate_agent_permission_target env resource agent_identity_id scopes connection_id details actor_user_id resolved =
     bind (lift_result (validate_resource_requested_scopes resource scopes)) (\<lambda>_.
     bind (gets (find_identity agent_identity_id)) (\<lambda>x.
     bind (found x (not_found ''Active Agent identity was not found.'')) (\<lambda>a.
     bind (require (ai_status (agg_identity a) = Identity_active) (not_found ''Active Agent identity was not found.'')) (\<lambda>_.
     let owner = ai_owner_user_id (agg_identity a); key = env_collation_key env in
     bind (require_agent_resource_visibility resource owner) (\<lambda>_.
     bind (if requires_account_connection resource then ret ()
           else require_current_native_authority_context env owner details) (\<lambda>_.
     bind (if requires_account_connection resource then user_effective_now env actor_user_id resource None
           else native_authority_effective_scopes env (Some actor_user_id) resource (hd details)) (\<lambda>grantor_scopes.
     bind (lift_result (assert_scope_subset scopes grantor_scopes ''controller effective scope'')) (\<lambda>_.
     if requires_account_connection resource then
       bind (case present connection_id of
               Some c \<Rightarrow> bind (require_controlled_connection c actor_user_id) (\<lambda>connection. ret (Some connection))
             | None \<Rightarrow> ret None) (\<lambda>given.
       bind (case given of
               Some c \<Rightarrow> ret (Some c)
             | None \<Rightarrow>
                 bind (gets (find_connection_by_owner_resource (rs_id resource) owner)) (\<lambda>owned.
                 case owned of
                   None \<Rightarrow> ret None
                 | Some c \<Rightarrow> bind (require_controlled_connection (cn_id c) actor_user_id) (\<lambda>c'. ret (Some c')))) (\<lambda>chosen.
       bind (found chosen (bad_request ''An account connection is required to approve external API access.'')) (\<lambda>connection.
       bind (require (\<not> (cn_resource_id connection \<noteq> rs_id resource \<or> cn_status connection \<noteq> ''active''))
              (bad_request ''The selected account connection does not belong to this API resource.'')) (\<lambda>_.
       bind (lift_result (assert_connection_in_home_space connection owner)) (\<lambda>_.
       bind (lift_result (assert_authorization_details_selection key resource
              (Some (connection_authorization_details connection)) details)) (\<lambda>_.
       bind (lift_result (assert_authorization_details_subset key details
              (connection_authorization_details connection) ''connected account'')) (\<lambda>_.
       bind (case resolved of
               Some s \<Rightarrow> ret (Some s)
             | None \<Rightarrow> if details = [] then ret None
                 else lift_result (account_scopes_for_authorization_details env resource connection details)) (\<lambda>contextual.
       bind (lift_result (assert_scope_subset scopes
              (case contextual of Some s \<Rightarrow> s | None \<Rightarrow> connection_granted_scopes connection) ''connected account'')) (\<lambda>_.
       ret (Some connection, Some (cn_id connection)))))))))))
     else if present connection_id \<noteq> None then
       throw (bad_request ''Native API resources do not use account connections.'')
     else
       bind (lift_result (assert_authorization_details_selection key resource None details)) (\<lambda>_.
       ret (None, connection_id))))))))))"

section \<open>Representation\<close>

record access_request_view =
  vr_id :: string
  vr_resource_id :: string
  vr_connection_id :: "string option"
  vr_agent_identity_id :: string
  vr_host_id :: string
  vr_scopes :: "string list"
  vr_authorization_details :: "json list"
  vr_reason :: "string option"
  vr_status :: string
  vr_approval_url :: "string option"
  vr_approved_entitlements :: "approved_entitlement list"
  vr_expires_at :: int
  vr_decided_at :: "int option"
  vr_created_at :: int
  vr_updated_at :: int

definition to_agent_access_request :: "access_request \<Rightarrow> string \<Rightarrow> string option \<Rightarrow> access_request_view" where
  "to_agent_access_request r host_id approval_url =
     \<lparr>vr_id = rq_id r, vr_resource_id = rq_resource_id r, vr_connection_id = rq_connection_id r,
      vr_agent_identity_id = rq_agent_identity_id r, vr_host_id = host_id, vr_scopes = rq_scopes r,
      vr_authorization_details = rq_authorization_details r, vr_reason = rq_reason r, vr_status = rq_status r,
      vr_approval_url = approval_url, vr_approved_entitlements = rq_approved_entitlements r,
      vr_expires_at = rq_expires_at r, vr_decided_at = rq_decided_at r, vr_created_at = rq_created_at r,
      vr_updated_at = rq_updated_at r\<rparr>"

definition approval_url :: "string \<Rightarrow> string \<Rightarrow> string" where
  "approval_url origin token =
     (if origin \<noteq> [] \<and> last origin = CHR ''/'' then butlast origin else origin) @ ''/agent/access#token='' @ token"

definition access_request_token_context :: "string \<Rightarrow> string" where
  "access_request_token_context request_id = ''agent-access-request:'' @ request_id @ '':approval-token''"

definition request_host_id :: "access_request \<Rightarrow> string server" where
  "request_host_id request =
     bind (gets (\<lambda>w. case find_identity (rq_agent_identity_id request) w of
               None \<Rightarrow> None
             | Some a \<Rightarrow> find (\<lambda>b. ab_id b = rq_binding_id request) (agg_bindings a))) (\<lambda>binding.
     bind (found binding (not_found ''Agent host binding was not found.'')) (\<lambda>b. ret (bb_host_id b)))"

definition with_host_id :: "access_request \<Rightarrow> access_request \<Rightarrow> access_request_view server" where
  "with_host_id request decided =
     bind (request_host_id request) (\<lambda>host_id. ret (to_agent_access_request decided host_id None))"

end
