(* ===== verification/Access_Decisions.thy ===== *)
theory Access_Decisions
  imports Access_Requests
begin

text \<open>
  The decision of an access request, its creation, direct permissions and their revocation
  (\<open>server/usecases/external-resources.ts\<close>).
\<close>

section \<open>Decision\<close>

text \<open>An approval names for how long it holds; the request schema asks for the expiry of the last kind.\<close>

datatype grant_lifetime = For_ever | For_once | Until_time int

datatype decision_input = Deny_request | Approve_request grant_lifetime "json list"

fun lifetime_mode :: "grant_lifetime \<Rightarrow> entitlement_mode" where
  "lifetime_mode For_ever = Persistent"
| "lifetime_mode For_once = Once"
| "lifetime_mode (Until_time _) = Until"

fun lifetime_expiry :: "grant_lifetime \<Rightarrow> int option" where
  "lifetime_expiry (Until_time t) = Some t"
| "lifetime_expiry _ = None"

definition granted_entitlement ::
    "string \<Rightarrow> access_request \<Rightarrow> string option \<Rightarrow> json list \<Rightarrow> string \<Rightarrow> string \<Rightarrow> grant_lifetime \<Rightarrow> string \<Rightarrow> int \<Rightarrow>
     resource_scope_entitlement" where
  "granted_entitlement i request connection_id details hash scope lifetime actor_user_id now =
     \<lparr>se_id = i, se_user_id = None, se_application_id = None,
      se_agent_identity_id = Some (rq_agent_identity_id request), se_organization_id = None,
      se_resource_server_id = rq_resource_id request, se_connection_id = connection_id,
      se_authorization_details = details, se_authorization_context_hash = hash, se_scope = scope,
      se_mode = lifetime_mode lifetime, se_granted_by_user_id = Some actor_user_id,
      se_granted_by_agent_identity_id = None, se_source_access_request_id = Some (rq_id request),
      se_expires_at = lifetime_expiry lifetime, se_ended_at = None, se_end_reason = None,
      se_created_at = now, se_updated_at = now\<rparr>"

definition should_persist :: "grant_lifetime \<Rightarrow> resource_scope_entitlement \<Rightarrow> bool" where
  "should_persist lifetime current \<longleftrightarrow> lifetime = For_ever \<and> se_mode current \<noteq> Persistent"

definition should_extend :: "grant_lifetime \<Rightarrow> resource_scope_entitlement \<Rightarrow> bool" where
  "should_extend lifetime current \<longleftrightarrow>
     (case lifetime of
        Until_time t \<Rightarrow> se_mode current \<noteq> Persistent \<and>
          (case se_expires_at current of None \<Rightarrow> True | Some s \<Rightarrow> s < t)
      | _ \<Rightarrow> False)"

definition reuse_update ::
    "grant_lifetime \<Rightarrow> string \<Rightarrow> int \<Rightarrow> resource_scope_entitlement \<Rightarrow> entitlement_update list" where
  "reuse_update lifetime hash now current =
     (let persist = should_persist lifetime current; extend = should_extend lifetime current in
      if persist \<or> extend \<or> se_authorization_context_hash current \<noteq> hash then
        [\<lparr>eu_id = se_id current,
          eu_mode = (if persist then Persistent else if extend then Until else se_mode current),
          eu_expires_at = (if persist then None else if extend then lifetime_expiry lifetime else se_expires_at current),
          eu_authorization_context_hash = hash, eu_updated_at = now\<rparr>]
      else [])"

text \<open>One scope after the other: what is approved, the rows to insert and the rows to change.\<close>

type_synonym approval_plan = "approved_entitlement list \<times> resource_scope_entitlement list \<times> entitlement_update list"

primrec plan_scopes ::
    "env \<Rightarrow> (string \<Rightarrow> string \<Rightarrow> resource_scope_entitlement) \<Rightarrow> grant_lifetime \<Rightarrow> string \<Rightarrow> int \<Rightarrow>
     resource_scope_entitlement list \<Rightarrow> string list \<Rightarrow> approval_plan server" where
  "plan_scopes env new lifetime hash now existing [] = ret ([], [], [])"
| "plan_scopes env new lifetime hash now existing (scope # scopes) =
     (case find (\<lambda>e. se_scope e = scope) existing of
        Some current \<Rightarrow>
          bind (plan_scopes env new lifetime hash now existing scopes) (\<lambda>(approved, added, updates).
          ret (\<lparr>ap_scope = scope, ap_entitlement_id = se_id current\<rparr> # approved, added,
               reuse_update lifetime hash now current @ updates))
      | None \<Rightarrow>
          bind (generate_id env) (\<lambda>i.
          bind (plan_scopes env new lifetime hash now existing scopes) (\<lambda>(approved, added, updates).
          ret (\<lparr>ap_scope = scope, ap_entitlement_id = i\<rparr> # approved, new i scope # added, updates))))"

definition context_entitlements ::
    "env \<Rightarrow> string \<Rightarrow> string \<Rightarrow> string option \<Rightarrow> json list \<Rightarrow> int \<Rightarrow> world \<Rightarrow> resource_scope_entitlement list" where
  "context_entitlements env agent_identity_id resource_id connection_id details now w =
     filter (\<lambda>e. se_resource_server_id e = resource_id \<and> se_connection_id e = connection_id \<and>
                exact_authorization_details (env_collation_key env) (se_authorization_details e) details)
       (list_active_entitlements_by_agent agent_identity_id now w)"

definition require_pending_request :: "env \<Rightarrow> access_request option \<Rightarrow> access_request server" where
  "require_pending_request env r =
     bind (found r (not_found ''Pending Agent access request was not found.'')) (\<lambda>request.
     bind (require (rq_status request = ''pending'') (not_found ''Pending Agent access request was not found.'')) (\<lambda>_.
     bind (new_date env) (\<lambda>date_now.
     bind (require (date_now < rq_expires_at request) (not_found ''Pending Agent access request was not found.'')) (\<lambda>_.
     ret request))))"

definition decision_audit_input ::
    "access_request \<Rightarrow> string \<Rightarrow> resource_connection option \<Rightarrow> string \<Rightarrow> json list \<Rightarrow> string option \<Rightarrow> resource_audit" where
  "decision_audit_input request result connection actor_user_id details reason =
     \<lparr>ra_action = ''api_resource.access_decided'', ra_result = result, ra_principal = None,
      ra_request = Some request, ra_resource_id = rq_resource_id request, ra_connection = connection,
      ra_access_request_id = Some (rq_id request), ra_controller_user_id = Some actor_user_id,
      ra_scopes = rq_scopes request, ra_authorization_details = details, ra_reason_code = reason\<rparr>"

definition deny_request ::
    "env \<Rightarrow> access_request \<Rightarrow> resource_connection option \<Rightarrow> string \<Rightarrow> int \<Rightarrow> access_request_view server" where
  "deny_request env request connection actor_user_id now =
     bind (resource_audit_record env (decision_audit_input request ''denied'' connection actor_user_id
            (rq_authorization_details request) (Some ''controller_denied''))) (\<lambda>audit.
     bind (decide_access_request_with_audit (rq_id request)
            \<lparr>ad_status = ''denied'', ad_approved_entitlements = [], ad_target = None, ad_decided_at = now,
             ad_updated_at = now\<rparr> audit) (\<lambda>decided.
     bind (found decided (bad_request ''Agent access request was already decided.'')) (\<lambda>d.
     with_host_id request d)))"

definition approve_request ::
    "env \<Rightarrow> access_request \<Rightarrow> grant_lifetime \<Rightarrow> json list \<Rightarrow> string \<Rightarrow> string option \<Rightarrow> int \<Rightarrow> approval_outcome server" where
  "approve_request env request lifetime details actor_user_id reason now =
     bind (require_enabled_resource env (rq_resource_id request)) (\<lambda>resource.
     bind (require (authorization_details_match_request (env_collation_key env) details (rq_authorization_details request))
            (invalid_authorization_details ''Approved authorization details do not match the pending access request.'')) (\<lambda>_.
     bind (validate_agent_permission_target env resource (rq_agent_identity_id request) (rq_scopes request)
            (rq_connection_id request) details actor_user_id None) (\<lambda>(connection, connection_id).
     bind (require (\<not> (case lifetime_expiry lifetime of None \<Rightarrow> False | Some t \<Rightarrow> t \<le> now))
            (bad_request ''Permission expiry must be in the future.'')) (\<lambda>_.
     let hash = context_hash env details in
     bind (gets (context_entitlements env (rq_agent_identity_id request) (rq_resource_id request) connection_id
            details now)) (\<lambda>existing.
     bind (plan_scopes env
            (\<lambda>i scope. granted_entitlement i request connection_id details hash scope lifetime actor_user_id now)
            lifetime hash now existing (rq_scopes request)) (\<lambda>(approved, added, updates).
     bind (resource_audit_record env (decision_audit_input request ''allowed'' connection actor_user_id details reason)) (\<lambda>audit.
     approve_access_request_with_entitlements added updates (rq_id request)
       \<lparr>ad_status = ''approved'', ad_approved_entitlements = approved, ad_target = Some (connection_id, details),
        ad_decided_at = now, ad_updated_at = now\<rparr> audit)))))))"

text \<open>One attempt; \<open>again\<close> is what the code does when the entitlements changed under it.\<close>

definition decide_attempt ::
    "env \<Rightarrow> string \<Rightarrow> decision_input \<Rightarrow> string \<Rightarrow> string option \<Rightarrow> access_request_view server \<Rightarrow>
     access_request_view server" where
  "decide_attempt env request_id input actor_user_id reason again =
     bind (gets (find_access_request request_id)) (\<lambda>r.
     bind (require_pending_request env r) (\<lambda>request.
     bind (require_controlled_request_target request actor_user_id) (\<lambda>controlled.
     bind (new_date env) (\<lambda>now.
     case input of
       Deny_request \<Rightarrow> deny_request env request controlled actor_user_id now
     | Approve_request lifetime details \<Rightarrow>
         bind (approve_request env request lifetime details actor_user_id reason now) (\<lambda>outcome.
         case outcome of
           Resource_unavailable \<Rightarrow>
             throw (bad_request ''The API resource was deleted before access could be approved.'')
         | Request_changed \<Rightarrow> throw (bad_request ''Agent access request was already decided.'')
         | Approved _ decided \<Rightarrow> with_host_id request decided
         | Entitlements_changed \<Rightarrow>
             bind (gets (find_access_request request_id)) (\<lambda>concurrent.
             case concurrent of
               Some c \<Rightarrow> if rq_status c = ''approved'' then with_host_id c c else again
             | None \<Rightarrow> again))))))"

definition decide_agent_access_request ::
    "env \<Rightarrow> string \<Rightarrow> decision_input \<Rightarrow> string \<Rightarrow> string option \<Rightarrow> access_request_view server" where
  "decide_agent_access_request env request_id input actor_user_id reason =
     decide_attempt env request_id input actor_user_id reason
       (decide_attempt env request_id input actor_user_id reason
         (throw (bad_request ''Agent permissions changed while access was being approved.'')))"

definition require_pending_access_request_by_token :: "env \<Rightarrow> string \<Rightarrow> access_request server" where
  "require_pending_access_request_by_token env token =
     bind (gets (find_access_request_by_approval_token_hash (sha256_text env token))) (require_pending_request env)"

definition decide_agent_access_request_by_token ::
    "env \<Rightarrow> string \<Rightarrow> decision_input \<Rightarrow> string \<Rightarrow> access_request_view server" where
  "decide_agent_access_request_by_token env token input actor_user_id =
     bind (require_pending_access_request_by_token env token) (\<lambda>request.
     decide_agent_access_request env (rq_id request) input actor_user_id None)"

definition get_controller_access_request_by_token :: "env \<Rightarrow> string \<Rightarrow> string \<Rightarrow> access_request_view server" where
  "get_controller_access_request_by_token env token actor_user_id =
     bind (require_pending_access_request_by_token env token) (\<lambda>request.
     bind (require_controlled_request_target request actor_user_id) (\<lambda>_.
     with_host_id request request))"

definition decide_access_request ::
    "env \<Rightarrow> string \<Rightarrow> decision_input \<Rightarrow> string option \<Rightarrow> string \<Rightarrow> access_request_view server" where
  "decide_access_request env request_id input approval_token actor_user_id =
     bind (case present approval_token of
             None \<Rightarrow> ret ()
           | Some token \<Rightarrow>
               bind (get_controller_access_request_by_token env token actor_user_id) (\<lambda>request.
               require (vr_id request = request_id) (not_found ''Agent access request was not found.''))) (\<lambda>_.
     decide_agent_access_request env request_id input actor_user_id None)"

section \<open>Creation\<close>

record access_request_input =
  ai_resource_id :: string
  ai_scopes :: "string list"
  ai_authorization_details :: "json list"
  ai_reason :: "string option"

definition automatic_native_controller_user_id ::
    "resource_server \<Rightarrow> string option \<Rightarrow> string list \<Rightarrow> string option" where
  "automatic_native_controller_user_id resource controller scopes =
     (case present controller of
        None \<Rightarrow> None
      | Some u \<Rightarrow>
          if requires_account_connection resource then None
          else if scopes \<noteq> [] \<and>
                  list_all (\<lambda>s. map_of (rev (map (\<lambda>d. (ds_value d, ds_grant_mode d)) (declared_scopes resource))) s
                               = Some Automatic_grant) scopes
               then Some u else None)"

definition get_resource :: "string \<Rightarrow> resource_server server" where
  "get_resource i = bind (gets (find_resource i)) (\<lambda>r. found r (not_found ''API resource was not found.''))"

definition realmroot_registry :: "declared_scope list" where
  "realmroot_registry =
     map (\<lambda>s. \<lparr>ds_value = s, ds_grant_mode = (if s = ''agents:write'' then Automatic_grant else Assigned_grant)\<rparr>)
       realmroot_management_scopes"

definition refresh_resource_scope_registry :: "env \<Rightarrow> string \<Rightarrow> resource_server server" where
  "refresh_resource_scope_registry env i =
     bind (get_resource i) (\<lambda>resource.
     bind (require (rs_enabled resource) (bad_request ''Resource Server must be active before synchronizing scopes.'')) (\<lambda>_.
     if is_realmroot resource then
       bind (replace_resource_discovery env i (rs_name resource) realmroot_registry) (\<lambda>_. get_resource i)
     else
       bind (catch
         (bind (lift_result (env_discovered_registry env i)) (\<lambda>(name, registry).
          replace_resource_discovery env i name registry))
         (\<lambda>e. bind (case rs_scope_registry resource of
                  None \<Rightarrow> ret ()
                | Some registry \<Rightarrow> replace_resource_discovery env i (rs_name resource) registry) (\<lambda>_. throw e)))
         (\<lambda>_. get_resource i)))"

definition refreshed_resource :: "env \<Rightarrow> resource_server \<Rightarrow> string list \<Rightarrow> resource_server server" where
  "refreshed_resource env resource scopes =
     bind (case present (rs_connector_id resource) of
             None \<Rightarrow> ret ()
           | Some connector \<Rightarrow>
               bind (lift_result (env_advertised_scopes env connector)) (\<lambda>advertised.
               require (advertised = [] \<or> list_all (\<lambda>s. s \<in> set advertised) scopes)
                 (bad_request ''Requested scope is not currently supported by the Resource Server.''))) (\<lambda>_.
     if list_ex (\<lambda>s. s \<notin> set (map ds_value (declared_scopes resource))) scopes then
       bind (refresh_resource_scope_registry env (rs_id resource)) (\<lambda>fresh.
       bind (lift_result (validate_resource_requested_scopes fresh scopes)) (\<lambda>_. ret fresh))
     else ret resource)"

definition reusable_account_scopes ::
    "env \<Rightarrow> resource_server \<Rightarrow> resource_connection option \<Rightarrow> json list \<Rightarrow> bool \<Rightarrow> failure + string list option" where
  "reusable_account_scopes env resource connection details has_concrete =
     (if \<not> requires_account_connection resource then Inr None
      else case connection of
        None \<Rightarrow> Inr (Some [])
      | Some c \<Rightarrow>
          if cn_status c \<noteq> ''active'' then Inr (Some [])
          else (case (if has_concrete then account_scopes_for_authorization_details env resource c details else Inr None) of
              Inl e \<Rightarrow> Inl e
            | Inr (Some s) \<Rightarrow> Inr (Some s)
            | Inr None \<Rightarrow> Inr (Some (connection_granted_scopes c))))"

definition ungrantable :: "json \<Rightarrow> string list \<Rightarrow> failure" where
  "ungrantable authority missing =
     (let i = js_text (detail_member authority ''id''); kind = js_text (detail_member authority ''authority'') in
      ApiError 400 Bad_request
        (''Controller cannot grant the following scopes in Context \"'' @ i @ ''\" ('' @ kind @ ''): '' @
         join_with '', '' missing @ ''. No approval request was created.'')
        (Some (JObj [(''context'', JObj [(''id'', detail_member authority ''id''),
                                       (''type'', detail_member authority ''authority'')]),
                     (''scopes'', JArr (map JStr missing))])))"

definition reusable_approvals :: "resource_scope_entitlement list \<Rightarrow> string list \<Rightarrow> approved_entitlement list" where
  "reusable_approvals entitlements scopes =
     concat (map (\<lambda>s. case find (\<lambda>e. se_scope e = s) entitlements of
               None \<Rightarrow> []
             | Some e \<Rightarrow> [\<lparr>ap_scope = s, ap_entitlement_id = se_id e\<rparr>]) scopes)"

text \<open>A controller that holds only automatic scopes on a native resource decides at once.\<close>

definition approve_automatically ::
    "env \<Rightarrow> string \<Rightarrow> json list \<Rightarrow> string \<Rightarrow> access_request_view server" where
  "approve_automatically env request_id details controller_user_id =
     decide_agent_access_request env request_id (Approve_request For_ever details) controller_user_id
       (Some ''automatic_scope_policy'')"

definition requested_audit ::
    "agent_principal \<Rightarrow> resource_server \<Rightarrow> resource_connection option \<Rightarrow> string \<Rightarrow> string list \<Rightarrow> json list \<Rightarrow> bool \<Rightarrow>
     resource_audit" where
  "requested_audit p resource connection request_id scopes details allowed =
     \<lparr>ra_action = ''api_resource.access_requested'', ra_result = (if allowed then ''allowed'' else ''pending''),
      ra_principal = Some p, ra_request = None, ra_resource_id = rs_id resource, ra_connection = connection,
      ra_access_request_id = Some request_id, ra_controller_user_id = None, ra_scopes = scopes,
      ra_authorization_details = details, ra_reason_code = None\<rparr>"

definition submit_access_request ::
    "env \<Rightarrow> agent_principal \<Rightarrow> resource_server \<Rightarrow> resource_connection option \<Rightarrow> string list \<Rightarrow> json list \<Rightarrow>
     string option \<Rightarrow> approved_entitlement list option \<Rightarrow> string option \<Rightarrow> string \<Rightarrow> int \<Rightarrow> access_request_view server" where
  "submit_access_request env p resource connection scopes details reason approved controller origin now =
     bind (random_token env) (\<lambda>token.
     bind (generate_id env) (\<lambda>request_id.
     let request = \<lparr>rq_id = request_id, rq_resource_id = rs_id resource, rq_connection_id = map_option cn_id connection,
           rq_agent_identity_id = pr_identity_id p, rq_binding_id = ab_id (pr_binding p), rq_scopes = scopes,
           rq_authorization_details = details, rq_reason = reason,
           rq_status = (if approved \<noteq> None then ''approved'' else ''pending''),
           rq_approval_token_hash = sha256_text env token,
           rq_encrypted_approval_token = env_seal_secret env token (access_request_token_context request_id),
           rq_approved_entitlements = (case approved of None \<Rightarrow> [] | Some a \<Rightarrow> a), rq_expires_at = now + 600000,
           rq_decided_at = (if approved \<noteq> None then Some now else None), rq_created_at = now, rq_updated_at = now\<rparr> in
     bind (resource_audit_record env (requested_audit p resource connection request_id scopes details (approved \<noteq> None))) (\<lambda>audit.
     bind (create_access_request_with_audit request audit) (\<lambda>c.
     bind (found c (forbidden ''Enabled Resource Server is required.'')) (\<lambda>created.
     case (if approved = None then controller else None) of
       Some u \<Rightarrow> approve_automatically env (rq_id created) details u
     | None \<Rightarrow> ret (to_agent_access_request created (pr_host_id p)
         (if approved \<noteq> None then None else Some (approval_url origin token))))))))"

definition create_agent_access_request ::
    "env \<Rightarrow> access_request_input \<Rightarrow> agent_principal \<Rightarrow> string \<Rightarrow> access_request_view server" where
  "create_agent_access_request env input p origin =
     bind (lift_result (require_active_identity_and_binding p)) (\<lambda>identity.
     bind (require_enabled_resource env (ai_resource_id input)) (\<lambda>resource0.
     let owner = ai_owner_user_id (agg_identity identity); key = env_collation_key env;
         external = requires_account_connection resource0 in
     bind (require_agent_resource_visibility resource0 owner) (\<lambda>_.
     bind (if external then gets (find_connection_by_owner_resource (rs_id resource0) owner) else ret None) (\<lambda>connection.
     bind (if external then ret ()
           else lift_result (validate_resource_requested_scopes resource0 (ai_scopes input))) (\<lambda>_.
     bind (lift_result (access_request_authorization_details key resource0 (ai_authorization_details input))) (\<lambda>details.
     let concrete = concrete_details key resource0 details in
     bind (if concrete = [] then ret ()
           else resolve_requested_authorization_details env resource0
             (case connection of None \<Rightarrow> None | Some c \<Rightarrow> if cn_status c = ''active'' then Some c else None)
             concrete owner) (\<lambda>_.
     let scopes = sort (uniq (ai_scopes input)) in
     bind (new_date env) (\<lambda>now.
     bind (lift_result (reusable_account_scopes env resource0 connection details (concrete \<noteq> []))) (\<lambda>account_scopes.
     bind (if (case account_scopes of None \<Rightarrow> False | Some allowed \<Rightarrow> list_ex (\<lambda>s. s \<notin> set allowed) scopes)
           then refreshed_resource env resource0 scopes
           else bind (lift_result (validate_resource_requested_scopes resource0 scopes)) (\<lambda>_. ret resource0)) (\<lambda>resource.
     bind (gets (context_entitlements env (pr_identity_id p) (rs_id resource) (map_option cn_id connection) details now)) (\<lambda>held.
     let reusable = filter (\<lambda>e. case account_scopes of None \<Rightarrow> True | Some allowed \<Rightarrow> se_scope e \<in> set allowed) held;
         approved = reusable_approvals reusable scopes;
         already = (length approved = length scopes) in
     bind (if already \<or> requires_account_connection resource then ret ()
           else
             bind (native_authority_effective_scopes env (Some owner) resource (hd details)) (\<lambda>grantor.
             let missing = filter (\<lambda>s. s \<notin> set grantor) scopes in
             require (missing = []) (ungrantable (hd details) missing))) (\<lambda>_.
     let controller = automatic_native_controller_user_id resource (Some owner) scopes in
     bind (if already then ret None
           else gets (\<lambda>w. find (\<lambda>r. rq_resource_id r = rs_id resource \<and>
                   rq_connection_id r = map_option cn_id connection \<and> exact_scopes (rq_scopes r) scopes \<and>
                   exact_authorization_details key (rq_authorization_details r) details)
                 (list_pending_access_requests_by_agent (pr_identity_id p) now w))) (\<lambda>pending.
     case pending of
       Some r \<Rightarrow>
         (case controller of
            Some u \<Rightarrow> approve_automatically env (rq_id r) details u
          | None \<Rightarrow>
              bind (lift_result (env_open_secret env (rq_encrypted_approval_token r)
                     (access_request_token_context (rq_id r)))) (\<lambda>token.
              ret (to_agent_access_request r (pr_host_id p) (Some (approval_url origin token)))))
     | None \<Rightarrow>
         submit_access_request env p resource connection scopes details (ai_reason input)
           (if already then Some approved else None) controller origin now)))))))))))))"

definition get_agent_access_request :: "string \<Rightarrow> agent_principal \<Rightarrow> access_request_view server" where
  "get_agent_access_request request_id p =
     bind (lift_result (require_active_identity_and_binding p)) (\<lambda>_.
     bind (gets (find_access_request request_id)) (\<lambda>r.
     bind (found r (not_found ''Agent access request was not found.'')) (\<lambda>request.
     bind (require (rq_agent_identity_id request = pr_identity_id p) (not_found ''Agent access request was not found.'')) (\<lambda>_.
     ret (to_agent_access_request request (pr_host_id p) None)))))"

section \<open>Permissions\<close>

record permission_input =
  pi_resource :: string
  pi_scopes :: "string list"
  pi_lifetime :: grant_lifetime

definition find_resource_by_resource_url :: "string \<Rightarrow> world \<Rightarrow> resource_server option" where
  "find_resource_by_resource_url url w =
     find (\<lambda>r. rs_resource_url r = url \<and> rs_enabled r \<and> rs_deleted_at r = None) (w_resources w)"

definition direct_entitlement ::
    "string \<Rightarrow> string \<Rightarrow> resource_server \<Rightarrow> string option \<Rightarrow> json list \<Rightarrow> string \<Rightarrow> string \<Rightarrow> grant_lifetime \<Rightarrow> string \<Rightarrow> int \<Rightarrow>
     resource_scope_entitlement" where
  "direct_entitlement i agent_id resource connection_id details hash scope lifetime actor_user_id now =
     \<lparr>se_id = i, se_user_id = None, se_application_id = None, se_agent_identity_id = Some agent_id,
      se_organization_id = None, se_resource_server_id = rs_id resource, se_connection_id = connection_id,
      se_authorization_details = details, se_authorization_context_hash = hash, se_scope = scope,
      se_mode = lifetime_mode lifetime, se_granted_by_user_id = Some actor_user_id,
      se_granted_by_agent_identity_id = None, se_source_access_request_id = None,
      se_expires_at = lifetime_expiry lifetime, se_ended_at = None, se_end_reason = None,
      se_created_at = now, se_updated_at = now\<rparr>"

definition permission_selections ::
    "env \<Rightarrow> resource_server \<Rightarrow> string \<Rightarrow> string option \<Rightarrow>
     ((json list \<times> string list option) list \<times> string option) server" where
  "permission_selections env resource actor_user_id organization_id =
     (if requires_account_connection resource then
        bind (gets (find_connection_by_owner_resource (rs_id resource) actor_user_id)) (\<lambda>c.
        bind (found c (bad_request
          ''The controller must connect the external resource account before granting Agent permissions.'')) (\<lambda>connection.
        bind (require (cn_status connection = ''active'') (bad_request
          ''The controller must connect the external resource account before granting Agent permissions.'')) (\<lambda>_.
        if rs_authorization_details resource = [] then ret ([([], None)], Some (cn_id connection))
        else
          bind (lift_result (catalog_items (resource_catalog env resource connection))) (\<lambda>items.
          bind (require (items \<noteq> []) (bad_request
            ''The connected account has no available authorization Contexts.'')) (\<lambda>_.
          ret (map (\<lambda>i. ([ci_authorization_detail i], ci_granted_scopes i)) items, Some (cn_id connection)))))))
      else
        ret ([([case present organization_id of
                  Some o' \<Rightarrow> native_authority ''organization'' o'
                | None \<Rightarrow> native_authority ''user'' (case organization_id of Some o' \<Rightarrow> o' | None \<Rightarrow> actor_user_id)], None)], None))"

primrec grant_each ::
    "(string \<Rightarrow> resource_scope_entitlement server) \<Rightarrow> string list \<Rightarrow> resource_scope_entitlement list server" where
  "grant_each f [] = ret []"
| "grant_each f (x # xs) = bind (f x) (\<lambda>e. bind (grant_each f xs) (\<lambda>es. ret (e # es)))"

primrec grant_selections ::
    "(json list \<Rightarrow> resource_scope_entitlement list server) \<Rightarrow> json list list \<Rightarrow> resource_scope_entitlement list server" where
  "grant_selections f [] = ret []"
| "grant_selections f (d # ds) = bind (f d) (\<lambda>es. bind (grant_selections f ds) (\<lambda>fs. ret (es @ fs)))"

definition create_agent_permission ::
    "env \<Rightarrow> string \<Rightarrow> permission_input \<Rightarrow> string \<Rightarrow> string option \<Rightarrow> resource_scope_entitlement list server" where
  "create_agent_permission env agent_id input actor_user_id organization_id =
     bind (gets (controls_agent_identity agent_id actor_user_id)) (\<lambda>controls.
     bind (require controls (forbidden ''Agent controller access is required.'')) (\<lambda>_.
     bind (gets (find_resource_by_resource_url (pi_resource input))) (\<lambda>r.
     bind (found r (not_found ''Enabled Resource Server was not found.'')) (\<lambda>resource.
     let scopes = uniq (pi_scopes input); lifetime = pi_lifetime input in
     bind (new_date env) (\<lambda>now.
     bind (require (\<not> (case lifetime_expiry lifetime of None \<Rightarrow> False | Some t \<Rightarrow> t \<le> now))
            (bad_request ''Permission expiry must be in the future.'')) (\<lambda>_.
     bind (permission_selections env resource actor_user_id organization_id) (\<lambda>(selections, connection_id).
     bind (each (\<lambda>(details, granted).
             bind (validate_agent_permission_target env resource agent_id scopes connection_id details actor_user_id granted)
               (\<lambda>_. ret ())) selections) (\<lambda>_.
     grant_selections (\<lambda>details.
       grant_each (\<lambda>scope.
         bind (generate_id env) (\<lambda>i.
         create_scope_entitlement (direct_entitlement i agent_id resource connection_id details
             (context_hash env details) scope lifetime actor_user_id now) now)) scopes)
       (map fst selections)))))))))"

definition revoke_agent_permission :: "env \<Rightarrow> string \<Rightarrow> string \<Rightarrow> unit server" where
  "revoke_agent_permission env entitlement_id actor_user_id =
     bind (gets (find_entitlement entitlement_id)) (\<lambda>x.
     bind (found x (not_found ''Agent Permission was not found.'')) (\<lambda>entitlement.
     bind (require (present (se_agent_identity_id entitlement) \<noteq> None \<and> se_ended_at entitlement = None)
            (not_found ''Agent Permission was not found.'')) (\<lambda>_.
     bind (case present (se_source_access_request_id entitlement) of
             None \<Rightarrow> ret None
           | Some k \<Rightarrow> gets (find_access_request k)) (\<lambda>r.
     bind (found r (not_found ''Source Agent access request was not found.'')) (\<lambda>request.
     bind (require_controlled_request_target request actor_user_id) (\<lambda>connection.
     bind (new_date env) (\<lambda>now.
     bind (revoke_entitlement_token_leases_at_target env entitlement now) (\<lambda>lease_ids.
     bind (resource_audit_record env
            \<lparr>ra_action = ''api_resource.access_revoked'', ra_result = ''allowed'', ra_principal = None,
             ra_request = Some request, ra_resource_id = se_resource_server_id entitlement, ra_connection = connection,
             ra_access_request_id = Some (rq_id request), ra_controller_user_id = Some actor_user_id,
             ra_scopes = [se_scope entitlement], ra_authorization_details = se_authorization_details entitlement,
             ra_reason_code = None\<rparr>) (\<lambda>audit.
     bind (end_entitlement_with_audit (se_id entitlement) Revoked lease_ids now audit) (\<lambda>_. ret ()))))))))))"

end
