(* ===== verification/Dpop.thy ===== *)
theory Dpop
  imports Access_Decisions
begin

text \<open>
  Proofs of possession (\<open>server/usecases/dpop.ts\<close>) and the store of the identifiers that were
  used (\<open>server/adapters/repos/agent-tokens.ts\<close>). The signature itself is checked by \<open>jose\<close>; what
  the server makes of a proof whose signature holds is modelled.
\<close>

section \<open>Used identifiers\<close>

definition insert_jti :: "dpop_jti \<Rightarrow> world \<Rightarrow> failure + world" where
  "insert_jti j w = insert_row True (dj_jti_hash j \<notin> set (map dj_jti_hash (w_dpop_jtis w))) True
     (w\<lparr>w_dpop_jtis := w_dpop_jtis w @ [j]\<rparr>)"

definition forget_expired_jtis :: "int \<Rightarrow> world \<Rightarrow> failure + world" where
  "forget_expired_jtis now w = Inr (w\<lparr>w_dpop_jtis := filter (\<lambda>j. \<not> dj_expires_at j < now) (w_dpop_jtis w)\<rparr>)"

text \<open>Any constraint error counts as a used identifier.\<close>

definition is_constraint_error :: "failure \<Rightarrow> bool" where
  "is_constraint_error e = (case e of SqliteError _ \<Rightarrow> True | _ \<Rightarrow> False)"

definition consume_jti :: "dpop_jti \<Rightarrow> bool server" where
  "consume_jti input w =
     (case batch [forget_expired_jtis (dj_created_at input), insert_jti input] w of
        Inr v \<Rightarrow> (Inr True, v)
      | Inl e \<Rightarrow> (if is_constraint_error e then Inr False else Inl e, w))"

definition consume_agent_auth_jti :: "dpop_jti \<Rightarrow> bool server" where
  "consume_agent_auth_jti input = consume_jti (input\<lparr>dj_key_thumbprint := ''agent-auth''\<rparr>)"

definition consume_dpop_jti :: "dpop_jti \<Rightarrow> bool server" where
  "consume_dpop_jti input = consume_jti input"

section \<open>Verification\<close>

text \<open>\<open>typ?.toLowerCase()\<close>: absent without a value, and an error on what is no text.\<close>

definition lower_text :: "json \<Rightarrow> failure + string option" where
  "lower_text v =
     (case v of JNull \<Rightarrow> Inr None | JUndefined \<Rightarrow> Inr None | JStr s \<Rightarrow> Inr (Some (to_lower s))
      | _ \<Rightarrow> Inl (PlainError ''header.typ?.toLowerCase is not a function''))"

definition supported_key :: "json \<Rightarrow> bool" where
  "supported_key header \<longleftrightarrow>
     (let alg = detail_member header ''alg''; jwk = detail_member header ''jwk'' in
      (alg = JStr ''ES256'' \<and> detail_member jwk ''kty'' = JStr ''EC'' \<and> detail_member jwk ''crv'' = JStr ''P-256'') \<or>
      (alg = JStr ''EdDSA'' \<and> detail_member jwk ''kty'' = JStr ''OKP'' \<and> detail_member jwk ''crv'' = JStr ''Ed25519''))"

definition verify_dpop_proof :: "env \<Rightarrow> string \<Rightarrow> failure + (json \<times> json)" where
  "verify_dpop_proof env proof =
     (case env_protected_header env proof of
        None \<Rightarrow> Inl (bad_request ''DPoP proof is malformed.'')
      | Some header \<Rightarrow>
          (let jwk = detail_member header ''jwk'' in
           case lower_text (detail_member header ''typ'') of
             Inl e \<Rightarrow> Inl e
           | Inr typ \<Rightarrow>
               if typ \<noteq> Some ''dpop+jwt'' \<or> \<not> supported_key header \<or> ''d'' \<in> set (map fst (detail_entries jwk))
               then Inl (bad_request ''A public-key DPoP proof is required.'')
               else (case env_verified_payload env proof jwk of
                   None \<Rightarrow> Inl (bad_request ''DPoP proof signature is invalid.'')
                 | Some payload \<Rightarrow> Inr (header, payload))))"

text \<open>The clock is in milliseconds, the time of issue in seconds.\<close>

definition consume_proof :: "env \<Rightarrow> json \<Rightarrow> string \<Rightarrow> unit server" where
  "consume_proof env payload key_thumbprint =
     (case detail_member payload ''jti'' of
        JStr jti \<Rightarrow>
          (case detail_member payload ''iat'' of
             JNum iat \<Rightarrow>
               bind (new_date env) (\<lambda>date_now.
               bind (require (\<bar>date_now - iat * 1000\<bar> \<le> 300 * 1000)
                      (bad_request ''DPoP proof is outside the accepted time window.'')) (\<lambda>_.
               bind (new_date env) (\<lambda>created_at.
               bind (consume_dpop_jti \<lparr>dj_jti_hash = sha256_text env jti, dj_key_thumbprint = key_thumbprint,
                      dj_expires_at = (iat + 300) * 1000, dj_created_at = created_at\<rparr>) (\<lambda>fresh.
               require fresh (bad_request ''DPoP proof was already used.'')))))
           | _ \<Rightarrow> throw (bad_request ''DPoP proof is outside the accepted time window.''))
      | _ \<Rightarrow> throw (bad_request ''DPoP proof has no JWT identifier.''))"

definition null_payload :: failure where
  "null_payload = PlainError ''Cannot read properties of null''"

definition validate_dpop_token_proof :: "env \<Rightarrow> string \<Rightarrow> string \<Rightarrow> string server" where
  "validate_dpop_token_proof env proof token_endpoint =
     bind (lift_result (verify_dpop_proof env proof)) (\<lambda>(header, payload).
     bind (lift_result (env_bare_url env token_endpoint)) (\<lambda>target.
     bind (require (payload \<noteq> JNull) null_payload) (\<lambda>_.
     bind (require (\<not> (detail_member payload ''htm'' \<noteq> JStr ''POST'' \<or> detail_member payload ''htu'' \<noteq> JStr target \<or>
                     \<not> is_json_string (detail_member payload ''jti'')))
            (bad_request ''DPoP proof is not bound to the target token endpoint.'')) (\<lambda>_.
     let thumbprint = env_jwk_thumbprint env (detail_member header ''jwk'') in
     bind (consume_proof env payload thumbprint) (\<lambda>_. ret thumbprint)))))"

record resource_proof =
  rp_proof :: string
  rp_access_token :: string
  rp_method :: string
  rp_url :: string
  rp_confirmation_jkt :: string

definition validate_dpop_resource_proof :: "env \<Rightarrow> resource_proof \<Rightarrow> unit server" where
  "validate_dpop_resource_proof env input =
     bind (lift_result (verify_dpop_proof env (rp_proof input))) (\<lambda>(header, payload).
     let thumbprint = env_jwk_thumbprint env (detail_member header ''jwk'') in
     bind (require (thumbprint = rp_confirmation_jkt input)
            (unauthorized ''DPoP proof key does not match the access token.'')) (\<lambda>_.
     bind (lift_result (env_bare_url env (rp_url input))) (\<lambda>target.
     bind (require (payload \<noteq> JNull) null_payload) (\<lambda>_.
     bind (require (\<not> (detail_member payload ''htm'' \<noteq> JStr (to_upper (rp_method input)) \<or>
                     detail_member payload ''htu'' \<noteq> JStr target))
            (unauthorized ''DPoP proof is not bound to this request.'')) (\<lambda>_.
     bind (require (detail_member payload ''ath'' = JStr (sha256_text env (rp_access_token input)))
            (unauthorized ''DPoP proof is not bound to the access token.'')) (\<lambda>_.
     consume_proof env payload thumbprint))))))"

end
