(* ===== verification/Credential_Refresh.thy ===== *)
theory Credential_Refresh
  imports Access_Requests
begin

text \<open>
  The credential of a connected account (\<open>server/usecases/external-resources.ts\<close>): which one
  covers a request, how it is refreshed at the token endpoint of its provider, and the claim
  that keeps two refreshes apart (\<open>server/adapters/repos/external-resources.ts\<close>).
\<close>

section \<open>Reading what an authorization server answers\<close>

text \<open>\<open>JSON.stringify\<close>: a member without a value is left out, an item without one is null.\<close>

function json_stringify :: "json \<Rightarrow> string" where
  "json_stringify JNull = ''null''"
| "json_stringify (JBool b) = (if b then ''true'' else ''false'')"
| "json_stringify (JNum n) = int_text n"
| "json_stringify (JStr s) = json_string s"
| "json_stringify (JArr items) =
     ''['' @ join_with '','' (map (\<lambda>v. if v = JUndefined then ''null'' else json_stringify v) items) @ '']''"
| "json_stringify (JObj members) =
     ''{'' @ join_with '',''
       (map (\<lambda>p. json_string (fst p) @ '':'' @ json_stringify (snd p)) (filter (\<lambda>p. snd p \<noteq> JUndefined) members)) @ ''}''"
| "json_stringify JUndefined = ''undefined''"
  by pat_completeness auto
termination
  by (relation "measure size") (auto simp: member_smaller less_Suc_eq_le size_list_estimation')

definition split_spaces :: "string \<Rightarrow> string list" where
  "split_spaces s = filter (\<lambda>w. w \<noteq> []) (split_on (CHR '' '') (map (\<lambda>c. if is_space c then CHR '' '' else c) s))"

definition required_string :: "json \<Rightarrow> string \<Rightarrow> string \<Rightarrow> failure + string" where
  "required_string value_object field label =
     (case detail_member value_object field of
        JStr s \<Rightarrow> if s = [] then Inl (bad_request (label @ '' is missing '' @ field @ ''.'')) else Inr s
      | _ \<Rightarrow> Inl (bad_request (label @ '' is missing '' @ field @ ''.'')))"

definition optional_string :: "json \<Rightarrow> string \<Rightarrow> string option" where
  "optional_string value_object field =
     (case detail_member value_object field of JStr s \<Rightarrow> if s = [] then None else Some s | _ \<Rightarrow> None)"

definition required_positive_integer :: "json \<Rightarrow> string \<Rightarrow> string \<Rightarrow> failure + int" where
  "required_positive_integer value_object field label =
     (case detail_member value_object field of
        JNum n \<Rightarrow> if n \<le> 0 then Inl (bad_request (label @ '' has invalid '' @ field @ ''.'')) else Inr n
      | _ \<Rightarrow> Inl (bad_request (label @ '' has invalid '' @ field @ ''.'')))"

definition scope_string :: "json \<Rightarrow> string list option" where
  "scope_string v = (case v of JStr s \<Rightarrow> Some (sort (split_spaces s)) | _ \<Rightarrow> None)"

definition token_expiry :: "json \<Rightarrow> int \<Rightarrow> int option" where
  "token_expiry token now =
     (case detail_member token ''expires_in'' of JNum n \<Rightarrow> if 0 < n then Some (now + n * 1000) else None | _ \<Rightarrow> None)"

text \<open>The schema of authorization details: objects whose type is a text, trimmed, not blank.\<close>

definition parse_authorization_detail :: "json \<Rightarrow> json option" where
  "parse_authorization_detail v =
     (case v of
        JObj members \<Rightarrow>
          (case map_of members ''type'' of
             Some (JStr s) \<Rightarrow>
               if trim s = [] then None
               else Some (JObj ((''type'', JStr (trim s)) # filter (\<lambda>m. fst m \<noteq> ''type'') members))
           | _ \<Rightarrow> None)
      | _ \<Rightarrow> None)"

definition parse_authorization_details :: "json \<Rightarrow> json list option" where
  "parse_authorization_details v =
     (case v of
        JArr items \<Rightarrow>
          (let parsed = map parse_authorization_detail items in
           if list_ex (\<lambda>p. p = None) parsed then None else Some (map the parsed))
      | _ \<Rightarrow> None)"

definition read_authorization_details :: "json \<Rightarrow> bool \<Rightarrow> json list \<Rightarrow> string \<Rightarrow> failure + json list" where
  "read_authorization_details v needed allowed_types label =
     (if v = JUndefined \<and> \<not> needed then Inr []
      else (case parse_authorization_details v of
          None \<Rightarrow> Inl (invalid_authorization_details (label @ '' has malformed authorization_details.''))
        | Some details \<Rightarrow>
            if needed \<and> details = []
            then Inl (invalid_authorization_details (label @ '' has malformed authorization_details.''))
            else if list_ex (\<lambda>d. detail_member d ''type'' \<notin> set allowed_types) details
            then Inl (invalid_authorization_details (label @ '' contains an unknown authorization detail type.''))
            else Inr details))"

section \<open>Posting to a token endpoint\<close>

definition valid_dpop_nonce :: "string \<Rightarrow> bool" where
  "valid_dpop_nonce s \<longleftrightarrow> length s \<le> 4096 \<and> s \<noteq> [] \<and>
     list_all (\<lambda>c. let n = of_char c :: nat in n = 0x21 \<or> (0x23 \<le> n \<and> n \<le> 0x5B) \<or> (0x5D \<le> n \<and> n \<le> 0x7E)) s"

record provider_error =
  pe_error :: string
  pe_description :: "string option"
  pe_detail :: string

definition read_oauth_error :: "token_answer \<Rightarrow> provider_error option" where
  "read_oauth_error a =
     (case ta_body a of
        None \<Rightarrow> None
      | Some body \<Rightarrow>
          (let error = (case detail_member body ''error'' of JStr s \<Rightarrow> Some s
                 | _ \<Rightarrow> (case detail_member body ''code'' of JStr s \<Rightarrow> Some (to_lower s) | _ \<Rightarrow> None));
               description = (case detail_member body ''error_description'' of JStr s \<Rightarrow> Some s
                 | _ \<Rightarrow> (case detail_member body ''message'' of JStr s \<Rightarrow> Some s | _ \<Rightarrow> None)) in
           case present error of
             None \<Rightarrow> None
           | Some e \<Rightarrow> Some \<lparr>pe_error = e, pe_description = description,
               pe_detail = (case present description of None \<Rightarrow> e | Some d \<Rightarrow> e @ '': '' @ d)\<rparr>))"

definition rejected_form :: "bool \<Rightarrow> token_answer \<Rightarrow> failure" where
  "rejected_form preserve_invalid_grant a =
     (let provider = read_oauth_error a in
      if preserve_invalid_grant \<and> map_option pe_error provider = Some ''invalid_grant''
      then oauth_error ''invalid_grant'' ''Provider refresh token is no longer valid.'' 400 [] []
      else if map_option pe_error provider = Some ''use_dpop_nonce''
      then (case ta_dpop_nonce a of
          None \<Rightarrow> bad_gateway ''External authorization server returned an invalid DPoP nonce challenge.'' None
        | Some nonce \<Rightarrow>
            if \<not> valid_dpop_nonce nonce
            then bad_gateway ''External authorization server returned an invalid DPoP nonce challenge.'' None
            else oauth_error ''use_dpop_nonce''
              (case Option.bind provider pe_description of Some d \<Rightarrow> d
               | None \<Rightarrow> ''Authorization server requires nonce in DPoP proof.'') 400 [] [(''DPoP-Nonce'', nonce)])
      else unauthorized (case provider of
          None \<Rightarrow> ''External authorization server rejected the token request.''
        | Some p \<Rightarrow> ''External authorization server rejected the token request: '' @ pe_detail p @ ''.''))"

definition read_object :: "json option \<Rightarrow> string \<Rightarrow> failure + json" where
  "read_object body message =
     (case body of Some (JObj members) \<Rightarrow> Inr (JObj members) | _ \<Rightarrow> Inl (bad_request message))"

definition post_form_response :: "env \<Rightarrow> token_request \<Rightarrow> bool \<Rightarrow> (json \<times> string option) server" where
  "post_form_response env request preserve_invalid_grant =
     bind (token_answer_of env request) (\<lambda>answer.
     case answer of
       None \<Rightarrow> throw (bad_gateway ''External authorization server is unavailable.'' None)
     | Some a \<Rightarrow>
         if \<not> ta_ok a then throw (rejected_form preserve_invalid_grant a)
         else if (case ta_dpop_nonce a of None \<Rightarrow> False | Some nonce \<Rightarrow> \<not> valid_dpop_nonce nonce)
         then throw (bad_gateway ''External authorization server returned an invalid DPoP nonce.'' None)
         else bind (lift_result (read_object (ta_body a) ''External authorization server response is invalid.'')) (\<lambda>body.
           ret (body, ta_dpop_nonce a)))"

section \<open>The credential that covers a request\<close>

definition require_provider_credential ::
    "(string \<Rightarrow> string) \<Rightarrow> resource_connection \<Rightarrow> string list \<Rightarrow> json list \<Rightarrow> failure + provider_credential" where
  "require_provider_credential key connection scopes details =
     (case filter (\<lambda>p. list_all (\<lambda>s. s \<in> set (pc_granted_scopes p)) scopes \<and>
                      is_authorization_details_subset key details (pc_authorization_details p))
             (active_provider_credentials connection) of
        [] \<Rightarrow> Inl (forbidden ''No active provider credential covers the requested authority.'')
      | [p] \<Rightarrow> Inr p
      | _ \<Rightarrow> Inl (bad_request ''Select an authorization context that identifies one provider credential.''))"

section \<open>The claim of a refresh\<close>

definition credentials :: "world \<Rightarrow> provider_credential list" where
  "credentials w = concat (map cn_credentials (w_connections w))"

definition update_credentials ::
    "(provider_credential \<Rightarrow> bool) \<Rightarrow> (provider_credential \<Rightarrow> provider_credential) \<Rightarrow> bool server" where
  "update_credentials p f w =
     (Inr (list_ex p (credentials w)),
      w\<lparr>w_connections := map (\<lambda>c. c\<lparr>cn_credentials := update_where p f (cn_credentials c)\<rparr>) (w_connections w)\<rparr>)"

definition claim_provider_credential_refresh :: "string \<Rightarrow> nat \<Rightarrow> string \<Rightarrow> int \<Rightarrow> int \<Rightarrow> bool server" where
  "claim_provider_credential_refresh i expected_version claim_id now claim_expires_at =
     update_credentials
       (\<lambda>p. pc_id p = i \<and> pc_status p = ''active'' \<and> pc_credential_version p = expected_version \<and>
            (pc_refresh_claim_id p = None \<or>
             (case pc_refresh_claim_expires_at p of None \<Rightarrow> True | Some t \<Rightarrow> t \<le> now)))
       (\<lambda>p. p\<lparr>pc_refresh_claim_id := Some claim_id, pc_refresh_claim_expires_at := Some claim_expires_at,
             pc_updated_at := now\<rparr>)"

definition holds_claim :: "string \<Rightarrow> nat \<Rightarrow> string \<Rightarrow> provider_credential \<Rightarrow> bool" where
  "holds_claim i expected_version claim_id p \<longleftrightarrow>
     pc_id p = i \<and> pc_status p = ''active'' \<and> pc_credential_version p = expected_version \<and>
     pc_refresh_claim_id p = Some claim_id"

definition complete_provider_credential_refresh ::
    "string \<Rightarrow> nat \<Rightarrow> string \<Rightarrow> string \<Rightarrow> int option \<Rightarrow> int \<Rightarrow> bool server" where
  "complete_provider_credential_refresh i expected_version claim_id encrypted_tokens expires_at updated_at =
     update_credentials (holds_claim i expected_version claim_id)
       (\<lambda>p. p\<lparr>pc_encrypted_tokens := encrypted_tokens, pc_credential_expires_at := expires_at,
             pc_credential_version := expected_version + 1, pc_refresh_claim_id := None,
             pc_refresh_claim_expires_at := None, pc_updated_at := updated_at\<rparr>)"

definition release_provider_credential_refresh :: "string \<Rightarrow> nat \<Rightarrow> string \<Rightarrow> int \<Rightarrow> bool server" where
  "release_provider_credential_refresh i expected_version claim_id now =
     update_credentials (holds_claim i expected_version claim_id)
       (\<lambda>p. p\<lparr>pc_refresh_claim_id := None, pc_refresh_claim_expires_at := None, pc_updated_at := now\<rparr>)"

text \<open>Revoking the last active credential revokes the connection, in a statement of its own.\<close>

definition revoke_provider_credential :: "string \<Rightarrow> int \<Rightarrow> bool server" where
  "revoke_provider_credential i now =
     (let hit = (\<lambda>p. pc_id p = i \<and> pc_status p = ''active'') in
      bind (gets (\<lambda>w. filter (\<lambda>c. list_ex hit (cn_credentials c)) (w_connections w))) (\<lambda>owners.
      bind (update_credentials hit
             (\<lambda>p. p\<lparr>pc_status := ''revoked'', pc_revoked_at := Some now, pc_refresh_claim_id := None,
                   pc_refresh_claim_expires_at := None, pc_updated_at := now\<rparr>)) (\<lambda>revoked.
      if \<not> revoked then ret False
      else
        bind (modify (\<lambda>w. w\<lparr>w_connections := update_where
               (\<lambda>c. cn_id c \<in> set (map cn_id owners) \<and> \<not> list_ex (\<lambda>p. pc_status p = ''active'') (cn_credentials c))
               (\<lambda>c. c\<lparr>cn_status := ''revoked'', cn_revoked_at := Some now, cn_updated_at := now\<rparr>) (w_connections w)\<rparr>)) (\<lambda>_.
        ret True))))"

section \<open>Refreshing\<close>

record refreshed_token =
  rf_access_token :: string
  rf_expires_at :: "int option"
  rf_scopes :: "string list"

definition provider_credential_tokens_context :: "string \<Rightarrow> string \<Rightarrow> string" where
  "provider_credential_tokens_context credential_id authorization_id =
     (if credential_id = authorization_id then ''resource-connection:'' @ authorization_id @ '':tokens''
      else ''provider-credential:'' @ credential_id @ '':tokens'')"

definition refresh_request :: "env \<Rightarrow> external_authorization \<Rightarrow> provider_credential \<Rightarrow> string \<Rightarrow> token_request" where
  "refresh_request env authorization credential refresh_token =
     \<lparr>tr_url = ea_token_endpoint authorization,
      tr_body = env_refresh_form env refresh_token authorization
        (if ea_provider_details authorization \<and> pc_authorization_details credential \<noteq> []
         then [(''authorization_details'', json_stringify (JArr (pc_authorization_details credential)))] else []),
      tr_client_id = ea_client_id authorization, tr_client_secret = ea_encrypted_client_secret authorization,
      tr_dpop = None, tr_secret_in_form = ea_secret_in_form authorization\<rparr>"

definition refresh_at_provider ::
    "env \<Rightarrow> external_authorization \<Rightarrow> provider_credential \<Rightarrow> string \<Rightarrow> string \<Rightarrow> string \<Rightarrow> refreshed_token server" where
  "refresh_at_provider env authorization credential connection_id claim_id refresh_token =
     bind (post_form_response env (refresh_request env authorization credential refresh_token) True) (\<lambda>(token, _).
     bind (lift_result (required_string token ''access_token'' ''OAuth refresh response'')) (\<lambda>access_token.
     let details = pc_authorization_details credential;
         next_refresh_token = (case optional_string token ''refresh_token'' of Some t \<Rightarrow> t | None \<Rightarrow> refresh_token);
         scopes = (case scope_string (detail_member token ''scope'') of Some s \<Rightarrow> s | None \<Rightarrow> pc_granted_scopes credential) in
     bind (if detail_member token ''authorization_details'' = JUndefined then ret details
           else lift_result (read_authorization_details (detail_member token ''authorization_details'') (details \<noteq> [])
             (map (\<lambda>d. detail_member d ''type'') details) ''OAuth refresh response'')) (\<lambda>answered.
     bind (require (exact_authorization_details (env_collation_key env) answered details)
            (unauthorized ''Target authorization server changed authorization details during refresh.'')) (\<lambda>_.
     bind (new_date env) (\<lambda>refreshed_at.
     let expires_at = token_expiry token refreshed_at in
     bind (complete_provider_credential_refresh (pc_id credential) (pc_credential_version credential) claim_id
            (env_seal_secret env
              (json_stringify (JObj [(''accessToken'', JStr access_token), (''refreshToken'', JStr next_refresh_token),
                                     (''scope'', JStr (join_with '' '' scopes))]))
              (provider_credential_tokens_context (pc_id credential) connection_id))
            expires_at refreshed_at) (\<lambda>updated.
     bind (require updated (oauth_error ''temporarily_unavailable'' ''Provider credential refresh changed concurrently.'' 503 [] [])) (\<lambda>_.
     ret \<lparr>rf_access_token = access_token, rf_expires_at = expires_at, rf_scopes = scopes\<rparr>)))))))"

fun is_invalid_grant :: "failure \<Rightarrow> bool" where
  "is_invalid_grant (OAuthError _ error _ _ _) = (error = ''invalid_grant'')"
| "is_invalid_grant _ = False"

definition after_failed_refresh :: "env \<Rightarrow> provider_credential \<Rightarrow> string \<Rightarrow> failure \<Rightarrow> refreshed_token server" where
  "after_failed_refresh env credential claim_id e =
     bind (new_date env) (\<lambda>now.
     if is_invalid_grant e then bind (revoke_provider_credential (pc_id credential) now) (\<lambda>_. throw e)
     else bind (release_provider_credential_refresh (pc_id credential) (pc_credential_version credential) claim_id now)
            (\<lambda>_. throw e))"

definition refresh_connection_token ::
    "env \<Rightarrow> provider_credential \<Rightarrow> string \<Rightarrow> external_authorization \<Rightarrow> refreshed_token server" where
  "refresh_connection_token env credential connection_id authorization =
     bind (lift_result (env_open_secret env (pc_encrypted_tokens credential)
            (provider_credential_tokens_context (pc_id credential) connection_id))) (\<lambda>text.
     bind (found (env_parse_json env text) (PlainError ''Unexpected token in JSON'')) (\<lambda>payload.
     bind (case pc_credential_expires_at credential of
             None \<Rightarrow> ret False
           | Some t \<Rightarrow> bind (new_date env) (\<lambda>date_now. ret (date_now + 30000 < t))) (\<lambda>still_valid.
     if still_valid then
       bind (lift_result (required_string payload ''accessToken'' ''Stored resource connection'')) (\<lambda>token.
       ret \<lparr>rf_access_token = token, rf_expires_at = pc_credential_expires_at credential,
            rf_scopes = pc_granted_scopes credential\<rparr>)
     else
       bind (generate_id env) (\<lambda>claim_id.
       bind (new_date env) (\<lambda>now.
       bind (claim_provider_credential_refresh (pc_id credential) (pc_credential_version credential) claim_id now
              (now + 15000)) (\<lambda>claimed.
       bind (require claimed (oauth_error ''temporarily_unavailable'' ''Provider credential refresh is already in progress.''
              503 [] [(''Retry-After'', ''1'')])) (\<lambda>_.
       bind (lift_result (required_string payload ''refreshToken'' ''Stored resource connection'')) (\<lambda>refresh_token.
       catch (refresh_at_provider env authorization credential connection_id claim_id refresh_token)
         (after_failed_refresh env credential claim_id)))))))))"

end
