(* ===== verification/Access_Tokens.thy ===== *)
theory Access_Tokens
  imports Dpop Credential_Refresh
begin

text \<open>
  Issuing of access tokens to Agents: after an approved request, for a native or an external
  resource (\<open>issueTargetAccessToken\<close>, \<open>issueNativeAccessToken\<close> and
  \<open>createAccessRequestCredential\<close> of \<open>server/usecases/external-resources.ts\<close>), and the bootstrap token of
  \<open>server/usecases/agent-oauth.ts\<close>.
\<close>

section \<open>Signers and claims\<close>

text \<open>The signer is an interface of the code: its issuer, and the signature of a payload of a type.\<close>

record signer =
  sg_issuer :: string
  sg_sign :: "json \<Rightarrow> string \<Rightarrow> failure + string"

record issued_token =
  it_access_token :: string
  it_expires_in :: int
  it_expires_at :: int
  it_scopes :: "string list"
  it_authorization_details :: "json list"
  it_resource_url :: string
  it_dpop_nonce :: "string option"

definition realmroot_cli_client_id :: string where
  "realmroot_cli_client_id = ''realmroot-cli''"

definition realmroot_organization_claim :: string where
  "realmroot_organization_claim = ''urn:realmroot:params:oauth:org''"

definition realmroot_agent_binding_claim :: string where
  "realmroot_agent_binding_claim = ''urn:realmroot:params:agent:binding''"

definition to_realmroot_agent_binding_claim :: "agent_principal \<Rightarrow> failure + json" where
  "to_realmroot_agent_binding_claim p =
     (if (pr_runtime p = None) \<noteq> (pr_session_id p = None)
      then Inl (PlainError ''Agent runtime and session ID must be provided together.'')
      else Inr (JObj ([(''protocol_agent_id'', JStr (pr_protocol_agent_id p)), (''host_id'', JStr (pr_host_id p))] @
        (case (pr_runtime p, pr_session_id p) of
           (Some runtime, Some session) \<Rightarrow> [(''runtime'', JStr runtime), (''session_id'', JStr session)]
         | _ \<Rightarrow> []))))"

definition create_protocol_id :: "env \<Rightarrow> string \<Rightarrow> string server" where
  "create_protocol_id env prefix =
     bind (random_token env) (\<lambda>uuid. ret (prefix @ ''_'' @ filter (\<lambda>c. c \<noteq> CHR ''-'') uuid))"

section \<open>Entitlements of a context\<close>

definition active_context_entitlements ::
    "env \<Rightarrow> string \<Rightarrow> string \<Rightarrow> string option \<Rightarrow> json list \<Rightarrow> int \<Rightarrow> world \<Rightarrow> resource_scope_entitlement list" where
  "active_context_entitlements env agent_identity_id resource_id connection_id details now w =
     sort_key (\<lambda>e. env_collation_key env (se_scope e))
       (context_entitlements env agent_identity_id resource_id connection_id details now w)"

definition earliest_entitlement_expiry :: "resource_scope_entitlement list \<Rightarrow> int option" where
  "earliest_entitlement_expiry entitlements =
     (case concat (map (\<lambda>e. case se_expires_at e of None \<Rightarrow> [] | Some t \<Rightarrow> [t]) entitlements) of
        [] \<Rightarrow> None
      | t # ts \<Rightarrow> Some (foldl min t ts))"

definition once_entitlement_ids :: "resource_scope_entitlement list \<Rightarrow> string list" where
  "once_entitlement_ids entitlements = map se_id (filter (\<lambda>e. se_mode e = Once) entitlements)"

definition request_boundary :: "env \<Rightarrow> access_request \<Rightarrow> lease_boundary" where
  "request_boundary env request =
     \<lparr>lb_agent_identity_id = rq_agent_identity_id request, lb_resource_server_id = rq_resource_id request,
      lb_connection_id = rq_connection_id request,
      lb_authorization_context_hash = context_hash env (rq_authorization_details request),
      lb_scopes = rq_scopes request\<rparr>"

definition token_lease_context :: "string \<Rightarrow> string" where
  "token_lease_context lease_id = ''external-token-lease:'' @ lease_id @ '':access-token''"

definition token_lease ::
    "env \<Rightarrow> string \<Rightarrow> resource_scope_entitlement list \<Rightarrow> access_request \<Rightarrow> agent_principal \<Rightarrow> string \<Rightarrow> string \<Rightarrow> int \<Rightarrow> int \<Rightarrow>
     external_token_lease" where
  "token_lease env lease_id entitlements request p access_token jkt expires_at now =
     \<lparr>tl_id = lease_id, tl_entitlement_ids = map se_id entitlements, tl_request_id = rq_id request,
      tl_binding_id = ab_id (pr_binding p),
      tl_encrypted_access_token = env_seal_secret env access_token (token_lease_context lease_id),
      tl_token_hash = sha256_text env access_token, tl_confirmation_jkt = jkt, tl_scopes = rq_scopes request,
      tl_authorization_details = rq_authorization_details request, tl_expires_at = expires_at,
      tl_revoked_at = None, tl_created_at = now\<rparr>"

definition issued_audit ::
    "agent_principal \<Rightarrow> resource_server \<Rightarrow> resource_connection option \<Rightarrow> access_request \<Rightarrow> resource_audit" where
  "issued_audit p resource connection request =
     \<lparr>ra_action = ''api_resource.token_issued'', ra_result = ''allowed'', ra_principal = Some p,
      ra_request = Some request, ra_resource_id = rs_id resource, ra_connection = connection,
      ra_access_request_id = Some (rq_id request), ra_controller_user_id = None, ra_scopes = rq_scopes request,
      ra_authorization_details = rq_authorization_details request, ra_reason_code = None\<rparr>"

text \<open>The end both ways of issuing share: the lease and its audit event, or nothing.\<close>

definition record_issued_token ::
    "env \<Rightarrow> resource_scope_entitlement list \<Rightarrow> access_request \<Rightarrow> resource_server \<Rightarrow> resource_connection option \<Rightarrow>
     agent_principal \<Rightarrow> string \<Rightarrow> string \<Rightarrow> int \<Rightarrow> int \<Rightarrow> unit server" where
  "record_issued_token env entitlements request resource connection p access_token jkt expires_at now =
     bind (generate_id env) (\<lambda>lease_id.
     bind (resource_audit_record env (issued_audit p resource connection request)) (\<lambda>audit.
     bind (issue_token_lease_with_audit
            (token_lease env lease_id entitlements request p access_token jkt expires_at now)
            (request_boundary env request) (once_entitlement_ids entitlements) now audit) (\<lambda>lease.
     bind (found lease (forbidden ''Approved Entitlements changed before token issuance.'')) (\<lambda>_. ret ()))))"

section \<open>Native resources\<close>

text \<open>Five minutes at most, and not beyond the first entitlement that expires.\<close>

definition native_expiry :: "resource_scope_entitlement list \<Rightarrow> int \<Rightarrow> int" where
  "native_expiry entitlements now =
     (case earliest_entitlement_expiry entitlements of
        Some t \<Rightarrow> if t < now + 300000 then t else now + 300000
      | None \<Rightarrow> now + 300000)"

definition token_organization :: "json \<Rightarrow> string option" where
  "token_organization authority =
     (if detail_member authority ''authority'' = JStr ''organization''
      then (case detail_member authority ''id'' of JStr i \<Rightarrow> Some i | _ \<Rightarrow> None) else None)"

definition native_groups :: "string option \<Rightarrow> string \<Rightarrow> world \<Rightarrow> string list" where
  "native_groups organization_id owner_user_id w =
     (case present organization_id of
        None \<Rightarrow> []
      | Some o' \<Rightarrow> if owner_user_id = [] then [] else list_team_names_for_user o' owner_user_id w)"

definition native_claims ::
    "agent_principal \<Rightarrow> string \<Rightarrow> access_request \<Rightarrow> resource_server \<Rightarrow> string \<Rightarrow> string list \<Rightarrow> string \<Rightarrow> string \<Rightarrow> int \<Rightarrow> int \<Rightarrow>
     json \<Rightarrow> json" where
  "native_claims p issuer request resource owner_user_id groups jti jkt now expires_at binding_claim =
     (let details = rq_authorization_details request; authority = hd details;
          scopes = (if is_realmroot resource then sort (uniq (agent_bootstrap_scopes @ rq_scopes request))
                    else rq_scopes request) in
      JObj ([(''iss'', JStr issuer), (''sub'', JStr owner_user_id), (''aud'', JStr (rs_resource_url resource)),
             (''jti'', JStr jti), (''iat'', JNum (now div 1000)), (''exp'', JNum (expires_at div 1000)),
             (''scope'', JStr (join_with '' '' scopes)), (''groups'', JArr (map JStr groups)),
             (''client_id'', JStr realmroot_cli_client_id)] @
            (case present (token_organization authority) of None \<Rightarrow> []
             | Some o' \<Rightarrow> [(realmroot_organization_claim, JStr o')]) @
            (if details \<noteq> [] then [(''authorization_details'', JArr details)] else []) @
            (if is_realmroot resource then [(''realmroot_authority'', authority)] else []) @
            [(''cnf'', JObj [(''jkt'', JStr jkt)]),
             (''act'', JObj [(''iss'', JStr (pr_issuer p)), (''sub'', JStr (pr_subject p))]),
             (realmroot_agent_binding_claim, binding_claim)]))"

definition issue_native_access_token ::
    "env \<Rightarrow> resource_scope_entitlement list \<Rightarrow> access_request \<Rightarrow> resource_server \<Rightarrow> string \<Rightarrow> string \<Rightarrow> string \<Rightarrow>
     agent_principal \<Rightarrow> signer \<Rightarrow> issued_token server" where
  "issue_native_access_token env entitlements request resource owner_user_id dpop_proof token_request_url p signer =
     (let details = rq_authorization_details request; organization_id = token_organization (hd details) in
      bind (require (rq_connection_id request = None)
             (forbidden ''Native API resource grants cannot use account connections.'')) (\<lambda>_.
      bind (require (sg_issuer signer = pr_issuer p)
             (forbidden ''Agent identity does not belong to the active OAuth issuer.'')) (\<lambda>_.
      bind (require_current_native_authority_context env owner_user_id details) (\<lambda>_.
      bind (validate_dpop_token_proof env dpop_proof token_request_url) (\<lambda>jkt.
      bind (new_date env) (\<lambda>now.
      let expires_at = native_expiry entitlements now in
      bind (lift_result (assert_native_authority_selection details)) (\<lambda>_.
      bind (gets (native_groups organization_id owner_user_id)) (\<lambda>groups.
      bind (create_protocol_id env ''resat'') (\<lambda>jti.
      bind (lift_result (to_realmroot_agent_binding_claim p)) (\<lambda>binding_claim.
      bind (lift_result (sg_sign signer
             (native_claims p (sg_issuer signer) request resource owner_user_id groups jti jkt now expires_at binding_claim)
             ''at+jwt'')) (\<lambda>access_token.
      bind (record_issued_token env entitlements request resource None p access_token jkt expires_at now) (\<lambda>_.
      ret \<lparr>it_access_token = access_token, it_expires_in = max 1 ((expires_at - now) div 1000),
           it_expires_at = expires_at, it_scopes = rq_scopes request, it_authorization_details = details,
           it_resource_url = rs_resource_url resource, it_dpop_nonce = None\<rparr>))))))))))))"

section \<open>External resources\<close>

text \<open>
  The token is exchanged at the resource's authorization server: the connected account is the
  subject, the Agent the actor. What the server answers is held to what the Agent was granted.
\<close>

definition access_token_type :: string where
  "access_token_type = ''urn:ietf:params:oauth:token-type:access_token''"

definition agent_assertion :: "agent_principal \<Rightarrow> string \<Rightarrow> int \<Rightarrow> string \<Rightarrow> json \<Rightarrow> json" where
  "agent_assertion p audience now_seconds jti binding_claim =
     JObj [(''iss'', JStr (pr_issuer p)), (''sub'', JStr (pr_subject p)), (''aud'', JStr audience),
           (''iat'', JNum now_seconds), (''exp'', JNum (now_seconds + 300)), (''jti'', JStr jti),
           (realmroot_agent_binding_claim, binding_claim)]"

definition actor_request :: "external_authorization \<Rightarrow> string \<Rightarrow> token_request" where
  "actor_request a assertion =
     \<lparr>tr_url = ea_token_endpoint a,
      tr_body = [(''grant_type'', ''urn:ietf:params:oauth:grant-type:jwt-bearer''), (''assertion'', assertion)],
      tr_client_id = ea_client_id a, tr_client_secret = ea_encrypted_client_secret a, tr_dpop = None,
      tr_secret_in_form = False\<rparr>"

definition exchange_request ::
    "external_authorization \<Rightarrow> resource_server \<Rightarrow> access_request \<Rightarrow> string \<Rightarrow> string \<Rightarrow> string \<Rightarrow> token_request" where
  "exchange_request a resource request subject_token actor_token dpop_proof =
     \<lparr>tr_url = ea_token_endpoint a,
      tr_body = [(''grant_type'', ''urn:ietf:params:oauth:grant-type:token-exchange''),
                 (''subject_token'', subject_token), (''subject_token_type'', access_token_type),
                 (''actor_token'', actor_token), (''actor_token_type'', access_token_type),
                 (''requested_token_type'', access_token_type), (''resource'', rs_resource_url resource),
                 (''scope'', join_with '' '' (rq_scopes request))] @
        (if rq_authorization_details request \<noteq> []
         then [(''authorization_details'', json_stringify (JArr (rq_authorization_details request)))] else []),
      tr_client_id = ea_client_id a, tr_client_secret = ea_encrypted_client_secret a,
      tr_dpop = Some dpop_proof, tr_secret_in_form = False\<rparr>"

definition exchanged_token ::
    "(string \<Rightarrow> string) \<Rightarrow> resource_scope_entitlement list \<Rightarrow> access_request \<Rightarrow> int \<Rightarrow> json \<Rightarrow> failure + (string \<times> int)" where
  "exchanged_token key entitlements request now token =
     (let details = rq_authorization_details request; label = ''Token exchange response'' in
      case required_string token ''access_token'' label of
        Inl e \<Rightarrow> Inl e
      | Inr access_token \<Rightarrow>
          if to_lower (js_text (detail_member token ''token_type'')) \<noteq> ''dpop'' then
            Inl (unauthorized ''Target authorization server did not issue a DPoP-bound access token.'')
          else case required_positive_integer token ''expires_in'' label of
            Inl e \<Rightarrow> Inl e
          | Inr expires_in \<Rightarrow>
              if 3600 < expires_in then
                Inl (unauthorized ''Target authorization server issued an access token with an excessive lifetime.'')
              else if (case earliest_entitlement_expiry entitlements of
                         None \<Rightarrow> False | Some t \<Rightarrow> t < now + expires_in * 1000) then
                Inl (unauthorized ''Target authorization server issued an access token beyond an Entitlement lifetime.'')
              else if \<not> exact_scopes (case scope_string (detail_member token ''scope'') of Some s \<Rightarrow> s
                         | None \<Rightarrow> rq_scopes request) (rq_scopes request) then
                Inl (unauthorized ''Target authorization server issued a different scope set.'')
              else case read_authorization_details (detail_member token ''authorization_details'') (details \<noteq> [])
                       (map (\<lambda>d. detail_member d ''type'') details) label of
                Inl e \<Rightarrow> Inl e
              | Inr issued \<Rightarrow>
                  if \<not> exact_authorization_details key issued details then
                    Inl (unauthorized ''Target authorization server issued different authorization details.'')
                  else Inr (access_token, expires_in))"

definition external_credential ::
    "env \<Rightarrow> access_request \<Rightarrow> resource_server \<Rightarrow> string \<Rightarrow>
     (resource_connection \<times> provider_credential \<times> external_authorization) server" where
  "external_credential env request resource token_request_url =
     (let key = env_collation_key env; details = rq_authorization_details request in
      bind (gets (\<lambda>w. case present (rq_connection_id request) of None \<Rightarrow> None | Some c \<Rightarrow> find_connection c w)) (\<lambda>c.
      bind (found c (forbidden ''Active external API resource grant is required.'')) (\<lambda>connection.
      bind (require (cn_status connection = ''active'')
             (forbidden ''Active external API resource grant is required.'')) (\<lambda>_.
      bind (if details = [] then ret None
            else lift_result (account_scopes_for_authorization_details env resource connection details)) (\<lambda>contextual.
      bind (lift_result (case contextual of
               None \<Rightarrow> require_provider_credential key connection (rq_scopes request) details
             | Some _ \<Rightarrow> require_provider_credential key connection [] [])) (\<lambda>credential.
      let generation = pc_client_generation credential; connector = coalesce (rs_connector_id resource);
          scopes = connection_granted_scopes connection in
      bind (if env_client_generation env connector = generation
            then bind (lift_result (env_ensure_scopes env connector scopes (env_url_origin env token_request_url))) (\<lambda>active.
              require (active = generation)
                (forbidden ''The connected account must be reauthorized after OAuth client rotation.''))
            else ret ()) (\<lambda>_.
      bind (found (env_active_authorization env (rq_resource_id request) generation)
             (forbidden ''Active external authorization server is required.'')) (\<lambda>authorization.
      bind (lift_result (assert_scope_subset (rq_scopes request)
             (case contextual of Some s \<Rightarrow> s | None \<Rightarrow> scopes) ''connected account'')) (\<lambda>_.
      bind (lift_result (assert_authorization_details_selection key resource
             (Some (connection_authorization_details connection)) details)) (\<lambda>_.
      bind (lift_result (assert_authorization_details_subset key details
             (connection_authorization_details connection) ''connected account'')) (\<lambda>_.
      ret (connection, credential, authorization))))))))))))"

definition issue_external_access_token ::
    "env \<Rightarrow> resource_scope_entitlement list \<Rightarrow> access_request \<Rightarrow> resource_server \<Rightarrow> string \<Rightarrow> string \<Rightarrow> agent_principal \<Rightarrow>
     signer \<Rightarrow> int \<Rightarrow> issued_token server" where
  "issue_external_access_token env entitlements request resource dpop_proof token_request_url p signer now =
     bind (external_credential env request resource token_request_url) (\<lambda>(connection, credential, authorization).
     bind (validate_dpop_token_proof env dpop_proof (ea_token_endpoint authorization)) (\<lambda>jkt.
     bind (new_date env) (\<lambda>date_now.
     bind (random_token env) (\<lambda>jti.
     bind (lift_result (to_realmroot_agent_binding_claim p)) (\<lambda>binding_claim.
     bind (lift_result (sg_sign signer
            (agent_assertion p (ea_token_endpoint authorization) (date_now div 1000) jti binding_claim) ''JWT'')) (\<lambda>assertion.
     bind (refresh_connection_token env credential (cn_id connection) authorization) (\<lambda>subject.
     bind (post_form_response env (actor_request authorization assertion) False) (\<lambda>(actor_grant, _).
     bind (lift_result (required_string actor_grant ''access_token'' ''RFC 7523 JWT bearer grant response'')) (\<lambda>actor_token.
     bind (post_form_response env
            (exchange_request authorization resource request (rf_access_token subject) actor_token dpop_proof) False)
       (\<lambda>(token, nonce).
     bind (lift_result (exchanged_token (env_collation_key env) entitlements request now token)) (\<lambda>(access_token, expires_in).
     let expires_at = now + expires_in * 1000 in
     bind (record_issued_token env entitlements request resource (Some connection) p access_token jkt expires_at now) (\<lambda>_.
     ret \<lparr>it_access_token = access_token, it_expires_in = expires_in, it_expires_at = expires_at,
          it_scopes = rq_scopes request, it_authorization_details = rq_authorization_details request,
          it_resource_url = rs_resource_url resource, it_dpop_nonce = nonce\<rparr>))))))))))))"

section \<open>Tokens for an approved request\<close>

text \<open>
  What is issued is what the Agent holds now in the context of the request, not what was approved
  with it.
\<close>

definition current_request :: "resource_scope_entitlement list \<Rightarrow> access_request \<Rightarrow> access_request" where
  "current_request entitlements request =
     request\<lparr>rq_scopes := sort (map se_scope entitlements),
             rq_approved_entitlements := map (\<lambda>e. \<lparr>ap_scope = se_scope e, ap_entitlement_id = se_id e\<rparr>) entitlements\<rparr>"

definition issue_target_access_token ::
    "env \<Rightarrow> string \<Rightarrow> string \<Rightarrow> string \<Rightarrow> agent_principal \<Rightarrow> signer \<Rightarrow> issued_token server" where
  "issue_target_access_token env request_id dpop_proof token_request_url p signer =
     bind (lift_result (require_active_identity_and_binding p)) (\<lambda>identity.
     bind (gets (find_access_request request_id)) (\<lambda>r.
     bind (found r (forbidden ''Approved Agent access request is required.'')) (\<lambda>stored.
     bind (require (\<not> (rq_agent_identity_id stored \<noteq> pr_identity_id p \<or>
                     (rq_status stored \<noteq> ''approved'' \<and> rq_status stored \<noteq> ''consumed'')))
            (forbidden ''Approved Agent access request is required.'')) (\<lambda>_.
     bind (new_date env) (\<lambda>now.
     bind (gets (active_context_entitlements env (pr_identity_id p) (rq_resource_id stored) (rq_connection_id stored)
            (rq_authorization_details stored) now)) (\<lambda>entitlements.
     bind (require (entitlements \<noteq> []) (forbidden ''The selected Resource Context has no active Permissions.'')) (\<lambda>_.
     let request = current_request entitlements stored; owner = ai_owner_user_id (agg_identity identity) in
     bind (gets (find_resource (rq_resource_id request))) (\<lambda>x.
     bind (found x (forbidden ''Enabled Resource Server is required.'')) (\<lambda>resource.
     bind (require (rs_enabled resource) (forbidden ''Enabled Resource Server is required.'')) (\<lambda>_.
     bind (lift_result (validate_resource_requested_scopes resource (rq_scopes request))) (\<lambda>_.
     bind (gets (active_identity_organization_ids owner)) (\<lambda>ids.
     bind (require (active_resource_visible_to_agent resource ids)
            (forbidden ''Resource Server is not visible to this Agent.'')) (\<lambda>_.
     if rs_authorization_model resource \<noteq> External_model then
       bind (gets (\<lambda>w. case present (rq_connection_id request) of None \<Rightarrow> None | Some c \<Rightarrow> find_connection c w)) (\<lambda>c.
       bind (lift_result (assert_authorization_details_selection (env_collation_key env) resource
              (map_option connection_authorization_details c) (rq_authorization_details request))) (\<lambda>_.
       issue_native_access_token env entitlements request resource owner dpop_proof token_request_url p signer))
     else issue_external_access_token env entitlements request resource dpop_proof token_request_url p signer now)))))))))))))"

definition create_access_request_credential ::
    "env \<Rightarrow> string \<Rightarrow> string \<Rightarrow> string \<Rightarrow> agent_principal \<Rightarrow> signer \<Rightarrow>
     (issued_token \<times> string) server" where
  "create_access_request_credential env request_id dpop_proof credential_request_url p signer =
     bind (get_agent_access_request request_id p) (\<lambda>request.
     bind (require (\<not> (vr_status request \<noteq> ''approved'' \<and> vr_status request \<noteq> ''consumed''))
            (forbidden ''Approved Resource access is required.'')) (\<lambda>_.
     bind (issue_target_access_token env (vr_id request) dpop_proof credential_request_url p signer) (\<lambda>token.
     ret (token, it_resource_url token))))"

section \<open>Bootstrap tokens\<close>

definition normalize_scopes :: "string option \<Rightarrow> failure + string list" where
  "normalize_scopes value =
     (let scopes = uniq (split_spaces (case value of None \<Rightarrow> join_with '' '' agent_bootstrap_scopes | Some v \<Rightarrow> v)) in
      if scopes = [] then Inl (oauth_error ''invalid_scope'' ''At least one scope is required.'' 400 [] [])
      else Inr (sort scopes))"

record bootstrap_input =
  bt_client_id :: string
  bt_scope :: "string option"
  bt_resource :: string
  bt_expected_resource :: string
  bt_dpop_proof :: string
  bt_token_endpoint :: string

record bootstrap_token =
  bk_access_token :: string
  bk_expires_in :: int
  bk_scope :: string

fun failure_message :: "failure \<Rightarrow> string" where
  "failure_message (ApiError _ _ message _) = message"
| "failure_message (OAuthError _ _ description _ _) = description"
| "failure_message (PlainError message) = message"
| "failure_message (SqliteError Unique_constraint) = ''UNIQUE constraint failed''"
| "failure_message (SqliteError Check_constraint) = ''CHECK constraint failed''"
| "failure_message (SqliteError Foreign_key_constraint) = ''FOREIGN KEY constraint failed''"
| "failure_message (SqliteError Not_null_constraint) = ''NOT NULL constraint failed''"

definition bootstrap_claims ::
    "agent_principal \<Rightarrow> string \<Rightarrow> string \<Rightarrow> string list \<Rightarrow> string \<Rightarrow> string \<Rightarrow> int \<Rightarrow> json \<Rightarrow> json" where
  "bootstrap_claims p issuer resource scopes jkt jti now binding_claim =
     JObj [(''iss'', JStr issuer), (''sub'', JStr (pr_subject p)), (''aud'', JStr resource),
           (''client_id'', JStr realmroot_cli_client_id), (realmroot_agent_binding_claim, binding_claim),
           (''scope'', JStr (join_with '' '' scopes)), (''cnf'', JObj [(''jkt'', JStr jkt)]),
           (''iat'', JNum now), (''exp'', JNum (now + 300)), (''jti'', JStr jti)]"

definition issue_agent_bootstrap_access_token ::
    "env \<Rightarrow> bootstrap_input \<Rightarrow> agent_principal \<Rightarrow> signer \<Rightarrow> bootstrap_token server" where
  "issue_agent_bootstrap_access_token env input p signer =
     bind (require (\<not> (bt_client_id input \<noteq> [] \<and> bt_client_id input \<noteq> realmroot_cli_client_id))
            (oauth_error ''invalid_client'' ''Unknown Agent OAuth client.'' 401 [] [])) (\<lambda>_.
     bind (require (bt_resource input = bt_expected_resource input)
            (oauth_error ''invalid_target'' ''Unknown OAuth resource.'' 400 [] [])) (\<lambda>_.
     bind (lift_result (normalize_scopes (bt_scope input))) (\<lambda>scopes.
     bind (require (\<not> list_ex (\<lambda>s. s \<notin> set agent_bootstrap_scopes) scopes)
            (oauth_error ''invalid_scope'' ''The requested scope requires controller-approved Resource access.'' 400 [] [])) (\<lambda>_.
     bind (catch (validate_dpop_token_proof env (bt_dpop_proof input) (bt_token_endpoint input))
            (\<lambda>e. throw (oauth_error ''invalid_dpop_proof'' (failure_message e) 400 [] []))) (\<lambda>jkt.
     bind (new_date env) (\<lambda>date_now.
     bind (lift_result (to_realmroot_agent_binding_claim p)) (\<lambda>binding_claim.
     bind (random_token env) (\<lambda>jti.
     bind (lift_result (sg_sign signer
            (bootstrap_claims p (sg_issuer signer) (bt_resource input) scopes jkt jti (date_now div 1000) binding_claim)
            ''at+jwt'')) (\<lambda>access_token.
     ret \<lparr>bk_access_token = access_token, bk_expires_in = 300, bk_scope = join_with '' '' scopes\<rparr>)))))))))"

end
