(* ===== verification/Access_Commands.thy ===== *)
theory Access_Commands
  imports Access_Tokens Agent_Commands
begin

text \<open>
  Access to resources as part of the state machine: every use case that writes the resource
  tables is a command, a history mixes them with the commands on Agents in any order, and the
  laws of the tables hold along all of them.
\<close>

section \<open>Laws of the use cases\<close>

text \<open>
  What only reads, what also writes the connected accounts and the used proofs, and the rest.
\<close>

context reading_law
begin

lemma law_scopes [law_intros]:
  "evolves R (user_effective_now env u resource t)"
  "evolves R (native_authority_effective_scopes env c resource detail)"
  unfolding user_effective_now_def native_authority_effective_scopes_def Let_def by (intro law_intros)+

lemma law_access_guards [law_intros]:
  "evolves R (require_enabled_resource env i)"
  "evolves R (require_agent_resource_visibility resource u)"
  "evolves R (require_current_native_authority_context env u ds)"
  "evolves R (require_controlled_connection c u)"
  "evolves R (request_host_id request)"
  "evolves R (fallback_authorization env resource connection)"
  unfolding require_enabled_resource_def require_agent_resource_visibility_def
    require_current_native_authority_context_def require_controlled_connection_def request_host_id_def
    fallback_authorization_def by (intro law_intros)+

lemma law_access_targets [law_intros]:
  "evolves R (require_controlled_request_target request u)"
  "evolves R (with_host_id request decided)"
  "evolves R (resolve_requested_authorization_details env resource co ds u)"
  "evolves R (validate_agent_permission_target env resource a scopes ci ds u rs)"
  unfolding require_controlled_request_target_def with_host_id_def resolve_requested_authorization_details_def
    validate_agent_permission_target_def Let_def by (intro law_intros)+

lemma law_resource_audit [law_intros]: "evolves R (resource_audit_record env a)"
  unfolding resource_audit_record_def resolve_audit_tenant_def by (intro law_intros)

lemma law_plan_scopes [law_intros]: "evolves R (plan_scopes env new lifetime hash now existing scopes)"
  by (induction scopes) (auto intro!: law_intros)

lemma law_pending [law_intros]:
  "evolves R (require_pending_request env r)" "evolves R (require_pending_access_request_by_token env t)"
  unfolding require_pending_request_def require_pending_access_request_by_token_def by (intro law_intros)+

lemma law_get_controller [law_intros]: "evolves R (get_controller_access_request_by_token env t u)"
  unfolding get_controller_access_request_by_token_def by (intro law_intros)

lemma law_get_resource [law_intros]: "evolves R (get_resource i)"
  unfolding get_resource_def by (intro law_intros)

lemma law_get_access [law_intros]: "evolves R (get_agent_access_request i p)"
  unfolding get_agent_access_request_def by (intro law_intros)

lemma law_permission_selections [law_intros]: "evolves R (permission_selections env resource u o')"
  unfolding permission_selections_def by (intro law_intros)

end

context beside_law
begin

lemma law_modify_connections: "evolves R (modify (\<lambda>w. w\<lparr>w_connections := f w\<rparr>))"
  by (rule evolves_modify) (rule change_connections)

lemma consume_jti_law:
  assumes "consume_jti j w = (r, t)" "n < w_clock_ticks w" "dj_created_at j = env_clock env n"
  shows "R w t"
  using assms change_jtis [OF assms(2), of "[j]"]
  by (auto simp: consume_jti_def forget_expired_jtis_def insert_jti_def insert_row_def law_refl split: if_splits)

lemma law_consume_proof [law_intros]: "evolves R (consume_proof env payload k)"
proof -
  have used: "evolves R (bind (new_date env) (\<lambda>created_at.
     bind (consume_dpop_jti \<lparr>dj_jti_hash = h, dj_key_thumbprint = k, dj_expires_at = x, dj_created_at = created_at\<rparr>)
       (\<lambda>fresh. require fresh (bad_request ''DPoP proof was already used.''))))" for h x
  proof (rule law_at_time)
    fix n w r t
    assume n: "n < w_clock_ticks w" and run: "bind (consume_dpop_jti \<lparr>dj_jti_hash = h, dj_key_thumbprint = k,
        dj_expires_at = x, dj_created_at = env_clock env n\<rparr>)
       (\<lambda>fresh. require fresh (bad_request ''DPoP proof was already used.'')) w = (r, t)"
    obtain c u where c: "consume_jti \<lparr>dj_jti_hash = h, dj_key_thumbprint = k, dj_expires_at = x,
        dj_created_at = env_clock env n\<rparr> w = (c, u)"
      by (cases "consume_jti \<lparr>dj_jti_hash = h, dj_key_thumbprint = k, dj_expires_at = x,
        dj_created_at = env_clock env n\<rparr> w")
    with run have "t = u"
      by (auto simp: bind_def consume_dpop_jti_def require_def ret_def throw_def split: sum.splits if_splits)
    with consume_jti_law [OF c n] show "R w t" by simp
  qed
  show ?thesis
    unfolding consume_proof_def by (intro law_intros used | simp split: json.split | safe)+
qed

lemma law_dpop [law_intros]: "evolves R (validate_dpop_token_proof env proof url)"
  unfolding validate_dpop_token_proof_def Let_def by (intro law_intros)

lemma law_resource_proof [law_intros]: "evolves R (validate_dpop_resource_proof env input)"
  unfolding validate_dpop_resource_proof_def Let_def by (intro law_intros)

lemma law_update_credentials [law_intros]: "evolves R (update_credentials p f)"
  by (simp add: evolves_def update_credentials_def change_connections)

lemma law_credential_statements [law_intros]:
  "evolves R (claim_provider_credential_refresh i v c now t)"
  "evolves R (complete_provider_credential_refresh i v c e x now)"
  "evolves R (release_provider_credential_refresh i v c now)"
  "evolves R (revoke_provider_credential i now)"
  unfolding claim_provider_credential_refresh_def complete_provider_credential_refresh_def
    release_provider_credential_refresh_def revoke_provider_credential_def Let_def
  by (intro law_intros law_modify_connections)+

lemma law_protocol_id [law_intros]: "evolves R (create_protocol_id env prefix)"
  unfolding create_protocol_id_def by (intro law_intros)

lemma law_external_credential [law_intros]: "evolves R (external_credential env request resource url)"
  unfolding external_credential_def Let_def by (intro law_intros)

lemma law_post_form [law_intros]: "evolves R (post_form_response env r b)"
  unfolding post_form_response_def by (intro law_intros)

lemma law_refresh [law_intros]: "evolves R (refresh_connection_token env p c a)"
  unfolding refresh_connection_token_def refresh_at_provider_def after_failed_refresh_def Let_def
  by (intro law_intros)

end

context agent_law
begin

lemma law_deny [law_intros]: "evolves R (deny_request env request c u now)"
  unfolding deny_request_def by (intro law_intros) simp

lemma law_approve_outcome [law_intros]: "evolves R (approve_request env request lifetime ds u reason now)"
  unfolding approve_request_def Let_def by (intro law_intros) simp

lemma law_decide_attempt:
  assumes "evolves R again"
  shows "evolves R (decide_attempt env i input u reason again)"
  unfolding decide_attempt_def
  by (intro law_intros assms | simp split: decision_input.split approval_outcome.split | safe)+

lemma law_decide [law_intros]:
  "evolves R (decide_agent_access_request env i input u reason)"
  unfolding decide_agent_access_request_def by (intro law_decide_attempt law_intros)

lemma law_decide_by [law_intros]: "evolves R (decide_agent_access_request_by_token env t input u)"
  unfolding decide_agent_access_request_by_token_def by (intro law_intros)

lemma law_decide_access [law_intros]: "evolves R (decide_access_request env i input t u)"
  unfolding decide_access_request_def by (intro law_intros)

lemma law_registry [law_intros]: "evolves R (refresh_resource_scope_registry env i)"
  unfolding refresh_resource_scope_registry_def by (intro law_intros)

lemma law_refreshed [law_intros]: "evolves R (refreshed_resource env resource scopes)"
  unfolding refreshed_resource_def by (intro law_intros)

lemma law_automatic [law_intros]: "evolves R (approve_automatically env i ds u)"
  unfolding approve_automatically_def by (intro law_intros)

lemma law_submit [law_intros]:
  "evolves R (submit_access_request env p resource c scopes ds reason approved controller origin now)"
  unfolding submit_access_request_def Let_def by (intro law_intros) simp

lemma law_create_access [law_intros]: "evolves R (create_agent_access_request env input p origin)"
  unfolding create_agent_access_request_def Let_def by (intro law_intros)

lemma law_grant_each: "(\<And>x. evolves R (f x)) \<Longrightarrow> evolves R (grant_each f xs)"
  by (induction xs) (auto intro!: law_intros)

lemma law_grant_selections: "(\<And>x. evolves R (f x)) \<Longrightarrow> evolves R (grant_selections f ds)"
  by (induction ds) (auto intro!: law_intros)

lemma law_revoke_leases_at_target [law_intros]: "evolves R (revoke_entitlement_token_leases_at_target env e now)"
  unfolding revoke_entitlement_token_leases_at_target_def by (intro law_intros)

lemma law_revoke_permission [law_intros]: "evolves R (revoke_agent_permission env i u)"
  unfolding revoke_agent_permission_def by (intro law_intros)

lemma law_record_issued [law_intros]:
  "evolves R (record_issued_token env es request resource c p t jkt x now)"
  unfolding record_issued_token_def
  by (intro law_intros) (simp_all add: token_lease_def request_boundary_def)

lemma law_issue [law_intros]: "evolves R (issue_target_access_token env i proof url p s)"
  unfolding issue_target_access_token_def issue_native_access_token_def issue_external_access_token_def Let_def
  by (intro law_intros)

lemma law_issue_credential [law_intros]: "evolves R (create_access_request_credential env i proof url p s)"
  unfolding create_access_request_credential_def by (intro law_intros)

lemma law_bootstrap [law_intros]: "evolves R (issue_agent_bootstrap_access_token env input p s)"
  unfolding issue_agent_bootstrap_access_token_def by (intro law_intros)

end

section \<open>Direct grants\<close>

text \<open>
  \<open>createScopeEntitlement\<close> changes the row it found by its identifier; that the row is the only one
  with it is a fact of the table, not of the statement.
\<close>

locale entitlement_law = keyed_agent_law +
  assumes entitlements_keyed: "\<not> distinct (map se_id (w_entitlements w)) \<Longrightarrow> R w v"
begin

lemma direct_sourced: "se_source_access_request_id e = None \<Longrightarrow> entitlement_sourced e w"
  by (simp add: entitlement_sourced_def)

lemma insert_plain_law:
  "se_source_access_request_id e = None \<Longrightarrow> se_ended_at e = None \<Longrightarrow> insert_plain_entitlement e w = Inr w' \<Longrightarrow> R w w'"
  by (auto simp: insert_plain_entitlement_def insert_row_def split: if_splits
      intro: add_entitlement direct_sourced)

lemma rewrite_found_law:
  assumes d: "distinct (map se_id (w_entitlements w))"
    and e: "e \<in> set (w_entitlements w)" "se_ended_at e = None"
    and run: "update_entitlements (\<lambda>x. se_id x = se_id e) f w = Inr (rows, w')"
    and step: "\<And>e. se_ended_at e = None \<Longrightarrow> entitlement_step e (f e)"
  shows "R w w'"
proof (rule rewrite_entitlements [OF _ run])
  fix x assume "x \<in> set (w_entitlements w)" "se_id x = se_id e"
  with d e(1) have "x = e" by (auto simp: distinct_map dest: inj_onD)
  with e(2) step show "entitlement_step x (f x)" by simp
qed

lemma law_create_scope_entitlement [law_intros]:
  assumes source: "se_source_access_request_id input = None" "se_ended_at input = None"
  shows "evolves R (create_scope_entitlement input now)"
proof (rule evolvesI)
  fix w r t
  assume run: "create_scope_entitlement input now w = (r, t)"
  show "R w t"
  proof (cases "distinct (map se_id (w_entitlements w))")
    case False
    then show ?thesis by (rule entitlements_keyed)
  next
    case d: True
    show ?thesis
    proof (cases "find (active_equivalent_entitlement input) (w_entitlements w)")
      case None
      with run source show ?thesis
        by (auto simp: create_scope_entitlement_def law_refl
            intro: insert_or_skip_law [OF _ direct_sourced] split: sum.splits prod.splits list.splits)
    next
      case (Some e)
      then have e: "e \<in> set (w_entitlements w)" "se_ended_at e = None"
        by (auto simp: find_Some_iff active_equivalent_entitlement_def)
      note rewritten = rewrite_found_law [OF d e]
      have expired: "R w v" if "expire_and_replace (se_id e) input now w = Inr v" for v
        using that source
        by (auto simp: expire_and_replace_def split: sum.splits prod.splits
            intro: law_trans [OF rewritten insert_plain_law] simp: entitlement_step_def)
      have changed: "R w v" if "strengthen_entitlement e input now w = (x, v)" for x v
        using that
        by (auto simp: strengthen_entitlement_def Let_def law_refl entitlement_step_def
            split: if_splits sum.splits prod.splits option.splits intro!: rewritten)
      from run Some expired changed show ?thesis
        by (auto simp: create_scope_entitlement_def law_refl split: if_splits sum.splits)
    qed
  qed
qed

lemma law_create_permission [law_intros]: "evolves R (create_agent_permission env a input u o')"
  unfolding create_agent_permission_def Let_def
  by (intro law_intros law_grant_selections law_grant_each) (simp_all add: direct_entitlement_def)

end

section \<open>Commands\<close>

datatype command =
    Agent_command agent_command
  | Request_access access_request_input agent_principal string
  | Decide_access string decision_input "string option" string
  | Decide_access_by_token string decision_input string
  | Grant_permission string permission_input string "string option"
  | Revoke_permission string string
  | Issue_credential string string string agent_principal signer
  | Issue_bootstrap bootstrap_input agent_principal signer
  | Check_proof resource_proof
  | Synchronize_scopes string

fun execute :: "env \<Rightarrow> command \<Rightarrow> world \<Rightarrow> world" where
  "execute env (Agent_command c) w = perform env c w"
| "execute env (Request_access input p origin) w = snd (create_agent_access_request env input p origin w)"
| "execute env (Decide_access i input token u) w = snd (decide_access_request env i input token u w)"
| "execute env (Decide_access_by_token t input u) w = snd (decide_agent_access_request_by_token env t input u w)"
| "execute env (Grant_permission a input u o') w = snd (create_agent_permission env a input u o' w)"
| "execute env (Revoke_permission i u) w = snd (revoke_agent_permission env i u w)"
| "execute env (Issue_credential i proof url p s) w = snd (create_access_request_credential env i proof url p s w)"
| "execute env (Issue_bootstrap input p s) w = snd (issue_agent_bootstrap_access_token env input p s w)"
| "execute env (Check_proof input) w = snd (validate_dpop_resource_proof env input w)"
| "execute env (Synchronize_scopes i) w = snd (refresh_resource_scope_registry env i w)"

inductive access_history :: "env \<Rightarrow> world \<Rightarrow> world \<Rightarrow> bool" for env :: env where
  Start: "access_history env w w"
| Next: "access_history env w v \<Longrightarrow> access_history env w (execute env c v)"

inductive_cases access_history_cases: "access_history env w v"

lemma access_history_run: "access_history env w (fold (execute env) cs w)"
  by (induction cs rule: rev_induct) (auto intro: access_history.intros)

interpretation sound_access: entitlement_law sound_step env for env
  by unfold_locales (simp add: sound_step_def well_formed_def resources_sound_def)

lemma execute_sound: "sound_step w (execute env c w)"
  by (cases c)
    (simp_all add: perform_sound sound_run sound.law_create_access sound.law_decide_access sound.law_decide_by
      sound_access.law_create_permission sound.law_revoke_permission sound.law_issue_credential
      sound.law_bootstrap sound.law_resource_proof sound.law_registry)

lemma access_history_sound: "access_history env w v \<Longrightarrow> sound_step w v"
  by (induction rule: access_history.induct) (blast intro: sound.law_refl sound.law_trans execute_sound)+

lemma access_history_well_formed:
  "access_history env w v \<Longrightarrow> well_formed w \<Longrightarrow> well_formed v \<and> history w v"
  using access_history_sound unfolding sound_step_def by blast

end
