(* ===== verification/Access_Refinement.thy ===== *)
theory Access_Refinement
  imports Access_Commands
begin

text \<open>
  What the access tables promise, as a ledger of requests, permissions and tokens with the moves a
  reader of the documentation would expect: a request is asked, granted or refused, and used; a
  permission is given and ends; a token is issued for a request that was granted, on permissions
  that are in force, and is revoked. Every use case, whatever it does and wherever it stops, is a
  sequence of such moves.
\<close>

section \<open>The ledger\<close>

datatype stage = Awaiting | Granted | Used | Refused

record asked =
  asker :: string
  asked_resource :: string
  asked_scopes :: "string list"
  stage_of :: stage

record permission =
  holder :: "string option"
  permitted_on :: string
  permitted_scope :: string
  in_force :: bool

record issued =
  issued_for :: string
  issued_on :: "string list"
  issued_scopes :: "string list"
  live :: bool

record ledger =
  requests :: "string \<Rightarrow> asked option"
  permissions :: "string \<Rightarrow> permission option"
  tokens :: "string \<Rightarrow> issued option"

text \<open>A permission answers a request: it is in force, on its resource, and no other Agent's.\<close>

definition answers :: "permission \<Rightarrow> asked \<Rightarrow> bool" where
  "answers e q \<longleftrightarrow> in_force e \<and> permitted_on e = asked_resource q \<and> \<not> differs (holder e) (asker q)"

inductive ledger_step :: "ledger \<Rightarrow> ledger \<Rightarrow> bool" where
  Ask: "requests l k = None \<Longrightarrow> stage_of q \<in> {Awaiting, Granted} \<Longrightarrow>
    ledger_step l (l\<lparr>requests := (requests l)(k \<mapsto> q)\<rparr>)"
| Approve: "requests l k = Some q \<Longrightarrow> stage_of q = Awaiting \<Longrightarrow> length ps = length (asked_scopes q) \<Longrightarrow>
    \<forall>p \<in> set ps. \<exists>e. permissions l p = Some e \<and> answers e q \<Longrightarrow>
    ledger_step l (l\<lparr>requests := (requests l)(k \<mapsto> q\<lparr>stage_of := Granted\<rparr>)\<rparr>)"
| Refuse: "requests l k = Some q \<Longrightarrow> stage_of q = Awaiting \<Longrightarrow>
    ledger_step l (l\<lparr>requests := (requests l)(k \<mapsto> q\<lparr>stage_of := Refused\<rparr>)\<rparr>)"
| Use: "requests l k = Some q \<Longrightarrow> stage_of q = Granted \<Longrightarrow>
    ledger_step l (l\<lparr>requests := (requests l)(k \<mapsto> q\<lparr>stage_of := Used\<rparr>)\<rparr>)"
| Permit: "permissions l p = None \<Longrightarrow> in_force e \<Longrightarrow>
    ledger_step l (l\<lparr>permissions := (permissions l)(p \<mapsto> e)\<rparr>)"
| End: "\<forall>p. ps p = permissions l p \<or>
      (\<exists>e. permissions l p = Some e \<and> in_force e \<and> ps p = Some (e\<lparr>in_force := False\<rparr>)) \<Longrightarrow>
    ledger_step l (l\<lparr>permissions := ps\<rparr>)"
| Issue: "tokens l t = None \<Longrightarrow> requests l (issued_for x) = Some q \<Longrightarrow> stage_of q \<in> {Granted, Used} \<Longrightarrow> live x \<Longrightarrow>
    \<forall>p \<in> set (issued_on x). \<exists>e. permissions l p = Some e \<and> answers e q \<and> permitted_scope e \<in> set (issued_scopes x) \<Longrightarrow>
    \<forall>s \<in> set (issued_scopes x). \<exists>p \<in> set (issued_on x). \<exists>e. permissions l p = Some e \<and> permitted_scope e = s \<Longrightarrow>
    ledger_step l (l\<lparr>tokens := (tokens l)(t \<mapsto> x)\<rparr>)"
| Revoke: "\<forall>t. ts t = tokens l t \<or> (\<exists>x. tokens l t = Some x \<and> live x \<and> ts t = Some (x\<lparr>live := False\<rparr>)) \<Longrightarrow>
    ledger_step l (l\<lparr>tokens := ts\<rparr>)"

inductive_cases ledger_step_cases: "ledger_step l m"

abbreviation ledger_steps :: "ledger \<Rightarrow> ledger \<Rightarrow> bool" where
  "ledger_steps \<equiv> ledger_step\<^sup>*\<^sup>*"

section \<open>The ledger of a world\<close>

definition request_stage :: "string \<Rightarrow> stage" where
  "request_stage s =
     (if s = ''pending'' then Awaiting else if s = ''approved'' then Granted
      else if s = ''consumed'' then Used else Refused)"

definition asked_of :: "access_request \<Rightarrow> asked" where
  "asked_of r = \<lparr>asker = rq_agent_identity_id r, asked_resource = rq_resource_id r, asked_scopes = rq_scopes r,
     stage_of = request_stage (rq_status r)\<rparr>"

definition permission_of :: "resource_scope_entitlement \<Rightarrow> permission" where
  "permission_of e = \<lparr>holder = se_agent_identity_id e, permitted_on = se_resource_server_id e,
     permitted_scope = se_scope e, in_force = (se_ended_at e = None)\<rparr>"

definition issued_of :: "external_token_lease \<Rightarrow> issued" where
  "issued_of l = \<lparr>issued_for = tl_request_id l, issued_on = tl_entitlement_ids l, issued_scopes = tl_scopes l,
     live = (tl_revoked_at l = None)\<rparr>"

definition row_of :: "('r \<Rightarrow> string) \<Rightarrow> 'r list \<Rightarrow> string \<Rightarrow> 'r option" where
  "row_of key rows k = find (\<lambda>r. key r = k) rows"

definition ledger_of :: "world \<Rightarrow> ledger" where
  "ledger_of w =
     \<lparr>requests = (\<lambda>k. map_option asked_of (row_of rq_id (w_requests w) k)),
      permissions = (\<lambda>k. map_option permission_of (row_of se_id (w_entitlements w) k)),
      tokens = (\<lambda>k. map_option issued_of (row_of tl_id (w_leases w) k))\<rparr>"

lemma row_of_append:
  "key r \<notin> set (map key rows) \<Longrightarrow> row_of key (rows @ [r]) = (row_of key rows)(key r \<mapsto> r)"
proof
  fix k
  assume "key r \<notin> set (map key rows)"
  then show "row_of key (rows @ [r]) k = ((row_of key rows)(key r \<mapsto> r)) k"
    by (cases "find (\<lambda>r. key r = k) rows")
      (auto simp: row_of_def find_append_absent image_iff dest!: find_SomeD)
qed

lemma row_of_update:
  "(\<And>r. r \<in> set rows \<Longrightarrow> p r \<Longrightarrow> key (f r) = key r) \<Longrightarrow>
     row_of key (update_where p f rows) k = map_option (\<lambda>r. if p r then f r else r) (row_of key rows k)"
  by (induction rows) (auto simp: row_of_def)

lemma row_of_SomeD: "row_of key rows k = Some r \<Longrightarrow> r \<in> set rows \<and> key r = k"
  by (auto simp: row_of_def dest: find_SomeD)

lemma row_of_unique: "distinct (map key rows) \<Longrightarrow> r \<in> set rows \<Longrightarrow> row_of key rows (key r) = Some r"
  by (simp add: row_of_def find_key_unique)

lemma row_of_None_iff: "row_of key rows k = None \<longleftrightarrow> k \<notin> set (map key rows)"
  by (auto simp: row_of_def find_None_iff)

lemma ledger_same:
  "w_requests v = w_requests w \<Longrightarrow> w_entitlements v = w_entitlements w \<Longrightarrow> w_leases v = w_leases w \<Longrightarrow>
     ledger_of v = ledger_of w"
  by (simp add: ledger_of_def)

section \<open>Statements are moves\<close>

lemma ledger_with_permissions:
  "ledger_of (w\<lparr>w_entitlements := rows\<rparr>) =
     (ledger_of w)\<lparr>permissions := \<lambda>k. map_option permission_of (row_of se_id rows k)\<rparr>"
  by (simp add: ledger_of_def)

lemma ledger_with_requests:
  "ledger_of (w\<lparr>w_requests := rows\<rparr>) =
     (ledger_of w)\<lparr>requests := \<lambda>k. map_option asked_of (row_of rq_id rows k)\<rparr>"
  by (simp add: ledger_of_def)

lemma ledger_with_tokens:
  "ledger_of (w\<lparr>w_leases := rows\<rparr>) =
     (ledger_of w)\<lparr>tokens := \<lambda>k. map_option issued_of (row_of tl_id rows k)\<rparr>"
  by (simp add: ledger_of_def)

lemma permissions_ledger [simp]:
  "permissions (ledger_of w) k = map_option permission_of (row_of se_id (w_entitlements w) k)"
  "requests (ledger_of w) k = map_option asked_of (row_of rq_id (w_requests w) k)"
  "tokens (ledger_of w) k = map_option issued_of (row_of tl_id (w_leases w) k)"
  by (simp_all add: ledger_of_def)

lemma permission_step:
  "entitlement_step e f \<Longrightarrow> permission_of f = permission_of e \<or>
     in_force (permission_of e) \<and> permission_of f = (permission_of e)\<lparr>in_force := False\<rparr>"
  by (cases "se_ended_at e") (auto simp: entitlement_step_def permission_of_def)

lemma move_entitlements:
  assumes "\<And>e. e \<in> set (w_entitlements w) \<Longrightarrow> p e \<Longrightarrow> entitlement_step e (f e)"
  shows "ledger_step (ledger_of w) (ledger_of (w\<lparr>w_entitlements := update_where p f (w_entitlements w)\<rparr>))"
  unfolding ledger_with_permissions
proof (rule ledger_step.End, rule allI)
  fix k
  let ?new = "map_option permission_of (row_of se_id (update_where p f (w_entitlements w)) k)"
  have same: "row_of se_id (update_where p f (w_entitlements w)) k =
      map_option (\<lambda>r. if p r then f r else r) (row_of se_id (w_entitlements w) k)"
    using assms by (intro row_of_update) (simp add: entitlement_step_def)
  show "?new = permissions (ledger_of w) k \<or> (\<exists>e. permissions (ledger_of w) k = Some e \<and> in_force e \<and>
      ?new = Some (e\<lparr>in_force := False\<rparr>))"
  proof (cases "row_of se_id (w_entitlements w) k")
    case (Some e)
    then have "p e \<Longrightarrow> entitlement_step e (f e)" by (blast dest: row_of_SomeD intro: assms)
    with permission_step [of e "f e"] Some same show ?thesis by auto
  qed (simp add: same)
qed

lemma move_leases:
  assumes "\<And>l. l \<in> set (w_leases w) \<Longrightarrow> p l \<Longrightarrow> lease_step l (f l)"
  shows "ledger_step (ledger_of w) (ledger_of (w\<lparr>w_leases := update_where p f (w_leases w)\<rparr>))"
  unfolding ledger_with_tokens
proof (rule ledger_step.Revoke, rule allI)
  fix k
  let ?new = "map_option issued_of (row_of tl_id (update_where p f (w_leases w)) k)"
  have same: "row_of tl_id (update_where p f (w_leases w)) k =
      map_option (\<lambda>r. if p r then f r else r) (row_of tl_id (w_leases w) k)"
    using assms by (intro row_of_update) (simp add: lease_step_def)
  have step: "issued_of m = issued_of l \<or> live (issued_of l) \<and> issued_of m = (issued_of l)\<lparr>live := False\<rparr>"
    if "lease_step l m" for l m
    using that by (cases "tl_revoked_at l") (auto simp: lease_step_def issued_of_def)
  show "?new = tokens (ledger_of w) k \<or> (\<exists>x. tokens (ledger_of w) k = Some x \<and> live x \<and>
      ?new = Some (x\<lparr>live := False\<rparr>))"
  proof (cases "row_of tl_id (w_leases w) k")
    case (Some l)
    then have "p l \<Longrightarrow> lease_step l (f l)" by (blast dest: row_of_SomeD intro: assms)
    with step [of l "f l"] Some same show ?thesis by auto
  qed (simp add: same)
qed

lemma move_add_entitlement:
  assumes "se_id e \<notin> set (map se_id (w_entitlements w))" "se_ended_at e = None"
  shows "ledger_step (ledger_of w) (ledger_of (w\<lparr>w_entitlements := w_entitlements w @ [e]\<rparr>))"
proof -
  have "ledger_of (w\<lparr>w_entitlements := w_entitlements w @ [e]\<rparr>) =
      (ledger_of w)\<lparr>permissions := (permissions (ledger_of w))(se_id e \<mapsto> permission_of e)\<rparr>"
    unfolding ledger_with_permissions row_of_append [OF assms(1)] by (simp add: fun_eq_iff)
  with assms show ?thesis
    by (simp only:) (rule ledger_step.Permit, simp_all add: row_of_None_iff permission_of_def)
qed

lemma move_request:
  assumes rows: "\<And>k. row_of rq_id rows k = (if k = i then Some r else row_of rq_id (w_requests w) k)"
  shows "ledger_of (w\<lparr>w_requests := rows\<rparr>) =
     (ledger_of w)\<lparr>requests := (requests (ledger_of w))(i \<mapsto> asked_of r)\<rparr>"
  unfolding ledger_with_requests by (simp add: fun_eq_iff rows)

lemma move_add_request:
  assumes "rq_status r \<in> {''pending'', ''approved''}" "insert_access_request r w = Inr (rs, w')"
  shows "ledger_steps (ledger_of w) (ledger_of w')"
  using assms(2)
proof (cases rule: insert_access_request_cases)
  case 2
  have "ledger_of w' = (ledger_of w)\<lparr>requests := (requests (ledger_of w))(rq_id r \<mapsto> asked_of r)\<rparr>"
    unfolding 2 using 2(3) by (intro move_request) (simp add: row_of_append)
  moreover have "ledger_step (ledger_of w) \<dots>"
    using assms(1) 2(3) by (intro ledger_step.Ask) (auto simp: row_of_None_iff asked_of_def request_stage_def)
  ultimately show ?thesis by simp
qed simp

text \<open>An update of the requests changes at most the one the statement names.\<close>

lemma row_of_update_one:
  fixes f :: "access_request \<Rightarrow> access_request" and rows :: "access_request list"
  assumes "\<And>r. r \<in> set rows \<Longrightarrow> p r \<Longrightarrow> rq_id r = i \<and> rq_id (f r) = rq_id r"
  obtains "\<And>k. row_of rq_id (update_where p f rows) k = row_of rq_id rows k"
  | r where "row_of rq_id rows i = Some r" "p r"
      "\<And>k. row_of rq_id (update_where p f rows) k = (if k = i then Some (f r) else row_of rq_id rows k)"
proof -
  have all: "row_of rq_id (update_where p f rows) k =
      map_option (\<lambda>r. if p r then f r else r) (row_of rq_id rows k)" for k
    using assms by (intro row_of_update) blast
  have other: "row_of rq_id (update_where p f rows) k = row_of rq_id rows k"
    if "\<And>r. row_of rq_id rows k = Some r \<Longrightarrow> \<not> p r" for k
    using that by (cases "row_of rq_id rows k") (auto simp: all)
  show thesis
  proof (cases "\<exists>r. row_of rq_id rows i = Some r \<and> p r")
    case True
    then obtain r where r: "row_of rq_id rows i = Some r" "p r" by blast
    have "row_of rq_id (update_where p f rows) k = (if k = i then Some (f r) else row_of rq_id rows k)" for k
      using r other [of k] assms by (cases "k = i") (auto simp: all dest: row_of_SomeD)
    with r show thesis by (rule that(2))
  next
    case False
    have "row_of rq_id (update_where p f rows) k = row_of rq_id rows k" for k
      using False assms by (intro other) (blast dest: row_of_SomeD)
    then show thesis by (rule that(1))
  qed
qed

lemma move_decide:
  assumes status: "ad_status d \<in> {''approved'', ''denied''}"
    and run: "update_access_request_decision k d w = Inr (rs, w')"
  shows "ledger_steps (ledger_of w) (ledger_of w')"
proof -
  define p where "p r \<longleftrightarrow> rq_id r = k \<and> rq_status r = ''pending'' \<and> (ad_status d = ''approved'' \<longrightarrow> approval_possible d r w)" for r
  from run have w': "w' = w\<lparr>w_requests := update_where p (apply_decision d) (w_requests w)\<rparr>"
    by (auto simp: update_access_request_decision_def Let_def p_def [abs_def] split: if_splits)
  have keys: "rq_id (apply_decision d r) = rq_id r" for r
    by (simp add: apply_decision_def Let_def split: option.split)
  show ?thesis
  proof (rule row_of_update_one [of "w_requests w" p k "apply_decision d"])
    show "r \<in> set (w_requests w) \<Longrightarrow> p r \<Longrightarrow> rq_id r = k \<and> rq_id (apply_decision d r) = rq_id r" for r
      by (simp add: p_def keys)
  next
    assume "\<And>j. row_of rq_id (update_where p (apply_decision d) (w_requests w)) j = row_of rq_id (w_requests w) j"
    then show ?thesis unfolding w' ledger_with_requests by (simp add: ledger_of_def)
  next
    fix r
    assume r: "row_of rq_id (w_requests w) k = Some r" "p r"
      and rows: "\<And>j. row_of rq_id (update_where p (apply_decision d) (w_requests w)) j =
        (if j = k then Some (apply_decision d r) else row_of rq_id (w_requests w) j)"
    let ?stage = "if ad_status d = ''approved'' then Granted else Refused"
    have asked: "asked_of (apply_decision d r) = (asked_of r)\<lparr>stage_of := ?stage\<rparr>"
      using status by (auto simp: asked_of_def apply_decision_def Let_def request_stage_def split: option.split)
    have awaiting: "stage_of (asked_of r) = Awaiting" using r(2) by (simp add: p_def asked_of_def request_stage_def)
    have "ledger_step (ledger_of w)
        ((ledger_of w)\<lparr>requests := (requests (ledger_of w))(k \<mapsto> (asked_of r)\<lparr>stage_of := ?stage\<rparr>)\<rparr>)"
    proof (cases "ad_status d = ''approved''")
      case True
      let ?ps = "map ap_entitlement_id (ad_approved_entitlements d)"
      from True r(2) have possible: "approval_possible d r w" by (simp add: p_def)
      then have "length ?ps = length (asked_scopes (asked_of r))"
        by (simp add: approval_possible_def asked_of_def)
      moreover have "\<forall>i \<in> set ?ps. \<exists>e. permissions (ledger_of w) i = Some e \<and> answers e (asked_of r)"
        using possible
        by (auto simp: approval_possible_def approval_backed_def list_all_iff find_entitlement_def row_of_def
            answers_def permission_of_def asked_of_def split: option.splits)
      ultimately show ?thesis
        using True r(1) awaiting by (simp only: if_True simp_thms) (rule ledger_step.Approve [where ps = ?ps], simp_all)
    next
      case False
      with r(1) awaiting show ?thesis by (simp only: if_False) (rule ledger_step.Refuse, simp_all)
    qed
    then show ?thesis unfolding w' move_request [OF rows] asked by (rule r_into_rtranclp)
  qed
qed

lemma move_consume: "ledger_steps (ledger_of w) (ledger_of (consume_request_statement k l now w))"
proof -
  define p where "p r \<longleftrightarrow> rq_id r = k \<and> rq_status r = ''approved'' \<and> lease_exists l w" for r :: access_request
  define f where "f r = r\<lparr>rq_status := ''consumed'', rq_updated_at := now\<rparr>" for r :: access_request
  have w': "consume_request_statement k l now w = w\<lparr>w_requests := update_where p f (w_requests w)\<rparr>"
    by (simp add: consume_request_statement_def p_def [abs_def] f_def [abs_def])
  show ?thesis
  proof (rule row_of_update_one [of "w_requests w" p k f])
    show "r \<in> set (w_requests w) \<Longrightarrow> p r \<Longrightarrow> rq_id r = k \<and> rq_id (f r) = rq_id r" for r
      by (simp add: p_def f_def)
  next
    assume "\<And>j. row_of rq_id (update_where p f (w_requests w)) j = row_of rq_id (w_requests w) j"
    then show ?thesis unfolding w' ledger_with_requests by (simp add: ledger_of_def)
  next
    fix r
    assume r: "row_of rq_id (w_requests w) k = Some r" "p r"
      and rows: "\<And>j. row_of rq_id (update_where p f (w_requests w)) j =
        (if j = k then Some (f r) else row_of rq_id (w_requests w) j)"
    have "asked_of (f r) = (asked_of r)\<lparr>stage_of := Used\<rparr>" "stage_of (asked_of r) = Granted"
      using r(2) by (simp_all add: asked_of_def f_def p_def request_stage_def)
    then have "ledger_step (ledger_of w) ((ledger_of w)\<lparr>requests := (requests (ledger_of w))(k \<mapsto> asked_of (f r))\<rparr>)"
      using r(1) by (simp only:) (rule ledger_step.Use, simp_all)
    then show ?thesis unfolding w' move_request [OF rows] by (rule r_into_rtranclp)
  qed
qed

lemma move_add_lease:
  assumes sound: "resources_sound w" and fresh: "tl_revoked_at l = None"
    and scopes: "tl_scopes l = lb_scopes b" and run: "insert_token_lease b l w = Inr (ls, w')"
  shows "ledger_steps (ledger_of w) (ledger_of w')"
  using run
proof (cases rule: insert_token_lease_cases)
  case (2 q)
  have w': "ledger_of w' = (ledger_of w)\<lparr>tokens := (tokens (ledger_of w))(tl_id l \<mapsto> issued_of l)\<rparr>"
    unfolding 2(2) ledger_with_tokens row_of_append [OF 2(5)] by (simp add: fun_eq_iff)
  have q: "row_of rq_id (w_requests w) (rq_id q) = Some q"
    using sound 2(3) by (intro row_of_unique) (simp add: resources_sound_def)
  have request: "rq_id q = tl_request_id l" "rq_status q \<in> {''approved'', ''consumed''}"
    using 2(4) by (simp_all add: lease_authorized_def)
  have found: "case find_entitlement i w of None \<Rightarrow> False | Some e \<Rightarrow> lease_entitlement_ok b (tl_created_at l) e"
    if "i \<in> set (tl_entitlement_ids l)" for i
    using 2(4) that by (auto simp: lease_authorized_def lease_entitlements_def list_all_iff)
  have held: "\<exists>e. permissions (ledger_of w) i = Some e \<and> answers e (asked_of q) \<and> permitted_scope e \<in> set (tl_scopes l)"
    if "i \<in> set (tl_entitlement_ids l)" for i
    using found [OF that] 2(4) scopes
    by (auto simp: lease_authorized_def lease_entitlement_ok_def find_entitlement_def row_of_def answers_def
        permission_of_def asked_of_def split: option.splits)
  have covered: "\<exists>i \<in> set (tl_entitlement_ids l). \<exists>e. permissions (ledger_of w) i = Some e \<and> permitted_scope e = s"
    if "s \<in> set (tl_scopes l)" for s
    using 2(4) that scopes
    by (fastforce simp: lease_authorized_def lease_entitlements_def list_all_iff list_ex_iff find_entitlement_def
        row_of_def permission_of_def split: option.splits)
  have "ledger_step (ledger_of w) (ledger_of w')"
    unfolding w' using q request fresh held covered 2(5)
    by (intro ledger_step.Issue [where q = "asked_of q"])
      (auto simp: issued_of_def asked_of_def request_stage_def row_of_None_iff)
  then show ?thesis by (rule r_into_rtranclp)
qed simp

section \<open>Every use case refines the ledger\<close>

text \<open>
  With it goes what is remembered of used proofs: an identifier stays in the table as long as
  the clock has not shown a time after its expiry.
\<close>

definition proofs_kept :: "env \<Rightarrow> world \<Rightarrow> world \<Rightarrow> bool" where
  "proofs_kept env w v \<longleftrightarrow> w_clock_ticks w \<le> w_clock_ticks v \<and>
     (\<forall>j \<in> set (w_dpop_jtis w). (\<forall>n < w_clock_ticks v. env_clock env n \<le> dj_expires_at j) \<longrightarrow> j \<in> set (w_dpop_jtis v))"

lemma proofs_kept_refl: "proofs_kept env w w"
  by (simp add: proofs_kept_def)

lemma proofs_kept_trans: "proofs_kept env w v \<Longrightarrow> proofs_kept env v u \<Longrightarrow> proofs_kept env w u"
  unfolding proofs_kept_def by (meson less_le_trans order_trans)

definition refines :: "env \<Rightarrow> world \<Rightarrow> world \<Rightarrow> bool" where
  "refines env w v \<longleftrightarrow> sound_step w v \<and>
     (well_formed w \<longrightarrow> ledger_steps (ledger_of w) (ledger_of v) \<and> proofs_kept env w v)"

definition same_proofs :: "world \<Rightarrow> world \<Rightarrow> bool" where
  "same_proofs w v \<longleftrightarrow> w_clock_ticks v = w_clock_ticks w \<and> w_dpop_jtis v = w_dpop_jtis w"

lemma same_proofs_kept: "same_proofs w v \<Longrightarrow> proofs_kept env w v"
  by (simp add: same_proofs_def proofs_kept_def)

lemma refinesI:
  "sound_step w v \<Longrightarrow> (resources_sound w \<Longrightarrow> ledger_steps (ledger_of w) (ledger_of v)) \<Longrightarrow> same_proofs w v \<Longrightarrow>
     refines env w v"
  by (simp add: refines_def well_formed_def same_proofs_kept)

abbreviation same_access :: "world \<Rightarrow> world \<Rightarrow> bool" where
  "same_access w v \<equiv> w_requests v = w_requests w \<and> w_entitlements v = w_entitlements w \<and> w_leases v = w_leases w"

lemma refines_beside:
  "sound_step w v \<Longrightarrow> same_access w v \<Longrightarrow> proofs_kept env w v \<Longrightarrow> refines env w v"
  using ledger_same [of v w] by (simp add: refines_def)

lemma refines_same: "sound_step w v \<Longrightarrow> same_access w v \<and> same_proofs w v \<Longrightarrow> refines env w v"
  by (simp add: refines_beside same_proofs_kept)

lemma same_inserts:
  "insert_host h w = Inr v \<Longrightarrow> same_access w v \<and> same_proofs w v" "insert_agent a w = Inr v \<Longrightarrow> same_access w v \<and> same_proofs w v"
  "insert_approval q w = Inr v \<Longrightarrow> same_access w v \<and> same_proofs w v"
  "insert_identity i w = Inr v \<Longrightarrow> same_access w v \<and> same_proofs w v"
  "insert_binding b w = Inr v \<Longrightarrow> same_access w v \<and> same_proofs w v"
  "insert_creation c w = Inr v \<Longrightarrow> same_access w v \<and> same_proofs w v"
  "insert_intent t w = Inr v \<Longrightarrow> same_access w v \<and> same_proofs w v"
  "insert_audit e w = Inr v \<Longrightarrow> same_access w v \<and> same_proofs w v"
  unfolding insert_host_def insert_agent_def insert_approval_def insert_identity_def insert_binding_def
    insert_creation_def insert_intent_def insert_audit_def same_proofs_def
  by (drule insert_row_InrD, simp)+

lemma same_claim: "claim_statement k profile now w = Inr v \<Longrightarrow> same_access w v \<and> same_proofs w v"
  by (auto simp: claim_statement_def update_identities_def Let_def same_proofs_def split: if_splits)

lemma same_removal:
  assumes run: "batch (update_identities (\<lambda>i. ai_id i = k \<and> ai_deleted_at i = None)
             (\<lambda>i. i\<lparr>ai_status := Identity_inactive, ai_deleted_at := Some now, ai_updated_at := now\<rparr>) #
           revoke_protocol_agent_statements k ids now) w = Inr v"
  shows "same_access w v \<and> same_proofs w v"
proof (rule batch_relates [of "\<lambda>w v. same_access w v \<and> same_proofs w v", OF _ _ _ run])
  fix f u x
  assume "f \<in> set (update_identities (\<lambda>i. ai_id i = k \<and> ai_deleted_at i = None)
             (\<lambda>i. i\<lparr>ai_status := Identity_inactive, ai_deleted_at := Some now, ai_updated_at := now\<rparr>) #
           revoke_protocol_agent_statements k ids now)" "f u = Inr x"
  then show "same_access u x \<and> same_proofs u x"
    by (auto simp: revoke_protocol_agent_statements_def update_identities_def update_bindings_def update_agents_def
        update_grants_def update_approvals_def same_proofs_def split: if_splits)
qed (simp_all add: same_proofs_def)

lemma same_proofs_statements:
  "insert_access_request r w = Inr (rs, v) \<Longrightarrow> same_proofs w v"
  "update_access_request_decision k d w = Inr (rs, v) \<Longrightarrow> same_proofs w v"
  "update_entitlements p f w = Inr (es, v) \<Longrightarrow> same_proofs w v"
  "insert_token_lease b l w = Inr (ls, v) \<Longrightarrow> same_proofs w v"
  by (auto simp: same_proofs_def update_access_request_decision_def update_entitlements_def Let_def split: if_splits
      elim!: insert_access_request_cases insert_token_lease_cases)

lemma same_proofs_tables [simp]:
  "same_proofs w (w\<lparr>w_entitlements := es\<rparr>)" "same_proofs w (w\<lparr>w_leases := ls\<rparr>)"
  "same_proofs w (consume_request_statement k l now w)"
  by (simp_all add: same_proofs_def consume_request_statement_def)

interpretation refined: entitlement_law "refines env" env for env
proof (unfold_locales, goal_cases)
  case 1 show ?case by (simp add: refines_def sound.law_refl proofs_kept_refl)
next
  case (2 s t u)
  then show ?case unfolding refines_def
    using sound.law_trans [of s t u] by (auto simp: sound_step_def intro: rtranclp_trans proofs_kept_trans)
next
  case 3 show ?case by (rule refines_same [OF sound.take_id]) (simp add: same_proofs_def)
next
  case 4 show ?case by (rule refines_beside [OF sound.take_time]) (simp_all add: proofs_kept_def)
next
  case 5 show ?case by (rule refines_same [OF sound.change_connections]) (simp add: same_proofs_def)
next
  case (6 n w js)
  then show ?case
    by (intro refines_beside sound.change_jtis) (auto simp: proofs_kept_def not_less)
next
  case 7 then show ?case by - (rule refines_same, erule sound.add_host, erule same_inserts)
next
  case 8 then show ?case by - (rule refines_same, erule sound.add_agent, erule same_inserts)
next
  case 9 then show ?case by - (rule refines_same, erule sound.add_approval, erule same_inserts)
next
  case 10 then show ?case by - (rule refines_same, erule (1) sound.add_identity, erule same_inserts)
next
  case 11 then show ?case by - (rule refines_same, erule (1) sound.add_binding, erule same_inserts)
next
  case 12 then show ?case by - (rule refines_same, erule sound.add_creation, erule same_inserts)
next
  case 13 then show ?case by - (rule refines_same, erule sound.add_intent, erule same_inserts)
next
  case 14 then show ?case by - (rule refines_same, erule sound.add_audit, erule same_inserts)
next
  case 15 then show ?case by (intro refines_same sound.change_identities) (simp_all add: same_proofs_def)
next
  case 16 then show ?case by - (rule refines_same, erule sound.claim_name, erule same_claim)
next
  case 17 then show ?case by (intro refines_same sound.change_bindings) (simp_all add: same_proofs_def)
next
  case 18 then show ?case by (intro refines_same sound.change_agents) (simp_all add: same_proofs_def)
next
  case 19 then show ?case by (intro refines_same sound.change_hosts) (simp_all add: same_proofs_def)
next
  case 20 then show ?case by (intro refines_same sound.change_grants) (simp_all add: same_proofs_def)
next
  case 21 then show ?case by (intro refines_same sound.change_approvals) (simp_all add: same_proofs_def)
next
  case 22 then show ?case by (intro refines_same sound.change_intents) (simp_all add: same_proofs_def)
next
  case 23 then show ?case by (blast intro: refinesI sound.add_request move_add_request same_proofs_statements)
next
  case 24 then show ?case by (blast intro: refinesI sound.decide_request move_decide same_proofs_statements)
next
  case 25 show ?case by (rule refinesI [OF sound.consume_request move_consume]) simp
next
  case 26
  then show ?case
    by (intro refinesI sound.add_entitlement r_into_rtranclp move_add_entitlement)
      (simp_all add: entitlement_unique_def)
next
  case (27 w pe fe es w')
  have "w' = w\<lparr>w_entitlements := update_where pe fe (w_entitlements w)\<rparr>"
    using 27(2) by (auto simp: update_entitlements_def Let_def split: if_splits)
  then show ?case
    using refinesI [OF sound.rewrite_entitlements [OF 27]] move_entitlements [of w pe fe] 27(1)
      same_proofs_statements(3) [OF 27(2)] by blast
next
  case 28
  then show ?case
    by (intro refinesI sound.end_entitlements r_into_rtranclp move_entitlements entitlement_step_ended) simp_all
next
  case 29 then show ?case by (blast intro: refinesI sound.add_lease move_add_lease same_proofs_statements)
next
  case 30 show ?case by (rule refines_same [OF sound.change_resources]) (simp add: same_proofs_def)
next
  case 31 show ?case by (rule refines_same [OF sound.change_organization_roles]) (simp add: same_proofs_def)
next
  case 32 then show ?case by (intro refinesI sound.change_leases r_into_rtranclp move_leases) simp_all
next
  case 33 then show ?case by - (rule refines_same, erule sound.remove_identity, erule same_removal)
next
  case 34 then show ?case by (simp add: refines_def sound_step_def well_formed_def)
next
  case 35 then show ?case by (simp add: refines_def sound_step_def well_formed_def resources_sound_def)
qed

lemma refined_run: "evolves (refines env) m \<Longrightarrow> refines env w (snd (m w))"
  by (simp add: evolves_def)

lemma perform_refines: "refines env w (perform env c w)"
  by (cases c)
    (simp_all add: refined_run refined.law_create_application_agent refined.law_create_login_identity
      refined.law_create_enrollment refined.law_create_additional refined.law_approve refined.law_lifecycle
      refined.law_create_approval refined.law_decide_agent_approval refined.law_repo_revocations refined.law_revoke_host)

lemma execute_refines: "refines env w (execute env c w)"
  by (cases c)
    (simp_all add: perform_refines refined_run refined.law_create_access refined.law_decide_access refined.law_decide_by
      refined.law_create_permission refined.law_revoke_permission refined.law_issue_credential
      refined.law_bootstrap refined.law_resource_proof refined.law_registry)

lemma access_history_refines: "access_history env w v \<Longrightarrow> refines env w v"
  by (induction rule: access_history.induct) (blast intro: refined.law_refl refined.law_trans execute_refines)+

section \<open>What the moves of a ledger never do\<close>

text \<open>
  A permission that has ended stays as it is, and no token is issued on it any more; a request that
  was refused stays refused, and no token is ever issued for it.
\<close>

definition ended_in :: "ledger \<Rightarrow> string \<Rightarrow> bool" where
  "ended_in l p \<longleftrightarrow> (\<exists>e. permissions l p = Some e \<and> \<not> in_force e)"

definition refused_in :: "ledger \<Rightarrow> string \<Rightarrow> bool" where
  "refused_in l k \<longleftrightarrow> (\<exists>q. requests l k = Some q \<and> stage_of q = Refused)"

lemma step_ended:
  assumes step: "ledger_step l m" and ended: "ended_in l p"
  shows "ended_in m p"
proof -
  from ended obtain e where e: "permissions l p = Some e" "\<not> in_force e" unfolding ended_in_def by blast
  from step have "permissions m p = Some e"
  proof (cases rule: ledger_step.cases)
    case (End ps)
    with e End(2) [rule_format, of p] show ?thesis by auto
  qed (use e in \<open>auto split: if_splits\<close>)
  with e(2) show ?thesis unfolding ended_in_def by blast
qed

lemma step_refused:
  assumes step: "ledger_step l m" and refused: "refused_in l k"
  shows "refused_in m k"
proof -
  from refused obtain q where q: "requests l k = Some q" "stage_of q = Refused" unfolding refused_in_def by blast
  from step have "requests m k = Some q"
    by (cases rule: ledger_step.cases) (use q in \<open>auto split: if_splits\<close>)
  with q(2) show ?thesis unfolding refused_in_def by blast
qed

lemma step_new_token:
  assumes step: "ledger_step l m" and new: "tokens m t = Some x"
  shows "(\<exists>y. tokens l t = Some y \<and> issued_on y = issued_on x \<and> issued_for y = issued_for x) \<or>
     (\<forall>p \<in> set (issued_on x). \<not> ended_in l p) \<and> \<not> refused_in l (issued_for x)"
  using step
proof (cases rule: ledger_step.cases)
  case (Issue t' x' q)
  show ?thesis
  proof (cases "t = t'")
    case True
    with new Issue(1) have x: "x = x'" by simp
    have "\<not> ended_in l p" if "p \<in> set (issued_on x)" for p
      using Issue(6) that unfolding x by (fastforce simp: ended_in_def answers_def)
    moreover have "\<not> refused_in l (issued_for x)"
      using Issue(3,4) unfolding x by (auto simp: refused_in_def)
    ultimately show ?thesis by blast
  next
    case False
    with new Issue(1) show ?thesis by simp
  qed
next
  case (Revoke ts)
  with new Revoke(2) [rule_format, of t]
  have "\<exists>y. tokens l t = Some y \<and> issued_on y = issued_on x \<and> issued_for y = issued_for x" by (auto dest: sym)
  then show ?thesis by (rule disjI1)
qed (use new in simp_all)

lemma steps_ended: "ledger_steps l m \<Longrightarrow> ended_in l p \<Longrightarrow> ended_in m p"
  by (induction rule: rtranclp_induct) (blast dest: step_ended)+

lemma steps_refused: "ledger_steps l m \<Longrightarrow> refused_in l k \<Longrightarrow> refused_in m k"
  by (induction rule: rtranclp_induct) (blast dest: step_refused)+

lemma steps_new_token:
  assumes "ledger_steps l m" "tokens m t = Some x"
    "(\<exists>p \<in> set (issued_on x). ended_in l p) \<or> refused_in l (issued_for x)"
  shows "\<exists>y. tokens l t = Some y \<and> issued_on y = issued_on x \<and> issued_for y = issued_for x"
  using assms
proof (induction arbitrary: x rule: rtranclp_induct)
  case (step m n)
  from step_new_token [OF step(2,4)] show ?case
  proof
    assume "\<exists>y. tokens m t = Some y \<and> issued_on y = issued_on x \<and> issued_for y = issued_for x"
    then obtain y where "tokens m t = Some y" "issued_on y = issued_on x" "issued_for y = issued_for x" by blast
    with step.IH [of y] step.prems(2) show ?thesis by metis
  next
    assume "(\<forall>p \<in> set (issued_on x). \<not> ended_in m p) \<and> \<not> refused_in m (issued_for x)"
    with step.prems(2) steps_ended [OF step(1)] steps_refused [OF step(1)] show ?thesis by blast
  qed
qed auto

end
