(* ===== verification/Sample_Access.thy ===== *)
theory Sample_Access
  imports Access_Commands Sample_World
begin

text \<open>
  A world in which access is asked for, granted and used: the Agent of the sample world, whose
  owner holds a scope of the native resource, with a principal and a signer.
\<close>

definition own_authority :: json where
  "own_authority = native_authority ''user'' ''u1''"

definition owner_entitlement :: resource_scope_entitlement where
  "owner_entitlement = (sample_entitlement ''u-read'' None None)
     \<lparr>se_user_id := Some ''u1'', se_agent_identity_id := None\<rparr>"

definition access_world :: world where
  "access_world = sample_world\<lparr>w_entitlements := w_entitlements sample_world @ [owner_entitlement]\<rparr>"

definition sample_principal :: agent_principal where
  "sample_principal = \<lparr>pr_issuer = ''https://id'', pr_subject = ''s1'', pr_identity_id = ''i1'',
     pr_protocol_agent_id = ''p1'', pr_host_id = ''h1'', pr_runtime = None, pr_session_id = None,
     pr_identity = sample_identity, pr_binding = agent_identity_binding.extend sample_binding (bound_binding.fields ''h1'')\<rparr>"

definition sample_signer :: signer where
  "sample_signer = \<lparr>sg_issuer = ''https://id'', sg_sign = (\<lambda>_ kind. Inr (''token-'' @ kind))\<rparr>"

definition sample_asking :: access_request_input where
  "sample_asking = \<lparr>ai_resource_id = ''r1'', ai_scopes = [''read''], ai_authorization_details = [own_authority],
     ai_reason = None\<rparr>"

abbreviation "sample_url \<equiv> ''https://realm.example/token''"

text \<open>Asking, approving once, and taking a token.\<close>

definition sample_session :: "command list" where
  "sample_session =
     [Request_access sample_asking sample_principal ''https://realm.example'',
      Decide_access (env_ids sample_env 1) (Approve_request For_once [own_authority]) None ''u1'',
      Issue_credential (env_ids sample_env 1) ''proof-1'' sample_url sample_principal sample_signer]"

text \<open>The same world after an approval: the request, and the permission to use it once.\<close>

definition granted_request :: access_request where
  "granted_request = sample_request\<lparr>rq_id := ''q2'', rq_authorization_details := [own_authority],
     rq_status := ''approved'', rq_approval_token_hash := ''q2-hash'',
     rq_approved_entitlements := [\<lparr>ap_scope = ''read'', ap_entitlement_id = ''e3''\<rparr>]\<rparr>"

definition once_entitlement :: resource_scope_entitlement where
  "once_entitlement = (sample_entitlement ''e3'' None None)\<lparr>se_mode := Once,
     se_authorization_details := [own_authority],
     se_authorization_context_hash := context_hash sample_env [own_authority],
     se_source_access_request_id := Some ''q2''\<rparr>"

definition granted_world :: world where
  "granted_world = sample_world\<lparr>w_entitlements := w_entitlements sample_world @ [once_entitlement, owner_entitlement],
     w_requests := w_requests sample_world @ [granted_request]\<rparr>"

definition sample_issue :: "(failure + issued_token) \<times> world" where
  "sample_issue = issue_target_access_token sample_env ''q2'' ''proof-1'' sample_url sample_principal
     sample_signer granted_world"

definition sample_token :: issued_token where
  "sample_token = projr (fst sample_issue)"

lemma access_world_well_formed: "well_formed access_world"
  by code_simp

lemma granted_world_well_formed: "well_formed granted_world"
  by code_simp

section \<open>A token is issued there\<close>

text \<open>
  The run of a long action is put together from the runs of its steps: the rest of it is not
  looked at before its step was evaluated.
\<close>

lemma bind_weak_cong: "m = m' \<Longrightarrow> bind m f = bind m' f"
  by simp

lemma bind_apply: "bind m f s = (case m s of (Inl e, t) \<Rightarrow> (Inl e, t) | (Inr x, t) \<Rightarrow> f x t)"
  by (simp add: bind_def)

definition issuing_world :: world where
  "issuing_world = granted_world\<lparr>w_clock_ticks := 1\<rparr>"

lemma sample_steps:
  "require_active_identity_and_binding sample_principal =
     Inr \<lparr>agg_identity = sample_identity, agg_bindings = [pr_binding sample_principal]\<rparr>"
  "find_access_request ''q2'' granted_world = Some granted_request"
  "new_date sample_env granted_world = (Inr 1000, issuing_world)"
  "active_context_entitlements sample_env ''i1'' ''r1'' None [own_authority] 1000 issuing_world = [once_entitlement]"
  "find_resource ''r1'' issuing_world = Some sample_resource"
  "validate_resource_requested_scopes sample_resource [''read''] = Inr ()"
  "active_resource_visible_to_agent sample_resource (active_identity_organization_ids ''u1'' issuing_world)"
  "assert_authorization_details_selection (env_collation_key sample_env) sample_resource None [own_authority] = Inr ()"
  by code_simp+

abbreviation "sample_current \<equiv> current_request [once_entitlement] granted_request"

lemma sample_values:
  "rq_id granted_request = ''q2''" "rq_agent_identity_id granted_request = ''i1''"
  "rq_status granted_request = ''approved''" "rq_resource_id granted_request = ''r1''"
  "rq_connection_id granted_request = None" "rq_authorization_details granted_request = [own_authority]"
  "pr_identity_id sample_principal = ''i1''" "ai_owner_user_id sample_identity = ''u1''"
  "rs_enabled sample_resource" "rs_authorization_model sample_resource = Native_model"
  "rq_scopes sample_current = [''read'']" "rq_resource_id sample_current = ''r1''"
  "rq_connection_id sample_current = None" "rq_authorization_details sample_current = [own_authority]"
  by code_simp+

lemma sample_native_run:
  "\<not> isl (fst (issue_native_access_token sample_env [once_entitlement] sample_current sample_resource ''u1''
      ''proof-1'' sample_url sample_principal sample_signer issuing_world))"
  unfolding issue_native_access_token_def bind_def by code_simp

lemma sample_issue_native:
  "sample_issue = issue_native_access_token sample_env [once_entitlement] sample_current sample_resource ''u1''
     ''proof-1'' sample_url sample_principal sample_signer issuing_world"
  unfolding sample_issue_def issue_target_access_token_def
  by (simp add: bind_apply run_simps sample_steps sample_values Let_def present_def cong: bind_weak_cong if_weak_cong)

lemma sample_issue_run:
  "issue_target_access_token sample_env ''q2'' ''proof-1'' sample_url sample_principal sample_signer granted_world =
     (Inr sample_token, snd sample_issue)"
proof -
  obtain t where "fst sample_issue = Inr t"
    using sample_native_run unfolding sample_issue_native by (cases "fst sample_issue") (simp_all add: sample_issue_native)
  then show ?thesis unfolding sample_token_def sample_issue_def [symmetric] by (simp add: prod_eq_iff)
qed

lemma sample_issue_leases:
  "map tl_entitlement_ids (w_leases (snd sample_issue)) = [[''e1''], [''e2''], [''e3'']]"
  unfolding sample_issue_native issue_native_access_token_def bind_def by code_simp

end
