(* ===== verification/Access_Operations.thy ===== *)
theory Access_Operations
  imports Access_Refinement Sample_Access
begin

text \<open>
  What asking, approving and issuing promise: the tables as a ledger, what an approval needs, and
  what is written with every token.
\<close>

section \<open>What reading leaves alone\<close>

definition aside :: "world \<Rightarrow> world \<Rightarrow> bool" where
  "aside w v \<longleftrightarrow> (\<exists>n m. v = w\<lparr>w_ids_taken := n, w_clock_ticks := m\<rparr>)"

definition beside :: "world \<Rightarrow> world \<Rightarrow> bool" where
  "beside w v \<longleftrightarrow> (\<exists>n m cs js. v = w\<lparr>w_ids_taken := n, w_clock_ticks := m, w_connections := cs, w_dpop_jtis := js\<rparr>)"

lemma aside_refl: "aside w w"
  unfolding aside_def by (rule exI [of _ "w_ids_taken w"], rule exI [of _ "w_clock_ticks w"]) simp

lemma beside_refl: "beside w w"
  unfolding beside_def
  by (rule exI [of _ "w_ids_taken w"], rule exI [of _ "w_clock_ticks w"], rule exI [of _ "w_connections w"],
      rule exI [of _ "w_dpop_jtis w"]) simp

interpretation reading: reading_law aside env for env
proof (unfold_locales, goal_cases)
  case 1 show ?case by (rule aside_refl)
next
  case (2 w v u) then show ?case unfolding aside_def by auto blast
next
  case (3 w n) show ?case unfolding aside_def by (rule exI [of _ n], rule exI [of _ "w_clock_ticks w"]) simp
next
  case (4 w) show ?case unfolding aside_def by (rule exI [of _ "w_ids_taken w"], rule exI [of _ "Suc (w_clock_ticks w)"]) simp
qed

interpretation beside: beside_law beside env for env
proof (unfold_locales, goal_cases)
  case 1 show ?case by (rule beside_refl)
next
  case (2 w v u) then show ?case unfolding beside_def by auto blast
next
  case (3 w n) show ?case unfolding beside_def
    by (rule exI [of _ n], rule exI [of _ "w_clock_ticks w"], rule exI [of _ "w_connections w"],
      rule exI [of _ "w_dpop_jtis w"]) simp
next
  case (4 w) show ?case unfolding beside_def
    by (rule exI [of _ "w_ids_taken w"], rule exI [of _ "Suc (w_clock_ticks w)"], rule exI [of _ "w_connections w"],
      rule exI [of _ "w_dpop_jtis w"]) simp
next
  case (5 w cs) show ?case unfolding beside_def
    by (rule exI [of _ "w_ids_taken w"], rule exI [of _ "w_clock_ticks w"], rule exI [of _ cs],
      rule exI [of _ "w_dpop_jtis w"]) simp
next
  case (6 n w js) show ?case unfolding beside_def
    by (rule exI [of _ "w_ids_taken w"], rule exI [of _ "w_clock_ticks w"], rule exI [of _ "w_connections w"],
      rule exI [of _ "filter (\<lambda>j. \<not> dj_expires_at j < env_clock env n) (w_dpop_jtis w) @ js"]) simp
qed

lemma beside_tables:
  assumes "beside w v"
  shows "w_requests v = w_requests w" "w_entitlements v = w_entitlements w" "w_leases v = w_leases w"
    "w_audits v = w_audits w" "w_resources v = w_resources w" "w_bindings v = w_bindings w"
    "w_identities v = w_identities w"
  using assms unfolding beside_def by auto

lemma aside_tables:
  assumes "aside w v"
  shows "w_requests v = w_requests w" "w_entitlements v = w_entitlements w" "w_leases v = w_leases w"
    "w_audits v = w_audits w" "w_resources v = w_resources w" "w_bindings v = w_bindings w"
    "w_identities v = w_identities w" "w_connections v = w_connections w"
  using assms unfolding aside_def by auto

section \<open>The record of a token\<close>

text \<open>
  What is written with every token: one lease, made of the entitlements it is issued on, one audit
  event, the request marked as used, and every one-time permission among the entitlements ended.
\<close>

definition recorded ::
    "resource_scope_entitlement list \<Rightarrow> external_token_lease \<Rightarrow> world \<Rightarrow> world \<Rightarrow> bool" where
  "recorded es l w v \<longleftrightarrow>
     w_leases v = w_leases w @ [l] \<and> tl_id l \<notin> set (map tl_id (w_leases w)) \<and>
     tl_entitlement_ids l = map se_id es \<and> tl_revoked_at l = None \<and>
     (\<exists>q \<in> set (w_requests w). rq_id q = tl_request_id l \<and> rq_status q \<in> {''approved'', ''consumed''}) \<and>
     (\<forall>q \<in> set (w_requests v). rq_id q = tl_request_id l \<longrightarrow> rq_status q \<noteq> ''approved'') \<and>
     (\<forall>e \<in> set (w_entitlements v). se_id e \<in> set (once_entitlement_ids es) \<longrightarrow> se_ended_at e \<noteq> None) \<and>
     (\<exists>a. w_audits v = w_audits w @ [a] \<and> au_action a = ''api_resource.token_issued'' \<and>
        au_access_request_id a = Some (tl_request_id l))"

lemma resource_audit_ok:
  assumes "resource_audit_record env a w = (Inr e, v)"
  shows "aside w v \<and> au_action e = ra_action a \<and> au_access_request_id e = ra_access_request_id a"
  using assms evolvesD [OF reading.law_resource_audit assms]
  by (auto simp: resource_audit_record_def bind_ok_iff)

lemma issue_lease_recorded:
  assumes run: "issue_token_lease_with_audit l b ids now audit w = (Inr (Some l'), v)"
  shows "l' = l \<and> w_leases v = w_leases w @ [l] \<and> tl_id l \<notin> set (map tl_id (w_leases w)) \<and>
     (\<exists>q \<in> set (w_requests w). lease_authorized b l q w) \<and>
     w_requests v = w_requests (consume_request_statement (tl_request_id l) (tl_id l) now (w\<lparr>w_leases := w_leases w @ [l]\<rparr>)) \<and>
     w_entitlements v = update_where (\<lambda>e. se_id e \<in> set ids \<and> se_ended_at e = None)
       (entitlement_ended Consumed now) (w_entitlements w) \<and>
     w_audits v = w_audits w @ [audit]"
proof -
  from run obtain ls w1 where ins: "insert_token_lease b l w = Inr (ls, w1)"
    by (auto simp: issue_token_lease_with_audit_def split: sum.splits)
  from ins show ?thesis
  proof (cases rule: insert_token_lease_cases)
    case 1
    with run ins show ?thesis by (auto simp: issue_token_lease_with_audit_def Let_def split: sum.splits)
  next
    case (2 q)
    let ?w2 = "consume_request_statement (tl_request_id l) (tl_id l) now w1"
    let ?w3 = "if ids \<noteq> [] then consume_entitlements_statement ids (tl_id l) now ?w2 else ?w2"
    have there: "lease_exists (tl_id l) ?w3" "lease_exists (tl_id l) ?w2"
      by (simp_all add: lease_exists_def consume_entitlements_statement_def consume_request_statement_def 2(2))
    with run ins 2(1) have l': "l' = l" and aud: "insert_audit audit ?w3 = Inr v"
      by (auto simp: issue_token_lease_with_audit_def Let_def audit_where_def split: sum.splits if_splits)
    from aud have v: "v = ?w3\<lparr>w_audits := w_audits ?w3 @ [audit]\<rparr>"
      unfolding insert_audit_def by (auto dest: insert_row_InrD)
    have ents: "w_entitlements ?w3 = update_where (\<lambda>e. se_id e \<in> set ids \<and> se_ended_at e = None)
        (entitlement_ended Consumed now) (w_entitlements w)"
      using there(2) by (auto simp: consume_entitlements_statement_def consume_request_statement_def 2(2)
          lease_exists_def update_where_def)
    have "w_leases ?w3 = w_leases w @ [l]" "w_audits ?w3 = w_audits w" "w_requests ?w3 = w_requests ?w2"
      by (simp_all add: consume_entitlements_statement_def consume_request_statement_def 2(2))
    with v l' ents 2(2-5) show ?thesis by auto
  qed
qed

lemma consumed_now:
  assumes "q \<in> set (w_requests (consume_request_statement k i now w))" "rq_id q = k" "lease_exists i w"
  shows "rq_status q \<noteq> ''approved''"
proof -
  from assms(1,3) obtain r where
    "q = (if rq_id r = k \<and> rq_status r = ''approved'' then r\<lparr>rq_status := ''consumed'', rq_updated_at := now\<rparr> else r)"
    unfolding consume_request_statement_def by (auto simp: in_update_where)
  with assms(2) show ?thesis by (cases "rq_id r = k \<and> rq_status r = ''approved''") auto
qed

lemma ended_now:
  assumes "e \<in> set (update_where (\<lambda>e. se_id e \<in> ids \<and> se_ended_at e = None) (entitlement_ended reason now) rows)"
    "se_id e \<in> ids"
  shows "se_ended_at e \<noteq> None"
proof -
  from assms(1) obtain q where "e = (if se_id q \<in> ids \<and> se_ended_at q = None then entitlement_ended reason now q else q)"
    unfolding in_update_where by blast
  with assms(2) show ?thesis by (cases "se_id q \<in> ids \<and> se_ended_at q = None") auto
qed

lemma record_issued_ok:
  assumes run: "record_issued_token env es request resource c p token jkt expires now w = (Inr u, v)"
  obtains l where "recorded es l w v" "tl_request_id l = rq_id request" "tl_scopes l = rq_scopes request"
    "tl_token_hash l = sha256_text env token" "tl_expires_at l = expires" "tl_created_at l = now"
    "tl_confirmation_jkt l = jkt" "tl_authorization_details l = rq_authorization_details request"
proof -
  from run obtain i w1 audit w2 l where
    steps: "generate_id env w = (Inr i, w1)"
      "resource_audit_record env (issued_audit p resource c request) w1 = (Inr audit, w2)"
      "issue_token_lease_with_audit (token_lease env i es request p token jkt expires now)
         (request_boundary env request) (once_entitlement_ids es) now audit w2 = (Inr (Some l), v)"
    by (auto simp: record_issued_token_def bind_ok_iff)
  have same: "aside w w1" "aside w1 w2"
    using evolvesD [OF reading.law_generate_id steps(1)] resource_audit_ok [OF steps(2)] by blast+
  let ?l = "token_lease env i es request p token jkt expires now"
  note issue = issue_lease_recorded [OF steps(3)]
  note tables = aside_tables [OF same(1)] aside_tables [OF same(2)]
  have audit: "au_action audit = ''api_resource.token_issued''" "au_access_request_id audit = Some (rq_id request)"
    using resource_audit_ok [OF steps(2)] by (simp_all add: issued_audit_def)
  have fields: "tl_id ?l = i" "tl_request_id ?l = rq_id request" "tl_entitlement_ids ?l = map se_id es"
    "tl_revoked_at ?l = None" by (simp_all add: token_lease_def)
  have "rq_status q \<noteq> ''approved''" if "q \<in> set (w_requests v)" "rq_id q = tl_request_id ?l" for q
    using consumed_now [of q "tl_request_id ?l" "tl_id ?l" now "w2\<lparr>w_leases := w_leases w2 @ [?l]\<rparr>"] that issue
    by (simp add: lease_exists_def)
  moreover have "\<exists>q \<in> set (w_requests w). rq_id q = tl_request_id ?l \<and> rq_status q \<in> {''approved'', ''consumed''}"
    using issue by (auto simp: lease_authorized_def tables)
  moreover have "se_ended_at e \<noteq> None"
    if "e \<in> set (w_entitlements v)" "se_id e \<in> set (once_entitlement_ids es)" for e
    using ended_now [where reason = Consumed and now = now and e = e and rows = "w_entitlements w2"] that issue by simp
  ultimately have "recorded es ?l w v"
    using issue audit fields unfolding recorded_def by (simp add: tables)
  then show thesis by (rule that) (simp_all add: token_lease_def)
qed

section \<open>Issuing\<close>

text \<open>Every step before the record writes at most connected accounts and used proofs.\<close>

lemma aside_beside: "aside w v \<Longrightarrow> beside w v"
  unfolding aside_def beside_def
  by (elim exE, intro exI [of _ "w_ids_taken v"] exI [of _ "w_clock_ticks v"] exI [of _ "w_connections w"]
      exI [of _ "w_dpop_jtis w"]) simp

lemma beside_step: "evolves beside m \<Longrightarrow> m w = (r, v) \<Longrightarrow> beside w v"
  by (rule evolvesD)

lemma native_issue_ok:
  assumes run: "issue_native_access_token env es request resource owner dpop_proof url p s w = (Inr t, v)"
  obtains w1 jkt now where "beside w w1" "it_scopes t = rq_scopes request" "it_expires_at t = native_expiry es now"
    "record_issued_token env es request resource None p (it_access_token t) jkt (it_expires_at t) now w1 = (Inr (), v)"
proof -
  let ?organization = "token_organization (hd (rq_authorization_details request))"
  from run obtain a w1 jkt w2 now w3 jti w4 binding_claim token b where
    steps: "require_current_native_authority_context env owner (rq_authorization_details request) w = (Inr a, w1)"
      "validate_dpop_token_proof env dpop_proof url w1 = (Inr jkt, w2)" "new_date env w2 = (Inr now, w3)"
      "create_protocol_id env ''resat'' w3 = (Inr jti, w4)"
      "record_issued_token env es request resource None p token jkt (native_expiry es now) now w4 = (Inr b, v)"
    and t: "it_access_token t = token" "it_scopes t = rq_scopes request" "it_expires_at t = native_expiry es now"
    unfolding issue_native_access_token_def Let_def by (fastforce simp: bind_ok_iff)
  have "beside w w1" using steps(1) by (rule beside_step [OF beside.law_access_guards(3)])
  moreover have "beside w1 w2" using steps(2) by (rule beside_step [OF beside.law_dpop])
  moreover have "beside w2 w3" using steps(3) by (rule beside_step [OF beside.law_new_date])
  moreover have "beside w3 w4" using steps(4) by (rule beside_step [OF beside.law_protocol_id])
  ultimately have "beside w w4" by (blast intro: beside.law_trans)
  with steps(5) t show thesis by (intro that [of w4 now jkt]) simp_all
qed

lemma exchanged_bounds:
  assumes "exchanged_token key es request now token = Inr (access_token, expires_in)"
  shows "0 < expires_in \<and> expires_in \<le> 3600 \<and>
     (case earliest_entitlement_expiry es of None \<Rightarrow> True | Some x \<Rightarrow> now + expires_in * 1000 \<le> x)"
  using assms
  by (auto simp: exchanged_token_def Let_def required_positive_integer_def
      split: sum.splits if_splits option.splits json.splits)

lemma external_issue_ok:
  assumes run: "issue_external_access_token env es request resource dpop_proof url p s now w = (Inr t, v)"
  obtains w1 jkt c expires_in where "beside w w1" "it_scopes t = rq_scopes request"
    "it_expires_at t = now + expires_in * 1000" "0 < expires_in" "expires_in \<le> 3600"
    "case earliest_entitlement_expiry es of None \<Rightarrow> True | Some x \<Rightarrow> it_expires_at t \<le> x"
    "record_issued_token env es request resource (Some c) p (it_access_token t) jkt (it_expires_at t) now w1 = (Inr (), v)"
proof -
  from run obtain c credential a w1 jkt w2 date_now w3 jti w4 subject w5 assertion actor_grant x w6 token nonce z w7
      access_token expires_in b where
    steps: "external_credential env request resource url w = (Inr (c, credential, a), w1)"
      "validate_dpop_token_proof env dpop_proof (ea_token_endpoint a) w1 = (Inr jkt, w2)"
      "new_date env w2 = (Inr date_now, w3)" "random_token env w3 = (Inr jti, w4)"
      "refresh_connection_token env credential (cn_id c) a w4 = (Inr subject, w5)"
      "post_form_response env (actor_request a assertion) False w5 = (Inr (actor_grant, x), w6)"
      "post_form_response env z False w6 = (Inr (token, nonce), w7)"
      "exchanged_token (env_collation_key env) es request now token = Inr (access_token, expires_in)"
      "record_issued_token env es request resource (Some c) p access_token jkt (now + expires_in * 1000) now w7 = (Inr b, v)"
    and t: "it_access_token t = access_token" "it_scopes t = rq_scopes request" "it_expires_at t = now + expires_in * 1000"
    unfolding issue_external_access_token_def Let_def by (fastforce simp: bind_ok_iff split: prod.splits)
  have "beside w w1" using steps(1) by (rule beside_step [OF beside.law_external_credential])
  moreover have "beside w1 w2" using steps(2) by (rule beside_step [OF beside.law_dpop])
  moreover have "beside w2 w3" using steps(3) by (rule beside_step [OF beside.law_new_date])
  moreover have "beside w3 w4" using steps(4) by (rule beside_step [OF beside.law_random_token])
  moreover have "beside w4 w5" using steps(5) by (rule beside_step [OF beside.law_refresh])
  moreover have "beside w5 w6" using steps(6) by (rule beside_step [OF beside.law_post_form])
  moreover have "beside w6 w7" using steps(7) by (rule beside_step [OF beside.law_post_form])
  ultimately have "beside w w7" by (blast intro: beside.law_trans)
  with steps(9) exchanged_bounds [OF steps(8)] t show thesis
    by (intro that [of w7 expires_in c jkt]) (auto split: option.splits)
qed

lemma foldl_min_le: "foldl min t ts \<le> (t :: int) \<and> (\<forall>x \<in> set ts. foldl min t ts \<le> x)"
proof (induction ts arbitrary: t)
  case (Cons a ts)
  from Cons.IH [of "min t a"] show ?case by auto
qed simp

lemma earliest_bound:
  assumes "e \<in> set es" "se_expires_at e = Some x"
  shows "\<exists>t. earliest_entitlement_expiry es = Some t \<and> t \<le> x"
proof -
  let ?times = "concat (map (\<lambda>e. case se_expires_at e of None \<Rightarrow> [] | Some t \<Rightarrow> [t]) es)"
  have x: "x \<in> set ?times" using assms by force
  then obtain t ts where times: "?times = t # ts" by (cases ?times) auto
  with x have "x \<in> set (t # ts)" by (simp only:)
  with foldl_min_le [of t ts] have "foldl min t ts \<le> x" by auto
  then show ?thesis unfolding earliest_entitlement_expiry_def times by simp
qed

lemma native_expiry_bounds:
  "native_expiry es now \<le> now + 300000"
  "e \<in> set es \<Longrightarrow> se_expires_at e = Some x \<Longrightarrow> native_expiry es now \<le> x"
  using earliest_bound [of e es x] by (auto simp: native_expiry_def split: option.splits)

text \<open>The lease behind a token, the entitlements it is issued on, and when they were read.\<close>

lemma issue_target_ok:
  assumes run: "issue_target_access_token env i dpop_proof url p s w = (Inr t, v)"
  obtains q es l now where "find_access_request i w = Some q" "rq_agent_identity_id q = pr_identity_id p"
    "rq_status q \<in> {''approved'', ''consumed''}" "es \<noteq> []"
    "es = active_context_entitlements env (pr_identity_id p) (rq_resource_id q) (rq_connection_id q)
      (rq_authorization_details q) now w"
    "recorded es l w v" "tl_request_id l = i" "tl_scopes l = sort (map se_scope es)" "it_scopes t = tl_scopes l"
    "tl_token_hash l = sha256_text env (it_access_token t)" "tl_expires_at l = it_expires_at t"
    "it_expires_at t \<le> tl_created_at l + 3600000"
    "\<forall>e \<in> set es. case se_expires_at e of None \<Rightarrow> True | Some x \<Rightarrow> it_expires_at t \<le> x"
proof -
  from run obtain q now w1 where q: "find_access_request i w = Some q" "rq_agent_identity_id q = pr_identity_id p"
      "rq_status q \<in> {''approved'', ''consumed''}" "new_date env w = (Inr now, w1)"
    by (auto simp: issue_target_access_token_def bind_ok_iff)
  let ?es = "active_context_entitlements env (pr_identity_id p) (rq_resource_id q) (rq_connection_id q)
      (rq_authorization_details q) now w1"
  from run q obtain resource owner where es: "?es \<noteq> []" and
    issue: "issue_native_access_token env ?es (current_request ?es q) resource owner dpop_proof url p s w1 = (Inr t, v) \<or>
      issue_external_access_token env ?es (current_request ?es q) resource dpop_proof url p s now w1 = (Inr t, v)"
    by (auto simp: issue_target_access_token_def bind_ok_iff Let_def split: if_splits)
  have request: "rq_id (current_request ?es q) = i" "rq_scopes (current_request ?es q) = sort (map se_scope ?es)"
    using q(1) by (auto simp: current_request_def find_access_request_def dest: find_SomeD)
  have w1: "beside w w1" using q(4) by (rule beside_step [OF beside.law_new_date])
  from issue obtain l w2 where w2: "beside w1 w2" and l: "recorded ?es l w2 v" "tl_request_id l = i"
      "tl_scopes l = sort (map se_scope ?es)" "it_scopes t = tl_scopes l"
      "tl_token_hash l = sha256_text env (it_access_token t)" "tl_expires_at l = it_expires_at t"
      "it_expires_at t \<le> tl_created_at l + 3600000"
      "\<forall>e \<in> set ?es. case se_expires_at e of None \<Rightarrow> True | Some x \<Rightarrow> it_expires_at t \<le> x"
  proof (elim disjE)
    assume "issue_native_access_token env ?es (current_request ?es q) resource owner dpop_proof url p s w1 = (Inr t, v)"
    then show thesis
    proof (rule native_issue_ok)
      fix w2 jkt n
      assume w2: "beside w1 w2" and t: "it_scopes t = rq_scopes (current_request ?es q)" "it_expires_at t = native_expiry ?es n"
        and done_with: "record_issued_token env ?es (current_request ?es q) resource None p (it_access_token t) jkt
            (it_expires_at t) n w2 = (Inr (), v)"
      have "case se_expires_at e of None \<Rightarrow> True | Some x \<Rightarrow> it_expires_at t \<le> x" if "e \<in> set ?es" for e
        using native_expiry_bounds(2) [OF that] t(2) by (auto split: option.splits)
      moreover from done_with obtain l where "recorded ?es l w2 v" "tl_request_id l = rq_id (current_request ?es q)"
        "tl_scopes l = rq_scopes (current_request ?es q)" "tl_token_hash l = sha256_text env (it_access_token t)"
        "tl_expires_at l = it_expires_at t" "tl_created_at l = n"
        by (rule record_issued_ok)
      ultimately show thesis
        using w2 t request native_expiry_bounds(1) [of ?es n] by (intro that [of w2 l]) simp_all
    qed
  next
    assume "issue_external_access_token env ?es (current_request ?es q) resource dpop_proof url p s now w1 = (Inr t, v)"
    then show thesis
    proof (rule external_issue_ok)
      fix w2 jkt c expires_in
      assume w2: "beside w1 w2" and t: "it_scopes t = rq_scopes (current_request ?es q)"
          "it_expires_at t = now + expires_in * 1000" "0 < expires_in" "expires_in \<le> 3600"
          "case earliest_entitlement_expiry ?es of None \<Rightarrow> True | Some x \<Rightarrow> it_expires_at t \<le> x"
        and done_with: "record_issued_token env ?es (current_request ?es q) resource (Some c) p (it_access_token t) jkt
            (it_expires_at t) now w2 = (Inr (), v)"
      have "case se_expires_at e of None \<Rightarrow> True | Some x \<Rightarrow> it_expires_at t \<le> x" if "e \<in> set ?es" for e
        using earliest_bound [OF that] t(5) by (auto split: option.splits)
      moreover from done_with obtain l where "recorded ?es l w2 v" "tl_request_id l = rq_id (current_request ?es q)"
        "tl_scopes l = rq_scopes (current_request ?es q)" "tl_token_hash l = sha256_text env (it_access_token t)"
        "tl_expires_at l = it_expires_at t" "tl_created_at l = now"
        by (rule record_issued_ok)
      ultimately show thesis using w2 t(1-4) request by (intro that [of w2 l]) simp_all
    qed
  qed
  have "recorded ?es l w v"
    using l(1) by (simp add: recorded_def beside_tables [OF w1] beside_tables [OF w2])
  moreover have "?es = active_context_entitlements env (pr_identity_id p) (rq_resource_id q) (rq_connection_id q)
      (rq_authorization_details q) now w"
    by (simp add: active_context_entitlements_def context_entitlements_def list_active_entitlements_by_agent_def
        beside_tables [OF w1])
  ultimately show thesis using q es l by (intro that [of q ?es now l]) simp_all
qed

end
