(* ===== verification/Access_Properties.thy ===== *)
theory Access_Properties
  imports Access_Operations
begin

text \<open>
  What access to resources promises: the tables refine a ledger, what is spent or refused stays so,
  a token is backed and short-lived, a one-time permission gives one token, and a controller grants
  no more than it holds.
\<close>

section \<open>The ledger\<close>



lemma over_issues_nothing:
  assumes wf: "well_formed w" and run: "access_history env w v" and l: "l \<in> set (w_leases v)"
    and over: "(\<exists>e \<in> set (w_entitlements w). se_id e \<in> set (tl_entitlement_ids l) \<and> se_ended_at e \<noteq> None) \<or>
      (\<exists>q \<in> set (w_requests w). rq_id q = tl_request_id l \<and> rq_status q = ''denied'')"
  shows "\<exists>k \<in> set (w_leases w). tl_id k = tl_id l \<and> tl_entitlement_ids k = tl_entitlement_ids l \<and> tl_request_id k = tl_request_id l"
proof -
  have v: "well_formed v" "ledger_steps (ledger_of w) (ledger_of v)"
    using access_history_refines [OF run] wf by (simp_all add: refines_def sound_step_def)
  have keys: "distinct (map se_id (w_entitlements w))" "distinct (map rq_id (w_requests w))" "distinct (map tl_id (w_leases v))"
    using wf v(1) by (simp_all add: well_formed_def resources_sound_def)
  have "tokens (ledger_of v) (tl_id l) = Some (issued_of l)"
    using row_of_unique [OF keys(3) l] by simp
  moreover have "(\<exists>p \<in> set (issued_on (issued_of l)). ended_in (ledger_of w) p) \<or> refused_in (ledger_of w) (issued_for (issued_of l))"
    using over row_of_unique [OF keys(1)] row_of_unique [OF keys(2)]
    by (fastforce simp: ended_in_def refused_in_def issued_of_def permission_of_def asked_of_def request_stage_def)
  ultimately obtain y where "tokens (ledger_of w) (tl_id l) = Some y" "issued_on y = tl_entitlement_ids l" "issued_for y = tl_request_id l"
    using steps_new_token [OF v(2)] by (force simp: issued_of_def)
  then show ?thesis by (auto simp: issued_of_def dest!: row_of_SomeD)
qed

text \<open>
  C17. Nothing is issued on what is over: whatever happens later, a lease that names an entitlement
  that has ended, or a request that was denied, is one that was there before.
\<close>

theorem ended_and_denied_issue_nothing:
  assumes wf: "well_formed w" and run: "access_history env w v" and l: "l \<in> set (w_leases v)"
    and over: "(\<exists>e \<in> set (w_entitlements w). se_id e \<in> set (tl_entitlement_ids l) \<and> se_ended_at e \<noteq> None) \<or>
      (\<exists>q \<in> set (w_requests w). rq_id q = tl_request_id l \<and> rq_status q = ''denied'')"
  shows "\<exists>k \<in> set (w_leases w). tl_id k = tl_id l \<and> tl_entitlement_ids k = tl_entitlement_ids l \<and> tl_request_id k = tl_request_id l"
  by (rule over_issues_nothing [OF assms])

lemma ended_and_denied_issue_nothing_witness:
  "\<exists>k \<in> set (w_leases sample_world). tl_id k = ''l2'' \<and> tl_entitlement_ids k = [''e2''] \<and> tl_request_id k = ''q1''"
  using ended_and_denied_issue_nothing [where l = "sample_lease ''l2'' ''e2''", OF sample_world_well_formed access_history.Start [of sample_env]]
  by (simp add: sample_world_def sample_lease_def sample_entitlement_def)

section \<open>Tokens\<close>



text \<open>
  C18. No token outlives what it rests on: it expires an hour after its lease was made at the
  latest, and not after any of the entitlements it was issued on.
\<close>

theorem issued_token_short_lived:
  assumes run: "issue_target_access_token env i dpop_proof url p s w = (Inr t, v)" and wf: "well_formed w"
  shows "\<exists>l. w_leases v = w_leases w @ [l] \<and> tl_expires_at l = it_expires_at t \<and>
     it_expires_at t \<le> tl_created_at l + 3600000 \<and>
     (\<forall>e \<in> set (w_entitlements w). se_id e \<in> set (tl_entitlement_ids l) \<longrightarrow>
       (case se_expires_at e of None \<Rightarrow> True | Some x \<Rightarrow> it_expires_at t \<le> x))"
proof -
  from run obtain q es l now where facts: "find_access_request i w = Some q" "rq_agent_identity_id q = pr_identity_id p"
    "rq_status q \<in> {''approved'', ''consumed''}" "es \<noteq> []"
    "es = active_context_entitlements env (pr_identity_id p) (rq_resource_id q) (rq_connection_id q)
      (rq_authorization_details q) now w"
    "recorded es l w v" "tl_request_id l = i" "tl_scopes l = sort (map se_scope es)" "it_scopes t = tl_scopes l"
    "tl_token_hash l = sha256_text env (it_access_token t)" "tl_expires_at l = it_expires_at t"
    "it_expires_at t \<le> tl_created_at l + 3600000"
    "\<forall>e \<in> set es. case se_expires_at e of None \<Rightarrow> True | Some x \<Rightarrow> it_expires_at t \<le> x"
    by (rule issue_target_ok)
  have held: "set es \<subseteq> set (w_entitlements w)"
    unfolding facts(5)
    by (auto simp: active_context_entitlements_def context_entitlements_def list_active_entitlements_by_agent_def)
  have "case se_expires_at e of None \<Rightarrow> True | Some x \<Rightarrow> it_expires_at t \<le> x"
    if "e \<in> set (w_entitlements w)" "se_id e \<in> set (tl_entitlement_ids l)" for e
  proof -
    have keys: "distinct (map se_id (w_entitlements w))" using wf by (simp add: well_formed_def resources_sound_def)
    from that(2) facts(6) obtain f where f: "f \<in> set es" "se_id f = se_id e" by (auto simp: recorded_def)
    with held have "f = e" by (intro distinct_key_eq [OF keys]) (use that(1) in auto)
    with f(1) facts(13) show ?thesis by blast
  qed
  then show ?thesis
    using facts(6,11,12) by (intro exI [of _ l]) (auto simp: recorded_def)
qed

lemma issued_token_short_lived_witness:
  "\<exists>l. w_leases (snd sample_issue) = w_leases granted_world @ [l] \<and> tl_expires_at l = it_expires_at sample_token \<and>
     it_expires_at sample_token \<le> tl_created_at l + 3600000"
  using issued_token_short_lived [OF sample_issue_run granted_world_well_formed] by blast

lemma kept_entitlement:
  assumes "history w v" "e \<in> set (w_entitlements w)"
  shows "\<exists>f \<in> set (w_entitlements v). entitlement_step e f"
proof -
  from assms(2) obtain n where n: "n < length (w_entitlements w)" "w_entitlements w ! n = e"
    by (auto simp: in_set_conv_nth)
  with assms(1) have "entitlement_step e (w_entitlements v ! n)" "n < length (w_entitlements v)"
    by (auto simp: history_def evolved_def list_all2_conv_all_nth)
  then show ?thesis by (auto intro: nth_mem)
qed

text \<open>
  C4. A permission that was given for one use gives one token: once a token was issued on it, it
  has ended, and no later lease, in any history, names it.
\<close>

theorem one_time_permission_used_once:
  assumes wf: "well_formed w" and run: "issue_target_access_token env i dpop_proof url p s w = (Inr t, v)"
    and once: "e \<in> set (w_entitlements w)" "se_mode e = Once" "se_id e \<in> set (tl_entitlement_ids l)"
    and lease: "l \<in> set (w_leases v)" "l \<notin> set (w_leases w)"
    and later: "access_history env v x" "k \<in> set (w_leases x)" "se_id e \<in> set (tl_entitlement_ids k)"
  shows "tl_id k \<in> set (map tl_id (w_leases v))"
proof -
  from run obtain q es l' now where facts: "find_access_request i w = Some q" "rq_agent_identity_id q = pr_identity_id p"
    "rq_status q \<in> {''approved'', ''consumed''}" "es \<noteq> []"
    "es = active_context_entitlements env (pr_identity_id p) (rq_resource_id q) (rq_connection_id q)
      (rq_authorization_details q) now w"
    "recorded es l' w v" "tl_request_id l' = i" "tl_scopes l' = sort (map se_scope es)" "it_scopes t = tl_scopes l'"
    "tl_token_hash l' = sha256_text env (it_access_token t)" "tl_expires_at l' = it_expires_at t"
    "it_expires_at t \<le> tl_created_at l' + 3600000"
    "\<forall>e \<in> set es. case se_expires_at e of None \<Rightarrow> True | Some x \<Rightarrow> it_expires_at t \<le> x"
    by (rule issue_target_ok)
  have refined: "refines env w v"
    using evolvesD [OF refined.law_issue run] .
  then have wfv: "well_formed v" and grown: "history w v"
    using wf by (simp_all add: refines_def sound_step_def)
  have keys: "distinct (map se_id (w_entitlements w))" using wf by (simp add: well_formed_def resources_sound_def)
  from facts(6) lease have "l = l'" by (auto simp: recorded_def)
  with once(3) facts(6) obtain f where f: "f \<in> set es" "se_id f = se_id e" by (auto simp: recorded_def)
  have "f \<in> set (w_entitlements w)"
    using f(1) unfolding facts(5)
    by (auto simp: active_context_entitlements_def context_entitlements_def list_active_entitlements_by_agent_def)
  with f(2) once(1) have "f = e" by (intro distinct_key_eq [OF keys]) auto
  with f once(2) have "se_id e \<in> set (once_entitlement_ids es)"
    by (auto simp: once_entitlement_ids_def)
  moreover obtain e' where e': "e' \<in> set (w_entitlements v)" "se_id e' = se_id e"
    using kept_entitlement [OF grown once(1)] by (auto simp: entitlement_step_def)
  ultimately have "se_ended_at e' \<noteq> None" using facts(6) by (auto simp: recorded_def)
  with e' later(3) have "\<exists>d \<in> set (w_entitlements v). se_id d \<in> set (tl_entitlement_ids k) \<and> se_ended_at d \<noteq> None"
    by (intro bexI [of _ e']) simp_all
  from over_issues_nothing [OF wfv later(1,2) disjI1 [OF this]] obtain j where "j \<in> set (w_leases v)" "tl_id j = tl_id k"
    by blast
  then show ?thesis by (metis image_eqI set_map)
qed

lemma one_time_permission_used_once_witness:
  "tl_id (w_leases (snd sample_issue) ! 2) \<in> set (map tl_id (w_leases (snd sample_issue)))"
proof (rule one_time_permission_used_once [OF granted_world_well_formed sample_issue_run, of once_entitlement])
  let ?l = "w_leases (snd sample_issue) ! 2"
  note leases = sample_issue_leases
  have "length (w_leases (snd sample_issue)) = 3" using arg_cong [OF leases, of length] by simp
  then show l: "?l \<in> set (w_leases (snd sample_issue))" "?l \<in> set (w_leases (snd sample_issue))" by simp_all
  have "map tl_entitlement_ids (w_leases (snd sample_issue)) ! 2 = [''e3'']" unfolding leases by simp
  with \<open>length (w_leases (snd sample_issue)) = 3\<close> have ids: "tl_entitlement_ids ?l = [''e3'']" by simp
  then show "se_id once_entitlement \<in> set (tl_entitlement_ids ?l)" "se_id once_entitlement \<in> set (tl_entitlement_ids ?l)"
    by (simp_all add: once_entitlement_def sample_entitlement_def)
  show "?l \<notin> set (w_leases granted_world)"
    using ids by (auto simp: granted_world_def sample_world_def sample_lease_def)
  show "once_entitlement \<in> set (w_entitlements granted_world)" by (simp add: granted_world_def)
  show "se_mode once_entitlement = Once" by (simp add: once_entitlement_def)
  show "access_history sample_env (snd sample_issue) (snd sample_issue)" by (rule access_history.Start)
qed

end
