(* ===== verification/Approval_Properties.thy ===== *)
theory Approval_Properties
  imports Access_Operations
begin

text \<open>
  What the approval of an access request promises: it stays within the authority of the controller, and
  writes exactly what was asked for.
\<close>

section \<open>Steps of an approval\<close>

lemma aside_step: "evolves aside m \<Longrightarrow> m w = (r, v) \<Longrightarrow> aside w v"
  by (rule evolvesD)

lemma subset_assertion: "assert_scope_subset requested allowed boundary = Inr x \<Longrightarrow> set requested \<subseteq> set allowed"
  by (auto simp: assert_scope_subset_def Let_def ensure_def filter_empty_conv split: if_splits)

lemma enabled_resource_ok:
  assumes "require_enabled_resource env i w = (Inr resource, v)"
  shows "v = w \<and> find_resource i w = Some resource \<and> rs_enabled resource"
  using assms
  by (auto simp: require_enabled_resource_def bind_ok_iff split: option.splits if_splits)

definition grantor_scopes :: "env \<Rightarrow> string \<Rightarrow> resource_server \<Rightarrow> json list \<Rightarrow> string list server" where
  "grantor_scopes env actor_user_id resource details =
     (if requires_account_connection resource then user_effective_now env actor_user_id resource None
      else native_authority_effective_scopes env (Some actor_user_id) resource (hd details))"

lemma target_validated:
  assumes "validate_agent_permission_target env resource a scopes ci details actor rs w = (Inr x, v)"
  obtains i w1 granted w2 where "find_identity a w = Some i" "ai_status (agg_identity i) = Identity_active" "aside w w1"
    "grantor_scopes env actor resource details w1 = (Inr granted, w2)" "set scopes \<subseteq> set granted"
    "requires_account_connection resource \<Longrightarrow> fst x \<noteq> None"
proof -
  from assms obtain i w0 w1 granted w2 where
    i: "find_identity a w = Some i" "ai_status (agg_identity i) = Identity_active"
    and steps: "require_agent_resource_visibility resource (ai_owner_user_id (agg_identity i)) w = (Inr (), w0)"
      "(if requires_account_connection resource then ret ()
        else require_current_native_authority_context env (ai_owner_user_id (agg_identity i)) details) w0 = (Inr (), w1)"
      "grantor_scopes env actor resource details w1 = (Inr granted, w2)" "set scopes \<subseteq> set granted"
    and chosen: "requires_account_connection resource \<Longrightarrow> fst x \<noteq> None"
    unfolding validate_agent_permission_target_def Let_def grantor_scopes_def
    by (fastforce simp: bind_ok_iff dest: subset_assertion split: if_splits)
  have "aside w w0" using steps(1) by (rule aside_step [OF reading.law_access_guards(2)])
  moreover have "aside w0 w1" using steps(2) by (rule aside_step [rotated]) (intro law_intros)
  ultimately have "aside w w1" by (rule reading.law_trans)
  with i steps(3,4) chosen show thesis by (rule_tac that)
qed

lemma plan_scopes_ok:
  assumes "plan_scopes env new lifetime hash now existing scopes w = (Inr (approved, added, updates), v)"
  shows "map ap_scope approved = scopes"
  using assms
  by (induction scopes arbitrary: w v approved added updates)
    (fastforce simp: bind_ok_iff split: option.splits prod.splits)+

lemma approved_cases:
  assumes run: "approve_access_request_with_entitlements added updates k d audit w = (Inr (Approved rows r), v)"
    and status: "ad_status d = ''approved''"
  obtains w2 q where "q \<in> set (w_requests w2)" "rq_id q = k" "rq_status q = ''pending''" "approval_possible d q w2"
    "r = apply_decision d q" "r \<in> set (w_requests v)" "w_entitlements v = w_entitlements w2"
    "\<exists>a \<in> set (w_audits v). a = audit" "ledger_steps (ledger_of w2) (ledger_of v)"
proof -
  from run obtain ins w1 upd w2 qs w3 where
    steps: "statements (insert_entitlement k) added w = Inr (ins, w1)"
      "statements entitlement_update_statement updates w1 = Inr (upd, w2)"
      "update_access_request_decision k d w2 = Inr (qs, w3)"
      "audit_where (list_ex (\<lambda>r. rq_id r = k \<and> rq_status r = ''approved'') (w_requests w3)) audit w3 = Inr v"
      "qs = r # tl qs"
    by (auto simp: approve_access_request_with_entitlements_def approval_batch_def Let_def
        split: sum.splits prod.splits if_splits list.splits)
  let ?p = "\<lambda>q. rq_id q = k \<and> rq_status q = ''pending'' \<and> (ad_status d = ''approved'' \<longrightarrow> approval_possible d q w2)"
  from steps(3) have qs: "qs = map (apply_decision d) (filter ?p (w_requests w2))"
    and w3: "w3 = w2\<lparr>w_requests := update_where ?p (apply_decision d) (w_requests w2)\<rparr>"
    by (auto simp: update_access_request_decision_def Let_def split: if_splits)
  from steps(5) have "r \<in> set qs" by (metis list.set_intros(1))
  then obtain q where q: "q \<in> set (w_requests w2)" "?p q" "r = apply_decision d q"
    unfolding qs by auto
  have r: "r \<in> set (w_requests w3)" using q unfolding w3 by (auto simp: in_update_where)
  have "rq_id r = k" "rq_status r = ''approved''"
    using q status by (auto simp: apply_decision_def Let_def split: option.split)
  with r steps(4) have "insert_audit audit w3 = Inr v"
    by (auto simp: audit_where_def list_ex_iff split: if_splits)
  then have v: "v = w3\<lparr>w_audits := w_audits w3 @ [audit]\<rparr>"
    unfolding insert_audit_def by (auto dest: insert_row_InrD)
  have "ledger_steps (ledger_of w2) (ledger_of w3)" using move_decide [OF _ steps(3)] status by simp
  moreover have "ledger_of v = ledger_of w3" by (rule ledger_same) (simp_all add: v)
  ultimately show thesis using q r status by (intro that [of q w2]) (simp_all add: v w3)
qed

section \<open>A request that is approved\<close>

definition pending_request :: access_request where
  "pending_request = granted_request\<lparr>rq_status := ''pending'', rq_approved_entitlements := [], rq_decided_at := None\<rparr>"

definition pending_world :: world where
  "pending_world = access_world\<lparr>w_requests := w_requests access_world @ [pending_request]\<rparr>"

definition sample_approval :: "(failure + approval_outcome) \<times> world" where
  "sample_approval = approve_request sample_env pending_request For_once [own_authority] ''u1'' None 1000 pending_world"

lemma sample_approval_ok: "case fst sample_approval of Inr (Approved rows d) \<Rightarrow> True | _ \<Rightarrow> False"
  unfolding sample_approval_def approve_request_def validate_agent_permission_target_def bind_def by code_simp

lemma pending_world_well_formed: "well_formed pending_world"
  by code_simp

lemma sample_approval_run:
  obtains rows d where "approve_request sample_env pending_request For_once [own_authority] ''u1'' None 1000 pending_world =
      (Inr (Approved rows d), snd sample_approval)"
proof -
  obtain rows d where "fst sample_approval = Inr (Approved rows d)"
    using sample_approval_ok by (auto split: sum.splits approval_outcome.splits)
  then show thesis by (intro that) (simp add: sample_approval_def prod_eq_iff)
qed

section \<open>Properties of approvals\<close>

text \<open>
  C5. A controller grants no more than it holds: an approval that goes through names a live and active
  Agent and an enabled resource, answers the details that were asked for, has not expired, and every scope it
  approves is one the controller itself has at that moment on the resource, in the authority it approves for.
\<close>

theorem approval_within_authority:
  assumes run: "approve_request env q lifetime details actor reason now w = (Inr outcome, v)"
  shows "\<exists>resource i w1 granted w2. find_resource (rq_resource_id q) w = Some resource \<and> rs_enabled resource \<and>
     authorization_details_match_request (env_collation_key env) details (rq_authorization_details q) \<and>
     find_identity (rq_agent_identity_id q) w = Some i \<and> ai_status (agg_identity i) = Identity_active \<and>
     (case lifetime of Until_time t \<Rightarrow> now < t | _ \<Rightarrow> True) \<and>
     aside w w1 \<and> grantor_scopes env actor resource details w1 = (Inr granted, w2) \<and> set (rq_scopes q) \<subseteq> set granted"
proof -
  from run obtain resource x w3 where
    steps: "require_enabled_resource env (rq_resource_id q) w = (Inr resource, w)"
      "authorization_details_match_request (env_collation_key env) details (rq_authorization_details q)"
      "validate_agent_permission_target env resource (rq_agent_identity_id q) (rq_scopes q) (rq_connection_id q)
         details actor None w = (Inr x, w3)"
      "\<not> (case lifetime_expiry lifetime of None \<Rightarrow> False | Some t \<Rightarrow> t \<le> now)"
    unfolding approve_request_def Let_def by (fastforce simp: bind_ok_iff dest: enabled_resource_ok)
  from steps(3) obtain i w1 granted w2 where target: "find_identity (rq_agent_identity_id q) w = Some i"
    "ai_status (agg_identity i) = Identity_active" "aside w w1"
    "grantor_scopes env actor resource details w1 = (Inr granted, w2)" "set (rq_scopes q) \<subseteq> set granted"
    by (rule target_validated)
  have "case lifetime of Until_time t \<Rightarrow> now < t | _ \<Rightarrow> True"
    using steps(4) by (cases lifetime) auto
  with steps(2) target enabled_resource_ok [OF steps(1)] show ?thesis
    by (intro exI [of _ resource] exI [of _ i] exI [of _ w1] exI [of _ granted] exI [of _ w2]) simp
qed

lemma approval_within_authority_witness:
  "\<exists>resource w1 granted w2. find_resource ''r1'' pending_world = Some resource \<and> rs_enabled resource \<and>
     aside pending_world w1 \<and> grantor_scopes sample_env ''u1'' resource [own_authority] w1 = (Inr granted, w2) \<and>
     ''read'' \<in> set granted"
proof -
  have "rq_resource_id pending_request = ''r1''" "rq_scopes pending_request = [''read'']"
    by (simp_all add: pending_request_def granted_request_def sample_request_def)
  then show ?thesis
    by (rule_tac sample_approval_run) (drule approval_within_authority, simp, blast)
qed



section \<open>A permission that expired\<close>

text \<open>
  An entitlement whose time has passed is not ended by anything but a direct grant: it is no longer among
  the active ones an approval reuses, yet its row still takes the key a new one needs.
\<close>

definition expired_entitlement :: resource_scope_entitlement where
  "expired_entitlement = once_entitlement\<lparr>se_id := ''e4'', se_mode := Until, se_expires_at := Some 500\<rparr>"

definition expired_world :: world where
  "expired_world = pending_world\<lparr>w_entitlements := w_entitlements pending_world @ [expired_entitlement]\<rparr>"

text \<open>
  An expired permission blocks its own renewal: in a well-formed database in which the Agent once had the
  scope until a time that has passed, the controller's approval of the pending request fails, in both attempts,
  although nothing else changed.
\<close>

theorem expired_permission_blocks_approval:
  "well_formed expired_world \<and>
   fst (decide_agent_access_request sample_env ''q2'' (Approve_request For_once [own_authority]) ''u1'' None expired_world) =
     Inl (bad_request ''Agent permissions changed while access was being approved.'') \<and>
   \<not> isl (fst (decide_agent_access_request sample_env ''q2'' (Approve_request For_once [own_authority]) ''u1'' None pending_world))"
proof (intro conjI)
  show "well_formed expired_world" by code_simp
  show "fst (decide_agent_access_request sample_env ''q2'' (Approve_request For_once [own_authority]) ''u1'' None expired_world) =
     Inl (bad_request ''Agent permissions changed while access was being approved.'')"
    unfolding decide_agent_access_request_def decide_attempt_def approve_request_def validate_agent_permission_target_def bind_def
    by code_simp
  show "\<not> isl (fst (decide_agent_access_request sample_env ''q2'' (Approve_request For_once [own_authority]) ''u1'' None pending_world))"
    unfolding decide_agent_access_request_def decide_attempt_def approve_request_def validate_agent_permission_target_def bind_def
    by code_simp
qed

end
