(* ===== verification/Proof_Replay.thy ===== *)
theory Proof_Replay
  imports Access_Refinement Sample_Access
begin

text \<open>
  A proof of possession is accepted once: its identifier stays in the table until the clock has shown
  a time after the proof's window, across every history of commands. Between the check of the window
  and the use of the identifier the clock is read again; that is the one instant a replay gets through.
\<close>

definition steady_clock :: "env \<Rightarrow> bool" where
  "steady_clock env \<longleftrightarrow> (\<forall>n. env_clock env n \<le> env_clock env (Suc n))"

lemma steady_clock_mono: "steady_clock env \<Longrightarrow> n \<le> m \<Longrightarrow> env_clock env n \<le> env_clock env m"
  unfolding steady_clock_def by (rule lift_Suc_mono_le) auto

definition used_proof :: "env \<Rightarrow> string \<Rightarrow> string \<Rightarrow> int \<Rightarrow> int \<Rightarrow> dpop_jti" where
  "used_proof env jti k iat created_at =
     \<lparr>dj_jti_hash = sha256_text env jti, dj_key_thumbprint = k, dj_expires_at = (iat + 300) * 1000,
      dj_created_at = created_at\<rparr>"

lemma consume_proof_ok:
  assumes "consume_proof env payload k w = (Inr u, v)"
  obtains jti iat where "detail_member payload ''jti'' = JStr jti" "detail_member payload ''iat'' = JNum iat"
    "\<bar>env_clock env (w_clock_ticks w) - iat * 1000\<bar> \<le> 300000"
    "\<forall>j \<in> set (w_dpop_jtis w). dj_jti_hash j = sha256_text env jti \<longrightarrow>
       \<not> env_clock env (Suc (w_clock_ticks w)) \<le> dj_expires_at j"
    "used_proof env jti k iat (env_clock env (Suc (w_clock_ticks w))) \<in> set (w_dpop_jtis v)"
    "refines env w v"
proof -
  have refined: "refines env w v" using assms by (rule evolvesD [OF refined.law_consume_proof])
  from assms refined show thesis
    by (auto simp: consume_proof_def bind_ok_iff new_date_def consume_dpop_jti_def consume_jti_def forget_expired_jtis_def
        insert_jti_def insert_row_def used_proof_def not_less image_iff
        split: json.splits if_splits intro!: that)
qed

lemma token_proof_ok:
  assumes "validate_dpop_token_proof env proof url w = (Inr k, v)"
  obtains header payload where "verify_dpop_proof env proof = Inr (header, payload)"
    "consume_proof env payload k w = (Inr (), v)"
  using assms by (auto simp: validate_dpop_token_proof_def bind_ok_iff Let_def split: prod.splits intro: that)


text \<open>
  That instant exists: with a clock that stands at the end of the window and then goes on by one
  millisecond, the same proof is accepted twice in a row.
\<close>

definition boundary_env :: env where
  "boundary_env = sample_env\<lparr>env_clock := (\<lambda>n. if n \<le> 2 then 301000 else 301001)\<rparr>"

theorem dpop_replay_at_boundary:
  "let first = validate_dpop_token_proof boundary_env ''proof-1'' sample_url granted_world;
       second = validate_dpop_token_proof boundary_env ''proof-1'' sample_url (snd first)
   in fst first = Inr ''jkt'' \<and> fst second = Inr ''jkt''"
  by code_simp


end
