(* ===== verification/Credential_Claims.thy ===== *)
theory Credential_Claims
  imports Credential_Refresh Sample_World
begin

text \<open>
  Several requests may refresh the same credential of an account at once. What they do to the
  database is a sequence of statements of any of them in any order; the claim makes that safe.
\<close>

section \<open>Interleaved statements\<close>

datatype credential_op =
    Claim string nat string int int
  | Complete string nat string string "int option" int
  | Release string nat string int
  | Revoke_credential string int

fun credential_statement :: "credential_op \<Rightarrow> bool server" where
  "credential_statement (Claim i v c now x) = claim_provider_credential_refresh i v c now x"
| "credential_statement (Complete i v c tokens x now) = complete_provider_credential_refresh i v c tokens x now"
| "credential_statement (Release i v c now) = release_provider_credential_refresh i v c now"
| "credential_statement (Revoke_credential i now) = revoke_provider_credential i now"

text \<open>The statements with whether each of them changed a row.\<close>

fun run_statements :: "credential_op list \<Rightarrow> world \<Rightarrow> (credential_op \<times> bool) list \<times> world" where
  "run_statements [] w = ([], w)"
| "run_statements (op # ops) w =
     (let (r, v) = credential_statement op w; (log, u) = run_statements ops v in ((op, r = Inr True) # log, u))"

section \<open>One credential\<close>

definition credential :: "string \<Rightarrow> world \<Rightarrow> provider_credential option" where
  "credential i w = find (\<lambda>p. pc_id p = i) (credentials w)"

definition credentials_keyed :: "world \<Rightarrow> bool" where
  "credentials_keyed w \<longleftrightarrow> distinct (map pc_id (credentials w))"

lemma credentials_update:
  "credentials (w\<lparr>w_connections := map (\<lambda>c. c\<lparr>cn_credentials := update_where p f (cn_credentials c)\<rparr>) (w_connections w)\<rparr>) =
     update_where p f (credentials w)"
proof -
  have "concat (map cn_credentials (map (\<lambda>c. c\<lparr>cn_credentials := update_where p f (cn_credentials c)\<rparr>) cs)) =
      update_where p f (concat (map cn_credentials cs))" for cs :: "resource_connection list"
    by (induction cs) (simp_all add: update_where_def)
  then show ?thesis by (simp add: credentials_def)
qed

lemma credentials_status:
  "credentials (w\<lparr>w_connections := update_where p (\<lambda>c. c\<lparr>cn_status := s, cn_revoked_at := x, cn_updated_at := y\<rparr>) (w_connections w)\<rparr>) =
     credentials w"
proof -
  have "concat (map cn_credentials (update_where p (\<lambda>c. c\<lparr>cn_status := s, cn_revoked_at := x, cn_updated_at := y\<rparr>) cs)) =
      concat (map cn_credentials cs)" for cs :: "resource_connection list"
    by (induction cs) simp_all
  then show ?thesis by (simp add: credentials_def)
qed

lemma update_credentials_run:
  assumes run: "update_credentials p f w = (Inr ok, v)" and id: "\<And>q. pc_id (f q) = pc_id q"
  shows "credential i v = map_option (\<lambda>q. if p q then f q else q) (credential i w)"
    "map pc_id (credentials v) = map pc_id (credentials w)" "ok = list_ex p (credentials w)"
proof -
  have v: "credentials v = update_where p f (credentials w)"
    using run by (auto simp: update_credentials_def credentials_update)
  show "credential i v = map_option (\<lambda>q. if p q then f q else q) (credential i w)"
    unfolding credential_def v by (rule find_update_where) (rule id)
  show "map pc_id (credentials v) = map pc_id (credentials w)"
    unfolding v by (rule map_update_where) (rule id)
  show "ok = list_ex p (credentials w)" using run by (auto simp: update_credentials_def)
qed

lemma credential_hit:
  assumes "credentials_keyed w" "\<And>q. p q \<Longrightarrow> pc_id q = i"
  shows "list_ex p (credentials w) \<longleftrightarrow> (\<exists>q. credential i w = Some q \<and> p q)"
proof
  assume "list_ex p (credentials w)"
  then obtain q where q: "q \<in> set (credentials w)" "p q" by (auto simp: list_ex_iff)
  with assms have "credential i w = Some q"
    using find_key_unique [of pc_id "credentials w" q] by (simp add: credentials_keyed_def credential_def)
  with q show "\<exists>q. credential i w = Some q \<and> p q" by blast
next
  assume "\<exists>q. credential i w = Some q \<and> p q"
  then show "list_ex p (credentials w)" by (auto simp: credential_def list_ex_iff dest: find_SomeD)
qed

text \<open>What a statement makes of a credential, and when it changes one.\<close>

definition claimable :: "nat \<Rightarrow> int \<Rightarrow> provider_credential \<Rightarrow> bool" where
  "claimable v now p \<longleftrightarrow> pc_status p = ''active'' \<and> pc_credential_version p = v \<and>
     (pc_refresh_claim_id p = None \<or> (case pc_refresh_claim_expires_at p of None \<Rightarrow> True | Some t \<Rightarrow> t \<le> now))"

fun op_hits :: "credential_op \<Rightarrow> provider_credential \<Rightarrow> bool" where
  "op_hits (Claim i v c now x) p \<longleftrightarrow> pc_id p = i \<and> claimable v now p"
| "op_hits (Complete i v c tokens x now) p \<longleftrightarrow> holds_claim i v c p"
| "op_hits (Release i v c now) p \<longleftrightarrow> holds_claim i v c p"
| "op_hits (Revoke_credential i now) p \<longleftrightarrow> pc_id p = i \<and> pc_status p = ''active''"

fun op_makes :: "credential_op \<Rightarrow> provider_credential \<Rightarrow> provider_credential" where
  "op_makes (Claim i v c now x) p = p\<lparr>pc_refresh_claim_id := Some c, pc_refresh_claim_expires_at := Some x, pc_updated_at := now\<rparr>"
| "op_makes (Complete i v c tokens x now) p = p\<lparr>pc_encrypted_tokens := tokens, pc_credential_expires_at := x,
     pc_credential_version := v + 1, pc_refresh_claim_id := None, pc_refresh_claim_expires_at := None, pc_updated_at := now\<rparr>"
| "op_makes (Release i v c now) p = p\<lparr>pc_refresh_claim_id := None, pc_refresh_claim_expires_at := None, pc_updated_at := now\<rparr>"
| "op_makes (Revoke_credential i now) p = p\<lparr>pc_status := ''revoked'', pc_revoked_at := Some now, pc_refresh_claim_id := None,
     pc_refresh_claim_expires_at := None, pc_updated_at := now\<rparr>"

fun op_target :: "credential_op \<Rightarrow> string" where
  "op_target (Claim i v c now x) = i"
| "op_target (Complete i v c tokens x now) = i"
| "op_target (Release i v c now) = i"
| "op_target (Revoke_credential i now) = i"

lemma op_hits_target: "op_hits op p \<Longrightarrow> pc_id p = op_target op"
  by (cases op) (auto simp: holds_claim_def)

lemma op_makes_id [simp]: "pc_id (op_makes op p) = pc_id p"
  by (cases op) simp_all

lemma statement_updates:
  obtains ok v where "update_credentials (op_hits op) (op_makes op) w = (Inr ok, v)"
    "\<exists>u. credential_statement op w = (Inr ok, u) \<and> credentials u = credentials v"
proof -
  obtain ok v where up: "update_credentials (op_hits op) (op_makes op) w = (Inr ok, v)"
    by (simp add: update_credentials_def)
  have "\<exists>u. credential_statement op w = (Inr ok, u) \<and> credentials u = credentials v"
  proof (cases op)
    case (Claim i n c now x)
    have "op_hits op = (\<lambda>p. pc_id p = i \<and> pc_status p = ''active'' \<and> pc_credential_version p = n \<and>
            (pc_refresh_claim_id p = None \<or> (case pc_refresh_claim_expires_at p of None \<Rightarrow> True | Some t \<Rightarrow> t \<le> now)))"
      "op_makes op = (\<lambda>p. p\<lparr>pc_refresh_claim_id := Some c, pc_refresh_claim_expires_at := Some x, pc_updated_at := now\<rparr>)"
      unfolding Claim by (auto simp: claimable_def fun_eq_iff)
    with up show ?thesis unfolding Claim by (simp add: claim_provider_credential_refresh_def)
  next
    case (Complete i n c tokens x now)
    have "op_hits op = holds_claim i n c" "op_makes op = (\<lambda>p. p\<lparr>pc_encrypted_tokens := tokens, pc_credential_expires_at := x,
     pc_credential_version := n + 1, pc_refresh_claim_id := None, pc_refresh_claim_expires_at := None, pc_updated_at := now\<rparr>)"
      unfolding Complete by (auto simp: fun_eq_iff)
    with up show ?thesis unfolding Complete by (simp add: complete_provider_credential_refresh_def)
  next
    case (Release i n c now)
    have "op_hits op = holds_claim i n c" "op_makes op = (\<lambda>p. p\<lparr>pc_refresh_claim_id := None,
        pc_refresh_claim_expires_at := None, pc_updated_at := now\<rparr>)"
      unfolding Release by (auto simp: fun_eq_iff)
    with up show ?thesis unfolding Release by (simp add: release_provider_credential_refresh_def)
  next
    case (Revoke_credential i now)
    have "op_hits op = (\<lambda>p. pc_id p = i \<and> pc_status p = ''active'')" "op_makes op = (\<lambda>p. p\<lparr>pc_status := ''revoked'',
        pc_revoked_at := Some now, pc_refresh_claim_id := None, pc_refresh_claim_expires_at := None, pc_updated_at := now\<rparr>)"
      unfolding Revoke_credential by (auto simp: fun_eq_iff)
    with up show ?thesis unfolding Revoke_credential
      by (cases ok) (auto simp: revoke_provider_credential_def Let_def bind_def gets_run ret_run modify_run credentials_status)
  qed
  with up show thesis by (rule that)
qed

lemma statement_run:
  assumes run: "credential_statement op w = (r, v)" and keyed: "credentials_keyed w"
  shows "credentials_keyed v"
    "r = Inr True \<longleftrightarrow> (\<exists>p. credential (op_target op) w = Some p \<and> op_hits op p)"
    "credential i v = map_option (\<lambda>p. if op_hits op p then op_makes op p else p) (credential i w)"
proof -
  obtain ok u x where up: "update_credentials (op_hits op) (op_makes op) w = (Inr ok, u)"
    and st: "credential_statement op w = (Inr ok, x)" "credentials x = credentials u"
    by (rule statement_updates [of op w]) blast
  from run st have r: "r = Inr ok" and v: "credentials v = credentials u" by auto
  note facts = update_credentials_run [OF up op_makes_id]
  show "credentials_keyed v" using keyed facts(2) v by (simp add: credentials_keyed_def)
  show "r = Inr True \<longleftrightarrow> (\<exists>p. credential (op_target op) w = Some p \<and> op_hits op p)"
    using credential_hit [OF keyed, where p = "op_hits op" and i = "op_target op"] op_hits_target [of op] facts(3) r by simp
  show "credential i v = map_option (\<lambda>p. if op_hits op p then op_makes op p else p) (credential i w)"
    using facts(1) v by (simp add: credential_def)
qed

section \<open>A version is refreshed once\<close>

fun completes :: "string \<Rightarrow> nat \<Rightarrow> credential_op \<times> bool \<Rightarrow> bool" where
  "completes i v (Complete j u c tokens x now, ok) = (ok \<and> j = i \<and> u = v)"
| "completes i v _ = False"

lemma run_statements_Cons:
  assumes "run_statements (op # ops) w = (log, u)" "credentials_keyed w"
  obtains r v log' where "credential_statement op w = (r, v)" "run_statements ops v = (log', u)"
    "log = (op, r = Inr True) # log'" "credentials_keyed v"
  using assms statement_run(1) [OF _ assms(2), of op]
  by (cases "credential_statement op w") (auto split: prod.splits)

lemma op_version:
  "pc_credential_version p \<le> pc_credential_version (if op_hits op p then op_makes op p else p)"
  by (cases op) (auto simp: holds_claim_def)

lemma no_completion_of_past_version:
  assumes "run_statements ops w = (log, u)" "credentials_keyed w"
    "\<And>p. credential i w = Some p \<Longrightarrow> v < pc_credential_version p"
  shows "filter (completes i v) log = []"
  using assms
proof (induction ops arbitrary: w log)
  case (Cons op ops)
  from Cons.prems(1,2) obtain r y log' where step: "credential_statement op w = (r, y)" "run_statements ops y = (log', u)"
    "log = (op, r = Inr True) # log'" "credentials_keyed y" by (rule run_statements_Cons)
  note run = statement_run [OF step(1) Cons.prems(2)]
  have "v < pc_credential_version p" if "credential i y = Some p" for p
  proof -
    from that run(3) [of i] obtain q where "credential i w = Some q" "p = (if op_hits op q then op_makes op q else q)" by auto
    with Cons.prems(3) op_version [of q op] show ?thesis by fastforce
  qed
  from Cons.IH [OF step(2,4) this] have "filter (completes i v) log' = []" .
  moreover have "\<not> completes i v (op, r = Inr True)"
    using run(2) Cons.prems(3) by (cases op) (auto simp: holds_claim_def)
  ultimately show ?case using step(3) by simp
qed simp

text \<open>
  C20. However the statements of any number of refreshes interleave, each version of a credential is
  replaced at most once: of all the refreshes that read the same tokens, at most one stores new ones.
\<close>

theorem credential_version_refreshed_once:
  assumes "credentials_keyed w" "run_statements ops w = (log, u)"
  shows "length (filter (completes i v) log) \<le> 1"
  using assms
proof (induction ops arbitrary: w log)
  case (Cons op ops)
  from Cons.prems(2,1) obtain r y log' where step: "credential_statement op w = (r, y)" "run_statements ops y = (log', u)"
    "log = (op, r = Inr True) # log'" "credentials_keyed y" by (rule run_statements_Cons)
  note run = statement_run [OF step(1) Cons.prems(1)]
  show ?case
  proof (cases "completes i v (op, r = Inr True)")
    case True
    then obtain c tokens x now where op: "op = Complete i v c tokens x now" "r = Inr True" by (cases op) auto
    with run(2) obtain p where p: "credential i w = Some p" "op_hits op p" by auto
    have "v < pc_credential_version q" if "credential i y = Some q" for q
      using that run(3) [of i] p by (auto simp: op(1))
    from no_completion_of_past_version [OF step(2,4) this] show ?thesis unfolding step(3) by simp
  next
    case False
    with Cons.IH [OF step(4,2)] show ?thesis unfolding step(3) by simp
  qed
qed simp

section \<open>Claims exclude each other\<close>

fun gives_up :: "string \<Rightarrow> string \<Rightarrow> credential_op \<Rightarrow> bool" where
  "gives_up i c (Complete j v d tokens x now) = (j = i \<and> d = c)"
| "gives_up i c (Release j v d now) = (j = i \<and> d = c)"
| "gives_up i c (Revoke_credential j now) = (j = i)"
| "gives_up i c (Claim j v d now x) = False"

definition claimed_until :: "string \<Rightarrow> string \<Rightarrow> int \<Rightarrow> world \<Rightarrow> bool" where
  "claimed_until i c x w \<longleftrightarrow> (\<exists>p. credential i w = Some p \<and> pc_refresh_claim_id p = Some c \<and> pc_refresh_claim_expires_at p = Some x)"

lemma claim_stays:
  assumes run: "credential_statement op w = (r, y)" and keyed: "credentials_keyed w" and held: "claimed_until i c x w"
    and kept: "r = Inr True \<Longrightarrow> \<not> gives_up i c op"
    and early: "\<And>v d now x'. op = Claim i v d now x' \<Longrightarrow> now < x"
  shows "claimed_until i c x y \<and> (\<forall>v d now x'. op = Claim i v d now x' \<longrightarrow> r \<noteq> Inr True)"
proof -
  note facts = statement_run [OF run keyed]
  from held obtain p where p: "credential i w = Some p" "pc_refresh_claim_id p = Some c" "pc_refresh_claim_expires_at p = Some x"
    unfolding claimed_until_def by blast
  then have id: "pc_id p = i" by (auto simp: credential_def dest: find_SomeD)
  have "\<not> op_hits op p"
  proof
    assume hit: "op_hits op p"
    then have "op_target op = i" using op_hits_target id by force
    with hit p(1) facts(2) have "r = Inr True" by auto
    from hit kept [OF this] p id early show False by (cases op) (auto simp: claimable_def holds_claim_def)
  qed
  moreover have "r \<noteq> Inr True" if "op = Claim i v d now x'" for v d now x'
    using that facts(2) p(1) \<open>\<not> op_hits op p\<close> by auto
  ultimately show ?thesis using p facts(3) [of i] unfolding claimed_until_def by simp
qed

text \<open>
  C21. A claim excludes every other until it expires: once a refresh has claimed a credential until a time, no other claim of it
  succeeds before that time, whatever statements of other refreshes run, unless the holder completed or released it, or the
  credential was revoked.
\<close>

theorem refresh_claims_exclude:
  assumes keyed: "credentials_keyed w" and claim: "credential_statement (Claim i v c now x) w = (Inr True, y)"
    and run: "run_statements ops y = (log, u)"
    and kept: "list_all (\<lambda>(op, ok). \<not> (ok \<and> gives_up i c op)) log"
    and early: "list_all (\<lambda>op. case op of Claim j v' d now' x' \<Rightarrow> j \<noteq> i \<or> now' < x | _ \<Rightarrow> True) ops"
  shows "list_all (\<lambda>(op, ok). case op of Claim j v' d now' x' \<Rightarrow> \<not> (j = i \<and> ok) | _ \<Rightarrow> True) log"
proof -
  note facts = statement_run [OF claim keyed]
  from facts(2) obtain p where "credential i w = Some p" "op_hits (Claim i v c now x) p" by auto
  with facts(3) [of i] have held: "claimed_until i c x y" by (simp add: claimed_until_def)
  from run facts(1) held kept early show ?thesis
  proof (induction ops arbitrary: y log)
    case (Cons op ops)
    from Cons.prems(1,2) obtain r z log' where step: "credential_statement op y = (r, z)" "run_statements ops z = (log', u)"
      "log = (op, r = Inr True) # log'" "credentials_keyed z" by (rule run_statements_Cons)
    have stays: "claimed_until i c x z \<and> (\<forall>v d now x'. op = Claim i v d now x' \<longrightarrow> r \<noteq> Inr True)"
      by (rule claim_stays [OF step(1) Cons.prems(2,3)]) (use Cons.prems(4,5) step(3) in auto)
    have rest: "list_all (\<lambda>(op, ok). \<not> (ok \<and> gives_up i c op)) log'"
      "list_all (\<lambda>op. case op of Claim j v' d now' x' \<Rightarrow> j \<noteq> i \<or> now' < x | _ \<Rightarrow> True) ops"
      using Cons.prems(4,5) step(3) by simp_all
    from Cons.IH [OF step(2,4) _ rest] stays
    have "list_all (\<lambda>(op, ok). case op of Claim j v' d now' x' \<Rightarrow> \<not> (j = i \<and> ok) | _ \<Rightarrow> True) log'" by blast
    with stays show ?case unfolding step(3) by (cases op) auto
  qed simp
qed

section \<open>Two refreshes of one credential\<close>

definition account_credential :: provider_credential where
  "account_credential = \<lparr>pc_id = ''c1'', pc_encrypted_tokens = ''sealed'', pc_granted_scopes = [''read''],
     pc_authorization_details = [], pc_client_generation = 1, pc_credential_version = 4, pc_refresh_claim_id = None,
     pc_refresh_claim_expires_at = None, pc_status = ''active'', pc_credential_expires_at = Some 50, pc_revoked_at = None,
     pc_updated_at = 1\<rparr>"

definition account_world :: world where
  "account_world = sample_world\<lparr>w_connections := [\<lparr>cn_id = ''k1'', cn_resource_id = ''r1'', cn_owner_user_id = Some ''u1'',
     cn_owner_organization_id = None, cn_credentials = [account_credential], cn_status = ''active'',
     cn_revoked_at = None, cn_updated_at = 1\<rparr>]\<rparr>"

text \<open>The first holder is slow, the second takes over when the claim has expired; the first then completes in vain.\<close>

definition two_refreshes :: "credential_op list" where
  "two_refreshes = [Claim ''c1'' 4 ''first'' 100 15100, Claim ''c1'' 4 ''second'' 15050 30050,
     Claim ''c1'' 4 ''second'' 15100 30100, Complete ''c1'' 4 ''first'' ''old'' None 15200,
     Complete ''c1'' 4 ''second'' ''new'' None 15300]"

lemma two_refreshes_run: "map snd (fst (run_statements two_refreshes account_world)) = [True, False, True, False, True]"
  by code_simp

lemma account_world_keyed: "credentials_keyed account_world"
  by code_simp

lemma credential_version_refreshed_once_witness:
  "length (filter (completes ''c1'' 4) (fst (run_statements two_refreshes account_world))) \<le> 1"
  by (rule credential_version_refreshed_once [OF account_world_keyed]) (rule prod.collapse [symmetric])

lemma refresh_claims_exclude_witness:
  "list_all (\<lambda>(op, ok). case op of Claim j v' d now' x' \<Rightarrow> \<not> (j = ''c1'' \<and> ok) | _ \<Rightarrow> True)
     (fst (run_statements [Claim ''c1'' 4 ''second'' 15050 30050]
       (snd (credential_statement (Claim ''c1'' 4 ''first'' 100 15100) account_world))))"
proof -
  have claim: "credential_statement (Claim ''c1'' 4 ''first'' 100 15100) account_world =
      (Inr True, snd (credential_statement (Claim ''c1'' 4 ''first'' 100 15100) account_world))"
    by code_simp
  show ?thesis
    by (rule refresh_claims_exclude [OF account_world_keyed claim prod.collapse [symmetric]]) code_simp+
qed

end
