(* ===== verification/Oauth_Schema.thy ===== *)
theory Oauth_Schema
  imports Agent_Schema
begin

text \<open>
  The tables of OAuth clients and applications, of federated credentials and of the tokens of the
  token exchange (\<open>server/db/schema/authorization-tables.ts\<close>, \<open>auth-tables.ts\<close>), beside the
  tables of \<open>Agent_Schema\<close>: one record per row type, a state that holds them all, and the
  constraints of every insert. An operation on the other tables runs in \<open>on_world\<close>.
\<close>

section \<open>Clients and applications\<close>

record oauth_client =
  oc_client_id :: string
  oc_client_secret :: "string option"
  oc_disabled :: "bool option"
  oc_skip_consent :: "bool option"
  oc_grant_types :: "string option"
  oc_redirect_uris :: string
  oc_post_logout_redirect_uris :: "string option"
  oc_token_endpoint_auth_method :: "string option"
  oc_scopes :: "string option"
  oc_public :: "bool option"
  oc_type :: "string option"
  oc_require_pkce :: "bool option"
  oc_icon :: "string option"
  oc_updated_at :: int

text \<open>
  A policy names a source resource server and either a target resource server with the scopes it
  maps, or a target application.
\<close>

record scope_mapping =
  sm_source_scope :: string
  sm_target_scope :: string

datatype exchange_policy =
    Resource_policy string string "scope_mapping list"
  | Identity_policy string string

record resource_scope_configuration =
  rc_resource_server_id :: string
  rc_scopes :: "string list"

text \<open>
  Of the metadata object of an application, the members that the server writes; a member is
  absent or present.
\<close>

record application_metadata =
  am_icon_url :: "string option"
  am_cors_origins :: "string list option"
  am_custom_data :: "json option"
  am_policies :: "exchange_policy list option"

record application_row =
  apl_id :: string
  apl_oauth_client_id :: string
  apl_slug :: string
  apl_name :: string
  apl_description :: "string option"
  apl_homepage_url :: "string option"
  apl_owner_organization_id :: string
  apl_visibility :: visibility
  apl_oidc_scopes :: "string list"
  apl_resource_scopes :: "resource_scope_configuration list"
  apl_consent_required :: bool
  apl_disabled :: bool
  apl_disabled_reason :: "string option"
  apl_metadata :: "application_metadata option"
  apl_created_at :: int
  apl_updated_at :: int

record client_secret_row =
  cs_id :: string
  cs_application_id :: string
  cs_version :: nat
  cs_secret_hash :: string
  cs_secret_prefix :: "string option"
  cs_status :: string
  cs_created_by_user_id :: "string option"
  cs_materialized_at :: "int option"
  cs_created_at :: int
  cs_expires_at :: "int option"
  cs_revoked_at :: "int option"

section \<open>Consents and the tokens of the authorization server\<close>

record application_consent =
  ct_id :: string
  ct_application_id :: string
  ct_user_id :: string
  ct_resource_server_id :: "string option"
  ct_scopes :: "string list"
  ct_authorization_source :: string
  ct_granted_at :: int
  ct_expires_at :: "int option"
  ct_revoked_at :: "int option"

record oauth_consent =
  ot_id :: string
  ot_client_id :: string
  ot_user_id :: "string option"
  ot_reference_id :: "string option"
  ot_scopes :: string
  ot_updated_at :: int

record oauth_access_token =
  oa_id :: string
  oa_client_id :: string
  oa_user_id :: "string option"
  oa_refresh_id :: "string option"

record oauth_refresh_token =
  or_id :: string
  or_client_id :: string
  or_user_id :: string
  or_revoked :: "int option"

section \<open>Federated credentials and exchanged tokens\<close>

record federated_credential =
  fc_id :: string
  fc_application_id :: string
  fc_name :: string
  fc_issuer :: string
  fc_subject :: string
  fc_audience_resource_id :: string
  fc_jwks_url :: "string option"
  fc_public_keys :: "json list option"
  fc_enabled :: bool
  fc_metadata :: "json option"
  fc_created_at :: int
  fc_updated_at :: int

record exchange_access_token =
  xa_id :: string
  xa_token_hash :: string
  xa_client_id :: string
  xa_credential_id :: string
  xa_subject :: string
  xa_subject_token_issuer :: string
  xa_audience :: string
  xa_scopes :: "string list"
  xa_claims :: json
  xa_expires_at :: int
  xa_created_at :: int
  xa_revoked_at :: "int option"

record exchange_refresh_token =
  xr_id :: string
  xr_family_id :: string
  xr_parent_id :: "string option"
  xr_token_hash :: string
  xr_client_id :: string
  xr_credential_id :: string
  xr_subject :: string
  xr_subject_token_issuer :: string
  xr_audience :: string
  xr_scopes :: "string list"
  xr_claims :: json
  xr_expires_at :: int
  xr_consumed_at :: "int option"
  xr_revoked_at :: "int option"
  xr_created_at :: int

section \<open>The state\<close>

text \<open>\<open>ow_banned\<close> holds the users whose column \<open>banned\<close> is set.\<close>

record oauth_world =
  ow_world :: world
  ow_banned :: "string list"
  ow_clients :: "oauth_client list"
  ow_applications :: "application_row list"
  ow_client_secrets :: "client_secret_row list"
  ow_consents :: "application_consent list"
  ow_oauth_consents :: "oauth_consent list"
  ow_oauth_access_tokens :: "oauth_access_token list"
  ow_oauth_refresh_tokens :: "oauth_refresh_token list"
  ow_credentials :: "federated_credential list"
  ow_access_tokens :: "exchange_access_token list"
  ow_refresh_tokens :: "exchange_refresh_token list"

type_synonym 'a oauth = "(oauth_world, failure, 'a) action"

definition on_world :: "'a server \<Rightarrow> 'a oauth" where
  "on_world m s = (case m (ow_world s) of (r, w) \<Rightarrow> (r, s\<lparr>ow_world := w\<rparr>))"

text \<open>
  Beside \<open>env\<close>: the issuer of the server; the signer of tokens, which is given the claims and the
  type of the header; the verifier of the server's own access tokens, which is given token, issuer
  and audience and may be missing; \<open>TextDecoder\<close>; what the JWKS endpoint of a URL answers; the
  check of a signature of a text under a key and an algorithm (\<open>None\<close> when the key is not imported
  or the platform throws); the parts of a parsed URL, and \<open>Number(s)\<close> where it is an integer.
\<close>

record parsed_url =
  pu_protocol :: string
  pu_username :: string
  pu_password :: string
  pu_hostname :: string
  pu_pathname :: string
  pu_search :: string
  pu_hash :: string

record oauth_env =
  oe_env :: env
  oe_issuer :: string
  oe_sign :: "json \<Rightarrow> string \<Rightarrow> failure + string"
  oe_verifier :: "(string \<Rightarrow> string \<Rightarrow> string \<Rightarrow> json option) option"
  oe_decode_text :: "nat list \<Rightarrow> string"
  oe_fetch_keys :: "string \<Rightarrow> failure + json"
  oe_verify_signature :: "json \<Rightarrow> string \<Rightarrow> nat list \<Rightarrow> string \<Rightarrow> bool option"
  oe_parse_url :: "string \<Rightarrow> parsed_url option"
  oe_number :: "string \<Rightarrow> int option"

definition oauth_date :: "oauth_env \<Rightarrow> int oauth" where
  "oauth_date env = on_world (new_date (oe_env env))"

definition oauth_id :: "oauth_env \<Rightarrow> string oauth" where
  "oauth_id env = on_world (generate_id (oe_env env))"

definition oauth_random :: "oauth_env \<Rightarrow> string oauth" where
  "oauth_random env = on_world (random_token (oe_env env))"

section \<open>Constraints\<close>

definition insert_exchange_access_token :: "exchange_access_token \<Rightarrow> oauth_world \<Rightarrow> failure + oauth_world" where
  "insert_exchange_access_token t s = insert_row True
     (xa_id t \<notin> set (map xa_id (ow_access_tokens s)) \<and> xa_token_hash t \<notin> set (map xa_token_hash (ow_access_tokens s)))
     (xa_client_id t \<in> set (map oc_client_id (ow_clients s)) \<and>
      xa_credential_id t \<in> set (map fc_id (ow_credentials s)))
     (s\<lparr>ow_access_tokens := ow_access_tokens s @ [t]\<rparr>)"

definition insert_exchange_refresh_token :: "exchange_refresh_token \<Rightarrow> oauth_world \<Rightarrow> failure + oauth_world" where
  "insert_exchange_refresh_token t s = insert_row True
     (xr_id t \<notin> set (map xr_id (ow_refresh_tokens s)) \<and>
      xr_token_hash t \<notin> set (map xr_token_hash (ow_refresh_tokens s)) \<and>
      (xr_parent_id t = None \<or> xr_parent_id t \<notin> set (map xr_parent_id (ow_refresh_tokens s))))
     (xr_client_id t \<in> set (map oc_client_id (ow_clients s)) \<and>
      xr_credential_id t \<in> set (map fc_id (ow_credentials s)))
     (s\<lparr>ow_refresh_tokens := ow_refresh_tokens s @ [t]\<rparr>)"

definition credential_key :: "federated_credential \<Rightarrow> string \<times> string \<times> string" where
  "credential_key c = (fc_application_id c, fc_issuer c, fc_subject c)"

definition insert_credential :: "federated_credential \<Rightarrow> oauth_world \<Rightarrow> failure + oauth_world" where
  "insert_credential c s = insert_row True
     (fc_id c \<notin> set (map fc_id (ow_credentials s)) \<and> credential_key c \<notin> set (map credential_key (ow_credentials s)))
     (fc_application_id c \<in> set (map apl_id (ow_applications s)) \<and>
      fc_audience_resource_id c \<in> set (map rs_id (w_resources (ow_world s))))
     (s\<lparr>ow_credentials := ow_credentials s @ [c]\<rparr>)"

text \<open>The tokens of a credential go with it.\<close>

definition drop_credentials :: "(federated_credential \<Rightarrow> bool) \<Rightarrow> oauth_world \<Rightarrow> oauth_world" where
  "drop_credentials hit s =
     (let gone = set (map fc_id (filter hit (ow_credentials s))) in
      s\<lparr>ow_credentials := filter (\<lambda>c. \<not> hit c) (ow_credentials s),
        ow_access_tokens := filter (\<lambda>t. xa_credential_id t \<notin> gone) (ow_access_tokens s),
        ow_refresh_tokens := filter (\<lambda>t. xr_credential_id t \<notin> gone) (ow_refresh_tokens s)\<rparr>)"

lemma on_world_run [run_simps]:
  "m (ow_world s) = (r, w) \<Longrightarrow> on_world m s = (r, s\<lparr>ow_world := w\<rparr>)"
  by (simp add: on_world_def)

lemma on_world_ok_iff [simp]:
  "on_world m s = (r, t) \<longleftrightarrow> (\<exists>w. m (ow_world s) = (r, w) \<and> t = s\<lparr>ow_world := w\<rparr>)"
  by (auto simp: on_world_def split: prod.splits)

lemma oauth_date_run [run_simps]:
  "oauth_date env s = (Inr (env_clock (oe_env env) (w_clock_ticks (ow_world s))),
     s\<lparr>ow_world := (ow_world s)\<lparr>w_clock_ticks := Suc (w_clock_ticks (ow_world s))\<rparr>\<rparr>)"
  by (simp add: oauth_date_def new_date_def on_world_def)

lemma oauth_id_run [run_simps]:
  "oauth_id env s = (Inr (env_ids (oe_env env) (w_ids_taken (ow_world s))),
     s\<lparr>ow_world := (ow_world s)\<lparr>w_ids_taken := Suc (w_ids_taken (ow_world s))\<rparr>\<rparr>)"
  by (simp add: oauth_id_def generate_id_def on_world_def)

lemma oauth_random_run [run_simps]:
  "oauth_random env s = (Inr (env_random_tokens (oe_env env) (w_ids_taken (ow_world s))),
     s\<lparr>ow_world := (ow_world s)\<lparr>w_ids_taken := Suc (w_ids_taken (ow_world s))\<rparr>\<rparr>)"
  by (simp add: oauth_random_def random_token_def on_world_def)

lemma insert_row_ok [simp]: "insert_row c u r w' = Inr v \<longleftrightarrow> c \<and> u \<and> r \<and> v = w'"
  by (auto simp: insert_row_def)

end
