(* ===== verification/Token_Exchange_Repo.thy ===== *)
theory Token_Exchange_Repo
  imports Oauth_Schema Lease_Revocation Access_Requests
begin

text \<open>
  The repository of the token exchange (\<open>server/adapters/repos/token-exchange.ts\<close>), the lookups of
  applications (\<open>repos/applications.ts\<close>, \<open>applications-mappers.ts\<close>) and of users, and the
  authentication of a client (\<open>usecases/oauth-client-authentication.ts\<close>).
\<close>

section \<open>Applications\<close>

text \<open>\<open>parseList\<close>: a JSON text holding an array keeps its strings.\<close>

definition json_strings :: "json list \<Rightarrow> string list" where
  "json_strings xs = concat (map (\<lambda>x. case x of JStr v \<Rightarrow> [v] | _ \<Rightarrow> []) xs)"

definition parse_list :: "env \<Rightarrow> string option \<Rightarrow> failure + string list" where
  "parse_list env value =
     (case present value of
        None \<Rightarrow> Inr []
      | Some text \<Rightarrow>
          (case env_parse_json env text of
             None \<Rightarrow> Inl (PlainError ''SyntaxError'')
           | Some (JArr xs) \<Rightarrow> Inr (json_strings xs)
           | Some _ \<Rightarrow> Inr []))"

datatype client_type = Public_spa | Public_native | Confidential_web | Machine

definition to_client_type :: "string option \<Rightarrow> failure + client_type" where
  "to_client_type value =
     (case value of
        None \<Rightarrow> Inl (PlainError ''Unsupported Application type: null'')
      | Some v \<Rightarrow>
          if v = ''public_spa'' then Inr Public_spa
          else if v = ''public_native'' then Inr Public_native
          else if v = ''confidential_web'' then Inr Confidential_web
          else if v = ''machine'' then Inr Machine
          else Inl (PlainError (''Unsupported Application type: '' @ v)))"

definition to_token_endpoint_auth_method :: "string option \<Rightarrow> string" where
  "to_token_endpoint_auth_method value =
     (case value of
        Some v \<Rightarrow> if v \<in> {''none'', ''client_secret_basic'', ''client_secret_post''} then v else ''client_secret_basic''
      | None \<Rightarrow> ''client_secret_basic'')"

definition device_code_grant_type :: string where
  "device_code_grant_type = ''urn:ietf:params:oauth:grant-type:device_code''"

definition token_exchange_grant_type :: string where
  "token_exchange_grant_type = ''urn:ietf:params:oauth:grant-type:token-exchange''"

definition is_grant_type :: "string \<Rightarrow> bool" where
  "is_grant_type value \<longleftrightarrow>
     value = ''authorization_code'' \<or> value = ''refresh_token'' \<or> value = ''client_credentials'' \<or>
     value = device_code_grant_type \<or> value = token_exchange_grant_type"

record application =
  app_id :: string
  app_slug :: string
  app_name :: string
  app_description :: "string option"
  app_homepage_url :: "string option"
  app_icon_url :: "string option"
  app_client_id :: string
  app_client_type :: client_type
  app_public :: bool
  app_visibility :: visibility
  app_consent_required :: bool
  app_disabled :: bool
  app_disabled_reason :: "string option"
  app_owner_organization_id :: string
  app_redirect_uris :: "string list"
  app_post_logout_redirect_uris :: "string list"
  app_cors_origins :: "string list"
  app_custom_data :: json
  app_allowed_grant_types :: "string list"
  app_oidc_scopes :: "string list"
  app_resource_scopes :: "resource_scope_configuration list"
  app_policies :: "exchange_policy list"
  app_require_pkce :: bool
  app_token_endpoint_auth_method :: string
  app_created_at :: int
  app_updated_at :: int

definition read_policies :: "application_metadata option \<Rightarrow> exchange_policy list" where
  "read_policies metadata =
     (case metadata of None \<Rightarrow> [] | Some m \<Rightarrow> (case am_policies m of None \<Rightarrow> [] | Some ps \<Rightarrow> ps))"

definition read_icon_url :: "application_metadata option \<Rightarrow> string option" where
  "read_icon_url metadata = (case metadata of None \<Rightarrow> None | Some m \<Rightarrow> am_icon_url m)"

definition read_cors_origins :: "application_metadata option \<Rightarrow> string list" where
  "read_cors_origins metadata =
     (case metadata of None \<Rightarrow> [] | Some m \<Rightarrow> (case am_cors_origins m of None \<Rightarrow> [] | Some os \<Rightarrow> os))"

definition read_custom_data :: "application_metadata option \<Rightarrow> json" where
  "read_custom_data metadata =
     (case metadata of
        None \<Rightarrow> JObj []
      | Some m \<Rightarrow> (case am_custom_data m of Some (JObj members) \<Rightarrow> JObj members | _ \<Rightarrow> JObj []))"

definition to_aggregate :: "env \<Rightarrow> application_row \<Rightarrow> oauth_client \<Rightarrow> failure + application" where
  "to_aggregate env app client =
     (case to_client_type (oc_type client) of Inl e \<Rightarrow> Inl e | Inr client_type \<Rightarrow>
      (case parse_list env (Some (oc_redirect_uris client)) of Inl e \<Rightarrow> Inl e | Inr redirect_uris \<Rightarrow>
      (case parse_list env (oc_post_logout_redirect_uris client) of Inl e \<Rightarrow> Inl e | Inr post_logout \<Rightarrow>
      (case parse_list env (oc_grant_types client) of Inl e \<Rightarrow> Inl e | Inr grant_types \<Rightarrow>
      Inr \<lparr>app_id = apl_id app, app_slug = apl_slug app, app_name = apl_name app,
        app_description = apl_description app, app_homepage_url = apl_homepage_url app,
        app_icon_url = (case oc_icon client of Some i \<Rightarrow> Some i | None \<Rightarrow> read_icon_url (apl_metadata app)),
        app_client_id = oc_client_id client, app_client_type = client_type,
        app_public = (oc_public client = Some True), app_visibility = apl_visibility app,
        app_consent_required = apl_consent_required app,
        app_disabled = (apl_disabled app \<or> oc_disabled client = Some True),
        app_disabled_reason = apl_disabled_reason app,
        app_owner_organization_id = apl_owner_organization_id app, app_redirect_uris = redirect_uris,
        app_post_logout_redirect_uris = post_logout, app_cors_origins = read_cors_origins (apl_metadata app),
        app_custom_data = read_custom_data (apl_metadata app),
        app_allowed_grant_types = filter is_grant_type grant_types, app_oidc_scopes = apl_oidc_scopes app,
        app_resource_scopes = apl_resource_scopes app, app_policies = read_policies (apl_metadata app),
        app_require_pkce = (oc_require_pkce client = Some True),
        app_token_endpoint_auth_method = to_token_endpoint_auth_method (oc_token_endpoint_auth_method client),
        app_created_at = apl_created_at app, app_updated_at = apl_updated_at app\<rparr>))))"

text \<open>The rows of applications joined with their clients.\<close>

definition joined_applications :: "oauth_world \<Rightarrow> (application_row \<times> oauth_client) list" where
  "joined_applications s =
     concat (map (\<lambda>a. map (\<lambda>c. (a, c)) (filter (\<lambda>c. oc_client_id c = apl_oauth_client_id a) (ow_clients s)))
       (ow_applications s))"

definition optional_aggregate :: "env \<Rightarrow> (application_row \<times> oauth_client) option \<Rightarrow> failure + application option" where
  "optional_aggregate env row =
     (case row of
        None \<Rightarrow> Inr None
      | Some (app, client) \<Rightarrow> (case to_aggregate env app client of Inl e \<Rightarrow> Inl e | Inr a \<Rightarrow> Inr (Some a)))"

definition find_application :: "env \<Rightarrow> string \<Rightarrow> application option oauth" where
  "find_application env i =
     bind (gets (\<lambda>s. find (\<lambda>(a, c). apl_id a = i) (joined_applications s))) (\<lambda>row.
     lift_result (optional_aggregate env row))"

definition find_application_by_client_id :: "env \<Rightarrow> string \<Rightarrow> application option oauth" where
  "find_application_by_client_id env client_id =
     bind (gets (\<lambda>s. find (\<lambda>(a, c). oc_client_id c = client_id) (joined_applications s))) (\<lambda>row.
     lift_result (optional_aggregate env row))"

section \<open>Users\<close>

text \<open>\<open>getUser\<close>, of which the callers read whether the user is banned.\<close>

definition user_banned :: "string \<Rightarrow> bool oauth" where
  "user_banned user_id =
     bind (gets (\<lambda>s. user_id \<in> set (w_users (ow_world s)))) (\<lambda>known.
     bind (require known (not_found ''User not found.'')) (\<lambda>_.
     gets (\<lambda>s. user_id \<in> set (ow_banned s))))"

section \<open>Federated credentials\<close>

record resolved_credential =
  rv_id :: string
  rv_application_id :: string
  rv_application_client_id :: string
  rv_owner_organization_id :: string
  rv_issuer :: string
  rv_subject :: string
  rv_audience :: string
  rv_jwks_url :: "string option"
  rv_public_keys :: "json list option"
  rv_enabled :: bool

definition resolve :: "federated_credential \<Rightarrow> application_row \<Rightarrow> resource_server \<Rightarrow> resolved_credential" where
  "resolve c a r =
     \<lparr>rv_id = fc_id c, rv_application_id = fc_application_id c, rv_application_client_id = apl_oauth_client_id a,
      rv_owner_organization_id = apl_owner_organization_id a, rv_issuer = fc_issuer c, rv_subject = fc_subject c,
      rv_audience = rs_resource_url r, rv_jwks_url = fc_jwks_url c, rv_public_keys = fc_public_keys c,
      rv_enabled = fc_enabled c\<rparr>"

definition resolved_credentials ::
    "(federated_credential \<Rightarrow> application_row \<Rightarrow> bool) \<Rightarrow> oauth_world \<Rightarrow> resolved_credential list" where
  "resolved_credentials hit s =
     concat (map (\<lambda>c. concat (map (\<lambda>a. map (resolve c a)
         (filter (\<lambda>r. rs_id r = fc_audience_resource_id c \<and> rs_enabled r) (w_resources (ow_world s))))
       (filter (\<lambda>a. apl_id a = fc_application_id c \<and> hit c a \<and> \<not> apl_disabled a \<and> fc_enabled c) (ow_applications s))))
     (ow_credentials s))"

definition find_federated_credentials :: "string \<Rightarrow> string \<Rightarrow> oauth_world \<Rightarrow> resolved_credential list" where
  "find_federated_credentials application_client_id issuer =
     resolved_credentials (\<lambda>c a. apl_oauth_client_id a = application_client_id \<and> fc_issuer c = issuer)"

definition find_federated_credential_for_client ::
    "string \<Rightarrow> string \<Rightarrow> oauth_world \<Rightarrow> resolved_credential option" where
  "find_federated_credential_for_client i client_id s =
     (case resolved_credentials (\<lambda>c a. fc_id c = i \<and> apl_oauth_client_id a = client_id) s of
        [] \<Rightarrow> None | r # _ \<Rightarrow> Some r)"

definition list_federated_credentials_rows :: "string \<Rightarrow> oauth_world \<Rightarrow> federated_credential list" where
  "list_federated_credentials_rows application_id s =
     rev (sort_key fc_created_at (rev (filter (\<lambda>c. fc_application_id c = application_id) (ow_credentials s))))"

definition credential_row :: "string \<Rightarrow> string \<Rightarrow> oauth_world \<Rightarrow> federated_credential option" where
  "credential_row application_id i s =
     find (\<lambda>c. fc_id c = i \<and> fc_application_id c = application_id) (ow_credentials s)"

record credential_input =
  ni_name :: string
  ni_issuer :: string
  ni_subject :: string
  ni_audience_resource_id :: string
  ni_jwks_url :: "string option"
  ni_public_keys :: "json list option"
  ni_metadata :: "json option"

definition create_credential_row :: "oauth_env \<Rightarrow> string \<Rightarrow> credential_input \<Rightarrow> federated_credential oauth" where
  "create_credential_row env application_id input =
     bind (oauth_date env) (\<lambda>now.
     bind (oauth_id env) (\<lambda>i.
     let row = \<lparr>fc_id = i, fc_application_id = application_id, fc_name = ni_name input, fc_issuer = ni_issuer input,
           fc_subject = ni_subject input, fc_audience_resource_id = ni_audience_resource_id input,
           fc_jwks_url = ni_jwks_url input, fc_public_keys = ni_public_keys input, fc_enabled = True,
           fc_metadata = ni_metadata input, fc_created_at = now, fc_updated_at = now\<rparr> in
     bind (atomically (insert_credential row)) (\<lambda>_.
     ret row)))"

text \<open>A member of the patch is absent, or a value that may be null.\<close>

record credential_patch =
  np_name :: "string option"
  np_subject :: "string option"
  np_audience_resource_id :: "string option"
  np_jwks_url :: "string option option"
  np_public_keys :: "json list option option"
  np_metadata :: "json option option"
  np_enabled :: "bool option"

definition patched :: "'a \<Rightarrow> 'a option \<Rightarrow> 'a" where
  "patched old new = (case new of None \<Rightarrow> old | Some x \<Rightarrow> x)"

definition patch_credential :: "credential_patch \<Rightarrow> int \<Rightarrow> federated_credential \<Rightarrow> federated_credential" where
  "patch_credential p now c =
     c\<lparr>fc_name := patched (fc_name c) (np_name p), fc_subject := patched (fc_subject c) (np_subject p),
       fc_audience_resource_id := patched (fc_audience_resource_id c) (np_audience_resource_id p),
       fc_jwks_url := patched (fc_jwks_url c) (np_jwks_url p),
       fc_public_keys := patched (fc_public_keys c) (np_public_keys p),
       fc_metadata := patched (fc_metadata c) (np_metadata p), fc_enabled := patched (fc_enabled c) (np_enabled p),
       fc_updated_at := now\<rparr>"

text \<open>The update of the row is checked as the insert of the changed row among the others.\<close>

definition update_credential_statement ::
    "string \<Rightarrow> string \<Rightarrow> credential_patch \<Rightarrow> int \<Rightarrow> oauth_world \<Rightarrow> failure + oauth_world" where
  "update_credential_statement application_id i p now s =
     (let hit = (\<lambda>c. fc_id c = i \<and> fc_application_id c = application_id);
          rows = update_where hit (patch_credential p now) (ow_credentials s) in
      insert_row True (distinct (map credential_key rows))
        (list_all (\<lambda>c. fc_audience_resource_id c \<in> set (map rs_id (w_resources (ow_world s)))) (filter hit rows))
        (s\<lparr>ow_credentials := rows\<rparr>))"

definition update_credential_row ::
    "oauth_env \<Rightarrow> string \<Rightarrow> string \<Rightarrow> credential_patch \<Rightarrow> federated_credential option oauth" where
  "update_credential_row env application_id i p =
     bind (oauth_date env) (\<lambda>now.
     bind (atomically (update_credential_statement application_id i p now)) (\<lambda>_.
     gets (credential_row application_id i)))"

definition delete_credential_row :: "string \<Rightarrow> string \<Rightarrow> bool oauth" where
  "delete_credential_row application_id i =
     bind (gets (credential_row application_id i)) (\<lambda>existing.
     case existing of
       None \<Rightarrow> ret False
     | Some _ \<Rightarrow>
         bind (modify (drop_credentials (\<lambda>c. fc_id c = i \<and> fc_application_id c = application_id))) (\<lambda>_.
         ret True))"

section \<open>Tokens of the exchange\<close>

definition find_client :: "string \<Rightarrow> oauth_world \<Rightarrow> oauth_client option" where
  "find_client client_id s = find (\<lambda>c. oc_client_id c = client_id) (ow_clients s)"

text \<open>An inserted row without a creation date takes the clock of the database.\<close>

definition store_access_token :: "oauth_env \<Rightarrow> exchange_access_token \<Rightarrow> unit oauth" where
  "store_access_token env t =
     bind (oauth_date env) (\<lambda>now.
     atomically (insert_exchange_access_token (t\<lparr>xa_created_at := now, xa_revoked_at := None\<rparr>)))"

definition find_access_token_by_hash :: "string \<Rightarrow> oauth_world \<Rightarrow> exchange_access_token option" where
  "find_access_token_by_hash token_hash s = find (\<lambda>t. xa_token_hash t = token_hash) (ow_access_tokens s)"

definition find_refresh_token_by_hash :: "string \<Rightarrow> oauth_world \<Rightarrow> exchange_refresh_token option" where
  "find_refresh_token_by_hash token_hash s = find (\<lambda>t. xr_token_hash t = token_hash) (ow_refresh_tokens s)"

definition fresh_refresh_token :: "exchange_refresh_token \<Rightarrow> int \<Rightarrow> exchange_refresh_token" where
  "fresh_refresh_token t now = t\<lparr>xr_consumed_at := None, xr_revoked_at := None, xr_created_at := now\<rparr>"

definition store_refresh_token :: "oauth_env \<Rightarrow> exchange_refresh_token \<Rightarrow> bool oauth" where
  "store_refresh_token env t =
     bind (oauth_date env) (\<lambda>created.
     bind (atomically (insert_exchange_refresh_token (fresh_refresh_token t created))) (\<lambda>_.
     bind (gets (\<lambda>s. find (\<lambda>r. xr_family_id r = xr_family_id t \<and> xr_revoked_at r \<noteq> None) (ow_refresh_tokens s)))
       (\<lambda>revoked_family.
     case revoked_family of
       None \<Rightarrow> ret True
     | Some _ \<Rightarrow>
         bind (oauth_date env) (\<lambda>now.
         bind (modify (\<lambda>s. s\<lparr>ow_refresh_tokens := update_where (\<lambda>r. xr_id r = xr_id t)
                 (\<lambda>r. r\<lparr>xr_revoked_at := Some now\<rparr>) (ow_refresh_tokens s)\<rparr>)) (\<lambda>_.
         ret False)))))"

definition consume_refresh_token :: "string \<Rightarrow> int \<Rightarrow> bool oauth" where
  "consume_refresh_token i now =
     (let hit = (\<lambda>r. xr_id r = i \<and> xr_consumed_at r = None \<and> xr_revoked_at r = None) in
      bind (gets (\<lambda>s. list_ex hit (ow_refresh_tokens s))) (\<lambda>found_row.
      bind (modify (\<lambda>s. s\<lparr>ow_refresh_tokens :=
              update_where hit (\<lambda>r. r\<lparr>xr_consumed_at := Some now\<rparr>) (ow_refresh_tokens s)\<rparr>)) (\<lambda>_.
      ret found_row)))"

text \<open>
  The rotation is one batch: the child is inserted when the parent is neither consumed nor
  revoked, the parent is consumed under the same condition, and the access token is inserted when
  the child is there. The result tells whether each wrote one row.
\<close>

definition parent_is_active :: "string option \<Rightarrow> exchange_refresh_token \<Rightarrow> bool" where
  "parent_is_active parent r \<longleftrightarrow> parent = Some (xr_id r) \<and> xr_consumed_at r = None \<and> xr_revoked_at r = None"

definition insert_child :: "exchange_refresh_token \<Rightarrow> oauth_world \<Rightarrow> failure + oauth_world" where
  "insert_child child s =
     (if list_ex (parent_is_active (xr_parent_id child)) (ow_refresh_tokens s)
      then insert_exchange_refresh_token child s else Inr s)"

definition consume_parent :: "string option \<Rightarrow> int \<Rightarrow> oauth_world \<Rightarrow> failure + oauth_world" where
  "consume_parent parent now s =
     Inr (s\<lparr>ow_refresh_tokens := update_where (parent_is_active parent) (\<lambda>r. r\<lparr>xr_consumed_at := Some now\<rparr>)
       (ow_refresh_tokens s)\<rparr>)"

definition insert_access_beside :: "string \<Rightarrow> exchange_access_token \<Rightarrow> oauth_world \<Rightarrow> failure + oauth_world" where
  "insert_access_beside child_id t s =
     (if list_ex (\<lambda>r. xr_id r = child_id) (ow_refresh_tokens s) then insert_exchange_access_token t s else Inr s)"

definition rotate_refresh_token ::
    "oauth_env \<Rightarrow> exchange_refresh_token \<Rightarrow> exchange_access_token \<Rightarrow> bool oauth" where
  "rotate_refresh_token env child access =
     bind (oauth_date env) (\<lambda>child_created.
     bind (oauth_date env) (\<lambda>consumed.
     bind (oauth_date env) (\<lambda>access_created.
     bind (gets (\<lambda>s. length (filter (parent_is_active (xr_parent_id child)) (ow_refresh_tokens s)))) (\<lambda>parents.
     bind (atomically (batch
       [insert_child (fresh_refresh_token child child_created),
        consume_parent (xr_parent_id child) consumed,
        insert_access_beside (xr_id child) (access\<lparr>xa_created_at := access_created, xa_revoked_at := None\<rparr>)]))
       (\<lambda>_.
     ret (parents = 1))))))"

definition revoke_refresh_token_family :: "string \<Rightarrow> int \<Rightarrow> unit oauth" where
  "revoke_refresh_token_family family_id now =
     modify (\<lambda>s. s\<lparr>ow_refresh_tokens := update_where (\<lambda>r. xr_family_id r = family_id \<and> xr_revoked_at r = None)
       (\<lambda>r. r\<lparr>xr_revoked_at := Some now\<rparr>) (ow_refresh_tokens s)\<rparr>)"

section \<open>Client authentication\<close>

definition invalid_client :: "string \<Rightarrow> failure" where
  "invalid_client description =
     oauth_error ''invalid_client'' description 401 [] [(''WWW-Authenticate'', ''Basic realm=\"Realmroot OAuth\"'')]"

definition authenticate_application_client ::
    "oauth_env \<Rightarrow> string \<Rightarrow> string option \<Rightarrow> (oauth_client \<times> application) oauth" where
  "authenticate_application_client env client_id client_secret =
     bind (require (client_id \<noteq> [] \<and> present client_secret \<noteq> None)
       (invalid_client ''Client authentication is required.'')) (\<lambda>_.
     bind (gets (find_client client_id)) (\<lambda>client_row.
     bind (find_application_by_client_id (oe_env env) client_id) (\<lambda>application_row.
     bind (found client_row (invalid_client ''Invalid client credentials.'')) (\<lambda>c.
     bind (found application_row (invalid_client ''Invalid client credentials.'')) (\<lambda>a.
     bind (require (\<not> (oc_disabled c = Some True \<or> app_disabled a)) (invalid_client ''Invalid client credentials.''))
       (\<lambda>_.
     bind (on_world (gets (find_organization (app_owner_organization_id a)))) (\<lambda>organization.
     bind (require (case organization of None \<Rightarrow> False | Some o' \<Rightarrow> \<not> og_disabled o')
       (invalid_client ''Invalid client credentials.'')) (\<lambda>_.
     bind (require (present (oc_client_secret c) \<noteq> None \<and>
             oc_client_secret c = map_option (sha256_text (oe_env env)) client_secret)
       (invalid_client ''Invalid client credentials.'')) (\<lambda>_.
     ret (c, a))))))))))"

end
