(* ===== verification/Jwt_Assertions.thy ===== *)
theory Jwt_Assertions
  imports Token_Exchange_Repo Credential_Refresh Password_Hash
begin

text \<open>
  Subject tokens of the token exchange (\<open>server/usecases/token-exchange.ts\<close>): reading claims,
  parsing a JWT, choosing the key of a federated credential, checking time, audience and signature,
  and what keys and JWKS URLs a credential may be configured with.
\<close>

section \<open>Claims\<close>

definition oauth_failure :: "string \<Rightarrow> string \<Rightarrow> failure" where
  "oauth_failure error description = oauth_error error description 400 [] []"

abbreviation invalid_grant :: "string \<Rightarrow> failure" where
  "invalid_grant \<equiv> oauth_failure ''invalid_grant''"

fun is_oauth_error :: "failure \<Rightarrow> bool" where
  "is_oauth_error (OAuthError _ _ _ _ _) = True"
| "is_oauth_error _ = False"

definition is_record :: "json \<Rightarrow> bool" where
  "is_record v \<longleftrightarrow> (case v of JObj _ \<Rightarrow> True | _ \<Rightarrow> False)"

definition read_string :: "json \<Rightarrow> string option" where
  "read_string v = (case v of JStr s \<Rightarrow> if s = [] then None else Some s | _ \<Rightarrow> None)"

definition read_number :: "json \<Rightarrow> int option" where
  "read_number v = (case v of JNum n \<Rightarrow> Some n | _ \<Rightarrow> None)"

definition read_single_audience :: "json \<Rightarrow> string option" where
  "read_single_audience v =
     (case v of
        JStr s \<Rightarrow> if s = [] then None else Some s
      | JArr [JStr s] \<Rightarrow> if s = [] then None else Some s
      | _ \<Rightarrow> None)"

definition parse_space_separated_claim :: "json \<Rightarrow> string list" where
  "parse_space_separated_claim v = (case v of JStr s \<Rightarrow> uniq (split_spaces s) | _ \<Rightarrow> [])"

definition audience_matches :: "json \<Rightarrow> string \<Rightarrow> bool" where
  "audience_matches v audience \<longleftrightarrow>
     v = JStr audience \<or> (case v of JArr xs \<Rightarrow> JStr audience \<in> set xs | _ \<Rightarrow> False)"

definition ends_with :: "string \<Rightarrow> string \<Rightarrow> bool" where
  "ends_with p s \<longleftrightarrow> length p \<le> length s \<and> drop (length s - length p) s = p"

definition subject_matches :: "string \<Rightarrow> string \<Rightarrow> bool" where
  "subject_matches pattern subject =
     (if ends_with ''*'' pattern then starts_with (butlast pattern) subject else pattern = subject)"

section \<open>Parsing\<close>

record jwt =
  jw_header :: json
  jw_payload :: json
  jw_signing_input :: string
  jw_signature :: "nat list"

definition read_json_part :: "oauth_env \<Rightarrow> string \<Rightarrow> json option" where
  "read_json_part env value =
     (case decode_base64_url value of
        None \<Rightarrow> None
      | Some bytes \<Rightarrow> env_parse_json (oe_env env) (oe_decode_text env bytes))"

text \<open>Every way in which the text is no JWT gives the same error.\<close>

definition parse_jwt :: "oauth_env \<Rightarrow> string \<Rightarrow> failure + jwt" where
  "parse_jwt env token =
     (case split_on (CHR ''.'') token of
        [h, p, g] \<Rightarrow>
          (case (read_json_part env h, read_json_part env p, decode_base64_url g) of
             (Some header, Some payload, Some signature) \<Rightarrow>
               if is_record header \<and> is_record payload then
                 Inr \<lparr>jw_header = header, jw_payload = payload, jw_signing_input = h @ ''.'' @ p,
                      jw_signature = signature\<rparr>
               else Inl (invalid_grant ''Invalid subject token.'')
           | _ \<Rightarrow> Inl (invalid_grant ''Invalid subject token.''))
      | _ \<Rightarrow> Inl (invalid_grant ''Invalid subject token.''))"

definition unverified_subject_token_audience :: "oauth_env \<Rightarrow> string \<Rightarrow> failure + string option" where
  "unverified_subject_token_audience env token =
     (case parse_jwt env token of
        Inl e \<Rightarrow> Inl e
      | Inr assertion \<Rightarrow> Inr (read_single_audience (detail_member (jw_payload assertion) ''aud'')))"

section \<open>Verification\<close>

definition json_falsy :: "json \<Rightarrow> bool" where
  "json_falsy v \<longleftrightarrow> v = JUndefined \<or> v = JNull \<or> v = JBool False \<or> v = JNum 0 \<or> v = JStr []"

definition fetch_jwks_keys :: "oauth_env \<Rightarrow> string \<Rightarrow> failure + json list" where
  "fetch_jwks_keys env url =
     (case oe_fetch_keys env url of
        Inl e \<Rightarrow> Inl e
      | Inr body \<Rightarrow>
          (case detail_member body ''keys'' of
             JArr keys \<Rightarrow> Inr keys
           | _ \<Rightarrow> Inl (invalid_grant ''Federated credential JWKS is invalid.'')))"

definition credential_keys :: "oauth_env \<Rightarrow> resolved_credential \<Rightarrow> failure + json list option" where
  "credential_keys env credential =
     (case rv_public_keys credential of
        Some keys \<Rightarrow> Inr (Some keys)
      | None \<Rightarrow>
          (case present (rv_jwks_url credential) of
             None \<Rightarrow> Inr None
           | Some url \<Rightarrow> (case fetch_jwks_keys env url of Inl e \<Rightarrow> Inl e | Inr keys \<Rightarrow> Inr (Some keys))))"

definition key_fits :: "string option \<Rightarrow> string \<Rightarrow> json \<Rightarrow> bool" where
  "key_fits kid alg key \<longleftrightarrow> is_record key \<and>
     (case kid of None \<Rightarrow> True | Some k \<Rightarrow> detail_member key ''kid'' = JStr k) \<and>
     (json_falsy (detail_member key ''alg'') \<or> detail_member key ''alg'' = JStr alg)"

definition select_credential_jwk ::
    "oauth_env \<Rightarrow> resolved_credential \<Rightarrow> string option \<Rightarrow> string \<Rightarrow> failure + json" where
  "select_credential_jwk env credential kid alg =
     (case credential_keys env credential of
        Inl e \<Rightarrow> Inl e
      | Inr None \<Rightarrow> Inl (invalid_grant ''Federated credential has no verification key.'')
      | Inr (Some keys) \<Rightarrow>
          if kid = None \<and> length keys \<noteq> 1 then Inl (invalid_grant ''Subject token must identify one signing key.'')
          else (case find (key_fits kid alg) keys of
                  None \<Rightarrow> Inl (invalid_grant ''Subject token signing key was not found.'')
                | Some key \<Rightarrow> Inr key))"

definition verify_signature :: "oauth_env \<Rightarrow> jwt \<Rightarrow> resolved_credential \<Rightarrow> string \<Rightarrow> failure + unit" where
  "verify_signature env assertion credential alg =
     (case select_credential_jwk env credential (read_string (detail_member (jw_header assertion) ''kid'')) alg of
        Inl e \<Rightarrow> Inl (if is_oauth_error e then e else invalid_grant ''Subject token verification key is unavailable.'')
      | Inr key \<Rightarrow>
          (case oe_verify_signature env key alg (jw_signature assertion) (jw_signing_input assertion) of
             None \<Rightarrow> Inl (invalid_grant ''Subject token verification key is unavailable.'')
           | Some False \<Rightarrow> Inl (invalid_grant ''Subject token signature is invalid.'')
           | Some True \<Rightarrow> Inr ()))"

definition verify_subject_token :: "oauth_env \<Rightarrow> jwt \<Rightarrow> resolved_credential \<Rightarrow> unit oauth" where
  "verify_subject_token env assertion credential =
     bind (oauth_date env) (\<lambda>date_now.
     let now = date_now div 1000; payload = jw_payload assertion;
         exp = read_number (detail_member payload ''exp''); nbf = read_number (detail_member payload ''nbf'') in
     bind (require (case exp of None \<Rightarrow> False | Some e \<Rightarrow> now < e)
       (invalid_grant ''Subject token is expired or missing an exp claim.'')) (\<lambda>_.
     bind (require (detail_member payload ''nbf'' = JUndefined \<or> nbf \<noteq> None)
       (invalid_grant ''Subject token nbf claim is invalid.'')) (\<lambda>_.
     bind (require (case nbf of None \<Rightarrow> True | Some n \<Rightarrow> n \<le> now)
       (invalid_grant ''Subject token is not active yet.'')) (\<lambda>_.
     bind (require (audience_matches (detail_member payload ''aud'') (rv_audience credential))
       (invalid_grant ''Subject token audience is invalid.'')) (\<lambda>_.
     case read_string (detail_member (jw_header assertion) ''alg'') of
       None \<Rightarrow> throw (invalid_grant ''Subject token algorithm is invalid.'')
     | Some alg \<Rightarrow>
         bind (require (alg \<noteq> ''none'') (invalid_grant ''Subject token algorithm is invalid.'')) (\<lambda>_.
         if alg = ''RS256'' \<or> alg = ''ES256'' then lift_result (verify_signature env assertion credential alg)
         else throw (invalid_grant (''Unsupported subject token algorithm: '' @ alg))))))))"

section \<open>Keys and JWKS endpoints of a credential\<close>

definition strip_brackets :: "string \<Rightarrow> string" where
  "strip_brackets s =
     (let t = (if starts_with ''['' s then drop 1 s else s) in if ends_with '']'' t then butlast t else t)"

definition is_private_hostname :: "oauth_env \<Rightarrow> string \<Rightarrow> bool" where
  "is_private_hostname env hostname =
     (let host = strip_brackets (to_lower hostname) in
      host = ''localhost'' \<or> ends_with ''.localhost'' host \<or> ends_with ''.local'' host \<or>
      host = ''::1'' \<or> starts_with ''fc'' host \<or> starts_with ''fd'' host \<or> starts_with ''fe80:'' host \<or>
      (case map (oe_number env) (split_on (CHR ''.'') host) of
         [Some a, Some b, Some c, Some d] \<Rightarrow>
           list_all (\<lambda>p. 0 \<le> p \<and> p \<le> 255) [a, b, c, d] \<and>
           (a = 10 \<or> a = 127 \<or> (a = 169 \<and> b = 254) \<or> (a = 172 \<and> 16 \<le> b \<and> b \<le> 31) \<or>
            (a = 192 \<and> b = 168) \<or> a = 0)
       | _ \<Rightarrow> False))"

definition validate_jwks_url :: "oauth_env \<Rightarrow> string \<Rightarrow> failure + unit" where
  "validate_jwks_url env value =
     (case oe_parse_url env value of
        None \<Rightarrow> Inl (bad_request ''jwksUrl must be a valid public HTTPS URL.'')
      | Some url \<Rightarrow>
          if pu_protocol url \<noteq> ''https:'' \<or> pu_username url \<noteq> [] \<or> pu_password url \<noteq> [] \<or> pu_hash url \<noteq> [] \<or>
             is_private_hostname env (pu_hostname url)
          then Inl (bad_request ''jwksUrl must be a valid public HTTPS URL.'') else Inr ())"

definition private_key_members :: "string list" where
  "private_key_members = [''d'', ''p'', ''q'', ''dp'', ''dq'', ''qi'', ''k'']"

definition bad_key_ops :: "json \<Rightarrow> bool" where
  "bad_key_ops v =
     (case v of
        JUndefined \<Rightarrow> False
      | JArr xs \<Rightarrow> JStr ''verify'' \<notin> set xs \<or> list_ex (\<lambda>x. x \<noteq> JStr ''verify'') xs
      | _ \<Rightarrow> True)"

definition unusable_key :: "json \<Rightarrow> bool" where
  "unusable_key key =
     (let text = (\<lambda>name. read_string (detail_member key name)); alg = text ''alg''; use = text ''use'';
          kty = detail_member key ''kty'' in
      (use \<noteq> None \<and> use \<noteq> Some ''sig'') \<or> bad_key_ops (detail_member key ''key_ops'') \<or>
      (if kty = JStr ''RSA'' then (alg \<noteq> None \<and> alg \<noteq> Some ''RS256'') \<or> text ''n'' = None \<or> text ''e'' = None
       else if kty = JStr ''EC'' then
         (alg \<noteq> None \<and> alg \<noteq> Some ''ES256'') \<or> detail_member key ''crv'' \<noteq> JStr ''P-256'' \<or>
         text ''x'' = None \<or> text ''y'' = None
       else True))"

primrec validate_key_list :: "bool \<Rightarrow> string list \<Rightarrow> json list \<Rightarrow> failure + unit" where
  "validate_key_list several seen [] = Inr ()"
| "validate_key_list several seen (key # keys) =
     (let kid = read_string (detail_member key ''kid'') in
      if several \<and> kid = None then
        Inl (bad_request ''Each public key requires kid when multiple keys are configured.'')
      else if kid \<noteq> None \<and> the kid \<in> set seen then
        Inl (bad_request ''Federated public key kid values must be unique.'')
      else if list_ex (\<lambda>m. m \<in> set (map fst (detail_entries key))) private_key_members then
        Inl (bad_request ''Federated credentials accept public verification keys only.'')
      else if unusable_key key then
        Inl (bad_request ''Federated public keys must be RS256 RSA or ES256 P-256 verification keys.'')
      else validate_key_list several (case kid of None \<Rightarrow> seen | Some k \<Rightarrow> k # seen) keys)"

definition validate_public_keys :: "json list \<Rightarrow> failure + unit" where
  "validate_public_keys keys = validate_key_list (1 < length keys) [] keys"

text \<open>What validated keys are: public, of one of the two kinds, and told apart by their identifiers.\<close>

primrec key_ids :: "json list \<Rightarrow> string list" where
  "key_ids [] = []"
| "key_ids (key # keys) = (case read_string (detail_member key ''kid'') of None \<Rightarrow> [] | Some k \<Rightarrow> [k]) @ key_ids keys"

definition public_key_usable :: "json \<Rightarrow> bool" where
  "public_key_usable key \<longleftrightarrow>
     \<not> list_ex (\<lambda>m. m \<in> set (map fst (detail_entries key))) private_key_members \<and> \<not> unusable_key key"

lemma validate_key_list_ok:
  "validate_key_list several seen keys = Inr () \<longleftrightarrow>
     (several \<longrightarrow> list_all (\<lambda>key. read_string (detail_member key ''kid'') \<noteq> None) keys) \<and>
     list_all public_key_usable keys \<and> distinct (key_ids keys) \<and> set (key_ids keys) \<inter> set seen = {}"
proof (induction keys arbitrary: seen)
  case Nil
  then show ?case by simp
next
  case (Cons key keys)
  show ?case
  proof (cases "public_key_usable key")
    case True
    then show ?thesis
      unfolding validate_key_list.simps Let_def
      using Cons.IH [of seen] Cons.IH [of "the (read_string (detail_member key ''kid'')) # seen"]
      by (cases several; cases "read_string (detail_member key ''kid'')") (auto simp: public_key_usable_def)
  next
    case False
    then show ?thesis
      unfolding validate_key_list.simps Let_def by (auto simp: public_key_usable_def)
  qed
qed

end
