(* ===== verification/Token_Exchange.thy ===== *)
theory Token_Exchange
  imports Jwt_Assertions Access_Tokens Access_Decisions Agent_Repo Agent_Enrollment
begin

text \<open>
  The use cases of the OAuth token exchange (\<open>server/usecases/token-exchange.ts\<close>): the exchange of
  a subject token for a token of an application, of a user or of an Agent, the rotation of refresh
  tokens, the introspection of exchanged tokens, and the federated credentials of an application.
  Where the source awaits several reads at once they are made from left to right.
\<close>

definition refresh_token_grant_type :: string where
  "refresh_token_grant_type = ''refresh_token''"

definition access_token_type :: string where
  "access_token_type = ''urn:ietf:params:oauth:token-type:access_token''"

definition id_token_type :: string where
  "id_token_type = ''urn:ietf:params:oauth:token-type:id_token''"

definition jwt_token_type :: string where
  "jwt_token_type = ''urn:ietf:params:oauth:token-type:jwt''"

definition default_expires_in_seconds :: int where "default_expires_in_seconds = 60 * 60"
definition delegated_user_expires_in_seconds :: int where "delegated_user_expires_in_seconds = 5 * 60"
definition default_refresh_expires_in_seconds :: int where "default_refresh_expires_in_seconds = 30 * 24 * 60 * 60"
definition refresh_token_prefix :: string where "refresh_token_prefix = ''fatr_''"
definition opaque_access_token_prefix :: string where "opaque_access_token_prefix = ''fatx_''"

definition subject_claims_member :: string where
  "subject_claims_member = ''urn:realmroot:params:oauth:token-exchange:subject-claims''"

record exchange_request =
  xq_grant_type :: string
  xq_subject_token :: string
  xq_subject_token_type :: string
  xq_audience :: string
  xq_scope :: "string option"
  xq_requested_token_type :: "string option"
  xq_verified_subject_claims :: "json option"

record exchange_response =
  xp_access_token :: string
  xp_issued_token_type :: string
  xp_expires_in :: int
  xp_scope :: string
  xp_refresh_token :: "string option"

definition member_text :: "json \<Rightarrow> string \<Rightarrow> string option" where
  "member_text claims name = read_string (detail_member claims name)"

section \<open>Scopes and audiences\<close>

definition normalize_scopes :: "string option \<Rightarrow> string list \<Rightarrow> failure + string list" where
  "normalize_scopes scope allowed =
     (let scopes = uniq (split_spaces (case scope of None \<Rightarrow> [] | Some s \<Rightarrow> s)) in
      case find (\<lambda>s. s \<notin> set allowed) scopes of
        Some s \<Rightarrow> Inl (oauth_failure ''invalid_scope'' (''Scope is not allowed: '' @ s))
      | None \<Rightarrow> Inr scopes)"

definition configured_scopes :: "application \<Rightarrow> string \<Rightarrow> string list" where
  "configured_scopes application resource_id =
     (case find (\<lambda>c. rc_resource_server_id c = resource_id) (app_resource_scopes application) of
        None \<Rightarrow> [] | Some c \<Rightarrow> rc_scopes c)"

definition resolve_application_token_scopes_for_resource ::
    "oauth_env \<Rightarrow> application \<Rightarrow> resource_server \<Rightarrow> string option \<Rightarrow> string list oauth" where
  "resolve_application_token_scopes_for_resource env application resource requested_scope =
     bind (lift_result (normalize_scopes requested_scope
       (app_oidc_scopes application @ configured_scopes application (rs_id resource)))) (\<lambda>requested.
     bind (oauth_date env) (\<lambda>now.
     bind (on_world (gets (application_effective_resource_scopes (app_id application)
       (app_owner_organization_id application) resource now))) (\<lambda>effective.
     ret (filter (\<lambda>s. s \<in> set (app_oidc_scopes application) \<or> s \<in> set effective) requested))))"

definition resolve_application_token_scopes ::
    "oauth_env \<Rightarrow> application \<Rightarrow> string \<Rightarrow> string option \<Rightarrow> string list oauth" where
  "resolve_application_token_scopes env application audience requested_scope =
     bind (on_world (gets (find_resource_by_resource_url audience))) (\<lambda>resource.
     case resource of
       None \<Rightarrow> throw (oauth_failure ''invalid_target'' ''Requested audience is not visible to the Application tenant.'')
     | Some r \<Rightarrow>
         bind (require (active_resource_visible_to_organization r (app_owner_organization_id application))
           (oauth_failure ''invalid_target'' ''Requested audience is not visible to the Application tenant.'')) (\<lambda>_.
         resolve_application_token_scopes_for_resource env application r requested_scope))"

definition is_eligible_audience :: "string \<Rightarrow> string \<Rightarrow> bool oauth" where
  "is_eligible_audience audience organization_id =
     bind (on_world (gets (find_resource_by_resource_url audience))) (\<lambda>resource.
     ret (case resource of None \<Rightarrow> False | Some r \<Rightarrow> active_resource_visible_to_organization r organization_id))"

definition require_eligible_audience :: "string \<Rightarrow> string \<Rightarrow> unit oauth" where
  "require_eligible_audience audience organization_id =
     bind (is_eligible_audience audience organization_id) (\<lambda>eligible.
     require eligible
       (oauth_failure ''invalid_target'' ''Requested audience is not eligible for the Application tenant.''))"

definition require_active_delegated_user :: "string \<Rightarrow> unit oauth" where
  "require_active_delegated_user subject =
     bind (catch (user_banned subject) (\<lambda>e.
       throw (if http_status e = Some 404 \<and> is_api_error e
              then invalid_grant ''Subject access token does not represent a User.'' else e))) (\<lambda>banned.
     require (\<not> banned) (invalid_grant ''Subject access token does not represent an active User.''))"

definition require_application_by_client_id :: "oauth_env \<Rightarrow> string \<Rightarrow> application oauth" where
  "require_application_by_client_id env client_id =
     bind (find_application_by_client_id (oe_env env) client_id) (\<lambda>a.
     bind (found a (oauth_failure ''unauthorized_client'' ''Application is not active.'')) (\<lambda>application.
     bind (require (\<not> app_disabled application)
       (oauth_failure ''unauthorized_client'' ''Application is not active.'')) (\<lambda>_.
     ret application)))"

section \<open>Issuing\<close>

record jwt_claims =
  jc_client_id :: string
  jc_subject :: string
  jc_audience :: string
  jc_scopes :: "string list"
  jc_claims :: json
  jc_actor :: "(string \<times> string) option"
  jc_issued_at :: int
  jc_expires_at :: int

definition actor_claim :: "string \<times> string \<Rightarrow> json" where
  "actor_claim a = JObj [(''iss'', JStr (fst a)), (''sub'', JStr (snd a))]"

definition jwt_payload :: "oauth_env \<Rightarrow> jwt_claims \<Rightarrow> string \<Rightarrow> json" where
  "jwt_payload env input jti =
     (let tenant = detail_member (jc_claims input) realmroot_organization_claim in
      JObj ([(''iss'', JStr (oe_issuer env)), (''sub'', JStr (jc_subject input)), (''aud'', JStr (jc_audience input)),
             (''client_id'', JStr (jc_client_id input)), (''scope'', JStr (join_with '' '' (jc_scopes input)))] @
            (if tenant = JUndefined then [] else [(realmroot_organization_claim, tenant)]) @
            (case jc_actor input of None \<Rightarrow> [] | Some a \<Rightarrow> [(''act'', actor_claim a)]) @
            [(''iat'', JNum (jc_issued_at input div 1000)), (''exp'', JNum (jc_expires_at input div 1000)),
             (''jti'', JStr jti)]))"

definition issue_jwt_access_token :: "oauth_env \<Rightarrow> jwt_claims \<Rightarrow> string oauth" where
  "issue_jwt_access_token env input =
     bind (oauth_random env) (\<lambda>jti.
     lift_result (oe_sign env (jwt_payload env input jti) ''at+jwt''))"

text \<open>\<open>readNumber(exp)! * 1000\<close> is 0 for a missing claim.\<close>

definition token_expires_at :: "int \<Rightarrow> int \<Rightarrow> int option \<Rightarrow> int" where
  "token_expires_at now lifetime exp = min (now + lifetime * 1000) ((case exp of None \<Rightarrow> 0 | Some e \<Rightarrow> e) * 1000)"

definition remaining_seconds :: "int \<Rightarrow> int \<Rightarrow> int" where
  "remaining_seconds now expires_at = max 0 ((expires_at - now) div 1000)"

record grant_input =
  gi_credential_id :: string
  gi_subject :: string
  gi_subject_token_issuer :: string
  gi_audience :: string
  gi_scopes :: "string list"
  gi_claims :: json

definition prepare_refresh_token ::
    "oauth_env \<Rightarrow> string \<Rightarrow> string \<Rightarrow> string option \<Rightarrow> grant_input \<Rightarrow> (string \<times> exchange_refresh_token) oauth" where
  "prepare_refresh_token env client_id family_id parent_id input =
     bind (oauth_random env) (\<lambda>random.
     bind (oauth_date env) (\<lambda>now.
     bind (oauth_id env) (\<lambda>i.
     let token = refresh_token_prefix @ random in
     ret (token,
       \<lparr>xr_id = i, xr_family_id = family_id, xr_parent_id = parent_id, xr_token_hash = sha256_text (oe_env env) token,
        xr_client_id = client_id, xr_credential_id = gi_credential_id input, xr_subject = gi_subject input,
        xr_subject_token_issuer = gi_subject_token_issuer input, xr_audience = gi_audience input,
        xr_scopes = gi_scopes input, xr_claims = gi_claims input,
        xr_expires_at = now + default_refresh_expires_in_seconds * 1000, xr_consumed_at = None,
        xr_revoked_at = None, xr_created_at = now\<rparr>))))"

definition issue_refresh_token :: "oauth_env \<Rightarrow> string \<Rightarrow> string \<Rightarrow> grant_input \<Rightarrow> string oauth" where
  "issue_refresh_token env client_id family_id input =
     bind (prepare_refresh_token env client_id family_id None input) (\<lambda>(token, record_row).
     bind (store_refresh_token env record_row) (\<lambda>stored.
     bind (require stored (invalid_grant ''Refresh token family was revoked.'')) (\<lambda>_.
     ret token)))"

definition access_record ::
    "oauth_env \<Rightarrow> string \<Rightarrow> string \<Rightarrow> grant_input \<Rightarrow> string \<Rightarrow> int \<Rightarrow> exchange_access_token" where
  "access_record env i client_id input token expires_at =
     \<lparr>xa_id = i, xa_token_hash = sha256_text (oe_env env) token, xa_client_id = client_id,
      xa_credential_id = gi_credential_id input, xa_subject = gi_subject input,
      xa_subject_token_issuer = gi_subject_token_issuer input, xa_audience = gi_audience input,
      xa_scopes = gi_scopes input, xa_claims = gi_claims input, xa_expires_at = expires_at,
      xa_created_at = 0, xa_revoked_at = None\<rparr>"

section \<open>The subject access token\<close>

definition verify_realmroot_access_token :: "oauth_env \<Rightarrow> exchange_request \<Rightarrow> failure + json" where
  "verify_realmroot_access_token env input =
     (case xq_verified_subject_claims input of
        Some claims \<Rightarrow> Inr claims
      | None \<Rightarrow>
          (case oe_verifier env of
             None \<Rightarrow> Inl (oauth_error ''temporarily_unavailable'' ''Access token verification is unavailable.'' 503 [] [])
           | Some verify \<Rightarrow>
               (case unverified_subject_token_audience env (xq_subject_token input) of
                  Inl e \<Rightarrow> Inl e
                | Inr None \<Rightarrow> Inl (invalid_grant ''Subject access token audience is invalid.'')
                | Inr (Some source_audience) \<Rightarrow>
                    (case verify (xq_subject_token input) (oe_issuer env) source_audience of
                       None \<Rightarrow> Inl (invalid_grant ''Subject access token is invalid.'')
                     | Some claims \<Rightarrow> Inr claims))))"

text \<open>The actor of a token: its issuer and subject where the claim is an object.\<close>

definition actor_of :: "json \<Rightarrow> json option" where
  "actor_of claims = (let a = detail_member claims ''act'' in if is_record a then Some a else None)"

definition actor_text :: "json option \<Rightarrow> string \<Rightarrow> string option" where
  "actor_text actor name = (case actor of None \<Rightarrow> None | Some a \<Rightarrow> member_text a name)"

definition find_actor_identity :: "string option \<Rightarrow> string option \<Rightarrow> world \<Rightarrow> agent_identity option" where
  "find_actor_identity actor_issuer actor_subject w =
     (case (actor_issuer, actor_subject) of
        (Some i, Some s) \<Rightarrow> find_by_issuer_subject i s w
      | _ \<Rightarrow> None)"

section \<open>Audit\<close>

definition failure_code :: "failure \<Rightarrow> string" where
  "failure_code e = (case e of OAuthError _ error _ _ _ \<Rightarrow> error | _ \<Rightarrow> ''internal_error'')"

definition failure_reason :: "string \<Rightarrow> failure \<Rightarrow> string" where
  "failure_reason unexpected e = (case e of OAuthError _ _ description _ _ \<Rightarrow> description | _ \<Rightarrow> unexpected)"

definition append_agent_resource_token_exchange_audit ::
    "oauth_env \<Rightarrow> exchange_request \<Rightarrow> json \<Rightarrow> application \<Rightarrow> string \<Rightarrow> string option \<Rightarrow> string option \<Rightarrow>
     string list option \<Rightarrow> unit oauth" where
  "append_agent_resource_token_exchange_audit env input claims application result_text reason_code reason issued_scopes =
     (let actor = actor_of claims; actor_issuer = actor_text actor ''iss''; actor_subject = actor_text actor ''sub'' in
      bind (on_world (gets (find_actor_identity actor_issuer actor_subject))) (\<lambda>identity.
      bind (on_world (gets (find_resource_by_resource_url (xq_audience input)))) (\<lambda>target_resource.
      bind (oauth_id env) (\<lambda>i.
      bind (oauth_date env) (\<lambda>now.
      on_world (append_audit
        \<lparr>au_id = i, au_action = ''oauth.agent_resource_token_exchanged'', au_result = result_text,
         au_realm_owned = False, au_owner_user_id = None,
         au_owner_organization_id = Some (app_owner_organization_id application),
         au_controller_user_id = member_text claims ''sub'', au_subject_issuer = actor_issuer,
         au_subject = actor_subject, au_agent_identity_id = map_option ai_id identity, au_host_id = None,
         au_resource_id = map_option rs_id target_resource, au_resource_connection_id = None,
         au_access_request_id = None,
         au_scopes = Some (case issued_scopes of Some s \<Rightarrow> s
           | None \<Rightarrow> parse_space_separated_claim (case xq_scope input of None \<Rightarrow> JUndefined | Some s \<Rightarrow> JStr s)),
         au_reason_code = reason_code,
         au_metadata = Some (JObj [(''exchangeClientId'', JStr (app_client_id application)),
           (''sourceTokenId'', json_optional (member_text claims ''jti'')),
           (''targetAudience'', JStr (xq_audience input)), (''failureReason'', json_optional reason)]),
         au_occurred_at = now\<rparr>))))))"

record identity_exchange_context =
  ix_client_id :: string
  ix_owner_organization_id :: "string option"
  ix_controller_user_id :: "string option"
  ix_actor_issuer :: "string option"
  ix_actor_subject :: "string option"
  ix_source_token_id :: "string option"
  ix_token_organization_id :: "string option"
  ix_target_audience :: string

definition identity_token_exchange_audit_context ::
    "exchange_request \<Rightarrow> string \<Rightarrow> application option \<Rightarrow> json option \<Rightarrow> identity_exchange_context" where
  "identity_token_exchange_audit_context input client_id application claims =
     (let actor = (case claims of None \<Rightarrow> None | Some c \<Rightarrow> actor_of c);
          text = (\<lambda>name. case claims of None \<Rightarrow> None | Some c \<Rightarrow> member_text c name) in
      \<lparr>ix_client_id = client_id, ix_owner_organization_id = map_option app_owner_organization_id application,
       ix_controller_user_id = text ''sub'', ix_actor_issuer = actor_text actor ''iss'',
       ix_actor_subject = actor_text actor ''sub'', ix_source_token_id = text ''jti'',
       ix_token_organization_id = text realmroot_organization_claim, ix_target_audience = xq_audience input\<rparr>)"

definition append_identity_token_exchange_audit ::
    "oauth_env \<Rightarrow> identity_exchange_context \<Rightarrow> string \<Rightarrow> string option \<Rightarrow> string option \<Rightarrow> unit oauth" where
  "append_identity_token_exchange_audit env context_row result_text reason_code reason =
     bind (on_world (gets (find_actor_identity (ix_actor_issuer context_row) (ix_actor_subject context_row)))) (\<lambda>identity.
     bind (find_application_by_client_id (oe_env env) (ix_target_audience context_row)) (\<lambda>target_application.
     bind (oauth_id env) (\<lambda>i.
     bind (oauth_date env) (\<lambda>now.
     on_world (append_audit
       \<lparr>au_id = i, au_action = ''oauth.agent_identity_token_exchanged'', au_result = result_text,
        au_realm_owned = (ix_owner_organization_id context_row = None), au_owner_user_id = None,
        au_owner_organization_id = ix_owner_organization_id context_row,
        au_controller_user_id = ix_controller_user_id context_row, au_subject_issuer = ix_actor_issuer context_row,
        au_subject = ix_actor_subject context_row, au_agent_identity_id = map_option ai_id identity,
        au_host_id = None, au_resource_id = None, au_resource_connection_id = None, au_access_request_id = None,
        au_scopes = Some [''openid'', ''groups''], au_reason_code = reason_code,
        au_metadata = Some (JObj [(''exchangeClientId'', JStr (ix_client_id context_row)),
          (''sourceTokenId'', json_optional (ix_source_token_id context_row)),
          (''tokenOrganizationId'', json_optional (ix_token_organization_id context_row)),
          (''targetApplicationId'', json_optional (map_option app_id target_application)),
          (''targetApplicationClientId'', JStr (ix_target_audience context_row)),
          (''failureReason'', json_optional reason)]),
        au_occurred_at = now\<rparr>)))))"

section \<open>Tokens for a user, or for an Agent acting for a user\<close>

definition binding_usable :: "bound_binding \<Rightarrow> bool" where
  "binding_usable b \<longleftrightarrow> ab_status b = ''active'' \<and> ab_revoked_at b = None"

definition usable_identity ::
    "(bound_binding \<Rightarrow> bool) \<Rightarrow> string \<Rightarrow> agent_identity_aggregate option \<Rightarrow> bool" where
  "usable_identity binding_fits controller_user_id aggregate_row =
     (case aggregate_row of
        None \<Rightarrow> False
      | Some a \<Rightarrow>
          ai_status (agg_identity a) = Identity_active \<and> ai_deleted_at (agg_identity a) = None \<and>
          ai_owner_user_id (agg_identity a) = controller_user_id \<and>
          list_ex (\<lambda>b. binding_fits b \<and> binding_usable b) (agg_bindings a))"

definition find_identity_aggregate :: "agent_identity option \<Rightarrow> world \<Rightarrow> agent_identity_aggregate option" where
  "find_identity_aggregate identity w = (case identity of None \<Rightarrow> None | Some i \<Rightarrow> find_identity (ai_id i) w)"

text \<open>The lease of a native token, whose request must be for the source resource and of the actor.\<close>

definition require_source_request ::
    "resource_server \<Rightarrow> agent_identity option \<Rightarrow> external_token_lease \<Rightarrow> unit oauth" where
  "require_source_request source_resource identity lease =
     bind (on_world (gets (find_access_request (tl_request_id lease)))) (\<lambda>source_request.
     require (case source_request of None \<Rightarrow> False
              | Some r \<Rightarrow> rq_resource_id r = rs_id source_resource \<and>
                  Some (rq_agent_identity_id r) = map_option ai_id identity)
       (invalid_grant ''Agent subject token authority does not match its claims.''))"

definition find_subject_lease :: "oauth_env \<Rightarrow> string \<Rightarrow> external_token_lease option oauth" where
  "find_subject_lease env subject_token =
     bind (oauth_date env) (\<lambda>now.
     on_world (gets (find_active_token_lease_by_token_hash (sha256_text (oe_env env) subject_token) now)))"

definition resource_policies :: "application \<Rightarrow> (string \<times> string \<times> scope_mapping list) list" where
  "resource_policies application =
     concat (map (\<lambda>p. case p of Resource_policy source target mappings \<Rightarrow> [(source, target, mappings)]
                    | Identity_policy _ _ \<Rightarrow> []) (app_policies application))"

definition policy_still_authorizes :: "application \<Rightarrow> resource_server \<Rightarrow> string list \<Rightarrow> bool" where
  "policy_still_authorizes application source_resource token_scopes \<longleftrightarrow>
     list_ex (\<lambda>(source, target, mappings). target = rs_id source_resource \<and>
        list_all (\<lambda>s. s \<in> set (map sm_target_scope mappings)) token_scopes) (resource_policies application)"

definition find_source_application :: "oauth_env \<Rightarrow> string \<Rightarrow> application option oauth" where
  "find_source_application env client_id =
     (if client_id = realmroot_cli_client_id then ret None
      else find_application_by_client_id (oe_env env) client_id)"

definition require_active_delegated_agent ::
    "oauth_env \<Rightarrow> exchange_request \<Rightarrow> json \<Rightarrow> resource_server \<Rightarrow> string \<Rightarrow> string \<Rightarrow> string option \<Rightarrow> json \<Rightarrow>
     (string \<times> string) oauth" where
  "require_active_delegated_agent env input claims source_resource exchange_owner controller_user_id organization_id
     actor =
     (case (member_text actor ''iss'', member_text actor ''sub'', member_text claims ''jti'', member_text claims ''client_id'') of
        (Some actor_issuer, Some actor_subject, Some _, Some source_client_id) \<Rightarrow>
          bind (on_world (gets (find_by_issuer_subject actor_issuer actor_subject))) (\<lambda>identity.
          bind (find_source_application env source_client_id) (\<lambda>source_application.
          bind (on_world (gets (\<lambda>w. case organization_id of None \<Rightarrow> None | Some o' \<Rightarrow> find_organization o' w)))
            (\<lambda>organization.
          bind (on_world (gets (\<lambda>w. case organization_id of None \<Rightarrow> None
              | Some o' \<Rightarrow> find_member_by_organization_user o' controller_user_id w))) (\<lambda>membership.
          bind (if source_client_id = realmroot_cli_client_id then
                  bind (find_subject_lease env (xq_subject_token input)) (\<lambda>lease_row.
                  bind (found lease_row (invalid_grant ''Agent subject token is inactive or revoked.'')) (\<lambda>lease.
                  bind (require_source_request source_resource identity lease) (\<lambda>_.
                  ret (Some (tl_binding_id lease)))))
                else
                  bind (require (case source_application of None \<Rightarrow> False
                      | Some a \<Rightarrow> \<not> app_disabled a \<and> app_owner_organization_id a = exchange_owner \<and>
                          policy_still_authorizes a source_resource
                            (parse_space_separated_claim (detail_member claims ''scope'')))
                    (invalid_grant ''Delegated Agent subject token authority is no longer active.'')) (\<lambda>_.
                  ret None)) (\<lambda>required_binding_id.
          bind (on_world (gets (find_identity_aggregate identity))) (\<lambda>aggregate_row.
          bind (require (usable_identity (\<lambda>b. case required_binding_id of None \<Rightarrow> True | Some i \<Rightarrow> ab_id b = i)
                  controller_user_id aggregate_row) (invalid_grant ''Agent identity or binding is inactive.'')) (\<lambda>_.
          bind (require (organization_id = None \<or>
                  (case organization of None \<Rightarrow> False | Some o' \<Rightarrow> \<not> og_disabled o') \<and> membership \<noteq> None)
            (invalid_grant ''Controller Organization membership is inactive.'')) (\<lambda>_.
          ret (actor_issuer, actor_subject)))))))))
      | _ \<Rightarrow> throw (invalid_grant ''Agent subject token is missing required claims.''))"

definition require_visible :: "resource_server option \<Rightarrow> application \<Rightarrow> failure \<Rightarrow> resource_server oauth" where
  "require_visible resource application e =
     bind (found resource e) (\<lambda>r.
     bind (require (active_resource_visible_to_organization r (app_owner_organization_id application)) e) (\<lambda>_.
     ret r))"

definition declared_scope_values :: "resource_server \<Rightarrow> string list" where
  "declared_scope_values resource = map ds_value (declared_scopes resource)"

definition mapped_target_scopes :: "scope_mapping list \<Rightarrow> string list \<Rightarrow> resource_server \<Rightarrow> string list" where
  "mapped_target_scopes mappings subject_scopes source_resource =
     map sm_target_scope (filter (\<lambda>m. sm_source_scope m \<in> set subject_scopes \<and>
       sm_source_scope m \<in> set (declared_scope_values source_resource)) mappings)"

text \<open>What an actor asks of the two resources of an exchange.\<close>

definition require_agent_resources :: "resource_server \<Rightarrow> resource_server \<Rightarrow> unit oauth" where
  "require_agent_resources source_resource target_resource =
     bind (require (rs_available_to_agents source_resource)
       (invalid_grant ''Subject access token audience is not available to Agents.'')) (\<lambda>_.
     bind (require (rs_available_to_agents target_resource)
       (oauth_failure ''invalid_target'' ''Requested audience is not available to Agents.'')) (\<lambda>_.
     require (rs_authorization_model target_resource = Native_model)
       (oauth_failure ''invalid_target'' ''Agent delegation requires a native target Resource Server.'')))"

definition delegated_response ::
    "oauth_env \<Rightarrow> exchange_request \<Rightarrow> string \<Rightarrow> string \<Rightarrow> string list \<Rightarrow> string option \<Rightarrow> (string \<times> string) option \<Rightarrow> int \<Rightarrow>
     exchange_response oauth" where
  "delegated_response env input client_id subject scopes organization_id actor expires_at_claim =
     bind (oauth_date env) (\<lambda>now.
     let expires_at = token_expires_at now delegated_user_expires_in_seconds (Some expires_at_claim) in
     bind (issue_jwt_access_token env
       \<lparr>jc_client_id = client_id, jc_subject = subject, jc_audience = xq_audience input, jc_scopes = scopes,
        jc_claims = JObj (case organization_id of None \<Rightarrow> [] | Some o' \<Rightarrow> [(realmroot_organization_claim, JStr o')]),
        jc_actor = actor, jc_issued_at = now, jc_expires_at = expires_at\<rparr>) (\<lambda>access_token.
     ret \<lparr>xp_access_token = access_token, xp_issued_token_type = access_token_type,
          xp_expires_in = remaining_seconds now expires_at, xp_scope = join_with '' '' scopes,
          xp_refresh_token = None\<rparr>))"

definition organization_claim :: "json \<Rightarrow> string option oauth" where
  "organization_claim claims =
     (let claim = detail_member claims realmroot_organization_claim in
      bind (require (claim = JUndefined \<or> read_string claim \<noteq> None)
        (invalid_grant ''Subject access token Organization claim is invalid.'')) (\<lambda>_.
      ret (read_string claim)))"

definition delegated_actor ::
    "oauth_env \<Rightarrow> exchange_request \<Rightarrow> json \<Rightarrow> resource_server \<Rightarrow> resource_server \<Rightarrow> application \<Rightarrow> string \<Rightarrow> string option \<Rightarrow>
     (string \<times> string) option oauth" where
  "delegated_actor env input claims source_resource target_resource application subject organization_id =
     (let act = detail_member claims ''act'' in
      if act = JUndefined then ret None
      else if \<not> is_record act then throw (invalid_grant ''Agent actor claim is invalid.'')
      else
        bind (require_agent_resources source_resource target_resource) (\<lambda>_.
        bind (require_active_delegated_agent env input claims source_resource
                (app_owner_organization_id application) subject organization_id act) (\<lambda>actor.
        ret (Some actor))))"

definition exchange_delegated_user_token ::
    "oauth_env \<Rightarrow> exchange_request \<Rightarrow> json \<Rightarrow> string \<Rightarrow> application \<Rightarrow> exchange_response oauth" where
  "exchange_delegated_user_token env input claims client_id application =
     (case (member_text claims ''sub'', read_single_audience (detail_member claims ''aud''),
            read_number (detail_member claims ''exp'')) of
        (Some subject, Some source_audience, Some expires_at_claim) \<Rightarrow>
          bind (require (member_text claims ''iss'' = Some (oe_issuer env) \<and> expires_at_claim \<noteq> 0)
            (invalid_grant ''Subject access token is missing required claims.'')) (\<lambda>_.
          bind (oauth_date env) (\<lambda>date_now.
          bind (require (date_now div 1000 < expires_at_claim)
            (invalid_grant ''Subject access token is expired.'')) (\<lambda>_.
          bind (require_active_delegated_user subject) (\<lambda>_.
          bind (on_world (gets (find_resource_by_resource_url source_audience))) (\<lambda>source_row.
          bind (on_world (gets (find_resource_by_resource_url (xq_audience input)))) (\<lambda>target_row.
          bind (require_visible source_row application
            (invalid_grant ''Subject access token audience is not eligible for this Application.'')) (\<lambda>source_resource.
          bind (require_visible target_row application
            (oauth_failure ''invalid_target'' ''Requested audience is not visible to the Application tenant.''))
            (\<lambda>target_resource.
          bind (found (find (\<lambda>(source, target, mappings). source = rs_id source_resource \<and> target = rs_id target_resource)
                  (resource_policies application))
            (oauth_failure ''invalid_target'' ''No token exchange policy allows the requested source and target.''))
            (\<lambda>policy.
          bind (resolve_application_token_scopes_for_resource env application target_resource (xq_scope input))
            (\<lambda>application_scopes.
          bind (organization_claim claims) (\<lambda>organization_id.
          bind (delegated_actor env input claims source_resource target_resource application subject organization_id)
            (\<lambda>actor.
          bind (oauth_date env) (\<lambda>now.
          bind (on_world (gets (user_effective_resource_scopes subject target_resource now (Some organization_id))))
            (\<lambda>user_scopes_result.
          bind (lift_result user_scopes_result) (\<lambda>user_scopes.
          let mapped = mapped_target_scopes (snd (snd policy)) (parse_space_separated_claim (detail_member claims ''scope''))
                source_resource;
              scopes = filter (\<lambda>s. s \<in> set mapped \<and> s \<in> set user_scopes) application_scopes in
          bind (require (scopes \<noteq> [] \<and> ''offline_access'' \<notin> set scopes)
            (oauth_failure ''invalid_scope'' ''Requested delegated scope is unavailable for the target Resource Server.''))
            (\<lambda>_.
          delegated_response env input client_id subject scopes organization_id actor expires_at_claim))))))))))))))))
      | _ \<Rightarrow> throw (invalid_grant ''Subject access token is missing required claims.''))"

section \<open>Identity tokens for an Agent\<close>

definition target_application_eligible :: "application \<Rightarrow> application \<Rightarrow> string \<Rightarrow> bool" where
  "target_application_eligible target application organization_id \<longleftrightarrow>
     \<not> app_disabled target \<and> app_visibility target = Private_resource \<and>
     app_owner_organization_id target = app_owner_organization_id application \<and>
     app_owner_organization_id target = organization_id"

definition identity_policy_allows :: "application \<Rightarrow> resource_server \<Rightarrow> application option \<Rightarrow> bool" where
  "identity_policy_allows application source_resource target \<longleftrightarrow>
     list_ex (\<lambda>p. case p of
         Identity_policy source target_id \<Rightarrow>
           source = rs_id source_resource \<and> map_option app_id target = Some target_id
       | Resource_policy _ _ _ \<Rightarrow> False) (app_policies application)"

definition identity_scopes :: "exchange_request \<Rightarrow> application \<Rightarrow> string list oauth" where
  "identity_scopes input target =
     bind (lift_result (normalize_scopes (xq_scope input) [''openid'', ''groups''])) (\<lambda>requested.
     bind (require (length requested = 2 \<and> ''openid'' \<in> set requested \<and> ''groups'' \<in> set requested \<and>
             list_all (\<lambda>s. s \<in> set (app_oidc_scopes target)) requested)
       (oauth_failure ''invalid_scope'' ''Requested identity scope is unavailable for the target Application.'')) (\<lambda>_.
     ret requested))"

definition identity_token_payload ::
    "oauth_env \<Rightarrow> string \<Rightarrow> application \<Rightarrow> string \<Rightarrow> string \<times> string \<Rightarrow> string list \<Rightarrow> string \<Rightarrow> int \<Rightarrow> int \<Rightarrow> string \<Rightarrow> json" where
  "identity_token_payload env subject target client_id actor groups organization_id now expires_at jti =
     JObj [(''iss'', JStr (oe_issuer env)), (''sub'', JStr subject), (''aud'', JStr (app_client_id target)),
       (''azp'', JStr client_id), (''act'', actor_claim actor), (''groups'', JArr (map JStr groups)),
       (realmroot_organization_claim, JStr organization_id), (''iat'', JNum (now div 1000)),
       (''exp'', JNum (expires_at div 1000)), (''jti'', JStr jti)]"

definition exchange_agent_identity_token_verified ::
    "oauth_env \<Rightarrow> exchange_request \<Rightarrow> json \<Rightarrow> string \<Rightarrow> application \<Rightarrow> exchange_response oauth" where
  "exchange_agent_identity_token_verified env input claims client_id application =
     (let actor = actor_of claims; missing = invalid_grant ''Agent subject token is missing required claims.'' in
      case (member_text claims ''sub'', read_single_audience (detail_member claims ''aud''), member_text claims ''jti'',
            read_number (detail_member claims ''exp''), actor_text actor ''iss'', actor_text actor ''sub'') of
        (Some subject, Some source_audience, Some _, Some expires_at_claim, Some actor_issuer, Some actor_subject) \<Rightarrow>
          bind (require (member_text claims ''iss'' = Some (oe_issuer env) \<and>
                  member_text claims ''client_id'' = Some realmroot_cli_client_id \<and> expires_at_claim \<noteq> 0) missing) (\<lambda>_.
          bind (oauth_date env) (\<lambda>date_now.
          bind (require (date_now div 1000 < expires_at_claim) (invalid_grant ''Agent subject token is expired.'')) (\<lambda>_.
          bind (found (member_text claims realmroot_organization_claim)
            (invalid_grant ''Agent subject token has no Organization context.'')) (\<lambda>organization_id.
          bind (on_world (gets (find_resource_by_resource_url source_audience))) (\<lambda>source_row.
          bind (find_application_by_client_id (oe_env env) (xq_audience input)) (\<lambda>target_row.
          bind (on_world (gets (find_by_issuer_subject actor_issuer actor_subject))) (\<lambda>identity.
          bind (find_subject_lease env (xq_subject_token input)) (\<lambda>lease_row.
          bind (require_visible source_row application
            (invalid_grant ''Agent subject token audience is not eligible for this Application.'')) (\<lambda>source_resource.
          bind (require (identity_policy_allows application source_resource target_row)
            (oauth_failure ''invalid_target'' ''No token exchange policy allows the requested source and target.'')) (\<lambda>_.
          bind (found target_row
            (oauth_failure ''invalid_target'' ''Target OIDC Application is not eligible for this exchange.'')) (\<lambda>target.
          bind (require (target_application_eligible target application organization_id)
            (oauth_failure ''invalid_target'' ''Target OIDC Application is not eligible for this exchange.'')) (\<lambda>_.
          bind (found lease_row (invalid_grant ''Agent subject token is inactive or revoked.'')) (\<lambda>lease.
          bind (require_source_request source_resource identity lease) (\<lambda>_.
          bind (on_world (gets (find_identity_aggregate identity))) (\<lambda>aggregate_row.
          bind (require (usable_identity (\<lambda>b. ab_id b = tl_binding_id lease) subject aggregate_row)
            (invalid_grant ''Agent identity or binding is inactive.'')) (\<lambda>_.
          bind (require_active_delegated_user subject) (\<lambda>_.
          bind (on_world (gets (find_organization organization_id))) (\<lambda>organization.
          bind (on_world (gets (find_member_by_organization_user organization_id subject))) (\<lambda>membership.
          bind (on_world (gets (list_team_names_for_user organization_id subject))) (\<lambda>groups.
          bind (require ((case organization of None \<Rightarrow> False | Some o' \<Rightarrow> \<not> og_disabled o') \<and> membership \<noteq> None)
            (invalid_grant ''Controller Organization membership is inactive.'')) (\<lambda>_.
          bind (identity_scopes input target) (\<lambda>requested.
          bind (oauth_date env) (\<lambda>now.
          let expires_at = token_expires_at now delegated_user_expires_in_seconds (Some expires_at_claim) in
          bind (oauth_random env) (\<lambda>jti.
          bind (lift_result (oe_sign env (identity_token_payload env subject target client_id
                  (actor_issuer, actor_subject) groups organization_id now expires_at jti) ''JWT'')) (\<lambda>id_token.
          ret \<lparr>xp_access_token = id_token, xp_issued_token_type = id_token_type,
               xp_expires_in = remaining_seconds now expires_at, xp_scope = join_with '' '' requested,
               xp_refresh_token = None\<rparr>)))))))))))))))))))))))))
      | _ \<Rightarrow> throw missing)"

text \<open>
  Every failure is audited with what was known when it was thrown: nothing, the application, or
  the application and the claims.
\<close>

definition identity_audit ::
    "oauth_env \<Rightarrow> exchange_request \<Rightarrow> string \<Rightarrow> application option \<Rightarrow> json option \<Rightarrow> failure option \<Rightarrow> unit oauth" where
  "identity_audit env input client_id application claims outcome =
     append_identity_token_exchange_audit env
       (identity_token_exchange_audit_context input client_id application claims)
       (if outcome = None then ''allowed'' else ''denied'') (map_option failure_code outcome)
       (map_option (failure_reason ''ID token exchange failed unexpectedly.'') outcome)"

definition with_denied_audit :: "(failure \<Rightarrow> unit oauth) \<Rightarrow> 'a oauth \<Rightarrow> 'a oauth" where
  "with_denied_audit audit m = catch m (\<lambda>e. bind (audit e) (\<lambda>_. throw e))"

definition identity_exchange_guards ::
    "oauth_env \<Rightarrow> exchange_request \<Rightarrow> oauth_client \<Rightarrow> json oauth" where
  "identity_exchange_guards env input client =
     bind (lift_result (parse_list (oe_env env) (oc_grant_types client))) (\<lambda>grant_types.
     bind (require (token_exchange_grant_type \<in> set grant_types)
       (oauth_failure ''unauthorized_client'' ''Client is not allowed to use token exchange.'')) (\<lambda>_.
     bind (require (xq_subject_token_type input = access_token_type)
       (oauth_failure ''invalid_request'' ''ID tokens require an access_token subject token.'')) (\<lambda>_.
     lift_result (verify_realmroot_access_token env input))))"

definition exchange_agent_identity_token ::
    "oauth_env \<Rightarrow> exchange_request \<Rightarrow> string \<Rightarrow> string option \<Rightarrow> exchange_response oauth" where
  "exchange_agent_identity_token env input client_id client_secret =
     (let audit = (\<lambda>application claims e. identity_audit env input client_id application claims (Some e)) in
      bind (with_denied_audit (audit None None) (authenticate_application_client env client_id client_secret))
        (\<lambda>(client, application).
      bind (with_denied_audit (audit (Some application) None) (identity_exchange_guards env input client)) (\<lambda>claims.
      with_denied_audit (audit (Some application) (Some claims))
        (bind (exchange_agent_identity_token_verified env input claims (oc_client_id client) application) (\<lambda>response.
         bind (identity_audit env input client_id (Some application) (Some claims) None) (\<lambda>_.
         ret response))))))"

end
