(* ===== verification/Token_Service.thy ===== *)
theory Token_Service
  imports Token_Exchange
begin

text \<open>
  The entry points of the token exchange (\<open>server/usecases/token-exchange.ts\<close>): \<open>exchangeToken\<close>,
  \<open>refreshToken\<close>, \<open>introspectToken\<close> and the federated credentials of an application.
\<close>

section \<open>Exchange\<close>

definition resolve_credential :: "string \<Rightarrow> string \<Rightarrow> string \<Rightarrow> resolved_credential oauth" where
  "resolve_credential application_client_id issuer subject =
     bind (gets (find_federated_credentials application_client_id issuer)) (\<lambda>candidates.
     found (find (\<lambda>c. rv_enabled c \<and> subject_matches (rv_subject c) subject) candidates)
       (invalid_grant ''No federated credential matches the subject token.''))"

definition credential_grant :: "resolved_credential \<Rightarrow> string \<Rightarrow> string list \<Rightarrow> grant_input" where
  "credential_grant credential subject scopes =
     \<lparr>gi_credential_id = rv_id credential, gi_subject = subject, gi_subject_token_issuer = rv_issuer credential,
      gi_audience = rv_audience credential, gi_scopes = scopes,
      gi_claims = JObj [(realmroot_organization_claim, JStr (rv_owner_organization_id credential))]\<rparr>"

definition grant_jwt_claims :: "string \<Rightarrow> grant_input \<Rightarrow> int \<Rightarrow> int \<Rightarrow> jwt_claims" where
  "grant_jwt_claims client_id input now expires_at =
     \<lparr>jc_client_id = client_id, jc_subject = gi_subject input, jc_audience = gi_audience input,
      jc_scopes = gi_scopes input, jc_claims = gi_claims input, jc_actor = None, jc_issued_at = now,
      jc_expires_at = expires_at\<rparr>"

definition issue_workload_token ::
    "oauth_env \<Rightarrow> string \<Rightarrow> grant_input \<Rightarrow> int option \<Rightarrow> exchange_response oauth" where
  "issue_workload_token env client_id input exp =
     bind (oauth_date env) (\<lambda>now.
     let expires_at = token_expires_at now default_expires_in_seconds exp in
     bind (issue_jwt_access_token env (grant_jwt_claims client_id input now expires_at)) (\<lambda>access_token.
     bind (oauth_id env) (\<lambda>i.
     bind (store_access_token env (access_record env i client_id input access_token expires_at)) (\<lambda>_.
     bind (if ''offline_access'' \<in> set (gi_scopes input) then
             bind (oauth_id env) (\<lambda>family_id.
             bind (issue_refresh_token env client_id family_id input) (\<lambda>token. ret (Some token)))
           else ret None) (\<lambda>refresh_token.
     ret \<lparr>xp_access_token = access_token, xp_issued_token_type = access_token_type,
          xp_expires_in = remaining_seconds now expires_at, xp_scope = join_with '' '' (gi_scopes input),
          xp_refresh_token = refresh_token\<rparr>)))))"

definition exchange_workload_token ::
    "oauth_env \<Rightarrow> exchange_request \<Rightarrow> string \<Rightarrow> string list \<Rightarrow> application \<Rightarrow> exchange_response oauth" where
  "exchange_workload_token env input client_id allowed_grant_types application =
     bind (lift_result (parse_jwt env (xq_subject_token input))) (\<lambda>assertion.
     let payload = jw_payload assertion in
     case (member_text payload ''iss'', member_text payload ''sub'') of
       (Some issuer, Some subject) \<Rightarrow>
         bind (resolve_credential client_id issuer subject) (\<lambda>credential.
         bind (require (rv_owner_organization_id credential = app_owner_organization_id application)
           (invalid_grant ''Federated credential is outside the Application Organization.'')) (\<lambda>_.
         bind (require (rv_audience credential = xq_audience input)
           (oauth_failure ''invalid_target'' ''Requested audience does not match the federated credential.'')) (\<lambda>_.
         bind (require_eligible_audience (rv_audience credential) (rv_owner_organization_id credential)) (\<lambda>_.
         bind (resolve_application_token_scopes env application (xq_audience input) (xq_scope input)) (\<lambda>scopes.
         bind (require (\<not> (''offline_access'' \<in> set scopes \<and> refresh_token_grant_type \<notin> set allowed_grant_types))
           (oauth_failure ''invalid_scope'' ''Client is not allowed to issue refresh tokens.'')) (\<lambda>_.
         bind (verify_subject_token env assertion credential) (\<lambda>_.
         issue_workload_token env client_id (credential_grant credential subject scopes)
           (read_number (detail_member payload ''exp'')))))))))
     | _ \<Rightarrow> throw (invalid_grant ''Subject token is missing required claims.''))"

definition resource_exchange_audit ::
    "oauth_env \<Rightarrow> exchange_request \<Rightarrow> json \<Rightarrow> application \<Rightarrow> failure \<Rightarrow> unit oauth" where
  "resource_exchange_audit env input claims application e =
     append_agent_resource_token_exchange_audit env input claims application ''denied'' (Some (failure_code e))
       (Some (failure_reason ''Agent Resource token exchange failed unexpectedly.'' e)) None"

definition exchange_access_token_subject ::
    "oauth_env \<Rightarrow> exchange_request \<Rightarrow> string \<Rightarrow> application \<Rightarrow> exchange_response oauth" where
  "exchange_access_token_subject env input client_id application =
     bind (lift_result (verify_realmroot_access_token env input)) (\<lambda>claims.
     if ''act'' \<notin> set (map fst (detail_entries claims))
     then exchange_delegated_user_token env input claims client_id application
     else with_denied_audit (resource_exchange_audit env input claims application)
       (bind (exchange_delegated_user_token env input claims client_id application) (\<lambda>response.
        bind (append_agent_resource_token_exchange_audit env input claims application ''allowed'' None None
                (Some (parse_space_separated_claim (JStr (xp_scope response))))) (\<lambda>_.
        ret response))))"

definition exchange_token ::
    "oauth_env \<Rightarrow> exchange_request \<Rightarrow> string \<Rightarrow> string option \<Rightarrow> exchange_response oauth" where
  "exchange_token env input client_id client_secret =
     bind (require (xq_grant_type input = token_exchange_grant_type)
       (oauth_failure ''unsupported_grant_type'' ''Unsupported grant_type.'')) (\<lambda>_.
     if xq_requested_token_type input = Some id_token_type
     then exchange_agent_identity_token env input client_id client_secret
     else
       bind (authenticate_application_client env client_id client_secret) (\<lambda>(client, application).
       bind (lift_result (parse_list (oe_env env) (oc_grant_types client))) (\<lambda>allowed_grant_types.
       bind (require (token_exchange_grant_type \<in> set allowed_grant_types)
         (oauth_failure ''unauthorized_client'' ''Client is not allowed to use token exchange.'')) (\<lambda>_.
       bind (require (present (xq_requested_token_type input) \<in> {None, Some access_token_type})
         (oauth_failure ''invalid_request'' ''Unsupported requested_token_type.'')) (\<lambda>_.
       if xq_subject_token_type input = access_token_type
       then exchange_access_token_subject env input (oc_client_id client) application
       else
         bind (require (xq_subject_token_type input = jwt_token_type)
           (oauth_failure ''invalid_request'' ''Unsupported subject_token_type.'')) (\<lambda>_.
         exchange_workload_token env input (oc_client_id client) allowed_grant_types application))))))"

section \<open>Refresh\<close>

record refresh_request =
  xf_grant_type :: string
  xf_refresh_token :: string
  xf_scope :: "string option"

definition row_grant :: "exchange_refresh_token \<Rightarrow> string list \<Rightarrow> grant_input" where
  "row_grant row scopes =
     \<lparr>gi_credential_id = xr_credential_id row, gi_subject = xr_subject row,
      gi_subject_token_issuer = xr_subject_token_issuer row, gi_audience = xr_audience row, gi_scopes = scopes,
      gi_claims = xr_claims row\<rparr>"

definition revoke_and_throw :: "string \<Rightarrow> int \<Rightarrow> string \<Rightarrow> 'a oauth" where
  "revoke_and_throw family_id now description =
     bind (revoke_refresh_token_family family_id now) (\<lambda>_. throw (invalid_grant description))"

text \<open>The client, its application and the row of the token it presents.\<close>

definition present_refresh_token ::
    "oauth_env \<Rightarrow> refresh_request \<Rightarrow> string \<Rightarrow> string option \<Rightarrow> (application \<times> exchange_refresh_token) oauth" where
  "present_refresh_token env input client_id client_secret =
     bind (require (xf_grant_type input = refresh_token_grant_type)
       (oauth_failure ''unsupported_grant_type'' ''Unsupported grant_type.'')) (\<lambda>_.
     bind (authenticate_application_client env client_id client_secret) (\<lambda>(client, _).
     bind (require_application_by_client_id env (oc_client_id client)) (\<lambda>application.
     bind (lift_result (parse_list (oe_env env) (oc_grant_types client))) (\<lambda>grant_types.
     bind (require (refresh_token_grant_type \<in> set grant_types)
       (oauth_failure ''unauthorized_client'' ''Client is not allowed to use refresh tokens.'')) (\<lambda>_.
     bind (gets (find_refresh_token_by_hash (sha256_text (oe_env env) (xf_refresh_token input)))) (\<lambda>row.
     bind (found row (invalid_grant ''Refresh token is invalid.'')) (\<lambda>r.
     bind (require (xr_client_id r = oc_client_id client) (invalid_grant ''Refresh token is invalid.'')) (\<lambda>_.
     ret (application, r)))))))))"

text \<open>The state of the row and of its credential; a replay or a moved credential revokes the family.\<close>

definition admit_refresh_token :: "exchange_refresh_token \<Rightarrow> int \<Rightarrow> unit oauth" where
  "admit_refresh_token row now =
     (if xr_consumed_at row \<noteq> None then revoke_and_throw (xr_family_id row) now ''Refresh token reuse was detected.''
      else
        bind (require (\<not> (xr_revoked_at row \<noteq> None \<or> xr_expires_at row \<le> now))
          (invalid_grant ''Refresh token is invalid or expired.'')) (\<lambda>_.
        bind (gets (find_federated_credential_for_client (xr_credential_id row) (xr_client_id row))) (\<lambda>found_credential.
        bind (found found_credential (invalid_grant ''The federated credential is no longer active.'')) (\<lambda>credential.
        bind (require (rv_enabled credential) (invalid_grant ''The federated credential is no longer active.'')) (\<lambda>_.
        bind (if rv_audience credential \<noteq> xr_audience row \<or>
                 detail_member (xr_claims row) realmroot_organization_claim \<noteq> JStr (rv_owner_organization_id credential)
              then ret False
              else is_eligible_audience (rv_audience credential) (rv_owner_organization_id credential)) (\<lambda>eligible.
        if eligible then ret ()
        else revoke_and_throw (xr_family_id row) now
               ''The refresh token tenant or audience is no longer eligible.''))))))"

definition rotate_and_respond ::
    "oauth_env \<Rightarrow> refresh_request \<Rightarrow> application \<Rightarrow> exchange_refresh_token \<Rightarrow> int \<Rightarrow> exchange_response oauth" where
  "rotate_and_respond env input application row now =
     bind (resolve_application_token_scopes env application (xr_audience row)
       (Some (case xf_scope input of None \<Rightarrow> join_with '' '' (xr_scopes row) | Some s \<Rightarrow> s))) (\<lambda>requested_scopes.
     let expires_at = now + default_expires_in_seconds * 1000; grant_row = row_grant row requested_scopes;
         client_id = xr_client_id row in
     bind (issue_jwt_access_token env (grant_jwt_claims client_id grant_row now expires_at)) (\<lambda>access_token.
     bind (prepare_refresh_token env client_id (xr_family_id row) (Some (xr_id row)) grant_row)
       (\<lambda>(token, child).
     bind (oauth_id env) (\<lambda>i.
     bind (rotate_refresh_token env child (access_record env i client_id grant_row access_token expires_at)) (\<lambda>stored.
     if \<not> stored then revoke_and_throw (xr_family_id row) now ''Refresh token reuse was detected.''
     else ret \<lparr>xp_access_token = access_token, xp_issued_token_type = access_token_type,
            xp_expires_in = default_expires_in_seconds, xp_scope = join_with '' '' requested_scopes,
            xp_refresh_token = Some token\<rparr>)))))"

definition refresh_token ::
    "oauth_env \<Rightarrow> refresh_request \<Rightarrow> string \<Rightarrow> string option \<Rightarrow> exchange_response oauth" where
  "refresh_token env input client_id client_secret =
     bind (present_refresh_token env input client_id client_secret) (\<lambda>(application, row).
     bind (oauth_date env) (\<lambda>now.
     bind (admit_refresh_token row now) (\<lambda>_.
     rotate_and_respond env input application row now)))"

section \<open>Introspection\<close>

text \<open>\<open>===\<close> of two JSON values: objects and arrays are equal to no other value.\<close>

definition same_value :: "json \<Rightarrow> json \<Rightarrow> bool" where
  "same_value a b \<longleftrightarrow> a = b \<and> (case a of JArr _ \<Rightarrow> False | JObj _ \<Rightarrow> False | _ \<Rightarrow> True)"

definition token_exchange_jwt_matches :: "json \<Rightarrow> exchange_access_token \<Rightarrow> string \<Rightarrow> bool" where
  "token_exchange_jwt_matches payload row issuer \<longleftrightarrow>
     detail_member payload ''iss'' = JStr issuer \<and> detail_member payload ''sub'' = JStr (xa_subject row) \<and>
     detail_member payload ''aud'' = JStr (xa_audience row) \<and>
     detail_member payload ''client_id'' = JStr (xa_client_id row) \<and>
     detail_member payload ''scope'' = JStr (join_with '' '' (xa_scopes row)) \<and>
     detail_member payload ''exp'' = JNum (xa_expires_at row div 1000) \<and>
     detail_member payload ''act'' = JUndefined \<and>
     same_value (detail_member payload realmroot_organization_claim)
       (detail_member (xa_claims row) realmroot_organization_claim)"

definition inactive_token :: json where
  "inactive_token = JObj [(''active'', JBool False)]"

definition override_members :: "json \<Rightarrow> (string \<times> json) list \<Rightarrow> json" where
  "override_members v members =
     JObj (filter (\<lambda>p. fst p \<notin> set (map fst members)) (detail_entries v) @ members)"

definition opaque_introspection :: "exchange_access_token \<Rightarrow> string \<Rightarrow> json" where
  "opaque_introspection row issuer =
     JObj [(''active'', JBool True), (''iss'', JStr issuer), (''sub'', JStr (xa_subject row)),
       (''aud'', JStr (xa_audience row)), (''client_id'', JStr (xa_client_id row)),
       (''scope'', JStr (join_with '' '' (xa_scopes row))), (''exp'', JNum (xa_expires_at row div 1000)),
       (''iat'', JNum (xa_created_at row div 1000)), (''token_type'', JStr ''Bearer''),
       (subject_claims_member, xa_claims row)]"

definition introspect_row ::
    "string \<Rightarrow> string \<Rightarrow> (string \<Rightarrow> string \<Rightarrow> string \<Rightarrow> json option) \<Rightarrow> exchange_access_token \<Rightarrow> json" where
  "introspect_row token issuer verify row =
     (if starts_with opaque_access_token_prefix token then opaque_introspection row issuer
      else (case verify token issuer (xa_audience row) of
          None \<Rightarrow> inactive_token
        | Some payload \<Rightarrow>
            if token_exchange_jwt_matches payload row issuer
            then override_members payload [(''active'', JBool True), (''token_type'', JStr ''Bearer'')]
            else inactive_token))"

definition introspect_token ::
    "oauth_env \<Rightarrow> string \<Rightarrow> string \<Rightarrow> string option \<Rightarrow> string \<Rightarrow>
     (string \<Rightarrow> string \<Rightarrow> string \<Rightarrow> json option) \<Rightarrow> json oauth" where
  "introspect_token env token client_id client_secret issuer verify =
     bind (authenticate_application_client env client_id client_secret) (\<lambda>_.
     bind (gets (find_access_token_by_hash (sha256_text (oe_env env) token))) (\<lambda>row.
     case row of
       None \<Rightarrow> ret inactive_token
     | Some r \<Rightarrow>
         if \<not> (xa_client_id r = client_id \<and> xa_revoked_at r = None) then ret inactive_token
         else bind (oauth_date env) (\<lambda>now.
           if now < xa_expires_at r then ret (introspect_row token issuer verify r) else ret inactive_token)))"

definition is_token_exchange_access_token :: "oauth_env \<Rightarrow> string \<Rightarrow> bool oauth" where
  "is_token_exchange_access_token env token =
     (if starts_with opaque_access_token_prefix token then ret True
      else gets (\<lambda>s. find_access_token_by_hash (sha256_text (oe_env env) token) s \<noteq> None))"

section \<open>Federated credentials\<close>

definition ensure_application :: "oauth_env \<Rightarrow> string \<Rightarrow> unit oauth" where
  "ensure_application env application_id =
     bind (find_application (oe_env env) application_id) (\<lambda>a.
     require (a \<noteq> None) (not_found ''Application not found.''))"

definition ensure_audience_resource :: "oauth_env \<Rightarrow> string \<Rightarrow> string \<Rightarrow> unit oauth" where
  "ensure_audience_resource env application_id resource_id =
     bind (find_application (oe_env env) application_id) (\<lambda>a.
     bind (found a (not_found ''Application not found.'')) (\<lambda>application.
     bind (on_world (gets (find_resource resource_id))) (\<lambda>resource.
     require (case resource of None \<Rightarrow> False
         | Some r \<Rightarrow> active_resource_visible_to_organization r (app_owner_organization_id application))
       (bad_request ''audienceResourceId must reference a Resource Server visible to the Application tenant.''))))"

definition list_federated_credentials :: "oauth_env \<Rightarrow> string \<Rightarrow> federated_credential list oauth" where
  "list_federated_credentials env application_id =
     bind (ensure_application env application_id) (\<lambda>_.
     gets (list_federated_credentials_rows application_id))"

definition get_federated_credential :: "string \<Rightarrow> string \<Rightarrow> federated_credential oauth" where
  "get_federated_credential application_id i =
     bind (gets (credential_row application_id i)) (\<lambda>row.
     found row (not_found ''Federated credential not found.''))"

text \<open>The source of keys: a JWKS endpoint or at least one inline key, each well-formed.\<close>

definition require_key_source :: "oauth_env \<Rightarrow> string option \<Rightarrow> json list option \<Rightarrow> unit oauth" where
  "require_key_source env jwks_url public_keys =
     bind (require (present jwks_url \<noteq> None \<or> (case public_keys of None \<Rightarrow> False | Some ks \<Rightarrow> ks \<noteq> []))
       (bad_request ''A federated credential requires either jwksUrl or publicKeys.'')) (\<lambda>_.
     bind (case present jwks_url of None \<Rightarrow> ret () | Some url \<Rightarrow> lift_result (validate_jwks_url env url)) (\<lambda>_.
     case public_keys of None \<Rightarrow> ret () | Some ks \<Rightarrow> lift_result (validate_public_keys ks)))"

definition create_federated_credential ::
    "oauth_env \<Rightarrow> string \<Rightarrow> credential_input \<Rightarrow> federated_credential oauth" where
  "create_federated_credential env application_id input =
     bind (ensure_application env application_id) (\<lambda>_.
     bind (require_key_source env (ni_jwks_url input) (ni_public_keys input)) (\<lambda>_.
     bind (ensure_audience_resource env application_id (ni_audience_resource_id input)) (\<lambda>_.
     create_credential_row env application_id input)))"

definition update_federated_credential ::
    "oauth_env \<Rightarrow> string \<Rightarrow> string \<Rightarrow> credential_patch \<Rightarrow> federated_credential oauth" where
  "update_federated_credential env application_id i input =
     bind (get_federated_credential application_id i) (\<lambda>current.
     bind (case present (np_audience_resource_id input) of None \<Rightarrow> ret ()
           | Some r \<Rightarrow> ensure_audience_resource env application_id r) (\<lambda>_.
     bind (require_key_source env (patched (fc_jwks_url current) (np_jwks_url input))
             (patched (fc_public_keys current) (np_public_keys input))) (\<lambda>_.
     bind (update_credential_row env application_id i input) (\<lambda>row.
     found row (not_found ''Federated credential not found.'')))))"

definition delete_federated_credential :: "string \<Rightarrow> string \<Rightarrow> unit oauth" where
  "delete_federated_credential application_id i =
     bind (delete_credential_row application_id i) (\<lambda>deleted.
     require deleted (not_found ''Federated credential not found.''))"

end
