(* ===== verification/Refresh_Families.thy ===== *)
theory Refresh_Families
  imports Token_Service
begin

text \<open>
  Refresh tokens of the token exchange come in families: a first token, and for every token that
  is used the one that replaces it. Here the families are followed through the statements that
  write them, in any order and from any number of requests at once.
\<close>

section \<open>What leaves the OAuth tables alone\<close>

definition tables_kept :: "oauth_world \<Rightarrow> oauth_world \<Rightarrow> bool" where
  "tables_kept s t \<longleftrightarrow> (\<exists>w. t = s\<lparr>ow_world := w\<rparr>)"

interpretation kept: step_law tables_kept
proof
  show "tables_kept s s" for s
    unfolding tables_kept_def by (rule exI [of _ "ow_world s"]) simp
  show "tables_kept s u" if "tables_kept s t" "tables_kept t u" for s t u
    using that by (auto simp: tables_kept_def)
qed

lemma kept_on_world [law_intros]: "evolves tables_kept (on_world m)"
  by (rule evolvesI) (auto simp: tables_kept_def)

lemma kept_clock [law_intros]:
  "evolves tables_kept (oauth_date env)" "evolves tables_kept (oauth_id env)" "evolves tables_kept (oauth_random env)"
  unfolding oauth_date_def oauth_id_def oauth_random_def by (rule kept_on_world)+

lemma tables_kept_fields:
  assumes "tables_kept s t"
  shows "ow_refresh_tokens t = ow_refresh_tokens s" "ow_access_tokens t = ow_access_tokens s"
    "ow_credentials t = ow_credentials s" "ow_applications t = ow_applications s" "ow_clients t = ow_clients s"
    "ow_banned t = ow_banned s"
  using assms by (auto simp: tables_kept_def)

lemma kept_authentication [law_intros]:
  "evolves tables_kept (find_application_by_client_id e client_id)" "evolves tables_kept (find_application e i)"
  "evolves tables_kept (authenticate_application_client env client_id client_secret)"
  "evolves tables_kept (require_application_by_client_id env client_id)"
  unfolding find_application_by_client_id_def find_application_def authenticate_application_client_def
    require_application_by_client_id_def
  by (intro law_intros)+

lemma kept_scopes [law_intros]:
  "evolves tables_kept (resolve_application_token_scopes_for_resource env application resource requested)"
  "evolves tables_kept (resolve_application_token_scopes env application audience requested)"
  "evolves tables_kept (is_eligible_audience audience organization_id)"
  "evolves tables_kept (require_eligible_audience audience organization_id)"
  unfolding resolve_application_token_scopes_def resolve_application_token_scopes_for_resource_def
    is_eligible_audience_def require_eligible_audience_def
  by (intro law_intros)+

lemma kept_issuing [law_intros]:
  "evolves tables_kept (issue_jwt_access_token env claims)"
  "evolves tables_kept (prepare_refresh_token env client_id family_id parent_id input)"
  unfolding issue_jwt_access_token_def prepare_refresh_token_def by (intro law_intros)+

lemma kept_present [law_intros]: "evolves tables_kept (present_refresh_token env input client_id client_secret)"
  unfolding present_refresh_token_def by (intro law_intros)

section \<open>Statements\<close>

text \<open>
  A state beside the identifiers that were ever given to a family. The statements: a first token
  of a new family, a rotation (whose child has the family of the row that was read), the
  consumption of a token, the revocation of a family or of one token, the deletion of
  credentials, and whatever else leaves the refresh tokens as they are.
\<close>

inductive refresh_step :: "oauth_world \<times> string set \<Rightarrow> oauth_world \<times> string set \<Rightarrow> bool" where
  first_token: "xr_family_id t \<notin> families \<Longrightarrow>
     insert_exchange_refresh_token (fresh_refresh_token t now) s = Inr s' \<Longrightarrow>
     refresh_step (s, families) (s', insert (xr_family_id t) families)"
| rotation: "(\<And>p. p \<in> set (ow_refresh_tokens s) \<Longrightarrow> xr_parent_id child = Some (xr_id p) \<Longrightarrow>
       xr_family_id p = xr_family_id child) \<Longrightarrow>
     batch [insert_child (fresh_refresh_token child now), consume_parent (xr_parent_id child) now',
       insert_access_beside (xr_id child) access] s = Inr s' \<Longrightarrow>
     refresh_step (s, families) (s', families)"
| consumption: "refresh_step (s, families) (snd (consume_refresh_token i now s), families)"
| family_revocation: "refresh_step (s, families) (snd (revoke_refresh_token_family family_id now s), families)"
| token_revocation: "refresh_step (s, families)
     (s\<lparr>ow_refresh_tokens := update_where (\<lambda>r. xr_id r = i) (\<lambda>r. r\<lparr>xr_revoked_at := Some now\<rparr>) (ow_refresh_tokens s)\<rparr>,
      families)"
| deletion: "refresh_step (s, families) (drop_credentials hit s, families)"
| other: "ow_refresh_tokens s' = ow_refresh_tokens s \<Longrightarrow> refresh_step (s, families) (s', families)"

definition live_token :: "exchange_refresh_token \<Rightarrow> bool" where
  "live_token r \<longleftrightarrow> xr_consumed_at r = None \<and> xr_revoked_at r = None"

definition family_tokens :: "string \<Rightarrow> oauth_world \<Rightarrow> exchange_refresh_token list" where
  "family_tokens f s = filter (\<lambda>r. xr_family_id r = f) (ow_refresh_tokens s)"

definition live_in_family :: "string \<Rightarrow> oauth_world \<Rightarrow> exchange_refresh_token list" where
  "live_in_family f s = filter live_token (family_tokens f s)"

definition families_linear :: "oauth_world \<times> string set \<Rightarrow> bool" where
  "families_linear state \<longleftrightarrow> (case state of (s, families) \<Rightarrow>
     distinct (map xr_id (ow_refresh_tokens s)) \<and> distinct (map xr_token_hash (ow_refresh_tokens s)) \<and>
     (\<forall>r\<in>set (ow_refresh_tokens s). xr_family_id r \<in> families) \<and> (\<forall>f. length (live_in_family f s) \<le> 1))"

subsection \<open>Updates that end tokens\<close>

definition ends_tokens :: "exchange_refresh_token list \<Rightarrow> exchange_refresh_token list \<Rightarrow> bool" where
  "ends_tokens rows rows' \<longleftrightarrow>
     (\<exists>p g. rows' = map g (filter p rows) \<and>
        (\<forall>r. xr_id (g r) = xr_id r \<and> xr_token_hash (g r) = xr_token_hash r \<and>
             xr_family_id (g r) = xr_family_id r \<and> (live_token (g r) \<longrightarrow> live_token r)))"

lemma ends_tokens_update:
  assumes "\<And>r. xr_id (g r) = xr_id r" "\<And>r. xr_token_hash (g r) = xr_token_hash r"
    "\<And>r. xr_family_id (g r) = xr_family_id r" "\<And>r. \<not> live_token (g r)"
  shows "ends_tokens rows (update_where p g rows)"
  unfolding ends_tokens_def update_where_def
  by (rule exI [of _ "\<lambda>_. True"], rule exI [of _ "\<lambda>r. if p r then g r else r"]) (simp add: assms)

lemma ends_tokens_filter: "ends_tokens rows (filter p rows)"
  unfolding ends_tokens_def by (rule exI [of _ p], rule exI [of _ "\<lambda>r. r"]) simp

lemma length_filter_map_le:
  "(\<And>x. q (g x) \<Longrightarrow> q x) \<Longrightarrow> length (filter q (map g (filter p xs))) \<le> length (filter q xs)"
  by (induction xs) (auto intro: le_SucI)

lemma ends_tokens_live:
  assumes "ends_tokens (ow_refresh_tokens s) (ow_refresh_tokens s')"
  shows "length (live_in_family f s') \<le> length (live_in_family f s)"
proof -
  obtain p g where g: "ow_refresh_tokens s' = map g (filter p (ow_refresh_tokens s))"
    "\<And>r. xr_family_id (g r) = xr_family_id r \<and> (live_token (g r) \<longrightarrow> live_token r)"
    using assms unfolding ends_tokens_def by blast
  show ?thesis
    unfolding live_in_family_def family_tokens_def g(1) filter_filter
    by (rule length_filter_map_le) (use g(2) in auto)
qed

lemma ends_tokens_linear:
  assumes "families_linear (s, families)" "ends_tokens (ow_refresh_tokens s) (ow_refresh_tokens s')"
  shows "families_linear (s', families)"
proof -
  obtain p g where g: "ow_refresh_tokens s' = map g (filter p (ow_refresh_tokens s))"
    "\<And>r. xr_id (g r) = xr_id r" "\<And>r. xr_token_hash (g r) = xr_token_hash r" "\<And>r. xr_family_id (g r) = xr_family_id r"
    using assms(2) unfolding ends_tokens_def by blast
  have keys: "map xr_id (map g rows) = map xr_id rows" "map xr_token_hash (map g rows) = map xr_token_hash rows" for rows
    by (simp_all add: g)
  have "length (live_in_family f s') \<le> 1" for f
    using ends_tokens_live [OF assms(2), of f] assms(1) by (auto simp: families_linear_def intro: order_trans)
  then show ?thesis
    using assms(1) by (auto simp: families_linear_def g keys distinct_map_filter comp_def)
qed

subsection \<open>Inserts\<close>

lemma inserted_refresh_token:
  assumes "insert_exchange_refresh_token t s = Inr s'"
  shows "ow_refresh_tokens s' = ow_refresh_tokens s @ [t]" "xr_id t \<notin> set (map xr_id (ow_refresh_tokens s))"
    "xr_token_hash t \<notin> set (map xr_token_hash (ow_refresh_tokens s))"
    "ow_access_tokens s' = ow_access_tokens s" "ow_credentials s' = ow_credentials s" "ow_clients s' = ow_clients s"
  using assms by (auto simp: insert_exchange_refresh_token_def)

lemma fresh_refresh_token_fields [simp]:
  "xr_id (fresh_refresh_token t now) = xr_id t" "xr_family_id (fresh_refresh_token t now) = xr_family_id t"
  "xr_parent_id (fresh_refresh_token t now) = xr_parent_id t"
  "xr_token_hash (fresh_refresh_token t now) = xr_token_hash t"
  "xr_scopes (fresh_refresh_token t now) = xr_scopes t" "live_token (fresh_refresh_token t now)"
  by (simp_all add: fresh_refresh_token_def live_token_def)

text \<open>
  A rotation that finds its parent live puts the child behind the other tokens and consumes the
  parent; one that does not find it changes no refresh token.
\<close>

lemma rotation_rows:
  assumes "batch [insert_child (fresh_refresh_token child now), consume_parent (xr_parent_id child) now',
       insert_access_beside (xr_id child) access] s = Inr s'"
  shows "if list_ex (parent_is_active (xr_parent_id child)) (ow_refresh_tokens s)
    then (\<exists>u. insert_exchange_refresh_token (fresh_refresh_token child now) s = Inr u \<and>
           ow_refresh_tokens s' = update_where (parent_is_active (xr_parent_id child))
             (\<lambda>r. r\<lparr>xr_consumed_at := Some now'\<rparr>) (ow_refresh_tokens u) \<and>
           insert_exchange_access_token access
             (u\<lparr>ow_refresh_tokens := ow_refresh_tokens s'\<rparr>) = Inr s')
    else ow_refresh_tokens s' = ow_refresh_tokens s"
proof (cases "list_ex (parent_is_active (xr_parent_id child)) (ow_refresh_tokens s)")
  case True
  then obtain u where u: "insert_exchange_refresh_token (fresh_refresh_token child now) s = Inr u"
    and rest: "insert_access_beside (xr_id child) access
      (u\<lparr>ow_refresh_tokens := update_where (parent_is_active (xr_parent_id child))
        (\<lambda>r. r\<lparr>xr_consumed_at := Some now'\<rparr>) (ow_refresh_tokens u)\<rparr>) = Inr s'"
    using assms by (auto simp: insert_child_def consume_parent_def split: sum.splits)
  have "list_ex (\<lambda>r. xr_id r = xr_id child) (update_where (parent_is_active (xr_parent_id child))
      (\<lambda>r. r\<lparr>xr_consumed_at := Some now'\<rparr>) (ow_refresh_tokens u))"
    using inserted_refresh_token(1) [OF u] by (auto simp: list_ex_iff update_where_def)
  then have access: "insert_exchange_access_token access
      (u\<lparr>ow_refresh_tokens := update_where (parent_is_active (xr_parent_id child))
        (\<lambda>r. r\<lparr>xr_consumed_at := Some now'\<rparr>) (ow_refresh_tokens u)\<rparr>) = Inr s'"
    using rest by (simp add: insert_access_beside_def)
  then have "ow_refresh_tokens s' = update_where (parent_is_active (xr_parent_id child))
      (\<lambda>r. r\<lparr>xr_consumed_at := Some now'\<rparr>) (ow_refresh_tokens u)"
    by (auto simp: insert_exchange_access_token_def)
  with True u access show ?thesis by auto
next
  case False
  then have "update_where (parent_is_active (xr_parent_id child)) f (ow_refresh_tokens s) = ow_refresh_tokens s" for f
    by (auto simp: update_where_def list_ex_iff intro!: map_idI)
  with False assms show ?thesis
    by (auto simp: insert_child_def consume_parent_def insert_access_beside_def insert_exchange_access_token_def
        split: if_splits sum.splits)
qed

lemma live_in_family_update:
  assumes "ow_refresh_tokens s' = update_where p (\<lambda>r. r\<lparr>xr_consumed_at := Some now\<rparr>) rows"
  shows "live_in_family f s' = filter (\<lambda>r. xr_family_id r = f \<and> live_token r \<and> \<not> p r) rows"
  unfolding live_in_family_def family_tokens_def assms update_where_def
  by (induction rows) (auto simp: live_token_def)

lemma rotation_linear:
  assumes linear: "families_linear (s, families)"
    and parent: "\<And>p. p \<in> set (ow_refresh_tokens s) \<Longrightarrow> xr_parent_id child = Some (xr_id p) \<Longrightarrow>
       xr_family_id p = xr_family_id child"
    and run: "batch [insert_child (fresh_refresh_token child now), consume_parent (xr_parent_id child) now',
       insert_access_beside (xr_id child) access] s = Inr s'"
  shows "families_linear (s', families)"
    "length (live_in_family f s') \<le> length (live_in_family f s)"
proof -
  let ?hit = "parent_is_active (xr_parent_id child)"
  have rows: "families_linear (s', families) \<and> length (live_in_family f s') \<le> length (live_in_family f s)"
  proof (cases "list_ex ?hit (ow_refresh_tokens s)")
    case False
    then have "ow_refresh_tokens s' = ow_refresh_tokens s" using rotation_rows [OF run] by simp
    with linear show ?thesis by (simp add: families_linear_def live_in_family_def family_tokens_def)
  next
    case True
    then obtain u where u: "insert_exchange_refresh_token (fresh_refresh_token child now) s = Inr u"
      and s': "ow_refresh_tokens s' = update_where ?hit (\<lambda>r. r\<lparr>xr_consumed_at := Some now'\<rparr>) (ow_refresh_tokens u)"
      using rotation_rows [OF run] by auto
    note new = inserted_refresh_token [OF u]
    from True obtain p where p: "p \<in> set (ow_refresh_tokens s)" "xr_parent_id child = Some (xr_id p)" "live_token p"
      by (auto simp: list_ex_iff parent_is_active_def live_token_def)
    have family: "xr_family_id p = xr_family_id child" by (rule parent [OF p(1,2)])
    have not_self: "\<not> ?hit (fresh_refresh_token child now)"
      using new(2) p(1,2) by (auto simp: parent_is_active_def image_iff)
    have shrink: "length (live_in_family f s') \<le> length (live_in_family f s)" for f
    proof (cases "f = xr_family_id child")
      case False
      have "length (filter (\<lambda>r. xr_family_id r = f \<and> live_token r \<and> \<not> ?hit r) (ow_refresh_tokens s)) \<le>
          length (filter (\<lambda>r. xr_family_id r = f \<and> live_token r) (ow_refresh_tokens s))"
        unfolding length_filter_conv_card by (rule card_mono) auto
      with False show ?thesis
        unfolding live_in_family_update [OF s'] new(1) by (simp add: live_in_family_def family_tokens_def)
    next
      case True
      have one: "p \<in> set (live_in_family f s)" "length (live_in_family f s) \<le> 1"
        using p family True linear by (auto simp: live_in_family_def family_tokens_def families_linear_def)
      have "r = p" if "r \<in> set (ow_refresh_tokens s)" "xr_family_id r = f" "live_token r" for r
      proof -
        have "r \<in> set (live_in_family f s)" using that by (simp add: live_in_family_def family_tokens_def)
        with one show ?thesis by (cases "live_in_family f s") auto
      qed
      then have "filter (\<lambda>r. xr_family_id r = f \<and> live_token r \<and> \<not> ?hit r) (ow_refresh_tokens s) = []"
        using p(2) by (auto simp: filter_empty_conv parent_is_active_def live_token_def)
      then have "length (live_in_family f s') \<le> 1"
        unfolding live_in_family_update [OF s'] new(1) by simp
      moreover have "1 \<le> length (live_in_family f s)" using one(1) by (cases "live_in_family f s") auto
      ultimately show ?thesis by simp
    qed
    have keys: "map xr_id (ow_refresh_tokens s') = map xr_id (ow_refresh_tokens u)"
      "map xr_token_hash (ow_refresh_tokens s') = map xr_token_hash (ow_refresh_tokens u)"
      "map xr_family_id (ow_refresh_tokens s') = map xr_family_id (ow_refresh_tokens u)"
      unfolding s' by (simp_all add: map_update_where)
    have "xr_family_id child \<in> families" using linear p(1) family by (auto simp: families_linear_def)
    then have "set (map xr_family_id (ow_refresh_tokens s')) \<subseteq> families"
      unfolding keys(3) using linear new(1) by (auto simp: families_linear_def)
    then have "\<forall>r\<in>set (ow_refresh_tokens s'). xr_family_id r \<in> families" by auto
    moreover have "length (live_in_family f s') \<le> 1" for f
      using shrink [of f] linear by (auto simp: families_linear_def intro: order_trans)
    ultimately show ?thesis
      using shrink linear new keys(1,2) by (auto simp: families_linear_def)
  qed
  show "families_linear (s', families)" "length (live_in_family f s') \<le> length (live_in_family f s)"
    using rows by auto
qed

section \<open>Every interleaving\<close>

definition families_advance :: "oauth_world \<times> string set \<Rightarrow> oauth_world \<times> string set \<Rightarrow> bool" where
  "families_advance state state' \<longleftrightarrow> families_linear state' \<and> snd state \<subseteq> snd state' \<and>
     (\<forall>f\<in>snd state. length (live_in_family f (fst state')) \<le> length (live_in_family f (fst state)))"

lemma ends_tokens_advance:
  assumes "families_linear (s, families)" "ends_tokens (ow_refresh_tokens s) (ow_refresh_tokens s')"
  shows "families_advance (s, families) (s', families)"
  using ends_tokens_linear [OF assms] ends_tokens_live [OF assms(2)] by (simp add: families_advance_def)

lemma refresh_step_advances:
  assumes "refresh_step state state'" "families_linear state"
  shows "families_advance state state'"
  using assms
proof (cases rule: refresh_step.cases)
  case (first_token t families now s s')
  note new = inserted_refresh_token [OF first_token(4)]
  have none: "live_in_family (xr_family_id t) s = []"
    using assms(2) first_token(1,3) by (auto simp: families_linear_def live_in_family_def family_tokens_def filter_empty_conv)
  have live: "live_in_family f s' = live_in_family f s @ (if f = xr_family_id t then [fresh_refresh_token t now] else [])" for f
    by (simp add: live_in_family_def family_tokens_def new(1))
  then have "length (live_in_family f s') \<le> 1" for f
    using none assms(2) first_token(1) by (auto simp: families_linear_def)
  then have "families_linear state'"
    using assms(2) new(1-3) first_token(1,2) by (auto simp: families_linear_def)
  then show ?thesis
    using live first_token by (auto simp: families_advance_def)
next
  case (rotation s child now now' access s' families)
  have linear: "families_linear (s, families)" using assms(2) rotation(1) by simp
  show ?thesis
    unfolding rotation(1,2) families_advance_def
    using rotation_linear [OF linear rotation(3,4)] by simp
next
  case (consumption s families i now)
  have "ends_tokens (ow_refresh_tokens s) (ow_refresh_tokens (snd (consume_refresh_token i now s)))"
    unfolding consume_refresh_token_def Let_def
    by (auto simp: bind_def gets_def modify_def ret_def live_token_def intro!: ends_tokens_update)
  with assms(2) consumption show ?thesis by (auto intro: ends_tokens_advance)
next
  case (family_revocation s families family_id now)
  have "ends_tokens (ow_refresh_tokens s) (ow_refresh_tokens (snd (revoke_refresh_token_family family_id now s)))"
    by (auto simp: revoke_refresh_token_family_def modify_def live_token_def intro!: ends_tokens_update)
  with assms(2) family_revocation show ?thesis by (auto intro: ends_tokens_advance)
next
  case (token_revocation s families i now)
  have "ends_tokens (ow_refresh_tokens s)
      (update_where (\<lambda>r. xr_id r = i) (\<lambda>r. r\<lparr>xr_revoked_at := Some now\<rparr>) (ow_refresh_tokens s))"
    by (rule ends_tokens_update) (simp_all add: live_token_def)
  with assms(2) token_revocation show ?thesis by (auto intro: ends_tokens_advance)
next
  case (deletion s families hit)
  have "ends_tokens (ow_refresh_tokens s) (ow_refresh_tokens (drop_credentials hit s))"
    by (simp add: drop_credentials_def Let_def ends_tokens_filter)
  with assms(2) deletion show ?thesis by (auto intro: ends_tokens_advance)
next
  case (other s' s families)
  with assms(2) show ?thesis
    by (simp add: families_advance_def families_linear_def live_in_family_def family_tokens_def)
qed

lemma refresh_steps_advance:
  assumes "refresh_step\<^sup>*\<^sup>* state state'" "families_linear state"
  shows "families_advance state state'"
  using assms(1)
proof (induction rule: rtranclp_induct)
  case base
  with assms(2) show ?case by (simp add: families_advance_def)
next
  case (step mid final)
  have "families_advance mid final"
    by (rule refresh_step_advances [OF step.hyps(2)]) (use step.IH in \<open>simp add: families_advance_def\<close>)
  with step.IH show ?case
    unfolding families_advance_def by (meson order_trans subset_iff)
qed

text \<open>
  C10. In every interleaving of the statements that write refresh tokens, starting from tables
  without any, a family has at most one live token at each moment, and the live tokens of a family
  only become fewer: a family that was revoked, or whose last token was consumed without a
  successor, never has a live token again.
\<close>

theorem refresh_families_linear:
  assumes "ow_refresh_tokens s0 = []" "refresh_step\<^sup>*\<^sup>* (s0, {}) (s, families)" "f \<in> families"
    "refresh_step\<^sup>*\<^sup>* (s, families) (t, families')"
  shows "length (live_in_family f t) \<le> 1 \<and> length (live_in_family f t) \<le> length (live_in_family f s)"
proof -
  have "families_linear (s0, {})"
    using assms(1) by (simp add: families_linear_def live_in_family_def family_tokens_def)
  with assms(2) have "families_linear (s, families)"
    by (auto dest!: refresh_steps_advance simp: families_advance_def)
  with assms(4) have "families_advance (s, families) (t, families')"
    by (rule refresh_steps_advance)
  with assms(3) show ?thesis by (auto simp: families_advance_def families_linear_def)
qed

end
