(* ===== verification/Refresh_Properties.thy ===== *)
theory Refresh_Properties
  imports Refresh_Families
begin

text \<open>
  What \<open>refreshToken\<close> does to the families: a refresh that returns replaces the token it was given,
  and a token that is presented a second time ends its family for good.
\<close>

section \<open>The steps of a refresh\<close>

lemma bind_kept_ok:
  assumes "bind m f s = (Inr y, t)" "evolves tables_kept m"
  obtains x u where "m s = (Inr x, u)" "tables_kept s u" "f x u = (Inr y, t)"
  using assms by (auto simp: bind_ok_iff dest: evolvesD)

lemma revoke_and_throw_run:
  "revoke_and_throw f now d s =
     (Inl (invalid_grant d), snd (revoke_refresh_token_family f now s))"
  by (simp add: revoke_and_throw_def revoke_refresh_token_family_def bind_def modify_def throw_def)

lemma aggregate_client: "to_aggregate e row c = Inr a \<Longrightarrow> app_client_id a = oc_client_id c"
  by (auto simp: to_aggregate_def split: sum.splits)

lemma application_of_client:
  assumes "find_application_by_client_id e client_id s = (Inr (Some a), t)"
  shows "app_client_id a = client_id" "t = s"
  using assms
  by (auto simp: find_application_by_client_id_def optional_aggregate_def bind_ok_iff aggregate_client
      split: option.splits sum.splits dest!: find_SomeD)

lemma authenticated_client:
  assumes "authenticate_application_client env client_id secret s = (Inr (c, a), t)"
  shows "tables_kept s t" "find_client client_id s = Some c" "oc_client_id c = client_id"
    "app_client_id a = client_id" "\<not> app_disabled a" "oc_disabled c \<noteq> Some True"
    "oc_client_secret c = map_option (sha256_text (oe_env env)) secret" "present secret \<noteq> None"
    "\<exists>o'. find_organization (app_owner_organization_id a) (ow_world s) = Some o' \<and> \<not> og_disabled o'"
proof -
  show kept: "tables_kept s t" by (rule evolvesD [OF kept_authentication(3) assms])
  from assms show "find_client client_id s = Some c" and "\<not> app_disabled a" "oc_disabled c \<noteq> Some True"
    "oc_client_secret c = map_option (sha256_text (oe_env env)) secret" "present secret \<noteq> None"
    by (auto simp: authenticate_application_client_def bind_ok_iff find_application_by_client_id_def
        split: option.splits)
  then show "oc_client_id c = client_id" by (auto simp: find_client_def dest: find_SomeD)
  from assms obtain u where "find_application_by_client_id (oe_env env) client_id s = (Inr (Some a), u)"
    by (auto simp: authenticate_application_client_def bind_ok_iff)
  then show "app_client_id a = client_id" by (rule application_of_client(1))
  from assms show "\<exists>o'. find_organization (app_owner_organization_id a) (ow_world s) = Some o' \<and> \<not> og_disabled o'"
    by (auto simp: authenticate_application_client_def bind_ok_iff find_application_by_client_id_def
        split: option.splits)
qed

lemma presented_token:
  assumes "present_refresh_token env input client_id secret s = (Inr (a, row), t)"
  shows "tables_kept s t" "find_refresh_token_by_hash (sha256_text (oe_env env) (xf_refresh_token input)) s = Some row"
    "xr_client_id row = client_id"
proof -
  show "tables_kept s t" by (rule evolvesD [OF kept_present assms])
  from assms obtain c a' u v where auth: "authenticate_application_client env client_id secret s = (Inr (c, a'), u)"
    and req: "require_application_by_client_id env (oc_client_id c) u = (Inr a, v)"
    and row: "find_refresh_token_by_hash (sha256_text (oe_env env) (xf_refresh_token input)) v = Some row"
    "xr_client_id row = oc_client_id c"
    by (auto simp: present_refresh_token_def bind_ok_iff)
  have "tables_kept s v"
    by (rule kept.law_trans [OF evolvesD [OF kept_authentication(3) auth] evolvesD [OF kept_authentication(4) req]])
  from tables_kept_fields [OF this] row show
    "find_refresh_token_by_hash (sha256_text (oe_env env) (xf_refresh_token input)) s = Some row"
    by (simp add: find_refresh_token_by_hash_def)
  show "xr_client_id row = client_id" using row(2) authenticated_client(3) [OF auth] by simp
qed

lemma admitted_token:
  assumes "admit_refresh_token row now s = (Inr (), t)"
  shows "t = s" "live_token row" "now < xr_expires_at row"
    "\<exists>c. find_federated_credential_for_client (xr_credential_id row) (xr_client_id row) s = Some c \<and>
       rv_audience c = xr_audience row \<and>
       detail_member (xr_claims row) realmroot_organization_claim = JStr (rv_owner_organization_id c)"
proof -
  have "t = s \<and> live_token row \<and> now < xr_expires_at row \<and>
    (\<exists>c. find_federated_credential_for_client (xr_credential_id row) (xr_client_id row) s = Some c \<and>
       rv_audience c = xr_audience row \<and>
       detail_member (xr_claims row) realmroot_organization_claim = JStr (rv_owner_organization_id c))"
    using assms
    by (auto simp: admit_refresh_token_def bind_ok_iff revoke_and_throw_run live_token_def is_eligible_audience_def
        on_world_def gets_def split: if_splits)
  then show "t = s" "live_token row" "now < xr_expires_at row"
    "\<exists>c. find_federated_credential_for_client (xr_credential_id row) (xr_client_id row) s = Some c \<and>
       rv_audience c = xr_audience row \<and>
       detail_member (xr_claims row) realmroot_organization_claim = JStr (rv_owner_organization_id c)"
    by auto
qed

lemma rotated_token:
  assumes "rotate_refresh_token env child access s = (Inr stored, t)"
  obtains created consumed access_created u where "tables_kept s u"
    "batch [insert_child (fresh_refresh_token child created), consume_parent (xr_parent_id child) consumed,
       insert_access_beside (xr_id child) (access\<lparr>xa_created_at := access_created, xa_revoked_at := None\<rparr>)] u = Inr t"
    "stored \<longleftrightarrow> length (filter (parent_is_active (xr_parent_id child)) (ow_refresh_tokens s)) = 1"
proof -
  from assms obtain a u1 b u2 c u3 where
    d: "oauth_date env s = (Inr a, u1)" "oauth_date env u1 = (Inr b, u2)" "oauth_date env u2 = (Inr c, u3)"
    and run: "batch [insert_child (fresh_refresh_token child a), consume_parent (xr_parent_id child) b,
       insert_access_beside (xr_id child) (access\<lparr>xa_created_at := c, xa_revoked_at := None\<rparr>)] u3 = Inr t"
    and stored: "stored \<longleftrightarrow> length (filter (parent_is_active (xr_parent_id child)) (ow_refresh_tokens u3)) = 1"
    unfolding rotate_refresh_token_def by (auto simp: bind_ok_iff simp del: batch.simps)
  have "tables_kept s u3"
    by (rule kept.law_trans [OF evolvesD [OF kept_clock(1) d(1)]
          kept.law_trans [OF evolvesD [OF kept_clock(1) d(2)] evolvesD [OF kept_clock(1) d(3)]]])
  with that [OF this run] stored tables_kept_fields(1) [OF this] show ?thesis by simp
qed

text \<open>What the successor of a token is made of.\<close>

definition successor_of ::
    "oauth_env \<Rightarrow> exchange_refresh_token \<Rightarrow> exchange_response \<Rightarrow> exchange_refresh_token \<Rightarrow> bool" where
  "successor_of env row response child \<longleftrightarrow>
     xr_family_id child = xr_family_id row \<and> xr_parent_id child = Some (xr_id row) \<and>
     Some (xr_token_hash child) = map_option (sha256_text (oe_env env)) (xp_refresh_token response) \<and>
     xr_client_id child = xr_client_id row \<and> xr_credential_id child = xr_credential_id row \<and>
     xr_subject child = xr_subject row \<and> xr_audience child = xr_audience row \<and> xr_claims child = xr_claims row \<and>
     xp_scope response = join_with '' '' (xr_scopes child)"

definition access_of ::
    "oauth_env \<Rightarrow> exchange_refresh_token \<Rightarrow> int \<Rightarrow> exchange_response \<Rightarrow> exchange_access_token \<Rightarrow> bool" where
  "access_of env row now response access \<longleftrightarrow>
     xa_token_hash access = sha256_text (oe_env env) (xp_access_token response) \<and>
     xa_client_id access = xr_client_id row \<and> xa_credential_id access = xr_credential_id row \<and>
     xa_subject access = xr_subject row \<and> xa_audience access = xr_audience row \<and>
     xa_expires_at access = now + 3600000 \<and> xa_revoked_at access = None \<and>
     xp_scope response = join_with '' '' (xa_scopes access)"

lemma prepared_token:
  assumes "prepare_refresh_token env client_id family_id parent input s = (Inr (token, child), t)"
  shows "tables_kept s t" "xr_family_id child = family_id" "xr_parent_id child = parent"
    "xr_token_hash child = sha256_text (oe_env env) token" "xr_client_id child = client_id"
    "xr_credential_id child = gi_credential_id input" "xr_subject child = gi_subject input"
    "xr_audience child = gi_audience input" "xr_claims child = gi_claims input" "xr_scopes child = gi_scopes input"
proof -
  show "tables_kept s t" by (rule evolvesD [OF kept_issuing(2) assms])
  show "xr_family_id child = family_id" "xr_parent_id child = parent"
    "xr_token_hash child = sha256_text (oe_env env) token" "xr_client_id child = client_id"
    "xr_credential_id child = gi_credential_id input" "xr_subject child = gi_subject input"
    "xr_audience child = gi_audience input" "xr_claims child = gi_claims input" "xr_scopes child = gi_scopes input"
    using assms by (auto simp: prepare_refresh_token_def bind_ok_iff Let_def)
qed

lemma responded:
  assumes "rotate_and_respond env input a row now s = (Inr response, t)"
  obtains child access created consumed u where "tables_kept s u" "successor_of env row response child"
    "access_of env row now response access"
    "batch [insert_child (fresh_refresh_token child created), consume_parent (Some (xr_id row)) consumed,
       insert_access_beside (xr_id child) access] u = Inr t"
    "length (filter (parent_is_active (Some (xr_id row))) (ow_refresh_tokens s)) = 1"
proof -
  let ?requested = "Some (case xf_scope input of None \<Rightarrow> join_with '' '' (xr_scopes row) | Some s \<Rightarrow> s)"
  from assms obtain scopes u1 token u2 refresh child u3 i u4 stored where
    steps: "resolve_application_token_scopes env a (xr_audience row) ?requested s = (Inr scopes, u1)"
      "issue_jwt_access_token env (grant_jwt_claims (xr_client_id row) (row_grant row scopes) now
         (now + default_expires_in_seconds * 1000)) u1 = (Inr token, u2)"
      "prepare_refresh_token env (xr_client_id row) (xr_family_id row) (Some (xr_id row)) (row_grant row scopes) u2 =
         (Inr (refresh, child), u3)"
      "oauth_id env u3 = (Inr i, u4)"
    and rotate: "rotate_refresh_token env child (access_record env i (xr_client_id row) (row_grant row scopes) token
        (now + default_expires_in_seconds * 1000)) u4 = (Inr True, t)"
    and response: "response = \<lparr>xp_access_token = token, xp_issued_token_type = access_token_type,
        xp_expires_in = default_expires_in_seconds, xp_scope = join_with '' '' scopes, xp_refresh_token = Some refresh\<rparr>"
    unfolding rotate_and_respond_def Let_def
    by (auto simp: bind_ok_iff revoke_and_throw_run split: if_splits)
  note prepared = prepared_token [OF steps(3)]
  have kept: "tables_kept s u4"
    by (rule kept.law_trans [OF evolvesD [OF kept_scopes(2) steps(1)]
          kept.law_trans [OF evolvesD [OF kept_issuing(1) steps(2)]
            kept.law_trans [OF prepared(1) evolvesD [OF kept_clock(2) steps(4)]]]])
  from rotate obtain c d e u where u: "tables_kept u4 u"
    "batch [insert_child (fresh_refresh_token child c), consume_parent (xr_parent_id child) d,
       insert_access_beside (xr_id child) ((access_record env i (xr_client_id row) (row_grant row scopes) token
        (now + default_expires_in_seconds * 1000))\<lparr>xa_created_at := e, xa_revoked_at := None\<rparr>)] u = Inr t"
    "True \<longleftrightarrow> length (filter (parent_is_active (xr_parent_id child)) (ow_refresh_tokens u4)) = 1"
    by (rule rotated_token)
  show ?thesis
  proof (rule that)
    show "tables_kept s u" by (rule kept.law_trans [OF kept u(1)])
    show "successor_of env row response child"
      using prepared by (simp add: successor_of_def response row_grant_def)
    show "access_of env row now response ((access_record env i (xr_client_id row) (row_grant row scopes) token
        (now + default_expires_in_seconds * 1000))\<lparr>xa_created_at := e, xa_revoked_at := None\<rparr>)"
      by (simp add: access_of_def access_record_def response row_grant_def default_expires_in_seconds_def)
    show "batch [insert_child (fresh_refresh_token child c), consume_parent (Some (xr_id row)) d,
       insert_access_beside (xr_id child) ((access_record env i (xr_client_id row) (row_grant row scopes) token
        (now + default_expires_in_seconds * 1000))\<lparr>xa_created_at := e, xa_revoked_at := None\<rparr>)] u = Inr t"
      using u(2) prepared(3) by simp
    show "length (filter (parent_is_active (Some (xr_id row))) (ow_refresh_tokens s)) = 1"
      using u(3) prepared(3) tables_kept_fields(1) [OF kept] by simp
  qed
qed

lemma inserted_access_token:
  "insert_exchange_access_token x s = Inr s' \<Longrightarrow> ow_access_tokens s' = ow_access_tokens s @ [x]"
  by (auto simp: insert_exchange_access_token_def)

lemma refreshed:
  assumes "refresh_token env input client_id secret s = (Inr response, t)"
  obtains row a now u where
    "find_refresh_token_by_hash (sha256_text (oe_env env) (xf_refresh_token input)) s = Some row"
    "xr_client_id row = client_id" "live_token row" "now < xr_expires_at row" "tables_kept s u"
    "rotate_and_respond env input a row now u = (Inr response, t)"
    "now = env_clock (oe_env env) (w_clock_ticks (ow_world u) - 1)"
proof -
  from assms obtain a row u1 now u2 u3 where steps:
    "present_refresh_token env input client_id secret s = (Inr (a, row), u1)"
    "oauth_date env u1 = (Inr now, u2)" "admit_refresh_token row now u2 = (Inr (), u3)"
    "rotate_and_respond env input a row now u3 = (Inr response, t)"
    unfolding refresh_token_def by (elim bind_ok_elim) (auto split: prod.splits elim!: bind_ok_elim)
  note admitted = admitted_token [OF steps(3)]
  have "tables_kept s u2"
    by (rule kept.law_trans [OF presented_token(1) [OF steps(1)] evolvesD [OF kept_clock(1) steps(2)]])
  with admitted steps presented_token(2,3) [OF steps(1)] show ?thesis
    by (intro that [of row now u3 a]) (auto simp: oauth_date_run)
qed

section \<open>A refresh replaces the token\<close>

text \<open>
  C12. A refresh that returns was given a live, unexpired token of the client; in the tables it
  leaves, that token is consumed, the token it returned is the only live one of the family, made
  of the old one, and the access token is stored with it, for an hour.
\<close>

theorem refresh_replaces_token:
  assumes "families_linear (s, families)" "refresh_token env input client_id secret s = (Inr response, t)"
  shows "\<exists>row child access n. let now = env_clock (oe_env env) n in
     find_refresh_token_by_hash (sha256_text (oe_env env) (xf_refresh_token input)) s = Some row \<and>
     xr_client_id row = client_id \<and> live_token row \<and> now < xr_expires_at row \<and>
     live_in_family (xr_family_id row) t = [child] \<and> successor_of env row response child \<and>
     access_of env row now response access \<and>
     ow_access_tokens t = ow_access_tokens s @ [access] \<and>
     (\<forall>r\<in>set (ow_refresh_tokens t). xr_id r = xr_id row \<longrightarrow> xr_consumed_at r \<noteq> None) \<and>
     families_linear (t, families)"
proof -
  from assms(2) obtain row a now u where row:
    "find_refresh_token_by_hash (sha256_text (oe_env env) (xf_refresh_token input)) s = Some row"
    "xr_client_id row = client_id" "live_token row" "now < xr_expires_at row" "tables_kept s u"
    "rotate_and_respond env input a row now u = (Inr response, t)"
    "now = env_clock (oe_env env) (w_clock_ticks (ow_world u) - 1)"
    by (rule refreshed)
  from row(6) obtain child access created consumed v where child: "tables_kept u v"
    "successor_of env row response child" "access_of env row now response access"
    and run: "batch [insert_child (fresh_refresh_token child created), consume_parent (Some (xr_id row)) consumed,
       insert_access_beside (xr_id child) access] v = Inr t"
    and one: "length (filter (parent_is_active (Some (xr_id row))) (ow_refresh_tokens u)) = 1"
    by (rule responded)
  have kept: "tables_kept s v" by (rule kept.law_trans [OF row(5) child(1)])
  note same = tables_kept_fields [OF kept]
  have parent: "xr_parent_id child = Some (xr_id row)" "xr_family_id child = xr_family_id row"
    using child(2) by (simp_all add: successor_of_def)
  have member: "row \<in> set (ow_refresh_tokens s)"
    using row(1) by (auto simp: find_refresh_token_by_hash_def dest: find_SomeD)
  have key: "p = row" if "p \<in> set (ow_refresh_tokens s)" "xr_id p = xr_id row" for p
    using distinct_key_eq [of xr_id "ow_refresh_tokens s" p row] that member assms(1) by (simp add: families_linear_def)
  have linear: "families_linear (v, families)"
    using assms(1) same(1) by (simp add: families_linear_def live_in_family_def family_tokens_def)
  have linear_t: "families_linear (t, families)"
    by (rule rotation_linear(1) [OF linear _ run [folded parent(1)]]) (use key same(1) parent in auto)
  let ?hit = "parent_is_active (Some (xr_id row))"
  have active: "list_ex ?hit (ow_refresh_tokens v)"
    using row(3) member same(1) by (auto simp: list_ex_iff parent_is_active_def live_token_def)
  from rotation_rows [OF run [folded parent(1)]] active parent(1) obtain w where
    w: "insert_exchange_refresh_token (fresh_refresh_token child created) v = Inr w"
    and t: "ow_refresh_tokens t = update_where ?hit (\<lambda>r. r\<lparr>xr_consumed_at := Some consumed\<rparr>) (ow_refresh_tokens w)"
    and acc: "insert_exchange_access_token access (w\<lparr>ow_refresh_tokens := ow_refresh_tokens t\<rparr>) = Inr t"
    by auto
  note new = inserted_refresh_token [OF w]
  have "\<not> ?hit (fresh_refresh_token child created)"
    using new(2) member same(1) by (auto simp: parent_is_active_def image_iff)
  then have "fresh_refresh_token child created \<in> set (live_in_family (xr_family_id row) t)"
    unfolding live_in_family_update [OF t] new(1) using parent(2) by simp
  moreover have "length (live_in_family (xr_family_id row) t) \<le> 1"
    using linear_t by (auto simp: families_linear_def)
  ultimately have only: "live_in_family (xr_family_id row) t = [fresh_refresh_token child created]"
    by (cases "live_in_family (xr_family_id row) t") auto
  have "successor_of env row response (fresh_refresh_token child created)"
    using child(2) by (simp add: successor_of_def fresh_refresh_token_def)
  moreover have "ow_access_tokens t = ow_access_tokens s @ [access]"
    using inserted_access_token [OF acc] new(4) same(2) by simp
  moreover have "\<forall>r\<in>set (ow_refresh_tokens t). xr_id r = xr_id row \<longrightarrow> xr_consumed_at r \<noteq> None"
  proof (intro ballI impI)
    fix r assume r: "r \<in> set (ow_refresh_tokens t)" "xr_id r = xr_id row"
    then obtain q where q: "q \<in> set (ow_refresh_tokens w)" "r = (if ?hit q then q\<lparr>xr_consumed_at := Some consumed\<rparr> else q)"
      by (auto simp: t update_where_def)
    with r(2) have "xr_id q = xr_id row" by (simp split: if_splits)
    with q(1) new(1,2) member same(1) have "q \<in> set (ow_refresh_tokens s)" by (auto simp: image_iff)
    with key \<open>xr_id q = xr_id row\<close> have "q = row" by blast
    with q(2) row(3) show "xr_consumed_at r \<noteq> None" by (simp add: parent_is_active_def live_token_def)
  qed
  ultimately show ?thesis using row child(3) only linear_t unfolding Let_def by blast
qed

section \<open>A replay ends the family\<close>

lemma refreshed_family_live:
  assumes "refresh_token env input client_id secret s = (Inr response, t)"
    "find_refresh_token_by_hash (sha256_text (oe_env env) (xf_refresh_token input)) s = Some row"
  shows "live_in_family (xr_family_id row) s \<noteq> []"
proof -
  from assms(1) obtain r where
    "find_refresh_token_by_hash (sha256_text (oe_env env) (xf_refresh_token input)) s = Some r" "live_token r"
    by (rule refreshed)
  with assms(2) show ?thesis
    by (auto simp: live_in_family_def family_tokens_def find_refresh_token_by_hash_def filter_empty_conv dest: find_SomeD)
qed

text \<open>
  C11. When a consumed token is presented by its client the answer is the reuse error, every
  token of its family is revoked, and in every later state, however the statements of other
  requests interleave, no request with a token of that family returns.
\<close>

theorem replay_ends_family:
  assumes "families_linear (s, families)" "present_refresh_token env input client_id secret s = (Inr (a, row), u)"
    "xr_consumed_at row \<noteq> None"
    "refresh_step\<^sup>*\<^sup>* (snd (refresh_token env input client_id secret s), families) (t, families')"
    "find_refresh_token_by_hash (sha256_text (oe_env env') (xf_refresh_token input')) t = Some row'"
    "xr_family_id row' = xr_family_id row"
  shows "fst (refresh_token env input client_id secret s) = Inl (invalid_grant ''Refresh token reuse was detected.'') \<and>
     isl (fst (refresh_token env' input' client_id' secret' t))"
proof -
  obtain now v where now: "oauth_date env u = (Inr now, v)" by (simp add: oauth_date_run)
  have run: "refresh_token env input client_id secret s =
      (Inl (invalid_grant ''Refresh token reuse was detected.''), snd (revoke_refresh_token_family (xr_family_id row) now v))"
    unfolding refresh_token_def using assms(2,3) now
    by (simp add: admit_refresh_token_def revoke_and_throw_run bind_def)
  let ?w = "snd (revoke_refresh_token_family (xr_family_id row) now v)"
  have "tables_kept s v"
    by (rule kept.law_trans [OF presented_token(1) [OF assms(2)] evolvesD [OF kept_clock(1) now]])
  note same = tables_kept_fields(1) [OF this]
  have linear: "families_linear (?w, families)"
  proof -
    have "families_linear (v, families)"
      using assms(1) same by (simp add: families_linear_def live_in_family_def family_tokens_def)
    then have "families_advance (v, families) (?w, families)"
      by (rule refresh_step_advances [OF family_revocation])
    then show ?thesis by (simp add: families_advance_def)
  qed
  have dead: "live_in_family (xr_family_id row) ?w = []"
    by (auto simp: live_in_family_def family_tokens_def revoke_refresh_token_family_def modify_def live_token_def
        update_where_def filter_empty_conv)
  have "row \<in> set (ow_refresh_tokens s)"
    using presented_token(2) [OF assms(2)] by (auto simp: find_refresh_token_by_hash_def dest: find_SomeD)
  then have "xr_family_id row \<in> families" using assms(1) by (auto simp: families_linear_def)
  with refresh_steps_advance [OF _ linear, of "(t, families')"] assms(4) dead
  have "live_in_family (xr_family_id row') t = []" by (auto simp: run families_advance_def assms(6))
  then have "isl (fst (refresh_token env' input' client_id' secret' t))"
    using refreshed_family_live [OF _ assms(5), of client_id' secret']
    by (cases "refresh_token env' input' client_id' secret' t"; cases "fst (refresh_token env' input' client_id' secret' t)")
      auto
  with run show ?thesis by simp
qed

end
