(* ===== verification/Exchange_Properties.thy ===== *)
theory Exchange_Properties
  imports Refresh_Properties
begin

text \<open>
  What the tokens of an exchange rest on: for a user or an Agent, a policy of the application and
  the authority of the user; for an application, the signed assertion of a federated credential;
  and what introspection tells of a token.
\<close>

section \<open>Reading the tables\<close>

definition tables_still :: "oauth_world \<Rightarrow> oauth_world \<Rightarrow> bool" where
  "tables_still s t \<longleftrightarrow> (\<exists>i c. t = s\<lparr>ow_world := (ow_world s)\<lparr>w_ids_taken := i, w_clock_ticks := c\<rparr>\<rparr>)"

interpretation still: step_law tables_still
proof
  show "tables_still s s" for s
    unfolding tables_still_def by (rule exI [of _ "w_ids_taken (ow_world s)"], rule exI [of _ "w_clock_ticks (ow_world s)"]) simp
  show "tables_still s u" if "tables_still s t" "tables_still t u" for s t u
    using that unfolding tables_still_def by (elim exE) (simp, intro exI, rule refl)
qed

lemma still_reads [law_intros]: "evolves tables_still (on_world (gets f))"
  by (rule evolvesI) (auto simp: gets_def intro: still.law_refl)

lemma still_clock [law_intros]:
  "evolves tables_still (oauth_date env)" "evolves tables_still (oauth_id env)" "evolves tables_still (oauth_random env)"
proof -
  have "\<exists>j d. s\<lparr>ow_world := (ow_world s)\<lparr>w_clock_ticks := c\<rparr>\<rparr> = s\<lparr>ow_world := (ow_world s)\<lparr>w_ids_taken := j, w_clock_ticks := d\<rparr>\<rparr>"
    "\<exists>j d. s\<lparr>ow_world := (ow_world s)\<lparr>w_ids_taken := c\<rparr>\<rparr> = s\<lparr>ow_world := (ow_world s)\<lparr>w_ids_taken := j, w_clock_ticks := d\<rparr>\<rparr>"
    for s :: oauth_world and c
    by (rule exI [of _ "w_ids_taken (ow_world s)"], rule exI [of _ c], simp)
      (rule exI [of _ c], rule exI [of _ "w_clock_ticks (ow_world s)"], simp)
  then show "evolves tables_still (oauth_date env)" "evolves tables_still (oauth_id env)"
    "evolves tables_still (oauth_random env)"
    by (auto intro!: evolvesI simp: oauth_date_run oauth_id_run oauth_random_run tables_still_def)
qed

lemma still_lookup [law_intros]:
  "evolves tables_still (find_application_by_client_id e client_id)"
  "evolves tables_still (user_banned subject)"
  "evolves tables_still (require_active_delegated_user subject)"
  "evolves tables_still (authenticate_application_client env client_id secret)"
  "evolves tables_still (resolve_application_token_scopes_for_resource env application resource requested)"
  "evolves tables_still (require_visible r application err)"
  "evolves tables_still (organization_claim claims)"
  "evolves tables_still (find_subject_lease env token)"
  "evolves tables_still (require_source_request resource identity lease)"
  "evolves tables_still (issue_jwt_access_token env input)"
  unfolding find_application_by_client_id_def user_banned_def require_active_delegated_user_def
    authenticate_application_client_def resolve_application_token_scopes_for_resource_def require_visible_def
    organization_claim_def find_subject_lease_def require_source_request_def issue_jwt_access_token_def Let_def
  by (intro law_intros)+

lemma still_actor [law_intros]:
  "evolves tables_still (require_active_delegated_agent env input claims resource owner controller organization actor)"
  "evolves tables_still (delegated_actor env input claims source target application subject organization)"
  "evolves tables_still (delegated_response env input client_id subject scopes organization actor' expiry)"
  unfolding delegated_actor_def require_active_delegated_agent_def require_agent_resources_def
    find_source_application_def delegated_response_def Let_def
  by (intro law_intros | simp split: option.split)+

lemma still_world:
  assumes "tables_still s t"
  shows "find_resource_by_resource_url url (ow_world t) = find_resource_by_resource_url url (ow_world s)"
    "user_effective_resource_scopes u r now tenant (ow_world t) = user_effective_resource_scopes u r now tenant (ow_world s)"
    "application_effective_resource_scopes i o' r now (ow_world t) = application_effective_resource_scopes i o' r now (ow_world s)"
    "w_users (ow_world t) = w_users (ow_world s)" "ow_banned t = ow_banned s"
proof -
  obtain i c where t: "t = s\<lparr>ow_world := (ow_world s)\<lparr>w_ids_taken := i, w_clock_ticks := c\<rparr>\<rparr>"
    using assms by (auto simp: tables_still_def)
  show "find_resource_by_resource_url url (ow_world t) = find_resource_by_resource_url url (ow_world s)"
    by (simp add: t find_resource_by_resource_url_def)
  show "w_users (ow_world t) = w_users (ow_world s)" "ow_banned t = ow_banned s" by (simp_all add: t)
  show "application_effective_resource_scopes i o' r now (ow_world t) = application_effective_resource_scopes i o' r now (ow_world s)"
    for i by (simp add: t application_effective_resource_scopes_def list_active_application_scope_entitlements_def)
  have fields: "w_resources (ow_world t) = w_resources (ow_world s)"
    "w_organization_roles (ow_world t) = w_organization_roles (ow_world s)"
    by (simp_all add: t)
  have roles: "resolve_organization_membership_scopes o' rs i (ow_world t) = resolve_organization_membership_scopes o' rs i (ow_world s)"
    for o' rs i
    unfolding resolve_organization_membership_scopes_def membership_scopes_for_resource_def dynamic_role_scopes_def
      list_organization_role_scopes_def find_resource_def fields ..
  have rows: "list_user_memberships u (ow_world t) = list_user_memberships u (ow_world s)"
    "list_active_user_scope_entitlements u i now (ow_world t) = list_active_user_scope_entitlements u i now (ow_world s)" for i
    by (simp_all add: t list_user_memberships_def list_active_user_scope_entitlements_def)
  show "user_effective_resource_scopes u r now tenant (ow_world t) = user_effective_resource_scopes u r now tenant (ow_world s)"
    unfolding user_effective_resource_scopes_def roles rows ..
qed

section \<open>Delegated tokens\<close>

text \<open>
  What lets a scope into a delegated token: a mapping of a policy of the application from a scope
  the subject token has and its resource declares, the user's own authority on the target, and
  the application's.
\<close>

definition delegation_allows :: "json \<Rightarrow> application \<Rightarrow> string \<Rightarrow> int \<Rightarrow> int \<Rightarrow> world \<Rightarrow> string \<Rightarrow> bool" where
  "delegation_allows claims application audience now now' w scope \<longleftrightarrow>
     (\<exists>subject source_audience source target mappings m user_scopes.
        member_text claims ''sub'' = Some subject \<and>
        read_single_audience (detail_member claims ''aud'') = Some source_audience \<and>
        find_resource_by_resource_url source_audience w = Some source \<and>
        find_resource_by_resource_url audience w = Some target \<and>
        active_resource_visible_to_organization source (app_owner_organization_id application) \<and>
        active_resource_visible_to_organization target (app_owner_organization_id application) \<and>
        Resource_policy (rs_id source) (rs_id target) mappings \<in> set (app_policies application) \<and>
        m \<in> set mappings \<and> sm_target_scope m = scope \<and>
        sm_source_scope m \<in> set (parse_space_separated_claim (detail_member claims ''scope'')) \<and>
        sm_source_scope m \<in> set (declared_scope_values source) \<and>
        (scope \<in> set (app_oidc_scopes application) \<or>
         scope \<in> set (application_effective_resource_scopes (app_id application)
           (app_owner_organization_id application) target now w)) \<and>
        user_effective_resource_scopes subject target now'
          (Some (member_text claims realmroot_organization_claim)) w = Inr user_scopes \<and>
        scope \<in> set user_scopes)"

lemma resource_policies_iff:
  "(source, target, mappings) \<in> set (resource_policies application) \<longleftrightarrow>
     Resource_policy source target mappings \<in> set (app_policies application)"
  by (auto simp: resource_policies_def split: exchange_policy.splits intro!: bexI)

lemma delegated_user:
  assumes "require_active_delegated_user subject s = (Inr (), t)"
  shows "t = s" "subject \<in> set (w_users (ow_world s))" "subject \<notin> set (ow_banned s)"
  using assms
  by (auto simp: require_active_delegated_user_def user_banned_def bind_ok_iff catch_def bind_def gets_def require_def
      ret_def throw_def split: if_splits prod.splits sum.splits)

lemma application_scopes:
  assumes "resolve_application_token_scopes_for_resource env application resource requested s = (Inr scopes, t)"
  shows "\<exists>n. \<forall>scope\<in>set scopes. scope \<in> set (app_oidc_scopes application) \<or>
     scope \<in> set (application_effective_resource_scopes (app_id application) (app_owner_organization_id application)
       resource (env_clock (oe_env env) n) (ow_world s))"
proof -
  from assms obtain now u where u: "oauth_date env s = (Inr now, u)"
    "\<forall>scope\<in>set scopes. scope \<in> set (app_oidc_scopes application) \<or>
       scope \<in> set (application_effective_resource_scopes (app_id application) (app_owner_organization_id application)
         resource now (ow_world u))"
    by (auto simp: resolve_application_token_scopes_for_resource_def bind_ok_iff)
  then show ?thesis
    using still_world(3) [OF evolvesD [OF still_clock(1) u(1)]] by (auto simp: oauth_date_run)
qed

lemma token_lifetime:
  "token_expires_at now delegated_user_expires_in_seconds (Some expiry) div 1000 \<le> expiry"
  "token_expires_at now delegated_user_expires_in_seconds (Some expiry) div 1000 \<le> now div 1000 + 300"
  "remaining_seconds now (token_expires_at now delegated_user_expires_in_seconds (Some expiry)) \<le> 300"
  by (auto simp: token_expires_at_def delegated_user_expires_in_seconds_def remaining_seconds_def min_def)

lemma delegated_answer:
  assumes "delegated_response env input client_id subject scopes organization actor expiry s = (Inr response, t)"
  shows "\<exists>now payload. xp_scope response = join_with '' '' scopes \<and> xp_refresh_token response = None \<and>
     xp_expires_in response \<le> 300 \<and> oe_sign env payload ''at+jwt'' = Inr (xp_access_token response) \<and>
     detail_member payload ''sub'' = JStr subject \<and> detail_member payload ''aud'' = JStr (xq_audience input) \<and>
     detail_member payload ''scope'' = JStr (join_with '' '' scopes) \<and>
     (\<exists>e. detail_member payload ''exp'' = JNum e \<and> e \<le> expiry \<and> e \<le> env_clock (oe_env env) now div 1000 + 300)"
proof -
  from assms obtain now u where now: "oauth_date env s = (Inr now, u)"
    and rest: "bind (issue_jwt_access_token env
       \<lparr>jc_client_id = client_id, jc_subject = subject, jc_audience = xq_audience input, jc_scopes = scopes,
        jc_claims = JObj (case organization of None \<Rightarrow> [] | Some o' \<Rightarrow> [(realmroot_organization_claim, JStr o')]),
        jc_actor = actor, jc_issued_at = now,
        jc_expires_at = token_expires_at now delegated_user_expires_in_seconds (Some expiry)\<rparr>) (\<lambda>access_token.
     ret \<lparr>xp_access_token = access_token, xp_issued_token_type = access_token_type,
          xp_expires_in = remaining_seconds now (token_expires_at now delegated_user_expires_in_seconds (Some expiry)),
          xp_scope = join_with '' '' scopes, xp_refresh_token = None\<rparr>) u = (Inr response, t)"
    unfolding delegated_response_def Let_def by (rule bind_ok_elim)
  then obtain jti v token where token: "oauth_random env u = (Inr jti, v)"
    "oe_sign env (jwt_payload env \<lparr>jc_client_id = client_id, jc_subject = subject, jc_audience = xq_audience input,
        jc_scopes = scopes,
        jc_claims = JObj (case organization of None \<Rightarrow> [] | Some o' \<Rightarrow> [(realmroot_organization_claim, JStr o')]),
        jc_actor = actor, jc_issued_at = now,
        jc_expires_at = token_expires_at now delegated_user_expires_in_seconds (Some expiry)\<rparr> jti) ''at+jwt'' = Inr token"
    "response = \<lparr>xp_access_token = token, xp_issued_token_type = access_token_type,
          xp_expires_in = remaining_seconds now (token_expires_at now delegated_user_expires_in_seconds (Some expiry)),
          xp_scope = join_with '' '' scopes, xp_refresh_token = None\<rparr>"
    unfolding issue_jwt_access_token_def by (auto simp: bind_ok_iff)
  have now: "now = env_clock (oe_env env) (w_clock_ticks (ow_world s))" using now by (simp add: oauth_date_run)
  show ?thesis
    by (rule exI [of _ "w_clock_ticks (ow_world s)"], rule exI, intro conjI, use token(3) in simp, use token(3) in simp,
        use token(3) token_lifetime(3) in simp, use token(2,3) in simp)
      (use token_lifetime [of now expiry] now in \<open>auto simp: jwt_payload_def Let_def detail_member_def realmroot_organization_claim_def
        split: option.splits\<close>)
qed

lemma delegated_steps:
  assumes "exchange_delegated_user_token env input claims client_id application s = (Inr response, t)"
  obtains subject source_audience expiry d u1 u2 u3 u4 u5 source target mappings app_scopes actor now user_scopes scopes
  where
    "member_text claims ''sub'' = Some subject"
    "read_single_audience (detail_member claims ''aud'') = Some source_audience"
    "read_number (detail_member claims ''exp'') = Some expiry"
    "oauth_date env s = (Inr d, u1)" "require_active_delegated_user subject u1 = (Inr (), u2)"
    "find_resource_by_resource_url source_audience (ow_world u2) = Some source"
    "active_resource_visible_to_organization source (app_owner_organization_id application)"
    "find_resource_by_resource_url (xq_audience input) (ow_world u2) = Some target"
    "active_resource_visible_to_organization target (app_owner_organization_id application)"
    "(rs_id source, rs_id target, mappings) \<in> set (resource_policies application)"
    "resolve_application_token_scopes_for_resource env application target (xq_scope input) u2 = (Inr app_scopes, u3)"
    "delegated_actor env input claims source target application subject
       (member_text claims realmroot_organization_claim) u3 = (Inr actor, u4)"
    "oauth_date env u4 = (Inr now, u5)"
    "user_effective_resource_scopes subject target now (Some (member_text claims realmroot_organization_claim))
       (ow_world u5) = Inr user_scopes"
    "scopes = filter (\<lambda>s. s \<in> set (mapped_target_scopes mappings
       (parse_space_separated_claim (detail_member claims ''scope'')) source) \<and> s \<in> set user_scopes) app_scopes"
    "scopes \<noteq> []" "''offline_access'' \<notin> set scopes"
    "delegated_response env input client_id subject scopes (member_text claims realmroot_organization_claim) actor
       expiry u5 = (Inr response, t)"
proof -
  from assms obtain subject source_audience expiry where
    claims: "member_text claims ''sub'' = Some subject"
      "read_single_audience (detail_member claims ''aud'') = Some source_audience"
      "read_number (detail_member claims ''exp'') = Some expiry"
    by (auto simp: exchange_delegated_user_token_def split: option.splits)
  show thesis
    using assms
    unfolding exchange_delegated_user_token_def claims option.case prod.case require_visible_def organization_claim_def
      Let_def member_text_def [of claims realmroot_organization_claim, symmetric]
    apply (elim bind_ok_elim, clarsimp)
    subgoal for xa ua uc xf xh a aa b xm um xp up xq uq xs
      by (rule that [OF claims, of xa ua uc xf xh b xm um xp up xq uq xs
            "filter (\<lambda>s. s \<in> set (mapped_target_scopes b
              (parse_space_separated_claim (detail_member claims ''scope'')) xf) \<and> s \<in> set xs) xm"])
        (assumption | rule refl | (drule find_SomeD, clarsimp) | (simp only: set_filter, blast))+
    done
qed


section \<open>Tokens for an application\<close>

lemma verified_subject:
  assumes "verify_subject_token env assertion credential s = (Inr (), t)"
  obtains alg key now where "tables_still s t" "oauth_date env s = (Inr now, t)"
    "audience_matches (detail_member (jw_payload assertion) ''aud'') (rv_audience credential)"
    "alg \<in> {''RS256'', ''ES256''}" "member_text (jw_header assertion) ''alg'' = Some alg"
    "select_credential_jwk env credential (member_text (jw_header assertion) ''kid'') alg = Inr key"
    "oe_verify_signature env key alg (jw_signature assertion) (jw_signing_input assertion) = Some True"
    "\<exists>exp. read_number (detail_member (jw_payload assertion) ''exp'') = Some exp \<and> now div 1000 < exp"
proof -
  from assms obtain now u where now: "oauth_date env s = (Inr now, u)"
    and rest: "audience_matches (detail_member (jw_payload assertion) ''aud'') (rv_audience credential)" "u = t"
      "\<exists>exp. read_number (detail_member (jw_payload assertion) ''exp'') = Some exp \<and> now div 1000 < exp"
      "\<exists>alg. read_string (detail_member (jw_header assertion) ''alg'') = Some alg \<and> alg \<in> {''RS256'', ''ES256''} \<and>
         verify_signature env assertion credential alg = Inr ()"
    unfolding verify_subject_token_def Let_def
    by (auto simp: bind_ok_iff split: option.splits if_splits)
  then obtain alg where alg: "member_text (jw_header assertion) ''alg'' = Some alg" "alg \<in> {''RS256'', ''ES256''}"
    "verify_signature env assertion credential alg = Inr ()"
    by (auto simp: member_text_def)
  then obtain key where
    "select_credential_jwk env credential (member_text (jw_header assertion) ''kid'') alg = Inr key"
    "oe_verify_signature env key alg (jw_signature assertion) (jw_signing_input assertion) = Some True"
    by (auto simp: verify_signature_def member_text_def split: sum.splits option.splits bool.splits)
  with that now rest alg evolvesD [OF still_clock(1) now] show thesis by blast
qed

lemma selected_key:
  assumes "select_credential_jwk env credential kid alg = Inr key"
  shows "\<exists>keys. credential_keys env credential = Inr (Some keys) \<and> key \<in> set keys \<and> key_fits kid alg key"
  using assms by (auto simp: select_credential_jwk_def split: sum.splits option.splits if_splits dest: find_SomeD)

definition federated_by :: "string \<Rightarrow> string \<Rightarrow> string \<Rightarrow> resolved_credential \<Rightarrow> oauth_world \<Rightarrow> bool" where
  "federated_by client_id issuer subject credential s \<longleftrightarrow>
     (\<exists>c a r. c \<in> set (ow_credentials s) \<and> a \<in> set (ow_applications s) \<and> r \<in> set (w_resources (ow_world s)) \<and>
        credential = resolve c a r \<and> fc_enabled c \<and> fc_issuer c = issuer \<and> subject_matches (fc_subject c) subject \<and>
        apl_id a = fc_application_id c \<and> apl_oauth_client_id a = client_id \<and> \<not> apl_disabled a \<and>
        rs_id r = fc_audience_resource_id c \<and> rs_enabled r)"

lemma resolved_credential:
  assumes "resolve_credential client_id issuer subject s = (Inr credential, t)"
  shows "t = s" "federated_by client_id issuer subject credential s"
proof -
  have ok: "t = s \<and> credential \<in> set (find_federated_credentials client_id issuer s) \<and>
      subject_matches (rv_subject credential) subject"
    using assms by (auto simp: resolve_credential_def bind_ok_iff dest: find_SomeD)
  then show "t = s" by simp
  from ok obtain c a r where "credential = resolve c a r" "c \<in> set (ow_credentials s)" "a \<in> set (ow_applications s)"
    "r \<in> set (w_resources (ow_world s))" "fc_enabled c" "fc_issuer c = issuer" "apl_id a = fc_application_id c"
    "apl_oauth_client_id a = client_id" "\<not> apl_disabled a" "rs_id r = fc_audience_resource_id c" "rs_enabled r"
    by (auto simp: find_federated_credentials_def resolved_credentials_def)
  moreover from this(1) ok have "subject_matches (fc_subject c) subject" by (simp add: resolve_def)
  ultimately show "federated_by client_id issuer subject credential s"
    unfolding federated_by_def by blast
qed

definition access_tokens_kept :: "oauth_world \<Rightarrow> oauth_world \<Rightarrow> bool" where
  "access_tokens_kept s t \<longleftrightarrow> ow_access_tokens t = ow_access_tokens s"

interpretation access_kept: step_law access_tokens_kept
  by unfold_locales (simp_all add: access_tokens_kept_def)

lemma access_kept_refresh: "evolves access_tokens_kept (issue_refresh_token env client_id family_id input)"
proof -
  have still: "evolves access_tokens_kept (oauth_date env)" "evolves access_tokens_kept (oauth_id env)"
    "evolves access_tokens_kept (oauth_random env)"
    by (auto intro!: evolvesI simp: oauth_date_run oauth_id_run oauth_random_run access_tokens_kept_def)
  have insert: "evolves access_tokens_kept (atomically (insert_exchange_refresh_token x))" for x
    by (rule evolves_atomically) (auto simp: access_tokens_kept_def insert_exchange_refresh_token_def)
  have modify: "evolves access_tokens_kept (modify (\<lambda>s. s\<lparr>ow_refresh_tokens := f s\<rparr>))" for f
    by (rule evolves_modify) (simp add: access_tokens_kept_def)
  show ?thesis
    unfolding issue_refresh_token_def store_refresh_token_def prepare_refresh_token_def Let_def
    by (intro access_kept.law_bind access_kept.law_ret access_kept.law_gets access_kept.law_require
        access_kept.law_case_option access_kept.law_case_prod still insert modify)
qed

lemma issued_workload_token:
  assumes "issue_workload_token env client_id input exp s = (Inr response, t)"
  shows "\<exists>n row. ow_access_tokens t = ow_access_tokens s @ [row] \<and>
     xa_token_hash row = sha256_text (oe_env env) (xp_access_token response) \<and> xa_client_id row = client_id \<and>
     xa_credential_id row = gi_credential_id input \<and> xa_subject row = gi_subject input \<and>
     xa_audience row = gi_audience input \<and> xa_scopes row = gi_scopes input \<and> xa_revoked_at row = None \<and>
     xa_expires_at row = token_expires_at (env_clock (oe_env env) n) 3600 exp"
proof -
  from assms obtain now u1 token u2 i u3 u4 rt where steps: "oauth_date env s = (Inr now, u1)"
    "issue_jwt_access_token env (grant_jwt_claims client_id input now
       (token_expires_at now default_expires_in_seconds exp)) u1 = (Inr token, u2)"
    "oauth_id env u2 = (Inr i, u3)"
    "store_access_token env (access_record env i client_id input token
       (token_expires_at now default_expires_in_seconds exp)) u3 = (Inr (), u4)"
    and refresh: "(if ''offline_access'' \<in> set (gi_scopes input) then
             bind (oauth_id env) (\<lambda>family_id.
             bind (issue_refresh_token env client_id family_id input) (\<lambda>token. ret (Some token)))
           else ret None) u4 = (Inr rt, t)"
    and token: "xp_access_token response = token"
    unfolding issue_workload_token_def Let_def by (elim bind_ok_elim) auto
  have "tables_still s u3"
    by (rule still.law_trans [OF evolvesD [OF still_clock(1) steps(1)]
          still.law_trans [OF evolvesD [OF still_lookup(10) steps(2)] evolvesD [OF still_clock(2) steps(3)]]])
  then have u3: "ow_access_tokens u3 = ow_access_tokens s" by (auto simp: tables_still_def)
  define row where "row = access_record env i client_id input token (token_expires_at now default_expires_in_seconds exp)"
  obtain created where stored: "ow_access_tokens u4 = ow_access_tokens u3 @ [row\<lparr>xa_created_at := created, xa_revoked_at := None\<rparr>]"
    using steps(4) unfolding row_def [symmetric]
    by (auto simp: store_access_token_def bind_ok_iff oauth_date_run dest!: inserted_access_token)
  have "evolves access_tokens_kept (oauth_id env)"
    by (auto intro!: evolvesI simp: oauth_id_run access_tokens_kept_def)
  then have "evolves access_tokens_kept (if ''offline_access'' \<in> set (gi_scopes input) then
             bind (oauth_id env) (\<lambda>family_id.
             bind (issue_refresh_token env client_id family_id input) (\<lambda>token. ret (Some token)))
           else ret None)"
    by (intro access_kept.law_if access_kept.law_bind access_kept.law_ret access_kept_refresh)
  from evolvesD [OF this refresh] have "ow_access_tokens t = ow_access_tokens u4" by (simp add: access_tokens_kept_def)
  moreover have "now = env_clock (oe_env env) (w_clock_ticks (ow_world s))" using steps(1) by (simp add: oauth_date_run)
  ultimately show ?thesis
    using stored u3 token
    by (intro exI [of _ "w_clock_ticks (ow_world s)"] exI [of _ "row\<lparr>xa_created_at := created, xa_revoked_at := None\<rparr>"])
      (simp add: row_def access_record_def default_expires_in_seconds_def)
qed

text \<open>
  C14. A token for an application is issued on an assertion whose signature a key of an enabled
  credential of that very client verifies: the issuer is the credential's, the subject matches its
  pattern, the audience is the enabled resource it is for and the one requested, within the
  application's organization. The row stored for the token lasts an hour at most and never longer
  than the assertion.
\<close>

theorem workload_token_federated:
  assumes "exchange_workload_token env input client_id grant_types application s = (Inr response, t)"
  shows "\<exists>assertion issuer subject credential keys key alg exp n row.
     parse_jwt env (xq_subject_token input) = Inr assertion \<and>
     member_text (jw_payload assertion) ''iss'' = Some issuer \<and>
     member_text (jw_payload assertion) ''sub'' = Some subject \<and>
     federated_by client_id issuer subject credential s \<and>
     rv_owner_organization_id credential = app_owner_organization_id application \<and>
     rv_audience credential = xq_audience input \<and>
     audience_matches (detail_member (jw_payload assertion) ''aud'') (xq_audience input) \<and>
     credential_keys env credential = Inr (Some keys) \<and> key \<in> set keys \<and> alg \<in> {''RS256'', ''ES256''} \<and>
     key_fits (member_text (jw_header assertion) ''kid'') alg key \<and>
     oe_verify_signature env key alg (jw_signature assertion) (jw_signing_input assertion) = Some True \<and>
     read_number (detail_member (jw_payload assertion) ''exp'') = Some exp \<and>
     ow_access_tokens t = ow_access_tokens s @ [row] \<and>
     xa_token_hash row = sha256_text (oe_env env) (xp_access_token response) \<and>
     xa_client_id row = client_id \<and> xa_subject row = subject \<and> xa_audience row = xq_audience input \<and>
     xa_expires_at row \<le> exp * 1000 \<and> xa_expires_at row \<le> env_clock (oe_env env) n + 3600000"
proof -
  from assms obtain assertion issuer subject where jwt: "parse_jwt env (xq_subject_token input) = Inr assertion"
    "member_text (jw_payload assertion) ''iss'' = Some issuer" "member_text (jw_payload assertion) ''sub'' = Some subject"
    unfolding exchange_workload_token_def Let_def by (auto simp: bind_ok_iff split: option.splits)
  from assms obtain credential u1 u2 scopes u3 u4 where
    steps: "resolve_credential client_id issuer subject s = (Inr credential, u1)"
      "require_eligible_audience (rv_audience credential) (rv_owner_organization_id credential) u1 = (Inr (), u2)"
      "resolve_application_token_scopes env application (xq_audience input) (xq_scope input) u2 = (Inr scopes, u3)"
      "verify_subject_token env assertion credential u3 = (Inr (), u4)"
      "issue_workload_token env client_id (credential_grant credential subject scopes)
         (read_number (detail_member (jw_payload assertion) ''exp'')) u4 = (Inr response, t)"
    and checks: "rv_owner_organization_id credential = app_owner_organization_id application"
      "rv_audience credential = xq_audience input"
    unfolding exchange_workload_token_def Let_def jwt
    by (elim bind_ok_elim) (auto simp: jwt elim!: bind_ok_elim)
  note credential = resolved_credential [OF steps(1)]
  from steps(4) obtain alg key now where verified: "tables_still u3 u4"
    "audience_matches (detail_member (jw_payload assertion) ''aud'') (rv_audience credential)"
    "alg \<in> {''RS256'', ''ES256''}"
    "select_credential_jwk env credential (member_text (jw_header assertion) ''kid'') alg = Inr key"
    "oe_verify_signature env key alg (jw_signature assertion) (jw_signing_input assertion) = Some True"
    "\<exists>exp. read_number (detail_member (jw_payload assertion) ''exp'') = Some exp \<and> now div 1000 < exp"
    by (rule verified_subject)
  then obtain exp where exp: "read_number (detail_member (jw_payload assertion) ''exp'') = Some exp" by blast
  from selected_key [OF verified(4)] obtain keys where keys: "credential_keys env credential = Inr (Some keys)"
    "key \<in> set keys" "key_fits (member_text (jw_header assertion) ''kid'') alg key" by blast
  have "tables_kept s u3"
    using kept.law_trans [OF evolvesD [OF kept_scopes(4) steps(2)] evolvesD [OF kept_scopes(2) steps(3)]] credential(1) by simp
  then have tokens: "ow_access_tokens u4 = ow_access_tokens s"
    using tables_kept_fields(2) verified(1) by (auto simp: tables_still_def)
  from issued_workload_token [OF steps(5)] obtain n row where row: "ow_access_tokens t = ow_access_tokens u4 @ [row]"
    "xa_token_hash row = sha256_text (oe_env env) (xp_access_token response)" "xa_client_id row = client_id"
    "xa_subject row = subject" "xa_audience row = rv_audience credential"
    "xa_expires_at row = token_expires_at (env_clock (oe_env env) n) 3600 (Some exp)"
    by (auto simp: credential_grant_def exp)
  have "xa_expires_at row \<le> exp * 1000" "xa_expires_at row \<le> env_clock (oe_env env) n + 3600000"
    by (simp_all add: row(6) token_expires_at_def)
  with jwt credential(2) checks verified(2) [unfolded checks(2)] verified(3,5) keys exp row(1) [unfolded tokens] row(2-4)
    row(5) [unfolded checks(2)] show ?thesis by blast
qed

section \<open>Introspection\<close>

lemma authentication_reads:
  assumes "authenticate_application_client env client_id secret s = (Inr r, t)"
  shows "t = s"
  using assms
  by (cases r) (auto simp: authenticate_application_client_def bind_ok_iff find_application_by_client_id_def)

lemma map_of_filter_keys: "name \<notin> K \<Longrightarrow> map_of (filter (\<lambda>p. fst p \<notin> K) es) name = map_of es name"
  by (induction es) auto

lemma detail_member_override:
  assumes "name \<notin> set (map fst members)" "is_record v"
  shows "detail_member (override_members v members) name = detail_member v name"
proof -
  have "map_of members name = None" using assms(1) by (auto simp: map_of_eq_None_iff)
  with assms show ?thesis
    by (cases v) (simp_all add: detail_member_def override_members_def is_record_def map_add_def map_of_filter_keys split: option.split)
qed

lemma member_of_record: "detail_member v name \<noteq> JUndefined \<Longrightarrow> is_record v"
  by (cases v) (simp_all add: detail_member_def is_record_def)

lemma introspected_row:
  "detail_member (introspect_row token issuer verify row) ''active'' = JBool True \<longleftrightarrow>
     starts_with opaque_access_token_prefix token \<or>
     (\<exists>payload. verify token issuer (xa_audience row) = Some payload \<and> token_exchange_jwt_matches payload row issuer)"
proof -
  have "detail_member (override_members payload [(''active'', JBool True), (''token_type'', JStr ''Bearer'')]) ''active'' = JBool True"
    for payload
  proof -
    have "map_of (filter (\<lambda>p. fst p \<notin> {''active'', ''token_type''}) (detail_entries payload)) ''active'' = None"
      by (auto simp: map_of_eq_None_iff)
    then show ?thesis by (simp add: override_members_def detail_member_def map_add_def)
  qed
  then show ?thesis
    by (auto simp: introspect_row_def opaque_introspection_def inactive_token_def detail_member_def split: option.split)
qed

lemma introspected_members:
  assumes "detail_member (introspect_row token issuer verify row) ''active'' = JBool True"
  shows "detail_member (introspect_row token issuer verify row) ''sub'' = JStr (xa_subject row)"
    "detail_member (introspect_row token issuer verify row) ''aud'' = JStr (xa_audience row)"
    "detail_member (introspect_row token issuer verify row) ''client_id'' = JStr (xa_client_id row)"
    "detail_member (introspect_row token issuer verify row) ''scope'' = JStr (join_with '' '' (xa_scopes row))"
    "detail_member (introspect_row token issuer verify row) ''exp'' = JNum (xa_expires_at row div 1000)"
proof -
  have all: "detail_member (introspect_row token issuer verify row) name = detail_member (opaque_introspection row issuer) name"
    if name: "name \<in> {''sub'', ''aud'', ''client_id'', ''scope'', ''exp''}" for name
  proof (cases "starts_with opaque_access_token_prefix token")
    case True
    then show ?thesis by (simp add: introspect_row_def)
  next
    case False
    with assms obtain payload where payload: "verify token issuer (xa_audience row) = Some payload"
      "token_exchange_jwt_matches payload row issuer"
      by (auto simp: introspected_row)
    have "is_record payload"
      by (rule member_of_record [of _ "''iss''"]) (use payload(2) in \<open>simp add: token_exchange_jwt_matches_def\<close>)
    then show ?thesis
      using False payload name
      by (auto simp: introspect_row_def detail_member_override token_exchange_jwt_matches_def)
        (simp_all add: opaque_introspection_def detail_member_def)
  qed
  show "detail_member (introspect_row token issuer verify row) ''sub'' = JStr (xa_subject row)"
    "detail_member (introspect_row token issuer verify row) ''aud'' = JStr (xa_audience row)"
    "detail_member (introspect_row token issuer verify row) ''client_id'' = JStr (xa_client_id row)"
    "detail_member (introspect_row token issuer verify row) ''scope'' = JStr (join_with '' '' (xa_scopes row))"
    "detail_member (introspect_row token issuer verify row) ''exp'' = JNum (xa_expires_at row div 1000)"
    by (simp_all add: all) (simp_all add: opaque_introspection_def detail_member_def)
qed

text \<open>
  C15. Introspection answers that a token is active exactly when a row holds its hash, the row is
  the asking client's, not revoked and not expired by the clock, and the token is opaque or its
  verified claims are those of the row; then the answer names the subject, audience, client,
  scopes and expiry of the row. Any other answer says nothing but that the token is not active.
\<close>

theorem introspection_exact:
  assumes "introspect_token env token client_id secret issuer verify s = (Inr answer, t)"
  shows "(detail_member answer ''active'' = JBool True \<longleftrightarrow>
      (\<exists>row. find_access_token_by_hash (sha256_text (oe_env env) token) s = Some row \<and>
         xa_client_id row = client_id \<and> xa_revoked_at row = None \<and>
         env_clock (oe_env env) (w_clock_ticks (ow_world s)) < xa_expires_at row \<and>
         (starts_with opaque_access_token_prefix token \<or>
          (\<exists>payload. verify token issuer (xa_audience row) = Some payload \<and>
             token_exchange_jwt_matches payload row issuer)))) \<and>
     (if detail_member answer ''active'' = JBool True
      then (\<exists>row. find_access_token_by_hash (sha256_text (oe_env env) token) s = Some row \<and>
         detail_member answer ''sub'' = JStr (xa_subject row) \<and> detail_member answer ''aud'' = JStr (xa_audience row) \<and>
         detail_member answer ''client_id'' = JStr (xa_client_id row) \<and>
         detail_member answer ''scope'' = JStr (join_with '' '' (xa_scopes row)) \<and>
         detail_member answer ''exp'' = JNum (xa_expires_at row div 1000))
      else answer = inactive_token)"
proof -
  from assms obtain r u where auth: "authenticate_application_client env client_id secret s = (Inr r, u)"
    unfolding introspect_token_def by (rule bind_ok_elim)
  have none: "detail_member inactive_token ''active'' \<noteq> JBool True" by (simp add: inactive_token_def detail_member_def)
  show ?thesis
  proof (cases "find_access_token_by_hash (sha256_text (oe_env env) token) s")
    case None
    then have "answer = inactive_token"
      using assms auth authentication_reads [OF auth] by (auto simp: introspect_token_def bind_ok_iff)
    with None none show ?thesis by simp
  next
    case (Some row)
    show ?thesis
    proof (cases "xa_client_id row = client_id \<and> xa_revoked_at row = None \<and>
         env_clock (oe_env env) (w_clock_ticks (ow_world s)) < xa_expires_at row")
      case False
      then have "answer = inactive_token"
        using assms auth authentication_reads [OF auth] Some
        by (auto simp: introspect_token_def bind_ok_iff oauth_date_run split: if_splits)
      with Some False none show ?thesis by auto
    next
      case True
      then have answer: "answer = introspect_row token issuer verify row"
        using assms auth authentication_reads [OF auth] Some
        by (auto simp: introspect_token_def bind_ok_iff oauth_date_run split: if_splits)
      have idle: "introspect_row token issuer verify row = inactive_token"
        if "detail_member (introspect_row token issuer verify row) ''active'' \<noteq> JBool True"
        using that unfolding introspected_row by (auto simp: introspect_row_def split: option.split)
      show ?thesis
        unfolding answer using Some True introspected_row introspected_members idle by auto
    qed
  qed
qed

end
