(* ===== verification/Identity_Exchange.thy ===== *)
theory Identity_Exchange
  imports Exchange_Properties
begin

text \<open>
  What an identity token for an Agent rests on: a native token that is still leased to the Agent,
  the identity and the binding it was leased through, the membership of its controller, and the
  policy of the exchanging application.
\<close>

definition lease_backs ::
    "string \<Rightarrow> string \<Rightarrow> string \<Rightarrow> string \<Rightarrow> resource_server \<Rightarrow> int \<Rightarrow> world \<Rightarrow> bool" where
  "lease_backs token_hash subject actor_issuer actor_subject source now w \<longleftrightarrow>
     (\<exists>lease request identity aggregate_row binding.
        lease \<in> set (w_leases w) \<and> tl_token_hash lease = token_hash \<and> lease_active now lease \<and>
        find_access_request (tl_request_id lease) w = Some request \<and> rq_resource_id request = rs_id source \<and>
        find_by_issuer_subject actor_issuer actor_subject w = Some identity \<and>
        rq_agent_identity_id request = ai_id identity \<and>
        find_identity (ai_id identity) w = Some aggregate_row \<and>
        ai_status (agg_identity aggregate_row) = Identity_active \<and>
        ai_deleted_at (agg_identity aggregate_row) = None \<and>
        ai_owner_user_id (agg_identity aggregate_row) = subject \<and>
        binding \<in> set (agg_bindings aggregate_row) \<and> ab_id binding = tl_binding_id lease \<and>
        ab_status binding = ''active'' \<and> ab_revoked_at binding = None)"

definition member_of_enabled :: "string \<Rightarrow> string \<Rightarrow> world \<Rightarrow> bool" where
  "member_of_enabled organization_id subject w \<longleftrightarrow>
     (\<exists>o'. find_organization organization_id w = Some o' \<and> \<not> og_disabled o') \<and>
     find_member_by_organization_user organization_id subject w \<noteq> None"

lemma identity_steps:
  assumes "exchange_agent_identity_token_verified env input claims client_id application s = (Inr response, t)"
  obtains subject source_audience expiry actor_issuer actor_subject d u1 organization_id target u2 lease u3 source
    u4 membership scopes now u5 jti token
  where
    "member_text claims ''sub'' = Some subject"
    "read_single_audience (detail_member claims ''aud'') = Some source_audience"
    "read_number (detail_member claims ''exp'') = Some expiry"
    "actor_text (actor_of claims) ''iss'' = Some actor_issuer" "actor_text (actor_of claims) ''sub'' = Some actor_subject"
    "oauth_date env s = (Inr d, u1)"
    "member_text claims realmroot_organization_claim = Some organization_id"
    "find_application_by_client_id (oe_env env) (xq_audience input) u1 = (Inr (Some target), u2)"
    "find_subject_lease env (xq_subject_token input) u2 = (Inr (Some lease), u3)"
    "find_resource_by_resource_url source_audience (ow_world u1) = Some source"
    "identity_policy_allows application source (Some target)"
    "active_resource_visible_to_organization source (app_owner_organization_id application)"
    "target_application_eligible target application organization_id"
    "case find_access_request (tl_request_id lease) (ow_world u3) of None \<Rightarrow> False
     | Some r \<Rightarrow> rq_resource_id r = rs_id source \<and>
         Some (rq_agent_identity_id r) = map_option ai_id (find_by_issuer_subject actor_issuer actor_subject (ow_world u2))"
    "usable_identity (\<lambda>b. ab_id b = tl_binding_id lease) subject
       (find_identity_aggregate (find_by_issuer_subject actor_issuer actor_subject (ow_world u2)) (ow_world u3))"
    "require_active_delegated_user subject u3 = (Inr (), u4)"
    "case find_organization organization_id (ow_world u4) of None \<Rightarrow> False | Some o' \<Rightarrow> \<not> og_disabled o'"
    "find_member_by_organization_user organization_id subject (ow_world u4) = Some membership"
    "oauth_date env u4 = (Inr now, u5)" "oauth_random env u5 = (Inr jti, t)"
    "oe_sign env (identity_token_payload env subject target client_id (actor_issuer, actor_subject)
       (list_team_names_for_user organization_id subject (ow_world u4)) organization_id now
       (token_expires_at now delegated_user_expires_in_seconds (Some expiry)) jti) ''JWT'' = Inr token"
    "response = \<lparr>xp_access_token = token, xp_issued_token_type = id_token_type,
       xp_expires_in = remaining_seconds now (token_expires_at now delegated_user_expires_in_seconds (Some expiry)),
       xp_scope = join_with '' '' scopes, xp_refresh_token = None\<rparr>"
    "length scopes = 2" "''openid'' \<in> set scopes" "''groups'' \<in> set scopes"
    "list_all (\<lambda>s. s \<in> set (app_oidc_scopes target)) scopes"
proof -
  from assms obtain subject source_audience tid expiry aiss asub where
    claims: "member_text claims ''sub'' = Some subject"
      "read_single_audience (detail_member claims ''aud'') = Some source_audience"
      "read_number (detail_member claims ''exp'') = Some expiry"
      "actor_text (actor_of claims) ''iss'' = Some aiss" "actor_text (actor_of claims) ''sub'' = Some asub"
    and tid: "member_text claims ''jti'' = Some tid"
    by (auto simp: exchange_agent_identity_token_verified_def Let_def split: option.splits)
  show thesis
    using assms
    unfolding exchange_agent_identity_token_verified_def claims tid option.case prod.case require_visible_def
      require_source_request_def identity_scopes_def Let_def
    apply (elim bind_ok_elim, clarsimp)
    subgoal for xa ua xc ue ug xh xl xn us xx xz uz yb yc y
      by (rule that [OF claims, of xa ua xc xl ue xn ug xh us y xz uz yb yc xx]) (assumption | rule refl)+
    done
qed

lemma still_rows:
  assumes "tables_still s t"
  shows "find_access_request i (ow_world t) = find_access_request i (ow_world s)"
    "find_by_issuer_subject a b (ow_world t) = find_by_issuer_subject a b (ow_world s)"
    "find_identity i (ow_world t) = find_identity i (ow_world s)"
    "find_organization i (ow_world t) = find_organization i (ow_world s)"
    "find_member_by_organization_user i u (ow_world t) = find_member_by_organization_user i u (ow_world s)"
    "list_team_names_for_user i u (ow_world t) = list_team_names_for_user i u (ow_world s)"
    "w_leases (ow_world t) = w_leases (ow_world s)"
proof -
  obtain j c where t: "t = s\<lparr>ow_world := (ow_world s)\<lparr>w_ids_taken := j, w_clock_ticks := c\<rparr>\<rparr>"
    using assms by (auto simp: tables_still_def)
  have host: "with_host (ow_world t) = with_host (ow_world s)" by (rule ext) (simp add: t with_host_def)
  show "find_identity i (ow_world t) = find_identity i (ow_world s)"
    by (simp add: find_identity_def aggregate_def [abs_def] binding_rows_def host) (simp add: t)
qed (use assms in \<open>auto simp: tables_still_def find_access_request_def find_by_issuer_subject_def
  find_organization_def find_member_by_organization_user_def list_team_names_for_user_def\<close>)

lemma application_lookup:
  assumes "find_application_by_client_id e client_id s = (Inr a, t)" "tables_still r s"
  shows "t = s" "find_application_by_client_id e client_id r = (Inr a, r)"
proof -
  obtain j c where s: "s = r\<lparr>ow_world := (ow_world r)\<lparr>w_ids_taken := j, w_clock_ticks := c\<rparr>\<rparr>"
    using assms(2) by (auto simp: tables_still_def)
  show "t = s" "find_application_by_client_id e client_id r = (Inr a, r)"
    using assms(1) unfolding find_application_by_client_id_def joined_applications_def s
    by (auto simp: bind_ok_iff)
qed


end
