(* ===== verification/Sample_Oauth.thy ===== *)
theory Sample_Oauth
  imports Identity_Exchange Sample_Access
begin

text \<open>
  A database with two applications of one organization, a federated credential and a refresh token
  of the first, the native token of the Agent of the sample world, and the tokens an exchange is
  asked for there.
\<close>

definition grants_text :: string where "grants_text = ''grants''"

definition sample_header :: json where
  "sample_header = JObj [(''alg'', JStr ''ES256'')]"

definition sample_assertion :: json where
  "sample_assertion = JObj [(''iss'', JStr ''https://ci''), (''sub'', JStr ''repo:main''),
     (''aud'', JStr ''https://files.example''), (''exp'', JNum 500)]"

definition sample_parse_json :: "string \<Rightarrow> json option" where
  "sample_parse_json text =
     (if text = grants_text then Some (JArr [JStr token_exchange_grant_type, JStr refresh_token_grant_type])
      else if text = ''[]'' then Some (JArr [])
      else if text = ''hea'' then Some sample_header
      else if text = ''pay'' then Some sample_assertion else None)"

definition sample_oauth_env :: oauth_env where
  "sample_oauth_env = \<lparr>oe_env = sample_env\<lparr>env_parse_json := sample_parse_json\<rparr>, oe_issuer = ''https://realm.example'',
     oe_sign = (\<lambda>_ kind. Inr (''signed-'' @ kind)), oe_verifier = None, oe_decode_text = map char_of,
     oe_fetch_keys = (\<lambda>_. Inr JNull), oe_verify_signature = (\<lambda>_ _ _ _. Some True),
     oe_parse_url = (\<lambda>_. None), oe_number = (\<lambda>_. None)\<rparr>"

definition sample_client :: "string \<Rightarrow> oauth_client" where
  "sample_client i = \<lparr>oc_client_id = i, oc_client_secret = Some (sha256_text sample_env ''secret''), oc_disabled = None,
     oc_skip_consent = None, oc_grant_types = Some grants_text, oc_redirect_uris = ''[]'',
     oc_post_logout_redirect_uris = None, oc_token_endpoint_auth_method = None, oc_scopes = None, oc_public = None,
     oc_type = Some ''machine'', oc_require_pkce = None, oc_icon = None, oc_updated_at = 1\<rparr>"

definition sample_application_row :: "string \<Rightarrow> string \<Rightarrow> visibility \<Rightarrow> exchange_policy list \<Rightarrow> application_row" where
  "sample_application_row i client_id v policies = \<lparr>apl_id = i, apl_oauth_client_id = client_id, apl_slug = i, apl_name = i,
     apl_description = None, apl_homepage_url = None, apl_owner_organization_id = ''o1'', apl_visibility = v,
     apl_oidc_scopes = [''openid'', ''groups''],
     apl_resource_scopes = [\<lparr>rc_resource_server_id = ''r1'', rc_scopes = [''list'']\<rparr>], apl_consent_required = False,
     apl_disabled = False, apl_disabled_reason = None,
     apl_metadata = Some \<lparr>am_icon_url = None, am_cors_origins = None, am_custom_data = None, am_policies = Some policies\<rparr>,
     apl_created_at = 1, apl_updated_at = 1\<rparr>"

definition sample_credential :: federated_credential where
  "sample_credential = \<lparr>fc_id = ''c1'', fc_application_id = ''app1'', fc_name = ''CI'', fc_issuer = ''https://ci'',
     fc_subject = ''repo:*'', fc_audience_resource_id = ''r1'', fc_jwks_url = None,
     fc_public_keys = Some [JObj [(''kty'', JStr ''EC'')]], fc_enabled = True, fc_metadata = None, fc_created_at = 1,
     fc_updated_at = 1\<rparr>"

definition sample_refresh_row :: exchange_refresh_token where
  "sample_refresh_row = \<lparr>xr_id = ''rt1'', xr_family_id = ''f1'', xr_parent_id = None,
     xr_token_hash = sha256_text sample_env ''fatr_old'', xr_client_id = ''web'', xr_credential_id = ''c1'',
     xr_subject = ''repo:main'', xr_subject_token_issuer = ''https://ci'', xr_audience = ''https://files.example'',
     xr_scopes = [''list''], xr_claims = JObj [(realmroot_organization_claim, JStr ''o1'')], xr_expires_at = 900000,
     xr_consumed_at = None, xr_revoked_at = None, xr_created_at = 5\<rparr>"

definition sample_access_row :: exchange_access_token where
  "sample_access_row = \<lparr>xa_id = ''at1'', xa_token_hash = sha256_text sample_env ''fatx_one'', xa_client_id = ''web'',
     xa_credential_id = ''c1'', xa_subject = ''repo:main'', xa_subject_token_issuer = ''https://ci'',
     xa_audience = ''https://files.example'', xa_scopes = [''list''], xa_claims = JObj [], xa_expires_at = 900000,
     xa_created_at = 5, xa_revoked_at = None\<rparr>"

definition sample_oauth_world :: oauth_world where
  "sample_oauth_world =
     \<lparr>ow_world = sample_world\<lparr>
        w_organizations := [\<lparr>og_id = ''o1'', og_slug = ''one'', og_disabled = False, og_created_at = 1\<rparr>],
        w_members := [\<lparr>mb_id = ''m1'', mb_organization_id = ''o1'', mb_user_id = ''u1'', mb_role = ''member'',
          mb_created_at = 1\<rparr>],
        w_leases := w_leases sample_world @
          [(sample_lease ''l3'' ''e1'')\<lparr>tl_token_hash := sha256_text sample_env ''native-token''\<rparr>]\<rparr>,
      ow_banned = [''u2''], ow_clients = [sample_client ''web'', sample_client ''portal''],
      ow_applications = [sample_application_row ''app1'' ''web'' Public_resource
          [Resource_policy ''r1'' ''r1'' [\<lparr>sm_source_scope = ''read'', sm_target_scope = ''list''\<rparr>],
           Identity_policy ''r1'' ''app2''],
        sample_application_row ''app2'' ''portal'' Private_resource []],
      ow_client_secrets = [], ow_consents = [], ow_oauth_consents = [], ow_oauth_access_tokens = [],
      ow_oauth_refresh_tokens = [], ow_credentials = [sample_credential], ow_access_tokens = [sample_access_row],
      ow_refresh_tokens = [sample_refresh_row]\<rparr>"

definition sample_exchange :: "string \<Rightarrow> string \<Rightarrow> string option \<Rightarrow> exchange_request" where
  "sample_exchange token audience scope = \<lparr>xq_grant_type = token_exchange_grant_type, xq_subject_token = token,
     xq_subject_token_type = jwt_token_type, xq_audience = audience, xq_scope = scope,
     xq_requested_token_type = None, xq_verified_subject_claims = None\<rparr>"

definition sample_user_claims :: json where
  "sample_user_claims = JObj [(''iss'', JStr ''https://realm.example''), (''sub'', JStr ''u1''),
     (''aud'', JStr ''https://files.example''), (''scope'', JStr ''read''), (''exp'', JNum 500)]"

definition sample_agent_claims :: json where
  "sample_agent_claims = JObj [(''iss'', JStr ''https://realm.example''), (''sub'', JStr ''u1''),
     (''aud'', JStr ''https://files.example''), (''client_id'', JStr realmroot_cli_client_id), (''jti'', JStr ''j1''),
     (''exp'', JNum 500), (''act'', JObj [(''iss'', JStr ''https://id''), (''sub'', JStr ''s1'')]),
     (realmroot_organization_claim, JStr ''o1'')]"

definition sample_application :: application where
  "sample_application =
     (case fst (find_application_by_client_id (oe_env sample_oauth_env) ''web'' sample_oauth_world) of
        Inr (Some a) \<Rightarrow> a | _ \<Rightarrow> undefined)"

definition sample_delegated :: "(failure + exchange_response) \<times> oauth_world" where
  "sample_delegated = exchange_delegated_user_token sample_oauth_env
     (sample_exchange ''user-token'' ''https://files.example'' (Some ''list'')) sample_user_claims ''web''
     sample_application sample_oauth_world"

definition sample_workload :: "(failure + exchange_response) \<times> oauth_world" where
  "sample_workload = exchange_workload_token sample_oauth_env
     (sample_exchange ''aGVh.cGF5.c2ln'' ''https://files.example'' (Some ''list'')) ''web''
     [token_exchange_grant_type] sample_application sample_oauth_world"

definition sample_identity_token :: "(failure + exchange_response) \<times> oauth_world" where
  "sample_identity_token = exchange_agent_identity_token_verified sample_oauth_env
     (sample_exchange ''native-token'' ''portal'' (Some ''openid groups'')) sample_agent_claims ''web''
     sample_application sample_oauth_world"

definition sample_introspection :: "(failure + json) \<times> oauth_world" where
  "sample_introspection = introspect_token sample_oauth_env ''fatx_one'' ''web'' (Some ''secret'') ''https://realm.example''
     (\<lambda>_ _ _. None) sample_oauth_world"

definition sample_refresh_request :: refresh_request where
  "sample_refresh_request = \<lparr>xf_grant_type = refresh_token_grant_type, xf_refresh_token = ''fatr_old'', xf_scope = None\<rparr>"

definition sample_refresh :: "(failure + exchange_response) \<times> oauth_world" where
  "sample_refresh = refresh_token sample_oauth_env sample_refresh_request ''web'' (Some ''secret'') sample_oauth_world"


section \<open>The exchanges there\<close>

lemma returned: "\<not> isl (fst r) \<Longrightarrow> \<exists>x. r = (Inr x, snd r)"
  by (cases r; cases "fst r") auto

lemma sample_delegated_run:
  "\<not> isl (fst sample_delegated)"
  unfolding sample_delegated_def exchange_delegated_user_token_def bind_def by code_simp

lemma sample_workload_run:
  "\<not> isl (fst sample_workload)"
  unfolding sample_workload_def exchange_workload_token_def bind_def by code_simp

lemma sample_identity_run:
  "\<not> isl (fst sample_identity_token)"
  unfolding sample_identity_token_def exchange_agent_identity_token_verified_def bind_def by code_simp

lemma sample_introspection_run:
  "\<not> isl (fst sample_introspection)"
  unfolding sample_introspection_def introspect_token_def bind_def by code_simp

text \<open>The refresh, step by step.\<close>

definition sample_at :: "nat \<Rightarrow> nat \<Rightarrow> oauth_world" where
  "sample_at ticks ids = sample_oauth_world\<lparr>ow_world := (ow_world sample_oauth_world)
     \<lparr>w_clock_ticks := ticks, w_ids_taken := ids\<rparr>\<rparr>"

definition sample_grant :: grant_input where
  "sample_grant = row_grant sample_refresh_row [''list'']"

definition sample_child :: exchange_refresh_token where
  "sample_child = sample_refresh_row\<lparr>xr_id := ''id-xx'', xr_parent_id := Some ''rt1'',
     xr_token_hash := sha256_text sample_env ''fatr_rt-x'', xr_expires_at := 2592001002, xr_created_at := 1002\<rparr>"

definition sample_access :: exchange_access_token where
  "sample_access = access_record sample_oauth_env ''id-xxx'' ''web'' sample_grant ''signed-at+jwt'' 3601000"

lemma sample_presented:
  "present_refresh_token sample_oauth_env sample_refresh_request ''web'' (Some ''secret'') sample_oauth_world =
     (Inr (sample_application, sample_refresh_row), sample_oauth_world)"
  unfolding present_refresh_token_def bind_def by code_simp

lemma sample_date: "oauth_date sample_oauth_env sample_oauth_world = (Inr 1000, sample_at 1 0)"
  by code_simp

lemma sample_admitted: "admit_refresh_token sample_refresh_row 1000 (sample_at 1 0) = (Inr (), sample_at 1 0)"
  unfolding admit_refresh_token_def bind_def by code_simp

lemma sample_scopes:
  "resolve_application_token_scopes sample_oauth_env sample_application ''https://files.example'' (Some ''list'')
     (sample_at 1 0) = (Inr [''list''], sample_at 2 0)"
  unfolding resolve_application_token_scopes_def resolve_application_token_scopes_for_resource_def bind_def by code_simp

lemma sample_issued:
  "issue_jwt_access_token sample_oauth_env (grant_jwt_claims ''web'' sample_grant 1000 3601000) (sample_at 2 0) =
     (Inr ''signed-at+jwt'', sample_at 2 1)"
  by code_simp

lemma sample_prepared:
  "prepare_refresh_token sample_oauth_env ''web'' ''f1'' (Some ''rt1'') sample_grant (sample_at 2 1) =
     (Inr (''fatr_rt-x'', sample_child), sample_at 3 3)"
  by code_simp

lemma sample_id: "oauth_id sample_oauth_env (sample_at 3 3) = (Inr ''id-xxx'', sample_at 3 4)"
  by code_simp

lemma sample_rotation:
  "\<exists>t. rotate_refresh_token sample_oauth_env sample_child sample_access (sample_at 3 4) = (Inr True, t)"
proof -
  have "fst (rotate_refresh_token sample_oauth_env sample_child sample_access (sample_at 3 4)) = Inr True"
    unfolding rotate_refresh_token_def bind_def by code_simp
  then show ?thesis by (metis prod.collapse)
qed

lemma sample_row_values:
  "xr_audience sample_refresh_row = ''https://files.example''" "xr_client_id sample_refresh_row = ''web''"
  "xr_family_id sample_refresh_row = ''f1''" "xr_id sample_refresh_row = ''rt1''"
  "join_with '' '' (xr_scopes sample_refresh_row) = ''list''" "xf_scope sample_refresh_request = None"
  "default_expires_in_seconds = 3600"
  by code_simp+

lemma sample_refresh_run:
  "\<exists>response. refresh_token sample_oauth_env sample_refresh_request ''web'' (Some ''secret'') sample_oauth_world =
     (Inr response, snd sample_refresh)"
proof -
  obtain t where t: "rotate_refresh_token sample_oauth_env sample_child sample_access (sample_at 3 4) = (Inr True, t)"
    using sample_rotation by blast
  have "\<not> isl (fst (rotate_and_respond sample_oauth_env sample_refresh_request sample_application sample_refresh_row 1000
     (sample_at 1 0)))"
    unfolding rotate_and_respond_def
    by (simp add: bind_apply sample_row_values sample_scopes sample_issued sample_prepared sample_id t Let_def ret_def
        sample_grant_def [symmetric] sample_access_def [symmetric] del: One_nat_def cong: bind_weak_cong if_weak_cong)
  then have "\<not> isl (fst sample_refresh)"
    unfolding sample_refresh_def refresh_token_def
    by (simp add: bind_apply sample_presented sample_date sample_admitted del: One_nat_def cong: bind_weak_cong)
  then show ?thesis unfolding sample_refresh_def by (rule returned)
qed

section \<open>The properties there\<close>

lemma sample_exchange_fields [simp]:
  "xq_audience (sample_exchange token audience scope) = audience"
  "xq_subject_token (sample_exchange token audience scope) = token"
  by (simp_all add: sample_exchange_def)


theorem workload_token_federated_witness:
  "\<exists>row credential subject. federated_by ''web'' ''https://ci'' subject credential sample_oauth_world \<and>
     ow_access_tokens (snd sample_workload) = ow_access_tokens sample_oauth_world @ [row] \<and> xa_subject row = subject"
proof -
  have issuer: "issuer = ''https://ci''" if "parse_jwt sample_oauth_env ''aGVh.cGF5.c2ln'' = Inr assertion"
      "member_text (jw_payload assertion) ''iss'' = Some issuer" for assertion issuer
  proof -
    have "(case parse_jwt sample_oauth_env ''aGVh.cGF5.c2ln'' of Inl e \<Rightarrow> None
       | Inr a \<Rightarrow> member_text (jw_payload a) ''iss'') = Some ''https://ci''"
      by code_simp
    with that show ?thesis by simp
  qed
  obtain response where "sample_workload = (Inr response, snd sample_workload)"
    using returned [OF sample_workload_run] by blast
  from workload_token_federated [OF this [unfolded sample_workload_def]] issuer show ?thesis
    by (fastforce simp: sample_workload_def [symmetric])
qed


theorem introspection_exact_witness:
  "\<exists>row. find_access_token_by_hash (sha256_text (oe_env sample_oauth_env) ''fatx_one'') sample_oauth_world = Some row \<and>
     detail_member (projr (fst sample_introspection)) ''sub'' = JStr (xa_subject row)"
proof -
  obtain answer where run: "sample_introspection = (Inr answer, snd sample_introspection)"
    using returned [OF sample_introspection_run] by blast
  have "detail_member (projr (fst sample_introspection)) ''active'' = JBool True"
    unfolding sample_introspection_def introspect_token_def bind_def by code_simp
  then have active: "detail_member answer ''active'' = JBool True" by (subst (asm) run) simp
  from introspection_exact [OF run [unfolded sample_introspection_def]] active show ?thesis
    by (subst run) (auto split: if_splits)
qed

lemma sample_families: "families_linear (sample_oauth_world, {''f1''})"
  by (simp add: families_linear_def sample_oauth_world_def live_in_family_def family_tokens_def sample_refresh_row_def)

theorem refresh_replaces_token_witness:
  "\<exists>child. live_in_family ''f1'' (snd sample_refresh) = [child]"
proof -
  obtain response where run: "refresh_token sample_oauth_env sample_refresh_request ''web'' (Some ''secret'')
      sample_oauth_world = (Inr response, snd sample_refresh)"
    using sample_refresh_run by blast
  have "xr_family_id row = ''f1''"
    if "find_refresh_token_by_hash (sha256_text (oe_env sample_oauth_env) (xf_refresh_token sample_refresh_request))
      sample_oauth_world = Some row" for row
    using that by (auto simp: find_refresh_token_by_hash_def sample_oauth_world_def sample_refresh_row_def split: if_splits)
  with refresh_replaces_token [OF sample_families run] show ?thesis by (auto simp: Let_def)
qed

text \<open>The token of the sample database after it was used.\<close>

definition replayed_world :: oauth_world where
  "replayed_world = sample_oauth_world\<lparr>ow_refresh_tokens := [sample_refresh_row\<lparr>xr_consumed_at := Some 6\<rparr>]\<rparr>"

definition sample_replay :: "(failure + exchange_response) \<times> oauth_world" where
  "sample_replay = refresh_token sample_oauth_env sample_refresh_request ''web'' (Some ''secret'') replayed_world"

lemma replay_presented:
  "present_refresh_token sample_oauth_env sample_refresh_request ''web'' (Some ''secret'') replayed_world =
     (Inr (sample_application, sample_refresh_row\<lparr>xr_consumed_at := Some 6\<rparr>), replayed_world)"
  unfolding present_refresh_token_def bind_def by code_simp

theorem replay_ends_family_witness:
  "fst sample_replay = Inl (invalid_grant ''Refresh token reuse was detected.'') \<and>
   isl (fst (refresh_token sample_oauth_env sample_refresh_request ''web'' (Some ''secret'') (snd sample_replay)))"
proof -
  have linear: "families_linear (replayed_world, {''f1''})"
    by (simp add: families_linear_def replayed_world_def live_in_family_def family_tokens_def sample_refresh_row_def)
  have row: "\<exists>row. find_refresh_token_by_hash (sha256_text (oe_env sample_oauth_env)
       (xf_refresh_token sample_refresh_request)) (snd sample_replay) = Some row \<and> xr_family_id row = ''f1''"
  proof -
    have "map_option xr_family_id (find_refresh_token_by_hash (sha256_text (oe_env sample_oauth_env)
       (xf_refresh_token sample_refresh_request)) (snd sample_replay)) = Some ''f1''"
      unfolding sample_replay_def refresh_token_def bind_apply replay_presented by code_simp
    then show ?thesis by auto
  qed
  then obtain row where "find_refresh_token_by_hash (sha256_text (oe_env sample_oauth_env)
       (xf_refresh_token sample_refresh_request)) (snd sample_replay) = Some row" "xr_family_id row = ''f1''"
    by blast
  from replay_ends_family [OF linear replay_presented _ rtranclp.rtrancl_refl this(1) [unfolded sample_replay_def]] this(2)
  show ?thesis unfolding sample_replay_def by (simp add: sample_refresh_row_def)
qed

text \<open>A family that begins, and is revoked.\<close>

definition no_tokens :: oauth_world where
  "no_tokens = sample_oauth_world\<lparr>ow_refresh_tokens := []\<rparr>"

theorem refresh_families_linear_witness:
  "length (live_in_family ''f1'' (snd (revoke_refresh_token_family ''f1'' 9 sample_oauth_world))) \<le>
     length (live_in_family ''f1'' sample_oauth_world) \<and> live_in_family ''f1'' sample_oauth_world = [sample_refresh_row]"
proof -
  have "insert_exchange_refresh_token (fresh_refresh_token sample_refresh_row 5) no_tokens = Inr sample_oauth_world"
    by code_simp
  moreover have "xr_family_id sample_refresh_row \<notin> {}" by simp
  ultimately have first: "refresh_step (no_tokens, {}) (sample_oauth_world, {''f1''})"
    using refresh_step.first_token [of sample_refresh_row "{}" 5 no_tokens sample_oauth_world]
    by (simp add: sample_refresh_row_def)
  have "refresh_step (sample_oauth_world, {''f1''})
      (snd (revoke_refresh_token_family ''f1'' 9 sample_oauth_world), {''f1''})"
    by (rule refresh_step.family_revocation)
  from refresh_families_linear [of no_tokens sample_oauth_world "{''f1''}" "''f1''", OF _ r_into_rtranclp [of refresh_step, OF first] _
      r_into_rtranclp [of refresh_step, OF this]]
  show ?thesis
    by (simp add: no_tokens_def) (simp add: sample_oauth_world_def live_in_family_def family_tokens_def live_token_def
      sample_refresh_row_def)
qed

end
