(* ===== verification/Spec2Isabelle.thy ===== *)
theory Spec2Isabelle
  imports
    Scope_Registry Role_Scope Paging Tenancy Security_Policy Password_Hash Connector_Drivers
    Agent_Replays Access_Properties Approval_Properties Proof_Replay Credential_Claims Sample_Oauth
begin

text \<open>
  Realmroot: the server's authorization core and its Agents.
\<close>

end
